(* ===== verification/Prelude.thy ===== *)
theory Prelude
  imports Complex_Main "HOL-Library.Word"
begin

text \<open>
  Shared vocabulary of the development: JavaScript strings as lists of UTF-16 code
  units, bytes, the string methods of the language the components share (\<open>split\<close>,
  \<open>trim\<close>, \<open>startsWith\<close>, \<open>toLowerCase\<close> on ASCII), and the generic lemmas and fact
  collections the component proofs use.
\<close>

section \<open>Fact collections\<close>

named_theorems wire_simps \<open>unfolding rules for codecs and text formats\<close>
named_theorems guard_simps \<open>unfolding rules for request and message guards\<close>

section \<open>Bytes, code units and JavaScript strings\<close>

text \<open>
  \<open>Uint8Array\<close> elements are 8-bit words. A JavaScript string is a sequence of 16-bit code
  units, so \<open>s.length\<close> is the length of the list. \<open>lit\<close> writes an ASCII literal of the
  source; it is injective, so literals compare as their characters do.
\<close>

type_synonym byte = "8 word"
type_synonym code_unit = "16 word"
type_synonym jstring = "code_unit list"

definition unit_of_char :: "char \<Rightarrow> code_unit" where
  "unit_of_char c = of_char c"

definition lit :: "string \<Rightarrow> jstring" where
  "lit s = map unit_of_char s"

lemma unat_byte_less: "unat (b :: byte) < 256"
proof -
  have "unat b < 2 ^ LENGTH(8)" by (rule unsigned_less)
  then show ?thesis by simp
qed

lemma unat_unit_less: "unat (u :: code_unit) < 65536"
proof -
  have "unat u < 2 ^ LENGTH(16)" by (rule unsigned_less)
  then show ?thesis by simp
qed

lemma unat_unit_of_char: "unat (unit_of_char c) = of_char c"
proof -
  have "unit_of_char c = word_of_nat (of_char c)"
    by (simp add: unit_of_char_def of_nat_of_char)
  moreover have "(of_char c :: nat) < 2 ^ 16"
    using less_trans [OF nat_of_char_less_256, of "2 ^ 16" c] by simp
  ultimately show ?thesis
    by (simp add: unat_of_nat)
qed

lemma unit_of_char_eq_iff [simp]: "unit_of_char c = unit_of_char d \<longleftrightarrow> c = d"
  by (metis of_char_eq_iff unat_unit_of_char)

lemma lit_eq_iff [simp]: "lit s = lit t \<longleftrightarrow> s = t"
  by (simp add: lit_def inj_map_eq_map inj_def)

lemma length_lit [simp]: "length (lit s) = length s"
  by (simp add: lit_def)

lemma lit_Nil [simp]: "lit [] = []"
  by (simp add: lit_def)

lemma lit_eq_Nil_iff [simp]: "lit s = [] \<longleftrightarrow> s = []"
  by (simp add: lit_def)

lemma lit_append: "lit (s @ t) = lit s @ lit t"
  by (simp add: lit_def)

lemma lit_Cons: "lit (c # s) = unit_of_char c # lit s"
  by (simp add: lit_def)

section \<open>Character classes\<close>

definition is_digit_unit :: "code_unit \<Rightarrow> bool" where
  "is_digit_unit u \<longleftrightarrow> 48 \<le> u \<and> u \<le> 57"

definition is_upper_unit :: "code_unit \<Rightarrow> bool" where
  "is_upper_unit u \<longleftrightarrow> 65 \<le> u \<and> u \<le> 90"

definition is_lower_unit :: "code_unit \<Rightarrow> bool" where
  "is_lower_unit u \<longleftrightarrow> 97 \<le> u \<and> u \<le> 122"

text \<open>The class \<open>[A-Za-z0-9_-]\<close> of the identifier and base64url patterns.\<close>

definition is_id_unit :: "code_unit \<Rightarrow> bool" where
  "is_id_unit u \<longleftrightarrow> is_upper_unit u \<or> is_lower_unit u \<or> is_digit_unit u \<or> u = 95 \<or> u = 45"

lemmas unit_class_defs = is_id_unit_def is_upper_unit_def is_lower_unit_def is_digit_unit_def

text \<open>The pattern \<open>/^[A-Za-z0-9_-]{16,128}$/u\<close> of the opaque identifiers.\<close>

definition opaque_id :: "jstring \<Rightarrow> bool" where
  "opaque_id s \<longleftrightarrow> 16 \<le> length s \<and> length s \<le> 128 \<and> (\<forall>u \<in> set s. is_id_unit u)"

section \<open>String methods\<close>

text \<open>\<open>s.split(c)\<close> for a one-unit separator: never empty, also for the empty string.\<close>

fun js_split :: "code_unit \<Rightarrow> jstring \<Rightarrow> jstring list" where
  "js_split c [] = [[]]"
| "js_split c (x # xs) =
     (if x = c then [] # js_split c xs
      else (case js_split c xs of p # ps \<Rightarrow> (x # p) # ps | [] \<Rightarrow> [[x]]))"

lemma js_split_not_Nil [simp]: "js_split c s \<noteq> []"
  by (induction s) (auto split: list.splits)

lemma js_split_no_sep: "c \<notin> set s \<Longrightarrow> js_split c s = [s]"
  by (induction s) auto

lemma js_split_append_sep: "c \<notin> set s \<Longrightarrow> js_split c (s @ c # t) = s # js_split c t"
  by (induction s) auto

lemma js_split_pieces: "p \<in> set (js_split c s) \<Longrightarrow> c \<notin> set p"
  by (induction s arbitrary: p) (auto split: list.splits if_splits)

lemma js_split_one: "js_split c s = [p] \<Longrightarrow> s = p"
  by (induction s arbitrary: p) (auto split: if_splits list.splits)

lemma js_split_two: "js_split c s = [p, q] \<Longrightarrow> s = p @ c # q \<and> c \<notin> set p"
proof (induction s arbitrary: p)
  case Nil
  then show ?case by simp
next
  case (Cons x s)
  then show ?case
    by (auto split: if_splits list.splits dest: js_split_one)
qed

text \<open>
  \<open>s.trim()\<close> removes white space and line terminators of ECMAScript at both ends.
\<close>

definition js_space :: "code_unit \<Rightarrow> bool" where
  "js_space u \<longleftrightarrow> (9 \<le> u \<and> u \<le> 13) \<or> u = 32 \<or> u = 160 \<or> u = 0x1680
     \<or> (0x2000 \<le> u \<and> u \<le> 0x200A) \<or> u = 0x2028 \<or> u = 0x2029 \<or> u = 0x202F
     \<or> u = 0x205F \<or> u = 0x3000 \<or> u = 0xFEFF"

definition js_trim :: "jstring \<Rightarrow> jstring" where
  "js_trim s = rev (dropWhile js_space (rev (dropWhile js_space s)))"

lemma dropWhile_idem_hd: "dropWhile P (dropWhile P xs) = dropWhile P xs"
  by (induction xs) auto

lemma dropWhile_rev_hd:
  "xs = [] \<or> \<not> P (hd xs) \<Longrightarrow>
   rev (dropWhile P (rev xs)) = [] \<or> \<not> P (hd (rev (dropWhile P (rev xs))))"
proof (induction xs)
  case Nil
  then show ?case by simp
next
  case (Cons x xs)
  then have "\<not> P x" by simp
  then show ?case
    by (cases "\<exists>y \<in> set (rev xs). \<not> P y")
      (auto simp: dropWhile_append1 dropWhile_append2 dropWhile_append3)
qed

lemma js_trim_idem: "js_trim (js_trim s) = js_trim s"
proof -
  let ?d = "dropWhile js_space s"
  have "?d = [] \<or> \<not> js_space (hd ?d)"
    using hd_dropWhile [of js_space s] by blast
  then have "js_trim s = [] \<or> \<not> js_space (hd (js_trim s))"
    unfolding js_trim_def by (rule dropWhile_rev_hd)
  then have "dropWhile js_space (js_trim s) = js_trim s"
    by (cases "js_trim s") auto
  then show ?thesis
    unfolding js_trim_def by (simp add: dropWhile_idem_hd)
qed

definition js_starts_with :: "jstring \<Rightarrow> jstring \<Rightarrow> bool" where
  "js_starts_with p s \<longleftrightarrow> take (length p) s = p"

text \<open>
  \<open>s.toLowerCase()\<close> restricted to ASCII letters: the code only compares lower-cased
  header values (byte strings) with ASCII literals.
\<close>

definition ascii_lower :: "jstring \<Rightarrow> jstring" where
  "ascii_lower s = map (\<lambda>u. if is_upper_unit u then u + 32 else u) s"

section \<open>Options and association lists\<close>

text \<open>The truthiness test \<open>!s\<close> on an optional string: \<open>undefined\<close>, \<open>null\<close> or empty.\<close>

fun truthy :: "jstring option \<Rightarrow> bool" where
  "truthy None = False"
| "truthy (Some s) = (s \<noteq> [])"

lemma truthyE: "truthy x \<Longrightarrow> (\<And>s. x = Some s \<Longrightarrow> s \<noteq> [] \<Longrightarrow> P) \<Longrightarrow> P"
  by (cases x) auto

lemma not_truthy_iff: "\<not> truthy x \<longleftrightarrow> x = None \<or> x = Some []"
  by (cases x) auto

text \<open>Writing a property of an object: an existing key keeps its position.\<close>

fun al_set :: "'k \<Rightarrow> 'v \<Rightarrow> ('k \<times> 'v) list \<Rightarrow> ('k \<times> 'v) list" where
  "al_set k v [] = [(k, v)]"
| "al_set k v ((k', v') # ps) = (if k = k' then (k, v) # ps else (k', v') # al_set k v ps)"

lemma map_of_al_set [simp]: "map_of (al_set k v ps) = (map_of ps)(k \<mapsto> v)"
  by (induction ps) (auto simp: fun_eq_iff)

lemma keys_al_set [simp]: "fst ` set (al_set k v ps) = insert k (fst ` set ps)"
  by (induction k v ps rule: al_set.induct) (simp_all add: insert_commute)

lemma distinct_al_set: "distinct (map fst ps) \<Longrightarrow> distinct (map fst (al_set k v ps))"
proof (induction ps)
  case Nil
  then show ?case by simp
next
  case (Cons p ps)
  obtain k' v' where p: "p = (k', v')" by (cases p)
  show ?case
    using Cons keys_al_set [of k v ps] by (auto simp: p)
qed

lemma al_set_fresh: "k \<notin> fst ` set ps \<Longrightarrow> al_set k v ps = ps @ [(k, v)]"
  by (induction ps) auto

end
