(* ===== verification/ConnectionState.thy ===== *)
theory ConnectionState
  imports Prelude
begin

text \<open>
  The connection state machine of \<open>packages/protocol/src/state.ts\<close>. The states carry the
  order in which \<open>CONNECTION_STATES\<close> lists them (a \<open>linorder\<close> instance), so progress is
  comparison.
\<close>

datatype connection_state =
    Offline | Online | Reserved | Negotiating | ViewActive | ControlActive | Closing

definition CONNECTION_STATES :: "connection_state list" where
  "CONNECTION_STATES = [Offline, Online, Reserved, Negotiating, ViewActive, ControlActive, Closing]"

fun state_rank :: "connection_state \<Rightarrow> nat" where
  "state_rank Offline = 0"
| "state_rank Online = 1"
| "state_rank Reserved = 2"
| "state_rank Negotiating = 3"
| "state_rank ViewActive = 4"
| "state_rank ControlActive = 5"
| "state_rank Closing = 6"

lemma state_rank_inj: "state_rank s = state_rank t \<longleftrightarrow> s = t"
  by (cases s; cases t) simp_all

instantiation connection_state :: linorder
begin

definition less_eq_connection_state :: "connection_state \<Rightarrow> connection_state \<Rightarrow> bool" where
  "s \<le> t \<longleftrightarrow> state_rank s \<le> state_rank t"

definition less_connection_state :: "connection_state \<Rightarrow> connection_state \<Rightarrow> bool" where
  "s < t \<longleftrightarrow> state_rank s < state_rank t"

instance
  by standard (auto simp: less_eq_connection_state_def less_connection_state_def state_rank_inj)

end

lemmas state_order_defs = less_eq_connection_state_def less_connection_state_def

fun ALLOWED_TRANSITIONS :: "connection_state \<Rightarrow> connection_state list" where
  "ALLOWED_TRANSITIONS Closing = [Offline]"
| "ALLOWED_TRANSITIONS ControlActive = [Closing, ViewActive]"
| "ALLOWED_TRANSITIONS Negotiating = [Closing, ViewActive]"
| "ALLOWED_TRANSITIONS Offline = [Online]"
| "ALLOWED_TRANSITIONS Online = [Closing, Reserved]"
| "ALLOWED_TRANSITIONS Reserved = [Closing, Negotiating, Online]"
| "ALLOWED_TRANSITIONS ViewActive = [Closing, ControlActive]"

definition canTransitionConnectionState :: "connection_state \<Rightarrow> connection_state \<Rightarrow> bool" where
  "canTransitionConnectionState current next \<longleftrightarrow>
     current = next \<or> next \<in> set (ALLOWED_TRANSITIONS current)"

datatype state_error = InvalidTransition connection_state connection_state

definition transitionConnectionState ::
  "connection_state \<Rightarrow> connection_state \<Rightarrow> state_error + connection_state" where
  "transitionConnectionState current next =
     (if \<not> canTransitionConnectionState current next then Inl (InvalidTransition current next)
      else Inr next)"

definition ACTIVE_STATE_ORDER :: "connection_state list" where
  "ACTIVE_STATE_ORDER = [Negotiating, ViewActive, ControlActive]"

record readiness =
  isControlChannelOpen :: bool
  isVideoTrackReady :: bool

definition deriveActiveState :: "readiness \<Rightarrow> connection_state" where
  "deriveActiveState readiness =
     (if isVideoTrackReady readiness \<and> isControlChannelOpen readiness then ControlActive
      else if isVideoTrackReady readiness then ViewActive
      else Negotiating)"

section \<open>Runs of transitions\<close>

inductive leads_to :: "connection_state \<Rightarrow> connection_state list \<Rightarrow> connection_state \<Rightarrow> bool" where
  leads_stop: "leads_to s [] s"
| leads_step: "transitionConnectionState s t = Inr t \<Longrightarrow> leads_to t ts u \<Longrightarrow> leads_to s (t # ts) u"

inductive_simps leads_to_Nil [simp]: "leads_to s [] u"
inductive_simps leads_to_Cons [simp]: "leads_to s (t # ts) u"

lemma transition_Inr [simp]:
  "transitionConnectionState s t = Inr u \<longleftrightarrow> u = t \<and> canTransitionConnectionState s t"
  by (auto simp: transitionConnectionState_def)

text \<open>A run is a trace whose last state is the target; each active phase is entered in order.\<close>

lemma control_needs_view:
  "leads_to s ts u \<Longrightarrow> s \<noteq> ControlActive \<Longrightarrow> ControlActive \<in> set ts \<Longrightarrow>
   s = ViewActive \<or> ViewActive \<in> set (takeWhile (\<lambda>x. x \<noteq> ControlActive) ts)"
proof (induction rule: leads_to.induct)
  case (leads_step s t ts u)
  then show ?case
    by (cases s; cases t) (auto simp: canTransitionConnectionState_def)
qed simp

lemma view_needs_negotiation:
  "leads_to s ts u \<Longrightarrow> s \<notin> set ACTIVE_STATE_ORDER \<Longrightarrow> ViewActive \<in> set ts \<Longrightarrow>
   Negotiating \<in> set (takeWhile (\<lambda>x. x \<noteq> ViewActive) ts)"
proof (induction rule: leads_to.induct)
  case (leads_step s t ts u)
  then show ?case
    by (cases s; cases t)
      (auto simp: canTransitionConnectionState_def ACTIVE_STATE_ORDER_def)
qed simp

text \<open>A run that never visits \<open>Closing\<close> never goes back to \<open>Offline\<close>.\<close>

lemma no_silent_offline:
  "leads_to s ts u \<Longrightarrow> Closing \<notin> set ts \<Longrightarrow> s \<noteq> Closing \<Longrightarrow> s \<noteq> Offline \<Longrightarrow> Offline \<notin> set ts"
proof (induction rule: leads_to.induct)
  case (leads_step s t ts u)
  then show ?case
    by (cases s; cases t) (auto simp: canTransitionConnectionState_def)
qed simp

end
