(* ===== verification/ViewerRecovery.thy ===== *)
theory ViewerRecovery
  imports ConnectionState
begin

text \<open>
  The viewer's recovery rules: when signaling alone may be recovered and how long to wait
  (\<open>signalingRecovery.ts\<close>), when a control channel is unhealthy
  (\<open>controlChannelHealth.ts\<close>), and how an error code is presented
  (\<open>connectionErrors.ts\<close>). The Korean texts of an issue are named by the code whose entry
  holds them.
\<close>

section \<open>Signaling recovery\<close>

datatype peer_state = PeerNew | PeerConnecting | PeerConnected | PeerDisconnected | PeerFailed | PeerClosedState

datatype channel_state = ChConnecting | ChOpen | ChClosing | ChClosed

definition SIGNALING_RECOVERY_INITIAL_DELAY_MS :: int where
  "SIGNALING_RECOVERY_INITIAL_DELAY_MS = 2000"

definition SIGNALING_RECOVERY_MAX_DELAY_MS :: int where
  "SIGNALING_RECOVERY_MAX_DELAY_MS = 30000"

definition canRecoverSignalingWithoutPeerRestart ::
  "connection_state \<Rightarrow> peer_state option \<Rightarrow> channel_state option \<Rightarrow> bool" where
  "canRecoverSignalingWithoutPeerRestart state peerState controlState \<longleftrightarrow>
     (state = ViewActive \<or> state = ControlActive)
     \<and> (peerState = Some PeerConnected \<or> peerState = Some PeerDisconnected)
     \<and> controlState = Some ChOpen"

definition nextSignalingRecoveryDelay :: "int \<Rightarrow> int" where
  "nextSignalingRecoveryDelay currentDelayMs =
     min (max currentDelayMs SIGNALING_RECOVERY_INITIAL_DELAY_MS * 2) SIGNALING_RECOVERY_MAX_DELAY_MS"

lemmas recovery_defs = nextSignalingRecoveryDelay_def SIGNALING_RECOVERY_INITIAL_DELAY_MS_def
  SIGNALING_RECOVERY_MAX_DELAY_MS_def

lemma delay_bounds: "4000 \<le> nextSignalingRecoveryDelay d \<and> nextSignalingRecoveryDelay d \<le> 30000"
  by (auto simp: recovery_defs)

lemma delay_grows: "d \<le> 30000 \<Longrightarrow> d \<le> nextSignalingRecoveryDelay d"
  by (auto simp: recovery_defs)

lemma delay_doubles: "15000 \<le> d \<Longrightarrow> nextSignalingRecoveryDelay d = 30000"
  by (auto simp: recovery_defs)

lemma delay_power: "(nextSignalingRecoveryDelay ^^ k) 2000 = min (2000 * 2 ^ k) 30000"
proof (induction k)
  case (Suc k)
  have "(1::int) \<le> 2 ^ k" by simp
  then show ?case using Suc by (auto simp: recovery_defs)
qed simp

section \<open>Control-channel health\<close>

definition CONTROL_MAX_MISSED_PONGS :: nat where
  "CONTROL_MAX_MISSED_PONGS = 8"

definition controlChannelNeedsRecovery :: "channel_state \<Rightarrow> nat \<Rightarrow> bool" where
  "controlChannelNeedsRecovery readyState missedPongs \<longleftrightarrow>
     readyState \<noteq> ChOpen \<or> missedPongs \<ge> CONTROL_MAX_MISSED_PONGS"

section \<open>Connection issues\<close>

datatype issue_text = TextOf string | GenericText jstring

record connection_issue =
  issue_action :: issue_text
  issue_message :: issue_text
  issue_retryable :: bool

definition issue_of :: "string \<Rightarrow> bool \<Rightarrow> connection_issue" where
  "issue_of code retry =
     \<lparr>issue_action = TextOf code, issue_message = TextOf code, issue_retryable = retry\<rparr>"

definition ISSUES :: "(string \<times> connection_issue) list" where
  "ISSUES =
     [(''AGENT_OFFLINE'', issue_of ''AGENT_OFFLINE'' True),
      (''PEER_OFFLINE'', issue_of ''AGENT_OFFLINE'' True),
      (''BUSY'', issue_of ''BUSY'' True),
      (''SESSION_BUSY'', issue_of ''BUSY'' True),
      (''EXPIRED'', issue_of ''EXPIRED'' False),
      (''NOT_ALLOWED'', issue_of ''NOT_ALLOWED'' False),
      (''NETWORK_UNREACHABLE'', issue_of ''NETWORK_UNREACHABLE'' True),
      (''RATE_LIMITED'', issue_of ''RATE_LIMITED'' True),
      (''SIGNALING_HANDSHAKE_FAILED'', issue_of ''SIGNALING_HANDSHAKE_FAILED'' True),
      (''SESSION_TICKET_FAILED'', issue_of ''SESSION_TICKET_FAILED'' True),
      (''CONNECTION_TIMEOUT'', issue_of ''CONNECTION_TIMEOUT'' True),
      (''SESSION_REPLACED'', issue_of ''SESSION_REPLACED'' True),
      (''WEBRTC_FAILED'', issue_of ''WEBRTC_FAILED'' True),
      (''WEBRTC_NEGOTIATION_FAILED'', issue_of ''WEBRTC_NEGOTIATION_FAILED'' True)]"

text \<open>
  \<open>ISSUES[code]\<close> also finds what the object inherits; those names give a value that is no
  issue (\<open>None\<close>).
\<close>

definition inherited_names :: "string list" where
  "inherited_names =
     [''constructor'', ''__defineGetter__'', ''__defineSetter__'', ''hasOwnProperty'',
      ''__lookupGetter__'', ''__lookupSetter__'', ''isPrototypeOf'', ''propertyIsEnumerable'',
      ''toString'', ''valueOf'', ''__proto__'', ''toLocaleString'']"

definition describeConnectionIssue :: "jstring \<Rightarrow> bool option \<Rightarrow> connection_issue option" where
  "describeConnectionIssue code retryableOverride =
     (case map_of (map (apfst lit) ISSUES) code of
        Some issue \<Rightarrow>
          Some (case retryableOverride of
                  None \<Rightarrow> issue | Some r \<Rightarrow> issue\<lparr>issue_retryable := r\<rparr>)
      | None \<Rightarrow>
          if code \<in> lit ` set inherited_names then None
          else
            (let issue = \<lparr>issue_action = GenericText [], issue_message = GenericText code,
                          issue_retryable = True\<rparr>
             in Some (case retryableOverride of
                        None \<Rightarrow> issue | Some r \<Rightarrow> issue\<lparr>issue_retryable := r\<rparr>)))"

lemma describe_upper:
  assumes "list_all (\<lambda>u. \<not> is_lower_unit u) code"
  shows "\<exists>issue. describeConnectionIssue code retry = Some issue
    \<and> (\<forall>r. retry = Some r \<longrightarrow> issue_retryable issue = r)"
proof -
  have "list_all (\<lambda>k. list_ex is_lower_unit (lit k)) inherited_names"
    by (simp add: inherited_names_def lit_Cons is_lower_unit_def word_le_nat_alt unat_unit_of_char)
  then have "code \<notin> lit ` set inherited_names"
    using assms by (auto simp: list_all_iff list_ex_iff)
  then show ?thesis
    by (auto simp: describeConnectionIssue_def Let_def split: option.split)
qed

end
