(* ===== verification/Base64Url.thy ===== *)
theory Base64Url
  imports Prelude
begin

text \<open>
  The base64url codec of the ticket modules (\<open>encodeBase64Url\<close>, \<open>decodeBase64Url\<close> of
  \<open>packages/protocol/src/ticket.ts\<close>, \<open>sessionTicket.ts\<close> and
  \<open>apps/signaling/src/deviceToken.ts\<close>, which hold the same code) over the browser's
  \<open>btoa\<close> and \<open>atob\<close>, modelled after the forgiving-base64 algorithm they are specified by.
  A binary string (code units below 256) is represented by its bytes.
\<close>

section \<open>The platform's btoa and atob\<close>

definition b64_char :: "nat \<Rightarrow> code_unit" where
  "b64_char n = (if n < 26 then word_of_nat (65 + n)
     else if n < 52 then word_of_nat (97 + (n - 26))
     else if n < 62 then word_of_nat (48 + (n - 52))
     else if n = 62 then 43 else 47)"

definition b64_value :: "code_unit \<Rightarrow> nat option" where
  "b64_value u = (if is_upper_unit u then Some (unat u - 65)
     else if is_lower_unit u then Some (unat u - 97 + 26)
     else if is_digit_unit u then Some (unat u - 48 + 52)
     else if u = 43 then Some 62 else if u = 47 then Some 63 else None)"

fun sextets :: "byte list \<Rightarrow> nat list" where
  "sextets [] = []"
| "sextets [a] = [unat a div 4, unat a mod 4 * 16]"
| "sextets [a, b] = [unat a div 4, unat a mod 4 * 16 + unat b div 16, unat b mod 16 * 4]"
| "sextets (a # b # c # r) =
     [unat a div 4, unat a mod 4 * 16 + unat b div 16,
      unat b mod 16 * 4 + unat c div 64, unat c mod 64] @ sextets r"

fun bytes_of_sextets :: "nat list \<Rightarrow> byte list" where
  "bytes_of_sextets (p # q # r # s # rest) =
     [word_of_nat (p * 4 + q div 16), word_of_nat (q mod 16 * 16 + r div 4),
      word_of_nat (r mod 4 * 64 + s)] @ bytes_of_sextets rest"
| "bytes_of_sextets [p, q, r] =
     [word_of_nat (p * 4 + q div 16), word_of_nat (q mod 16 * 16 + r div 4)]"
| "bytes_of_sextets [p, q] = [word_of_nat (p * 4 + q div 16)]"
| "bytes_of_sextets _ = []"

definition btoa :: "byte list \<Rightarrow> jstring" where
  "btoa bs = map b64_char (sextets bs) @ replicate ((3 - length bs mod 3) mod 3) 61"

definition ascii_space :: "code_unit \<Rightarrow> bool" where
  "ascii_space u \<longleftrightarrow> u = 9 \<or> u = 10 \<or> u = 12 \<or> u = 13 \<or> u = 32"

text \<open>One or two trailing \<open>=\<close> are dropped when the length is a multiple of four.\<close>

definition drop_padding :: "jstring \<Rightarrow> jstring" where
  "drop_padding s =
     (if length s mod 4 = 0 \<and> s \<noteq> [] \<and> last s = 61
      then (if butlast s \<noteq> [] \<and> last (butlast s) = 61 then butlast (butlast s) else butlast s)
      else s)"

definition atob :: "jstring \<Rightarrow> byte list option" where
  "atob s = (let d = drop_padding (filter (\<lambda>u. \<not> ascii_space u) s) in
     if length d mod 4 = 1 \<or> (\<exists>u \<in> set d. b64_value u = None) then None
     else Some (bytes_of_sextets (map (\<lambda>u. the (b64_value u)) d)))"

section \<open>The code's base64url codec\<close>

definition to_url_unit :: "code_unit \<Rightarrow> code_unit" where
  "to_url_unit u = (if u = 43 then 45 else if u = 47 then 95 else u)"

definition of_url_unit :: "code_unit \<Rightarrow> code_unit" where
  "of_url_unit u = (if u = 45 then 43 else if u = 95 then 47 else u)"

definition encodeBase64Url :: "byte list \<Rightarrow> jstring" where
  "encodeBase64Url value =
     rev (dropWhile (\<lambda>u. u = 61) (rev (map to_url_unit (btoa value))))"

definition padEnd :: "jstring \<Rightarrow> nat \<Rightarrow> code_unit \<Rightarrow> jstring" where
  "padEnd s n c = s @ replicate (n - length s) c"

text \<open>\<open>None\<close> stands for the exception of the pattern test or of \<open>atob\<close>.\<close>

definition decodeBase64Url :: "jstring \<Rightarrow> byte list option" where
  "decodeBase64Url value =
     (if value \<noteq> [] \<and> (\<forall>u \<in> set value. is_id_unit u)
      then atob (padEnd (map of_url_unit value) ((length value + 3) div 4 * 4) 61)
      else None)"

section \<open>Lemmas\<close>

lemma sextets_bound: "n \<in> set (sextets bs) \<Longrightarrow> n < 64"
proof (induction bs rule: sextets.induct)
  case (2 a)
  then show ?case using unat_byte_less [of a] by auto
next
  case (3 a b)
  then show ?case using unat_byte_less [of a] unat_byte_less [of b] by auto
next
  case (4 a b c r)
  then show ?case
    using unat_byte_less [of a] unat_byte_less [of b] unat_byte_less [of c] by auto
qed simp

lemma split_digits:
  fixes x y m :: nat
  assumes "y < m"
  shows "(x * m + y) div m = x" and "(x * m + y) mod m = y"
  using assms by simp_all

lemma sextet_group:
  fixes a b c :: nat
  assumes "b < 256" "c < 256"
  shows "a div 4 * 4 + (a mod 4 * 16 + b div 16) div 16 = a"
    and "(a mod 4 * 16 + b div 16) mod 16 * 16 + (b mod 16 * 4 + c div 64) div 4 = b"
    and "(b mod 16 * 4 + c div 64) mod 4 * 64 + c mod 64 = c"
proof -
  have "b div 16 < 16" "c div 64 < 4" using assms by simp_all
  then show "a div 4 * 4 + (a mod 4 * 16 + b div 16) div 16 = a"
    and "(a mod 4 * 16 + b div 16) mod 16 * 16 + (b mod 16 * 4 + c div 64) div 4 = b"
    and "(b mod 16 * 4 + c div 64) mod 4 * 64 + c mod 64 = c"
    by (simp_all only: split_digits div_mult_mod_eq)
qed

lemma bytes_of_sextets_sextets [simp]: "bytes_of_sextets (sextets bs) = bs"
proof (induction bs rule: sextets.induct)
  case (2 a)
  have "unat a div 4 * 4 + unat a mod 4 * 16 div 16 = unat a" by simp
  then show ?case by (simp del: of_nat_add of_nat_mult)
next
  case (3 a b)
  have "unat a div 4 * 4 + (unat a mod 4 * 16 + unat b div 16) div 16 = unat a"
    and "(unat a mod 4 * 16 + unat b div 16) mod 16 * 16 + unat b mod 16 * 4 div 4 = unat b"
    using sextet_group(1,2) [where a = "unat a" and b = "unat b" and c = 0] unat_byte_less [of b] by simp_all
  then show ?case by (simp del: of_nat_add of_nat_mult)
next
  case (4 a b c r)
  then show ?case
    using sextet_group(1,2) [where a = "unat a" and b = "unat b" and c = "unat c"]
      sextet_group(3) [where b = "unat b" and c = "unat c"] unat_byte_less [of b] unat_byte_less [of c]
    by (simp del: of_nat_add of_nat_mult)
qed simp

lemma length_sextets: "length (sextets bs) = (length bs * 4 + 2) div 3"
  by (induction bs rule: sextets.induct) auto

text \<open>The facts about the 64-letter alphabet, evaluated letter by letter.\<close>

lemma b64_table:
  "list_all (\<lambda>n. b64_value (b64_char n) = Some n \<and> b64_char n \<noteq> 61
     \<and> \<not> ascii_space (b64_char n) \<and> is_id_unit (to_url_unit (b64_char n))
     \<and> of_url_unit (to_url_unit (b64_char n)) = b64_char n
     \<and> to_url_unit (b64_char n) \<noteq> 61) [0..<64]"
  by code_simp

lemma b64_letter:
  assumes "n < 64"
  shows "b64_value (b64_char n) = Some n" "b64_char n \<noteq> 61" "\<not> ascii_space (b64_char n)"
    "is_id_unit (to_url_unit (b64_char n))"
    "of_url_unit (to_url_unit (b64_char n)) = b64_char n" "to_url_unit (b64_char n) \<noteq> 61"
  using b64_table assms by (simp_all add: list_all_iff)

lemma dropWhile_replicate_append:
  "P x \<Longrightarrow> dropWhile P (replicate n x @ ys) = dropWhile P ys"
  by (induction n) auto

lemma encodeBase64Url_eq:
  "encodeBase64Url bs = map (\<lambda>n. to_url_unit (b64_char n)) (sextets bs)"
proof -
  let ?m = "map (\<lambda>n. to_url_unit (b64_char n)) (sextets bs)"
  have "to_url_unit 61 = 61"
    by (simp add: to_url_unit_def)
  then have "rev (map to_url_unit (btoa bs))
      = replicate ((3 - length bs mod 3) mod 3) 61 @ rev ?m"
    by (simp add: btoa_def rev_map map_replicate)
  moreover have "dropWhile (\<lambda>u. u = 61) (rev ?m) = rev ?m"
    by (rule dropWhile_id) (auto simp: b64_letter(6) [OF sextets_bound])
  ultimately show ?thesis
    by (simp add: encodeBase64Url_def dropWhile_replicate_append)
qed

lemma encodeBase64Url_units: "u \<in> set (encodeBase64Url bs) \<Longrightarrow> is_id_unit u"
  by (auto simp: encodeBase64Url_eq b64_letter(4) [OF sextets_bound])

lemma length_encodeBase64Url: "length (encodeBase64Url bs) = (length bs * 4 + 2) div 3"
  by (simp add: encodeBase64Url_eq length_sextets)

lemma encodeBase64Url_Nil_iff: "encodeBase64Url bs = [] \<longleftrightarrow> bs = []"
  by (cases bs rule: sextets.cases) (simp_all add: encodeBase64Url_eq)

lemma sextet_lengths:
  "(n * 4 + 2) div 3 mod 4 = (if n mod 3 = 0 then 0 else n mod 3 + (1 :: nat))"
  "((n * 4 + 2) div 3 + 3) div 4 * 4 - (n * 4 + 2) div 3 = (3 - n mod 3) mod (3 :: nat)"
proof -
  define q where "q = n div 3"
  have "n = 3 * q + n mod 3" by (simp add: q_def)
  moreover have "n mod 3 = 0 \<or> n mod 3 = 1 \<or> n mod 3 = 2" by linarith
  ultimately consider "n = 3 * q" | "n = 3 * q + 1" | "n = 3 * q + 2" by linarith
  then have "(n * 4 + 2) div 3 mod 4 = (if n mod 3 = 0 then 0 else n mod 3 + 1)
      \<and> ((n * 4 + 2) div 3 + 3) div 4 * 4 - (n * 4 + 2) div 3 = (3 - n mod 3) mod 3"
  proof cases
    case 1
    then have "(n * 4 + 2) div 3 = 4 * q" by linarith
    with 1 show ?thesis by simp
  next
    case 2
    then have "(n * 4 + 2) div 3 = 4 * q + 2" by linarith
    moreover have "(4 * q + 2) mod 4 = 2" "n mod 3 = 1" using 2 by presburger+
    ultimately show ?thesis by simp
  next
    case 3
    then have "(n * 4 + 2) div 3 = 4 * q + 3" by linarith
    moreover have "(4 * q + 3) mod 4 = 3" "n mod 3 = 2" using 3 by presburger+
    ultimately show ?thesis by simp
  qed
  then show "(n * 4 + 2) div 3 mod 4 = (if n mod 3 = 0 then 0 else n mod 3 + 1)"
    and "((n * 4 + 2) div 3 + 3) div 4 * 4 - (n * 4 + 2) div 3 = (3 - n mod 3) mod 3"
    by simp_all
qed

lemma drop_padding_btoa: "drop_padding (btoa bs) = map b64_char (sextets bs)"
proof -
  let ?m = "map b64_char (sextets bs)"
  have last: "last ?m \<noteq> 61" if "?m \<noteq> []"
  proof -
    from that have "last (sextets bs) \<in> set (sextets bs)" by simp
    then have "b64_char (last (sextets bs)) \<noteq> 61"
      by (rule b64_letter(2) [OF sextets_bound])
    with that show ?thesis by (simp add: last_map)
  qed
  have len: "length ?m mod 4 = (if length bs mod 3 = 0 then 0 else length bs mod 3 + 1)"
    by (simp only: length_map length_sextets sextet_lengths)
  have ne: "?m \<noteq> []" if "length bs mod 3 \<noteq> 0"
    using len that by (metis add_is_0 list.size(3) mod_0 zero_neq_one)
  consider "length bs mod 3 = 0" | "length bs mod 3 = 1" | "length bs mod 3 = 2"
    by linarith
  then show ?thesis
  proof cases
    case 1
    then show ?thesis using last by (auto simp: btoa_def drop_padding_def)
  next
    case 2
    then have "btoa bs = ?m @ [61, 61]" "(length ?m + 2) mod 4 = 0"
      using len by (simp_all add: btoa_def numeral_2_eq_2) presburger
    then show ?thesis by (simp add: drop_padding_def butlast_append)
  next
    case 3
    then have "btoa bs = ?m @ [61]" "(length ?m + 1) mod 4 = 0"
      using len by (simp_all add: btoa_def) presburger
    then show ?thesis using last ne 3 by (simp add: drop_padding_def butlast_append)
  qed
qed

lemma map_the_b64_value: "map (\<lambda>u. the (b64_value u)) (map b64_char (sextets bs)) = sextets bs"
  by (simp add: comp_def map_idI b64_letter(1) [OF sextets_bound])

lemma atob_btoa: "atob (btoa bs) = Some bs"
proof -
  have "filter (\<lambda>u. \<not> ascii_space u) (btoa bs) = btoa bs"
    by (rule filter_True)
      (auto simp: btoa_def b64_letter(3) [OF sextets_bound] ascii_space_def [of 61])
  moreover have "length (sextets bs) mod 4 \<noteq> 1"
    unfolding length_sextets sextet_lengths by simp
  moreover have "\<not> (\<exists>u \<in> set (map b64_char (sextets bs)). b64_value u = None)"
    by (auto simp: b64_letter(1) [OF sextets_bound])
  ultimately show ?thesis
    by (simp add: atob_def Let_def drop_padding_btoa map_the_b64_value del: map_map)
qed

lemma padEnd_url: "padEnd (map of_url_unit (encodeBase64Url bs))
    ((length (encodeBase64Url bs) + 3) div 4 * 4) 61 = btoa bs"
proof -
  have "map of_url_unit (encodeBase64Url bs) = map b64_char (sextets bs)"
    by (simp add: encodeBase64Url_eq b64_letter(5) [OF sextets_bound])
  then show ?thesis
    by (simp only: padEnd_def btoa_def length_encodeBase64Url length_map length_sextets
        sextet_lengths(2))
qed

text \<open>Decoding inverts encoding on every non-empty byte sequence.\<close>

lemma decode_encodeBase64Url: "bs \<noteq> [] \<Longrightarrow> decodeBase64Url (encodeBase64Url bs) = Some bs"
  using encodeBase64Url_units [of _ bs]
  by (simp add: decodeBase64Url_def padEnd_url atob_btoa encodeBase64Url_Nil_iff)

lemma decodeBase64Url_Some:
  "decodeBase64Url s = Some bs \<Longrightarrow> s \<noteq> [] \<and> (\<forall>u \<in> set s. is_id_unit u)"
  by (simp add: decodeBase64Url_def split: if_splits)

end
