(* ===== verification/JsonText.thy ===== *)
theory JsonText
  imports Utf8
begin

text \<open>
  JSON values and the language's \<open>JSON.stringify\<close> and \<open>JSON.parse\<close>, on UTF-16 code
  units. Numbers are exact rationals: the rounding to binary64 of a literal with more than
  fifteen digits is not modelled. \<open>json_text\<close> is \<open>None\<close> for a number whose text it does
  not model (a fraction, or a magnitude of \<open>10\<^sup>2\<^sup>1\<close> and more); the code's own texts hold
  integers only. The lemma \<open>json_parse_text\<close> is the round trip.
\<close>

section \<open>Values\<close>

datatype json =
    JNull
  | JBool bool
  | JNum rat
  | JStr jstring
  | JArr "json list"
  | JObj "(jstring \<times> json) list"

text \<open>Property lookup \<open>value.key\<close>; \<open>None\<close> is \<open>undefined\<close>.\<close>

fun jget :: "json \<Rightarrow> string \<Rightarrow> json option" where
  "jget (JObj ps) k = map_of ps (lit k)"
| "jget _ k = None"

fun as_string :: "json option \<Rightarrow> jstring option" where
  "as_string (Some (JStr s)) = Some s"
| "as_string _ = None"

text \<open>The string a checked property holds, empty otherwise.\<close>

definition string_of :: "json option \<Rightarrow> jstring" where
  "string_of x = (case as_string x of Some s \<Rightarrow> s | None \<Rightarrow> [])"

definition is_integer :: "rat \<Rightarrow> bool" where
  "is_integer q \<longleftrightarrow> of_int \<lfloor>q\<rfloor> = q"

text \<open>\<open>Number.isInteger(x)\<close>, with the integer it holds.\<close>

fun as_integer :: "json option \<Rightarrow> int option" where
  "as_integer (Some (JNum q)) = (if is_integer q then Some \<lfloor>q\<rfloor> else None)"
| "as_integer _ = None"

lemma is_integer_of_int [simp]: "is_integer (of_int i)"
  by (simp add: is_integer_def)

lemma is_integer_add [simp]: "is_integer (of_int i + of_int j)"
  using is_integer_of_int [of "i + j"] by (simp del: is_integer_of_int)

lemma as_integer_of_int [simp]: "as_integer (Some (JNum (of_int i))) = Some i"
  by simp

section \<open>JSON.stringify\<close>

definition digit_unit :: "nat \<Rightarrow> code_unit" where
  "digit_unit d = word_of_nat (48 + d)"

fun nat_text :: "nat \<Rightarrow> jstring" where
  "nat_text n = (if n < 10 then [digit_unit n] else nat_text (n div 10) @ [digit_unit (n mod 10)])"

declare nat_text.simps [simp del]

definition int_text :: "int \<Rightarrow> jstring" where
  "int_text i = (if i < 0 then 45 # nat_text (nat (- i)) else nat_text (nat i))"

definition num_text :: "rat \<Rightarrow> jstring option" where
  "num_text q = (if is_integer q \<and> \<bar>q\<bar> < 10 ^ 21 then Some (int_text \<lfloor>q\<rfloor>) else None)"

definition hex_unit :: "nat \<Rightarrow> code_unit" where
  "hex_unit d = (if d < 10 then word_of_nat (48 + d) else word_of_nat (97 + (d - 10)))"

definition unicode_escape :: "code_unit \<Rightarrow> jstring" where
  "unicode_escape u = [92, 117, hex_unit (unat u div 4096), hex_unit (unat u div 256 mod 16),
     hex_unit (unat u div 16 mod 16), hex_unit (unat u mod 16)]"

definition escape_unit :: "code_unit \<Rightarrow> jstring" where
  "escape_unit u = (if u = 34 then [92, 34] else if u = 92 then [92, 92]
     else if u = 8 then [92, 98] else if u = 9 then [92, 116] else if u = 10 then [92, 110]
     else if u = 12 then [92, 102] else if u = 13 then [92, 114]
     else if unat u < 32 \<or> high_surrogate u \<or> low_surrogate u then unicode_escape u else [u])"

fun json_escape :: "jstring \<Rightarrow> jstring" where
  "json_escape [] = []"
| "json_escape [u] = escape_unit u"
| "json_escape (u # v # us) =
     (if high_surrogate u \<and> low_surrogate v then u # v # json_escape us
      else escape_unit u @ json_escape (v # us))"

definition quote_text :: "jstring \<Rightarrow> jstring" where
  "quote_text s = 34 # json_escape s @ [34]"

fun json_text :: "json \<Rightarrow> jstring option"
  and elems_text :: "json list \<Rightarrow> jstring option"
  and members_text :: "(jstring \<times> json) list \<Rightarrow> jstring option" where
  "json_text JNull = Some (lit ''null'')"
| "json_text (JBool b) = Some (if b then lit ''true'' else lit ''false'')"
| "json_text (JNum q) = num_text q"
| "json_text (JStr s) = Some (quote_text s)"
| "json_text (JArr vs) = map_option (\<lambda>t. 91 # t @ [93]) (elems_text vs)"
| "json_text (JObj ps) = map_option (\<lambda>t. 123 # t @ [125]) (members_text ps)"
| "elems_text [] = Some []"
| "elems_text [v] = json_text v"
| "elems_text (v # w # vs) =
     (case (json_text v, elems_text (w # vs)) of
        (Some a, Some b) \<Rightarrow> Some (a @ 44 # b) | _ \<Rightarrow> None)"
| "members_text [] = Some []"
| "members_text [(k, v)] = map_option (\<lambda>a. quote_text k @ 58 # a) (json_text v)"
| "members_text ((k, v) # p # ps) =
     (case (json_text v, members_text (p # ps)) of
        (Some a, Some b) \<Rightarrow> Some (quote_text k @ 58 # a @ 44 # b) | _ \<Rightarrow> None)"

section \<open>JSON.parse\<close>

definition json_space :: "code_unit \<Rightarrow> bool" where
  "json_space u \<longleftrightarrow> u = 9 \<or> u = 10 \<or> u = 13 \<or> u = 32"

definition skip_ws :: "jstring \<Rightarrow> jstring" where
  "skip_ws s = dropWhile json_space s"

definition hex_value :: "code_unit \<Rightarrow> nat option" where
  "hex_value u = (if is_digit_unit u then Some (unat u - 48)
     else if 97 \<le> unat u \<and> unat u \<le> 102 then Some (unat u - 97 + 10)
     else if 65 \<le> unat u \<and> unat u \<le> 70 then Some (unat u - 65 + 10) else None)"

definition simple_escape :: "code_unit \<Rightarrow> code_unit option" where
  "simple_escape e = (if e = 34 \<or> e = 92 \<or> e = 47 then Some e else if e = 98 then Some 8
     else if e = 102 then Some 12 else if e = 110 then Some 10 else if e = 114 then Some 13
     else if e = 116 then Some 9 else None)"

text \<open>The string after its opening quote: its value and what follows the closing quote.\<close>

fun parse_string :: "jstring \<Rightarrow> (jstring \<times> jstring) option" where
  "parse_string [] = None"
| "parse_string (c # r) =
     (if c = 34 then Some ([], r)
      else if c = 92 then
        (case r of
           [] \<Rightarrow> None
         | e # r1 \<Rightarrow>
             (if e = 117 then
                (case r1 of
                   a # b # x # y # r2 \<Rightarrow>
                     (case (hex_value a, hex_value b, hex_value x, hex_value y) of
                        (Some i, Some j, Some k, Some l) \<Rightarrow>
                          map_option (apfst (\<lambda>s. word_of_nat (((i * 16 + j) * 16 + k) * 16 + l) # s))
                            (parse_string r2)
                      | _ \<Rightarrow> None)
                 | _ \<Rightarrow> None)
              else (case simple_escape e of
                      Some u \<Rightarrow> map_option (apfst (\<lambda>s. u # s)) (parse_string r1)
                    | None \<Rightarrow> None)))
      else if unat c < 32 then None
      else map_option (apfst (\<lambda>s. c # s)) (parse_string r))"

definition digits_value :: "jstring \<Rightarrow> nat" where
  "digits_value ds = foldl (\<lambda>n u. n * 10 + (unat u - 48)) 0 ds"

definition parse_exponent :: "jstring \<Rightarrow> (rat \<times> jstring) option" where
  "parse_exponent s =
     (case s of
        e # r \<Rightarrow>
          if e = 101 \<or> e = 69 then
            (let neg = (r \<noteq> [] \<and> hd r = 45);
                 r1 = (if r \<noteq> [] \<and> (hd r = 45 \<or> hd r = 43) then tl r else r);
                 ds = takeWhile is_digit_unit r1;
                 p = (10 :: rat) ^ digits_value ds
             in if ds = [] then None
                else Some (if neg then 1 / p else p, dropWhile is_digit_unit r1))
          else Some (1, s)
      | [] \<Rightarrow> Some (1, s))"

definition parse_number :: "jstring \<Rightarrow> (rat \<times> jstring) option" where
  "parse_number s =
     (let neg = (s \<noteq> [] \<and> hd s = 45);
          s1 = (if neg then tl s else s);
          ds = takeWhile is_digit_unit s1;
          r1 = dropWhile is_digit_unit s1;
          dot = (r1 \<noteq> [] \<and> hd r1 = 46);
          fs = (if dot then takeWhile is_digit_unit (tl r1) else []);
          r2 = (if dot then dropWhile is_digit_unit (tl r1) else r1)
      in if ds = [] \<or> (hd ds = 48 \<and> length ds > 1) \<or> (dot \<and> fs = []) then None
         else (case parse_exponent r2 of
                 None \<Rightarrow> None
               | Some (p, r3) \<Rightarrow>
                   let m = of_nat (digits_value (ds @ fs)) / 10 ^ length fs * p
                   in Some (if neg then - m else m, r3)))"

definition parse_literal :: "jstring \<Rightarrow> json \<Rightarrow> jstring \<Rightarrow> (json \<times> jstring) option" where
  "parse_literal l v s = (if js_starts_with l s then Some (v, drop (length l) s) else None)"

lemma parse_string_shorter: "parse_string s = Some (v, r) \<Longrightarrow> length r < length s"
proof (induction s arbitrary: v r rule: parse_string.induct)
  case (2 c s)
  then show ?case
    by (auto split: if_splits list.splits option.splits) (fastforce simp: less_Suc_eq)+
qed simp

lemma length_skip_ws: "length (skip_ws s) \<le> length s"
  by (simp add: skip_ws_def length_dropWhile_le)

lemma skip_ws_tail: "skip_ws s = c # r \<Longrightarrow> length r < length s"
  by (metis length_skip_ws length_Cons Suc_le_eq)

text \<open>
  The tests \<open>length r4 < length s\<close> always succeed (\<open>parse_consumes\<close> below); they make the
  recursion's termination evident.
\<close>

function (sequential) parse_value :: "jstring \<Rightarrow> (json \<times> jstring) option"
  and parse_elems :: "json list \<Rightarrow> jstring \<Rightarrow> (json \<times> jstring) option"
  and parse_members :: "(jstring \<times> json) list \<Rightarrow> jstring \<Rightarrow> (json \<times> jstring) option" where
  "parse_value s =
     (case skip_ws s of
        [] \<Rightarrow> None
      | c # r \<Rightarrow>
          if c = 123 then
            (if skip_ws r \<noteq> [] \<and> hd (skip_ws r) = 125 then Some (JObj [], tl (skip_ws r))
             else parse_members [] r)
          else if c = 91 then
            (if skip_ws r \<noteq> [] \<and> hd (skip_ws r) = 93 then Some (JArr [], tl (skip_ws r))
             else parse_elems [] r)
          else if c = 34 then map_option (apfst JStr) (parse_string r)
          else if c = 110 then parse_literal (lit ''null'') JNull (c # r)
          else if c = 116 then parse_literal (lit ''true'') (JBool True) (c # r)
          else if c = 102 then parse_literal (lit ''false'') (JBool False) (c # r)
          else map_option (apfst JNum) (parse_number (c # r)))"
| "parse_elems acc s =
     (case parse_value s of
        None \<Rightarrow> None
      | Some (v, r3) \<Rightarrow>
          (case skip_ws r3 of
             [] \<Rightarrow> None
           | d # r4 \<Rightarrow>
               if d = 93 then Some (JArr (acc @ [v]), r4)
               else if d = 44 \<and> length r4 < length s then parse_elems (acc @ [v]) r4
               else None))"
| "parse_members acc s =
     (case skip_ws s of
        [] \<Rightarrow> None
      | q # r0 \<Rightarrow>
          if q \<noteq> 34 then None
          else
            (case parse_string r0 of
               None \<Rightarrow> None
             | Some (k, r1) \<Rightarrow>
                 (case skip_ws r1 of
                    [] \<Rightarrow> None
                  | d # r2 \<Rightarrow>
                      if d \<noteq> 58 then None
                      else
                        (case parse_value r2 of
                           None \<Rightarrow> None
                         | Some (v, r3) \<Rightarrow>
                             (case skip_ws r3 of
                                [] \<Rightarrow> None
                              | e # r4 \<Rightarrow>
                                  if e = 125 then Some (JObj (al_set k v acc), r4)
                                  else if e = 44 \<and> length r4 < length s
                                  then parse_members (al_set k v acc) r4
                                  else None)))))"
  by pat_completeness auto

termination
  by (relation "measure (\<lambda>x. case x of Inl s \<Rightarrow> 2 * length s
      | Inr (Inl (acc, s)) \<Rightarrow> 2 * length s + 1 | Inr (Inr (acc, s)) \<Rightarrow> 2 * length s + 1)")
    (auto dest!: skip_ws_tail parse_string_shorter)

declare parse_value.simps [simp del] parse_elems.simps [simp del] parse_members.simps [simp del]

definition json_parse :: "jstring \<Rightarrow> json option" where
  "json_parse s = (case parse_value s of
     Some (v, r) \<Rightarrow> if skip_ws r = [] then Some v else None
   | None \<Rightarrow> None)"

section \<open>Parsing consumes input\<close>

lemma parse_exponent_shorter: "parse_exponent s = Some (p, r) \<Longrightarrow> length r \<le> length s"
proof -
  assume h: "parse_exponent s = Some (p, r)"
  show ?thesis
  proof (cases s)
    case Nil
    with h show ?thesis by (simp add: parse_exponent_def)
  next
    case (Cons e t)
    have le: "length (dropWhile is_digit_unit u) \<le> length u" for u
      by (rule length_dropWhile_le)
    show ?thesis
      using h le [of t] le [of "tl t"]
      by (cases t) (auto simp: Cons parse_exponent_def Let_def split: if_splits)
  qed
qed

lemma parse_number_shorter:
  assumes "parse_number s = Some (q, r)"
  shows "length r < length s"
proof -
  define s1 where "s1 = (if s \<noteq> [] \<and> hd s = 45 then tl s else s)"
  define r1 where "r1 = dropWhile is_digit_unit s1"
  define r2 where "r2 = (if r1 \<noteq> [] \<and> hd r1 = 46 then dropWhile is_digit_unit (tl r1) else r1)"
  have "\<exists>p. parse_exponent r2 = Some (p, r)" and ne: "takeWhile is_digit_unit s1 \<noteq> []"
    using assms by (auto simp: parse_number_def Let_def s1_def r1_def r2_def
        split: if_splits option.splits)
  then have "length r \<le> length r2"
    using parse_exponent_shorter by blast
  also have "length r2 \<le> length r1"
    using length_dropWhile_le [of is_digit_unit "tl r1"] by (auto simp: r2_def)
  also have "length r1 < length s1"
    using ne by (cases s1) (simp_all add: r1_def length_dropWhile_le less_Suc_eq_le split: if_splits)
  also have "length s1 \<le> length s"
    by (simp add: s1_def)
  finally show ?thesis .
qed

lemma parse_literal_shorter:
  "l \<noteq> [] \<Longrightarrow> parse_literal l v s = Some (w, r) \<Longrightarrow> length r < length s"
  by (cases s) (auto simp: parse_literal_def js_starts_with_def split: if_splits)

lemma parse_consumes:
  "parse_value s = Some (v, r) \<Longrightarrow> length r < length s"
  "parse_elems acc s = Some (v, r) \<Longrightarrow> length r < length s"
  "parse_members mem s = Some (v, r) \<Longrightarrow> length r < length s"
proof (induction s and acc s and mem s arbitrary: v r and v r and v r
    rule: parse_value_parse_elems_parse_members.induct)
  case (1 s)
  note eq = 1(3) [unfolded parse_value.simps [of s]]
  obtain c t where ct: "skip_ws s = c # t"
    using eq by (cases "skip_ws s") auto
  have len: "length t < length s" "length (c # t) \<le> length s"
    using skip_ws_tail [OF ct] by simp_all
  have ws: "length (tl (skip_ws t)) \<le> length t"
    using length_skip_ws [of t] by simp
  note IH = 1(1) [OF ct] 1(2) [OF ct]
  show ?case
    using eq len ws IH
    by (auto simp: ct dest!: parse_string_shorter parse_number_shorter
        parse_literal_shorter [rotated] split: if_splits)
next
  case (2 acc s)
  note eq = 2(3) [unfolded parse_elems.simps [of acc s]]
  show ?case
    using eq 2(1,2)
    by (fastforce dest!: skip_ws_tail split: list.splits if_splits option.splits)
next
  case (3 mem s)
  note eq = 3(3) [unfolded parse_members.simps [of mem s]]
  show ?case
    using eq 3(1,2)
    by (fastforce dest!: parse_string_shorter skip_ws_tail
        split: list.splits if_splits option.splits prod.splits)
qed

section \<open>Round trip of strings\<close>

lemma hex_table: "list_all (\<lambda>d. hex_value (hex_unit d) = Some d) [0..<16]"
  by code_simp

lemma hex_value_unit: "d < 16 \<Longrightarrow> hex_value (hex_unit d) = Some d"
  using hex_table by (simp add: list_all_iff)

lemma hex_digits:
  fixes n :: nat
  assumes "n < 65536"
  shows "n div 4096 < 16"
    "((n div 4096 * 16 + n div 256 mod 16) * 16 + n div 16 mod 16) * 16 + n mod 16 = n"
proof -
  have div: "n div 4096 = n div 16 div 16 div 16" "n div 256 = n div 16 div 16"
    by (simp_all add: div_mult2_eq [symmetric])
  show "((n div 4096 * 16 + n div 256 mod 16) * 16 + n div 16 mod 16) * 16 + n mod 16 = n"
    by (simp only: div div_mult_mod_eq)
  show "n div 4096 < 16"
    using assms by linarith
qed

lemma parse_string_unicode:
  "parse_string (unicode_escape u @ t) = map_option (apfst (\<lambda>s. u # s)) (parse_string t)"
  using hex_digits [OF unat_unit_less [of u]]
  by (simp add: unicode_escape_def hex_value_unit del: of_nat_add of_nat_mult)

lemma parse_string_escape_unit:
  "parse_string (escape_unit u @ t) = map_option (apfst (\<lambda>s. u # s)) (parse_string t)"
  by (auto simp: escape_unit_def parse_string_unicode simple_escape_def)

lemma parse_string_raw:
  "32 \<le> unat c \<Longrightarrow> c \<noteq> 34 \<Longrightarrow> c \<noteq> 92 \<Longrightarrow>
   parse_string (c # t) = map_option (apfst (\<lambda>s. c # s)) (parse_string t)"
  by simp

lemma surrogate_raw:
  "high_surrogate u \<or> low_surrogate u \<Longrightarrow> 32 \<le> unat u \<and> u \<noteq> 34 \<and> u \<noteq> 92"
  by (auto simp: high_surrogate_def low_surrogate_def)

lemma parse_string_escape: "parse_string (json_escape s @ 34 # rest) = Some (s, rest)"
proof (induction s rule: json_escape.induct)
  case (2 u)
  then show ?case by (simp add: parse_string_escape_unit)
next
  case (3 u v us)
  then show ?case
    using surrogate_raw [of u] surrogate_raw [of v]
    by (auto simp: parse_string_escape_unit parse_string_raw simp del: parse_string.simps(2))
qed simp

section \<open>Round trip of numbers\<close>

lemma digit_table: "list_all (\<lambda>d. is_digit_unit (digit_unit d) \<and> unat (digit_unit d) - 48 = d
    \<and> (digit_unit d = 48 \<longleftrightarrow> d = 0) \<and> digit_unit d \<noteq> 45) [0..<10]"
  by code_simp

lemma digit_unit_facts:
  assumes "d < 10"
  shows "is_digit_unit (digit_unit d)" "unat (digit_unit d) - 48 = d"
    "digit_unit d = 48 \<longleftrightarrow> d = 0" "digit_unit d \<noteq> 45"
  using digit_table assms by (auto simp: list_all_iff)

lemma nat_text_digits: "u \<in> set (nat_text n) \<Longrightarrow> is_digit_unit u"
proof (induction n rule: nat_text.induct)
  case (1 n)
  then show ?case
    by (subst (asm) (2) nat_text.simps) (auto simp: digit_unit_facts(1) split: if_splits)
qed

lemma nat_text_not_Nil [simp]: "nat_text n \<noteq> []"
  by (subst nat_text.simps) simp

lemma digits_value_snoc: "digits_value (ds @ [u]) = digits_value ds * 10 + (unat u - 48)"
  by (simp add: digits_value_def)

lemma digits_value_nat_text: "digits_value (nat_text n) = n"
proof (induction n rule: nat_text.induct)
  case (1 n)
  show ?case
  proof (cases "n < 10")
    case True
    then show ?thesis
      by (subst nat_text.simps) (simp add: digits_value_def digit_unit_facts(2))
  next
    case False
    with 1 show ?thesis
      by (subst nat_text.simps) (simp add: digits_value_snoc digit_unit_facts(2))
  qed
qed

lemma hd_nat_text: "0 < n \<Longrightarrow> hd (nat_text n) \<noteq> 48"
proof (induction n rule: nat_text.induct)
  case (1 n)
  then show ?case
    by (subst nat_text.simps) (auto simp: digit_unit_facts(3))
qed

lemma length_nat_text: "length (nat_text n) > 1 \<Longrightarrow> 0 < n"
  by (subst (asm) nat_text.simps) (simp split: if_splits)

text \<open>What may follow a value inside a text produced by \<open>json_text\<close>.\<close>

definition delimited :: "jstring \<Rightarrow> bool" where
  "delimited r \<longleftrightarrow> r = [] \<or> hd r = 44 \<or> hd r = 93 \<or> hd r = 125"

lemma delimited_not_digit: "delimited r \<Longrightarrow> takeWhile is_digit_unit r = []"
  by (cases r) (auto simp: delimited_def is_digit_unit_def)

lemma take_digits:
  assumes "delimited r"
  shows "takeWhile is_digit_unit (nat_text n @ r) = nat_text n"
    and "dropWhile is_digit_unit (nat_text n @ r) = r"
proof -
  have "dropWhile is_digit_unit r = r"
    using delimited_not_digit [OF assms] by (cases r) (auto split: if_splits)
  then show "takeWhile is_digit_unit (nat_text n @ r) = nat_text n"
    and "dropWhile is_digit_unit (nat_text n @ r) = r"
    using nat_text_digits by (simp_all add: delimited_not_digit [OF assms])
qed

lemma parse_exponent_delimited: "delimited r \<Longrightarrow> parse_exponent r = Some (1, r)"
  by (cases r) (auto simp: parse_exponent_def delimited_def)

lemma delimited_no_dot: "delimited r \<Longrightarrow> \<not> (r \<noteq> [] \<and> hd r = 46)"
  by (auto simp: delimited_def)

lemma hd_digit_not_minus: "hd (nat_text n @ r) \<noteq> 45"
  using nat_text_digits [of "hd (nat_text n)" n] by (auto simp: is_digit_unit_def)

lemma nat_text_number_ok: "\<not> (nat_text n = [] \<or> hd (nat_text n) = 48 \<and> length (nat_text n) > 1)"
  using hd_nat_text length_nat_text by auto

lemma parse_number_int_text:
  assumes "delimited r"
  shows "parse_number (int_text i @ r) = Some (of_int i, r)"
proof -
  note base = take_digits [OF assms] parse_exponent_delimited [OF assms] delimited_no_dot [OF assms]
  show ?thesis
  proof (cases "i < 0")
    case True
    then show ?thesis
      using nat_text_number_ok [of "nat (- i)"] base
      by (auto simp: parse_number_def int_text_def digits_value_nat_text Let_def)
  next
    case False
    then show ?thesis
      using nat_text_number_ok [of "nat i"] base hd_digit_not_minus [of "nat i" r]
      by (auto simp: parse_number_def int_text_def digits_value_nat_text Let_def)
  qed
qed

section \<open>Round trip of values\<close>

fun json_wf :: "json \<Rightarrow> bool" where
  "json_wf (JArr vs) = list_all json_wf vs"
| "json_wf (JObj ps) = (distinct (map fst ps) \<and> list_all (\<lambda>(k, v). json_wf v) ps)"
| "json_wf _ = True"

lemma num_text_Some:
  "num_text q = Some t \<Longrightarrow> \<exists>i. q = of_int i \<and> t = int_text i"
  by (auto simp: num_text_def is_integer_def split: if_splits)

lemma int_text_hd: "\<exists>c t. int_text i = c # t \<and> (is_digit_unit c \<or> c = 45)"
proof (cases "i < 0")
  case True
  then show ?thesis by (simp add: int_text_def)
next
  case False
  obtain c t where "nat_text (nat i) = c # t"
    by (cases "nat_text (nat i)") auto
  moreover from this have "is_digit_unit c"
    using nat_text_digits [of c "nat i"] by simp
  ultimately show ?thesis
    using False by (simp add: int_text_def)
qed

lemma json_text_start:
  assumes "json_text v = Some t"
  shows "\<exists>c r. t = c # r \<and> \<not> json_space c \<and> c \<noteq> 93"
proof (cases v)
  case (JNum q)
  then obtain i where "t = int_text i" using assms num_text_Some by fastforce
  with int_text_hd [of i] show ?thesis
    by (auto simp: json_space_def is_digit_unit_def)
qed (use assms in \<open>auto simp: quote_text_def json_space_def lit_def unit_of_char_def split: if_splits\<close>)

lemma skip_ws_start: "\<not> json_space c \<Longrightarrow> skip_ws (c # r) = c # r"
  by (simp add: skip_ws_def)

lemma parse_quote_text: "parse_value (quote_text s @ rest) = Some (JStr s, rest)"
  by (simp add: parse_value.simps quote_text_def skip_ws_start json_space_def parse_string_escape)

lemma parse_value_num:
  assumes "is_digit_unit c \<or> c = 45"
  shows "parse_value (c # r) = map_option (apfst JNum) (parse_number (c # r))"
proof -
  have "c \<noteq> 123" "c \<noteq> 91" "c \<noteq> 34" "c \<noteq> 110" "c \<noteq> 116" "c \<noteq> 102" "\<not> json_space c"
    using assms by (auto simp: is_digit_unit_def json_space_def)
  then show ?thesis
    by (simp add: parse_value.simps [of "c # r"] skip_ws_start)
qed

lemma parse_int_text:
  "delimited rest \<Longrightarrow> parse_value (int_text i @ rest) = Some (JNum (of_int i), rest)"
  using int_text_hd [of i] parse_number_int_text [of rest i] parse_value_num
  by auto

lemma members_text_start: "members_text ps = Some t \<Longrightarrow> ps \<noteq> [] \<Longrightarrow> \<exists>r. t = 34 # r"
  by (cases ps rule: members_text.cases) (auto simp: quote_text_def split: option.splits)

lemma elems_text_start:
  "elems_text vs = Some t \<Longrightarrow> vs \<noteq> [] \<Longrightarrow> \<exists>c r. t = c # r \<and> \<not> json_space c \<and> c \<noteq> 93"
  by (cases vs rule: elems_text.cases)
    (auto split: option.splits dest!: json_text_start)

text \<open>One element and one member of a list, up to the separator that follows.\<close>

lemma parse_elem_step:
  assumes "parse_value (a @ d # rest) = Some (v, d # rest)" "d = 44 \<or> d = 93"
  shows "parse_elems acc (a @ d # rest) =
    (if d = 93 then Some (JArr (acc @ [v]), rest) else parse_elems (acc @ [v]) rest)"
  using assms
  by (subst parse_elems.simps) (auto simp: skip_ws_start json_space_def)

lemma parse_member_step:
  assumes "parse_value (a @ d # rest) = Some (v, d # rest)" "d = 44 \<or> d = 125"
    "k \<notin> fst ` set mem"
  shows "parse_members mem (quote_text k @ 58 # a @ d # rest) =
    (if d = 125 then Some (JObj (mem @ [(k, v)]), rest)
     else parse_members (mem @ [(k, v)]) rest)"
proof -
  have "skip_ws (quote_text k @ 58 # a @ d # rest) = 34 # json_escape k @ 34 # 58 # a @ d # rest"
    by (simp add: quote_text_def skip_ws_start json_space_def)
  moreover have "skip_ws (58 # a @ d # rest) = 58 # a @ d # rest" "skip_ws (d # rest) = d # rest"
    using assms(2) by (auto simp: skip_ws_start json_space_def)
  ultimately show ?thesis
    using assms(1,2) al_set_fresh [OF assms(3), of v]
    by (subst parse_members.simps) (auto simp: parse_string_escape quote_text_def)
qed

lemma parse_json_text:
  "json_text v = Some t \<Longrightarrow> json_wf v \<Longrightarrow> delimited rest \<Longrightarrow> parse_value (t @ rest) = Some (v, rest)"
  "elems_text vs = Some t \<Longrightarrow> vs \<noteq> [] \<Longrightarrow> list_all json_wf vs \<Longrightarrow>
   parse_elems acc (t @ 93 # rest) = Some (JArr (acc @ vs), rest)"
  "members_text ps = Some t \<Longrightarrow> ps \<noteq> [] \<Longrightarrow> distinct (map fst (mem @ ps)) \<Longrightarrow>
   list_all (\<lambda>(k, v). json_wf v) ps \<Longrightarrow>
   parse_members mem (t @ 125 # rest) = Some (JObj (mem @ ps), rest)"
proof (induction v and vs and ps arbitrary: t rest and t acc rest and t mem rest
    rule: json_text_elems_text_members_text.induct)
  case 1
  then show ?case
    by (auto simp: lit_def unit_of_char_def skip_ws_start
        json_space_def parse_literal_def js_starts_with_def parse_value.simps)
next
  case (2 b)
  then show ?case
    by (cases b) (auto simp: lit_def unit_of_char_def skip_ws_start
        json_space_def parse_literal_def js_starts_with_def parse_value.simps)
next
  case (3 q)
  then show ?case using num_text_Some parse_int_text by fastforce
next
  case (4 s)
  then show ?case using parse_quote_text by auto
next
  case (5 vs)
  then obtain u where u: "elems_text vs = Some u" and t: "t = 91 # u @ [93]" by auto
  show ?case
  proof (cases "vs = []")
    case True
    then show ?thesis
      using u t by (simp add: parse_value.simps skip_ws_start json_space_def)
  next
    case False
    then obtain c r where "u = c # r" "\<not> json_space c" "c \<noteq> 93"
      using u elems_text_start by blast
    moreover have "parse_elems [] (u @ 93 # rest) = Some (JArr vs, rest)"
      using 5 u False by simp
    ultimately show ?thesis
      using t by (simp add: parse_value.simps skip_ws_start json_space_def [of 91])
  qed
next
  case (6 ps)
  then obtain u where u: "members_text ps = Some u" and t: "t = 123 # u @ [125]" by auto
  show ?case
  proof (cases "ps = []")
    case True
    then show ?thesis
      using u t by (simp add: parse_value.simps skip_ws_start json_space_def)
  next
    case False
    then obtain r where "u = 34 # r"
      using u members_text_start by blast
    moreover have "parse_members [] (u @ 125 # rest) = Some (JObj ps, rest)"
      using 6 u False by simp
    ultimately show ?thesis
      using t by (simp add: parse_value.simps skip_ws_start json_space_def)
  qed
next
  case 7
  then show ?case by simp
next
  case (8 v)
  then have "parse_value (t @ 93 # rest) = Some (v, 93 # rest)"
    by (simp add: delimited_def)
  then show ?case by (simp add: parse_elem_step)
next
  case (9 v w vs)
  then obtain a b where ab: "json_text v = Some a" "elems_text (w # vs) = Some b" "t = a @ 44 # b"
    by (auto split: option.splits)
  have "parse_value (a @ 44 # b @ 93 # rest) = Some (v, 44 # b @ 93 # rest)"
    using 9 ab by (simp add: delimited_def)
  with 9 ab show ?case by (simp add: parse_elem_step)
next
  case 10
  then show ?case by simp
next
  case (11 k v)
  then obtain a where a: "json_text v = Some a" "t = quote_text k @ 58 # a"
    by auto
  have "parse_value (a @ 125 # rest) = Some (v, 125 # rest)"
    using 11 a by (simp add: delimited_def)
  with 11 a show ?case by (simp add: parse_member_step)
next
  case (12 k v p ps)
  then obtain a b where ab: "json_text v = Some a" "members_text (p # ps) = Some b"
    "t = quote_text k @ 58 # a @ 44 # b"
    by (auto split: option.splits)
  have "parse_value (a @ 44 # b @ 125 # rest) = Some (v, 44 # b @ 125 # rest)"
    using 12 ab by (simp add: delimited_def)
  moreover have "parse_members (mem @ [(k, v)]) (b @ 125 # rest)
      = Some (JObj ((mem @ [(k, v)]) @ p # ps), rest)"
    by (rule 12(2) [OF ab(2)]) (use 12(5,6) in auto)
  moreover have "k \<notin> fst ` set mem"
    using 12 by auto
  ultimately show ?case
    by (simp add: ab parse_member_step)
qed

text \<open>
  Parsing the text of a value without repeated keys gives the value back.
\<close>

lemma json_parse_text:
  assumes "json_text v = Some t" "json_wf v"
  shows "json_parse t = Some v"
  using parse_json_text(1) [OF assms, of "[]"] by (simp add: json_parse_def delimited_def skip_ws_def)

section \<open>The text is well formed\<close>

lemma well_formed_append_plain:
  "(\<And>u. u \<in> set s \<Longrightarrow> \<not> high_surrogate u \<and> \<not> low_surrogate u) \<Longrightarrow>
   well_formed (s @ t) \<longleftrightarrow> well_formed t"
proof (induction s)
  case (Cons u s)
  then show ?case by (cases "s @ t") auto
qed simp

definition plain_unit :: "code_unit \<Rightarrow> bool" where
  "plain_unit u \<longleftrightarrow> \<not> high_surrogate u \<and> \<not> low_surrogate u"

lemma plain_below: "unat u < 0xD800 \<Longrightarrow> plain_unit u"
  by (simp add: plain_unit_def high_surrogate_def low_surrogate_def)

lemma plain_ascii: "list_all plain_unit [34, 92, 98, 116, 110, 102, 114, 117]"
  by (simp add: plain_below)

lemma plain_hex: "d < 16 \<Longrightarrow> plain_unit (hex_unit d)"
  by (rule plain_below) (simp add: hex_unit_def unat_unit_of_nat del: of_nat_add)

lemma unicode_escape_plain: "list_all plain_unit (unicode_escape u)"
  using plain_ascii hex_digits(1) [OF unat_unit_less [of u]]
  by (simp add: unicode_escape_def plain_hex)

lemma escape_unit_plain: "list_all plain_unit (escape_unit u)"
proof (cases "escape_unit u = [u]")
  case True
  then have "plain_unit u"
    by (auto simp: escape_unit_def plain_unit_def unicode_escape_def split: if_splits)
  with True show ?thesis by simp
next
  case False
  then show ?thesis
    using plain_ascii unicode_escape_plain [of u]
    by (auto simp: escape_unit_def plain_unit_def)
qed

lemma well_formed_append:
  "list_all plain_unit s \<Longrightarrow> well_formed (s @ t) \<longleftrightarrow> well_formed t"
  by (rule well_formed_append_plain) (simp add: list_all_iff plain_unit_def)

lemma well_formed_json_escape:
  "well_formed t \<Longrightarrow> well_formed (json_escape s @ t)"
  by (induction s rule: json_escape.induct)
    (auto simp: well_formed_append [OF escape_unit_plain])

lemma plain_digits: "list_all plain_unit (nat_text n)"
proof -
  have "plain_unit u" if "u \<in> set (nat_text n)" for u
    using nat_text_digits [OF that] by (intro plain_below) (simp add: is_digit_unit_def word_le_nat_alt)
  then show ?thesis by (simp add: list_all_iff)
qed

lemma plain_int_text: "list_all plain_unit (int_text i)"
  by (simp add: int_text_def plain_digits plain_below)

lemma plain_lit: "list_all plain_unit (lit s)"
proof -
  have "plain_unit (unit_of_char c)" for c
    using less_trans [OF nat_of_char_less_256, of 55296 c]
    by (intro plain_below) (simp add: unat_unit_of_char)
  then show ?thesis by (simp add: lit_def list_all_iff)
qed

lemma well_formed_Cons_plain: "plain_unit u \<Longrightarrow> well_formed (u # t) \<longleftrightarrow> well_formed t"
  using well_formed_append [of "[u]" t] by simp

lemma well_formed_quote_text: "well_formed t \<Longrightarrow> well_formed (quote_text s @ t)"
  using well_formed_json_escape [of "34 # t" s]
  by (simp add: quote_text_def well_formed_Cons_plain plain_below)

lemma well_formed_json_text:
  "json_text v = Some t \<Longrightarrow> well_formed r \<Longrightarrow> well_formed (t @ r)"
  "elems_text vs = Some t \<Longrightarrow> well_formed r \<Longrightarrow> well_formed (t @ r)"
  "members_text ps = Some t \<Longrightarrow> well_formed r \<Longrightarrow> well_formed (t @ r)"
  by (induction v and vs and ps arbitrary: t r and t r and t r
      rule: json_text_elems_text_members_text.induct)
    (fastforce simp: well_formed_append plain_lit plain_int_text well_formed_quote_text
        well_formed_Cons_plain plain_below dest: num_text_Some split: option.splits if_splits)+

text \<open>
  The bytes of an object's text decode and parse back to the object: what a signed
  token's payload goes through.
\<close>

lemma json_bytes_roundtrip:
  assumes "json_text (JObj ps) = Some t" "json_wf (JObj ps)"
  shows "json_parse (text_decode (text_encode t)) = Some (JObj ps)"
proof -
  obtain u where "t = 123 # u" using assms(1) by auto
  then have "text_decode (text_encode t) = t"
    using well_formed_json_text(1) [OF assms(1), of "[]"] by (intro text_decode_encode) simp_all
  then show ?thesis
    using json_parse_text [OF assms] by simp
qed

end
