(* ===== verification/SignedToken.thy ===== *)
theory SignedToken
  imports Base64Url JsonText
begin

text \<open>
  The part the three signed-token modules have in common (\<open>ticket.ts\<close> and
  \<open>sessionTicket.ts\<close> of \<open>packages/protocol/src\<close>, \<open>apps/signaling/src/deviceToken.ts\<close>):
  the secret's length check, sealing a payload as \<open>base64url(payload).base64url(mac)\<close>,
  and opening it again. The MAC of Web Crypto's HMAC-SHA-256 is the parameter \<open>mac\<close>, a
  function of the key's and the message's bytes; \<open>crypto.subtle.verify\<close> recomputes it and
  compares. The locale \<open>ticket_kind\<close> is the contract the three modules share.
\<close>

section \<open>Keys and signatures\<close>

type_synonym mac = "byte list \<Rightarrow> byte list \<Rightarrow> byte list"

datatype token_error =
    LifetimeOutOfRange
  | SubjectRequired
  | SecretTooShort
  | NumberNotModelled

definition MINIMUM_SECRET_LENGTH :: nat where
  "MINIMUM_SECRET_LENGTH = 32"

definition assertSecret :: "jstring \<Rightarrow> token_error + unit" where
  "assertSecret secret =
     (if length secret < MINIMUM_SECRET_LENGTH then Inl SecretTooShort else Inr ())"

definition importHmacKey :: "jstring \<Rightarrow> token_error + byte list" where
  "importHmacKey secret =
     (case assertSecret secret of Inl e \<Rightarrow> Inl e | Inr _ \<Rightarrow> Inr (text_encode secret))"

definition subtle_verify :: "mac \<Rightarrow> byte list \<Rightarrow> byte list \<Rightarrow> byte list \<Rightarrow> bool" where
  "subtle_verify mac key signature data \<longleftrightarrow> signature = mac key data"

section \<open>Sealing and opening\<close>

definition seal_token :: "mac \<Rightarrow> jstring \<Rightarrow> json \<Rightarrow> token_error + jstring" where
  "seal_token mac secret payload =
     (case json_text payload of
        None \<Rightarrow> Inl NumberNotModelled
      | Some t \<Rightarrow>
          let encodedPayload = encodeBase64Url (text_encode t) in
          (case importHmacKey secret of
             Inl e \<Rightarrow> Inl e
           | Inr key \<Rightarrow>
               Inr (encodedPayload @ 46 # encodeBase64Url (mac key (text_encode encodedPayload)))))"

definition open_token :: "mac \<Rightarrow> jstring \<Rightarrow> jstring \<Rightarrow> json option" where
  "open_token mac secret token =
     (case js_split 46 token of
        [encodedPayload, encodedSignature] \<Rightarrow>
          if encodedPayload = [] \<or> encodedSignature = [] then None
          else
            (case importHmacKey secret of
               Inl _ \<Rightarrow> None
             | Inr key \<Rightarrow>
                 (case decodeBase64Url encodedSignature of
                    None \<Rightarrow> None
                  | Some signature \<Rightarrow>
                      if \<not> subtle_verify mac key signature (text_encode encodedPayload) then None
                      else
                        (case decodeBase64Url encodedPayload of
                           None \<Rightarrow> None
                         | Some bytes \<Rightarrow> json_parse (text_decode bytes))))
      | _ \<Rightarrow> None)"

text \<open>
  \<open>options.nowSeconds ?? Math.floor(Date.now() / 1000)\<close>, and the time window of a verified
  payload.
\<close>

definition now_seconds :: "int option \<Rightarrow> int \<Rightarrow> int" where
  "now_seconds nowSeconds dateNow = (case nowSeconds of Some n \<Rightarrow> n | None \<Rightarrow> dateNow div 1000)"

lemma now_seconds_Some [simp]: "now_seconds (Some n) d = n"
  by (simp add: now_seconds_def)

definition time_valid :: "int \<Rightarrow> int \<Rightarrow> json \<Rightarrow> bool" where
  "time_valid maxLifetime now payload =
     (case (as_integer (jget payload ''iat''), as_integer (jget payload ''exp'')) of
        (Some issued, Some expiry) \<Rightarrow>
          \<not> (issued > now + 30 \<or> expiry \<le> now \<or> expiry - issued > maxLifetime)
      | _ \<Rightarrow> False)"

text \<open>The shape tests of a payload object.\<close>

definition has_exactly :: "string list \<Rightarrow> json \<Rightarrow> bool" where
  "has_exactly ks v =
     (case v of JObj ps \<Rightarrow> length ps = length ks \<and> (\<forall>k \<in> set ks. lit k \<in> fst ` set ps) | _ \<Rightarrow> False)"

definition string_prop :: "json \<Rightarrow> string \<Rightarrow> (jstring \<Rightarrow> bool) \<Rightarrow> bool" where
  "string_prop v k P = (case as_string (jget v k) of Some s \<Rightarrow> P s | None \<Rightarrow> False)"

definition integer_prop :: "json \<Rightarrow> string \<Rightarrow> bool" where
  "integer_prop v k \<longleftrightarrow> as_integer (jget v k) \<noteq> None"

lemmas payload_defs = has_exactly_def string_prop_def integer_prop_def

section \<open>Lemmas on sealed tokens\<close>

lemma importHmacKey_Inr:
  "importHmacKey secret = Inr key \<longleftrightarrow> 32 \<le> length secret \<and> key = text_encode secret"
  by (auto simp: importHmacKey_def assertSecret_def MINIMUM_SECRET_LENGTH_def)

lemma importHmacKey_Inl:
  "importHmacKey secret = Inl e \<longleftrightarrow> length secret < 32 \<and> e = SecretTooShort"
  by (auto simp: importHmacKey_def assertSecret_def MINIMUM_SECRET_LENGTH_def)

lemma seal_token_Inr:
  "seal_token mac secret payload = Inr t \<longleftrightarrow>
   32 \<le> length secret \<and> (\<exists>p. json_text payload = Some p \<and>
     t = encodeBase64Url (text_encode p)
         @ 46 # encodeBase64Url (mac (text_encode secret) (text_encode (encodeBase64Url (text_encode p)))))"
  by (auto simp: seal_token_def Let_def importHmacKey_Inr importHmacKey_Inl split: option.splits sum.splits)

lemma open_token_Some:
  assumes "open_token mac secret token = Some v"
  obtains p s bytes where "token = p @ 46 # s" "46 \<notin> set p" "32 \<le> length secret"
    "decodeBase64Url s = Some (mac (text_encode secret) (text_encode p))"
    "decodeBase64Url p = Some bytes" "json_parse (text_decode bytes) = Some v"
proof -
  obtain p s where ps: "js_split 46 token = [p, s]"
    using assms by (auto simp: open_token_def split: list.splits)
  have "token = p @ 46 # s" "46 \<notin> set p"
    using js_split_two [OF ps] by simp_all
  moreover from assms have "32 \<le> length secret"
    "decodeBase64Url s = Some (mac (text_encode secret) (text_encode p))"
    "\<exists>bytes. decodeBase64Url p = Some bytes \<and> json_parse (text_decode bytes) = Some v"
    by (auto simp: open_token_def ps importHmacKey_Inr subtle_verify_def
        split: if_splits sum.splits option.splits)
  ultimately show thesis using that by blast
qed

lemma id_unit_not_dot: "is_id_unit u \<Longrightarrow> u \<noteq> 46"
  by (auto simp: unit_class_defs)

text \<open>
  A sealed object opens to itself under the same secret, for any MAC with non-empty output.
\<close>

lemma open_seal:
  assumes seal: "seal_token mac secret (JObj ps) = Inr t" and wf: "json_wf (JObj ps)"
    and mac: "\<And>k m. mac k m \<noteq> []"
  shows "open_token mac secret t = Some (JObj ps)"
proof -
  obtain p where p: "json_text (JObj ps) = Some p" and len: "32 \<le> length secret"
    and t: "t = encodeBase64Url (text_encode p)
         @ 46 # encodeBase64Url (mac (text_encode secret) (text_encode (encodeBase64Url (text_encode p))))"
    using seal unfolding seal_token_Inr by blast
  let ?e = "encodeBase64Url (text_encode p)"
  let ?s = "encodeBase64Url (mac (text_encode secret) (text_encode ?e))"
  have ne: "text_encode p \<noteq> []"
    using p by (auto simp: text_encode_Nil_iff)
  have "46 \<notin> set ?e" "46 \<notin> set ?s"
    using encodeBase64Url_units id_unit_not_dot by blast+
  then have "js_split 46 t = [?e, ?s]"
    unfolding t by (simp add: js_split_append_sep js_split_no_sep)
  moreover have "importHmacKey secret = Inr (text_encode secret)"
    using len by (simp add: importHmacKey_Inr)
  moreover have "json_parse (text_decode (text_encode p)) = Some (JObj ps)"
    using p wf by (rule json_bytes_roundtrip)
  ultimately show ?thesis
    using ne mac
    by (simp add: open_token_def encodeBase64Url_Nil_iff decode_encodeBase64Url subtle_verify_def)
qed

text \<open>What a token opens to does not depend on the secret that opens it.\<close>

lemma open_token_unique:
  assumes "open_token mac s1 t = Some v1" "open_token mac s2 t = Some v2"
  shows "v1 = v2"
proof -
  obtain p s bytes where 1: "t = p @ 46 # s" "46 \<notin> set p" "decodeBase64Url p = Some bytes"
    "json_parse (text_decode bytes) = Some v1"
    using assms(1) by (rule open_token_Some)
  obtain p' s' bytes' where 2: "t = p' @ 46 # s'" "46 \<notin> set p'" "decodeBase64Url p' = Some bytes'"
    "json_parse (text_decode bytes') = Some v2"
    using assms(2) by (rule open_token_Some)
  have "js_split 46 t = p # js_split 46 s" "js_split 46 t = p' # js_split 46 s'"
    using 1 2 js_split_append_sep by metis+
  then have "p = p'" by simp
  with 1 2 show ?thesis by simp
qed

end
