(* ===== verification/Tickets.thy ===== *)
theory Tickets
  imports SignedToken
begin

text \<open>
  The two viewer tickets of \<open>packages/protocol/src\<close>: the development ticket (\<open>ticket.ts\<close>)
  and the production session ticket (\<open>sessionTicket.ts\<close>). A verified payload is the parsed
  object itself, as in the code. Times are integers; \<open>dateNow\<close> is \<open>Date.now()\<close>.
\<close>

section \<open>The contract of a signed token\<close>

text \<open>
  What the clients of a token module rely on: \<open>verify\<close> answers exactly the payload the
  token opens to, if it is admitted and inside its time window; an admitted payload names
  the module's issuer.
\<close>

locale ticket_kind =
  fixes admits :: "json \<Rightarrow> bool"
    and issuer :: string
    and maxLifetime :: int
    and verify :: "mac \<Rightarrow> int \<Rightarrow> jstring \<Rightarrow> jstring \<Rightarrow> json option"
  assumes verify_iff:
      "verify mac now secret token = Some v \<longleftrightarrow>
       open_token mac secret token = Some v \<and> admits v \<and> time_valid maxLifetime now v"
    and admits_issuer: "admits v \<Longrightarrow> jget v ''iss'' = Some (JStr (lit issuer))"
begin

lemma verified_secret: "verify mac now secret token = Some v \<Longrightarrow> 32 \<le> length secret"
  unfolding verify_iff by (auto elim: open_token_Some)

lemma verified_signature:
  assumes "verify mac now secret token = Some v"
  shows "\<exists>p s. token = p @ 46 # s \<and>
    decodeBase64Url s = Some (mac (text_encode secret) (text_encode p)) \<and>
    (\<exists>bytes. decodeBase64Url p = Some bytes \<and> json_parse (text_decode bytes) = Some v)"
  using assms unfolding verify_iff by (blast elim: open_token_Some)

lemma verified_window:
  assumes "verify mac now secret token = Some v"
  shows "\<exists>issued expiry. as_integer (jget v ''iat'') = Some issued \<and>
    as_integer (jget v ''exp'') = Some expiry \<and>
    issued \<le> now + 30 \<and> now < expiry \<and> expiry \<le> issued + maxLifetime"
  using assms unfolding verify_iff by (auto simp: time_valid_def split: option.splits)

lemma replay_window:
  assumes "verify mac now1 secret token = Some v" "verify mac now2 secret token = Some w"
  shows "now2 - now1 < maxLifetime + 30"
proof -
  have "v = w"
    using assms unfolding verify_iff by simp
  then show ?thesis
    using verified_window [OF assms(1)] verified_window [OF assms(2)] by auto
qed

lemma verify_sealed:
  assumes "seal_token mac secret (JObj ps) = Inr t" "json_wf (JObj ps)"
    and "\<And>k m. mac k m \<noteq> []" and "admits (JObj ps)" "time_valid maxLifetime now (JObj ps)"
  shows "verify mac now secret t = Some (JObj ps)"
  unfolding verify_iff using open_seal [OF assms(1,2,3)] assms(4,5) by simp

lemma verified_issuer:
  "verify mac now secret token = Some v \<Longrightarrow>
   open_token mac secret token = Some v \<and> jget v ''iss'' = Some (JStr (lit issuer))"
  unfolding verify_iff using admits_issuer by blast

end

section \<open>Development tickets\<close>

datatype role = Agent | Viewer

fun role_text :: "role \<Rightarrow> string" where
  "role_text Agent = ''agent''"
| "role_text Viewer = ''viewer''"

lemma role_text_eq_iff [simp]: "role_text r = role_text q \<longleftrightarrow> r = q"
  by (cases r; cases q) simp_all

definition DEVELOPMENT_TICKET_ISSUER :: string where
  "DEVELOPMENT_TICKET_ISSUER = ''my-mirror-m0-local''"

definition MAX_TICKET_LIFETIME_SECONDS :: int where
  "MAX_TICKET_LIFETIME_SECONDS = 10 * 60"

definition isDevelopmentTicketPayload :: "json \<Rightarrow> bool" where
  "isDevelopmentTicketPayload v \<longleftrightarrow>
     has_exactly [''deviceId'', ''exp'', ''iat'', ''iss'', ''nonce'', ''role'', ''sessionId'', ''sub''] v
     \<and> string_prop v ''deviceId'' opaque_id
     \<and> integer_prop v ''exp''
     \<and> integer_prop v ''iat''
     \<and> jget v ''iss'' = Some (JStr (lit DEVELOPMENT_TICKET_ISSUER))
     \<and> string_prop v ''nonce'' opaque_id
     \<and> (jget v ''role'' = Some (JStr (lit ''agent'')) \<or> jget v ''role'' = Some (JStr (lit ''viewer'')))
     \<and> string_prop v ''sessionId'' opaque_id
     \<and> jget v ''sub'' = Some (JStr (lit ''local-development-user''))"

record ticket_options =
  to_deviceId :: jstring
  to_lifetimeSeconds :: "int option"
  to_nowSeconds :: "int option"
  to_nonce :: jstring
  to_role :: role
  to_secret :: jstring
  to_sessionId :: jstring

definition developmentPayload :: "ticket_options \<Rightarrow> int \<Rightarrow> int \<Rightarrow> (jstring \<times> json) list" where
  "developmentPayload options now lifetime =
     [(lit ''deviceId'', JStr (to_deviceId options)),
      (lit ''exp'', JNum (of_int (now + lifetime))),
      (lit ''iat'', JNum (of_int now)),
      (lit ''iss'', JStr (lit DEVELOPMENT_TICKET_ISSUER)),
      (lit ''nonce'', JStr (to_nonce options)),
      (lit ''role'', JStr (lit (role_text (to_role options)))),
      (lit ''sessionId'', JStr (to_sessionId options)),
      (lit ''sub'', JStr (lit ''local-development-user''))]"

definition createDevelopmentTicket :: "mac \<Rightarrow> int \<Rightarrow> ticket_options \<Rightarrow> token_error + jstring" where
  "createDevelopmentTicket mac dateNow options =
     (let nowSeconds = now_seconds (to_nowSeconds options) dateNow;
          lifetimeSeconds = (case to_lifetimeSeconds options of Some l \<Rightarrow> l | None \<Rightarrow> 5 * 60)
      in if lifetimeSeconds < 1 \<or> lifetimeSeconds > MAX_TICKET_LIFETIME_SECONDS
         then Inl LifetimeOutOfRange
         else seal_token mac (to_secret options)
                (JObj (developmentPayload options nowSeconds lifetimeSeconds)))"

definition verifyDevelopmentTicket ::
  "mac \<Rightarrow> int \<Rightarrow> role option \<Rightarrow> int option \<Rightarrow> jstring \<Rightarrow> jstring \<Rightarrow> json option" where
  "verifyDevelopmentTicket mac dateNow expectedRole nowSeconds secret ticket =
     (case open_token mac secret ticket of
        None \<Rightarrow> None
      | Some payload \<Rightarrow>
          if \<not> isDevelopmentTicketPayload payload then None
          else
            (let now = now_seconds nowSeconds dateNow;
                 hasInvalidTime = (\<not> time_valid MAX_TICKET_LIFETIME_SECONDS now payload)
             in if hasInvalidTime \<or>
                   (case expectedRole of
                      Some r \<Rightarrow> jget payload ''role'' \<noteq> Some (JStr (lit (role_text r)))
                    | None \<Rightarrow> False)
                then None else Some payload))"

definition role_admitted :: "role option \<Rightarrow> json \<Rightarrow> bool" where
  "role_admitted expected v =
     (case expected of Some r \<Rightarrow> jget v ''role'' = Some (JStr (lit (role_text r))) | None \<Rightarrow> True)"

interpretation dev_ticket: ticket_kind
    "\<lambda>v. isDevelopmentTicketPayload v \<and> role_admitted expected v"
    DEVELOPMENT_TICKET_ISSUER MAX_TICKET_LIFETIME_SECONDS
    "\<lambda>mac now. verifyDevelopmentTicket mac 0 expected (Some now)"
  for expected
  by unfold_locales
    (auto simp: verifyDevelopmentTicket_def now_seconds_def role_admitted_def Let_def
      isDevelopmentTicketPayload_def split: option.splits if_splits)

section \<open>Lemmas on development tickets\<close>

lemma created_development_ticket:
  assumes "createDevelopmentTicket mac dateNow options = Inr t"
  obtains l where "1 \<le> l" "l \<le> 600"
    "l = (case to_lifetimeSeconds options of Some l \<Rightarrow> l | None \<Rightarrow> 300)"
    "seal_token mac (to_secret options)
       (JObj (developmentPayload options (now_seconds (to_nowSeconds options) dateNow) l)) = Inr t"
  using assms
  by (auto simp: createDevelopmentTicket_def Let_def MAX_TICKET_LIFETIME_SECONDS_def
      split: if_splits option.splits)

lemma developmentPayload_admitted:
  assumes "opaque_id (to_deviceId options)" "opaque_id (to_nonce options)"
    "opaque_id (to_sessionId options)"
  shows "isDevelopmentTicketPayload (JObj (developmentPayload options now l))"
  using assms by (cases "to_role options")
    (simp_all add: isDevelopmentTicketPayload_def payload_defs developmentPayload_def integer_prop_def)

lemma developmentPayload_wf: "json_wf (JObj (developmentPayload options now l))"
  by (simp add: developmentPayload_def)

lemma developmentPayload_times:
  "time_valid m clock (JObj (developmentPayload options now l)) \<longleftrightarrow>
   now \<le> clock + 30 \<and> clock < now + l \<and> l \<le> m"
  by (auto simp: time_valid_def developmentPayload_def)

section \<open>Session tickets\<close>

datatype permission = View | Control

fun permission_text :: "permission \<Rightarrow> string" where
  "permission_text View = ''view''"
| "permission_text Control = ''control''"

definition SESSION_TICKET_ISSUER :: string where
  "SESSION_TICKET_ISSUER = ''my-mirror-prod-v1''"

definition MAX_SESSION_TICKET_LIFETIME_SECONDS :: int where
  "MAX_SESSION_TICKET_LIFETIME_SECONDS = 15 * 60"

text \<open>\<open>typeof value.sub === 'string' && value.sub.length > 0 && value.sub.length <= 320\<close>.\<close>

definition subject_ok :: "jstring \<Rightarrow> bool" where
  "subject_ok s \<longleftrightarrow> length s > 0 \<and> length s \<le> 320"

definition isSessionTicketPayload :: "json \<Rightarrow> bool" where
  "isSessionTicketPayload v \<longleftrightarrow>
     has_exactly [''deviceId'', ''exp'', ''iat'', ''iss'', ''nonce'', ''permission'', ''role'',
       ''sessionId'', ''sub''] v
     \<and> string_prop v ''deviceId'' opaque_id
     \<and> integer_prop v ''exp''
     \<and> integer_prop v ''iat''
     \<and> jget v ''iss'' = Some (JStr (lit SESSION_TICKET_ISSUER))
     \<and> string_prop v ''nonce'' opaque_id
     \<and> (jget v ''permission'' = Some (JStr (lit ''view''))
        \<or> jget v ''permission'' = Some (JStr (lit ''control'')))
     \<and> jget v ''role'' = Some (JStr (lit ''viewer''))
     \<and> string_prop v ''sessionId'' opaque_id
     \<and> string_prop v ''sub'' subject_ok"

record session_options =
  so_deviceId :: jstring
  so_lifetimeSeconds :: "int option"
  so_nonce :: jstring
  so_nowSeconds :: "int option"
  so_permission :: permission
  so_secret :: jstring
  so_sessionId :: jstring
  so_sub :: jstring

definition sessionPayload :: "session_options \<Rightarrow> int \<Rightarrow> int \<Rightarrow> (jstring \<times> json) list" where
  "sessionPayload options now lifetime =
     [(lit ''deviceId'', JStr (so_deviceId options)),
      (lit ''exp'', JNum (of_int (now + lifetime))),
      (lit ''iat'', JNum (of_int now)),
      (lit ''iss'', JStr (lit SESSION_TICKET_ISSUER)),
      (lit ''nonce'', JStr (so_nonce options)),
      (lit ''permission'', JStr (lit (permission_text (so_permission options)))),
      (lit ''role'', JStr (lit ''viewer'')),
      (lit ''sessionId'', JStr (so_sessionId options)),
      (lit ''sub'', JStr (so_sub options))]"

definition createSessionTicket :: "mac \<Rightarrow> int \<Rightarrow> session_options \<Rightarrow> token_error + jstring" where
  "createSessionTicket mac dateNow options =
     (let nowSeconds = now_seconds (so_nowSeconds options) dateNow;
          lifetimeSeconds = (case so_lifetimeSeconds options of Some l \<Rightarrow> l | None \<Rightarrow> 5 * 60)
      in if lifetimeSeconds < 1 \<or> lifetimeSeconds > MAX_SESSION_TICKET_LIFETIME_SECONDS
         then Inl LifetimeOutOfRange
         else if so_sub options = [] \<or> length (so_sub options) > 320 then Inl SubjectRequired
         else seal_token mac (so_secret options)
                (JObj (sessionPayload options nowSeconds lifetimeSeconds)))"

definition verifySessionTicket ::
  "mac \<Rightarrow> int \<Rightarrow> int option \<Rightarrow> jstring \<Rightarrow> jstring \<Rightarrow> json option" where
  "verifySessionTicket mac dateNow nowSeconds secret ticket =
     (case open_token mac secret ticket of
        None \<Rightarrow> None
      | Some payload \<Rightarrow>
          if \<not> isSessionTicketPayload payload then None
          else if \<not> time_valid MAX_SESSION_TICKET_LIFETIME_SECONDS
                     (now_seconds nowSeconds dateNow) payload
          then None else Some payload)"

interpretation session_ticket: ticket_kind isSessionTicketPayload
    SESSION_TICKET_ISSUER MAX_SESSION_TICKET_LIFETIME_SECONDS
    "\<lambda>mac now. verifySessionTicket mac 0 (Some now)"
  by unfold_locales
    (auto simp: verifySessionTicket_def now_seconds_def isSessionTicketPayload_def
      split: option.splits if_splits)

section \<open>Lemmas on session tickets\<close>

lemma created_session_ticket:
  assumes "createSessionTicket mac dateNow options = Inr t"
  obtains l where "1 \<le> l" "l \<le> 900" "subject_ok (so_sub options)"
    "l = (case so_lifetimeSeconds options of Some l \<Rightarrow> l | None \<Rightarrow> 300)"
    "seal_token mac (so_secret options)
       (JObj (sessionPayload options (now_seconds (so_nowSeconds options) dateNow) l)) = Inr t"
  using assms
  by (auto simp: createSessionTicket_def Let_def MAX_SESSION_TICKET_LIFETIME_SECONDS_def subject_ok_def
      split: if_splits option.splits)

lemma sessionPayload_admitted:
  assumes "opaque_id (so_deviceId options)" "opaque_id (so_nonce options)"
    "opaque_id (so_sessionId options)" "subject_ok (so_sub options)"
  shows "isSessionTicketPayload (JObj (sessionPayload options now l))"
  using assms by (cases "so_permission options")
    (simp_all add: isSessionTicketPayload_def payload_defs sessionPayload_def integer_prop_def)

lemma sessionPayload_wf: "json_wf (JObj (sessionPayload options now l))"
  by (simp add: sessionPayload_def)

lemma sessionPayload_times:
  "time_valid m clock (JObj (sessionPayload options now l)) \<longleftrightarrow>
   now \<le> clock + 30 \<and> clock < now + l \<and> l \<le> m"
  by (auto simp: time_valid_def sessionPayload_def)

section \<open>Issuers and the clock of a verification\<close>

text \<open>Kinds of token with different issuers exclude each other, whatever the secrets.\<close>

lemma issuers_exclude:
  assumes "open_token mac s t = Some v \<and> jget v ''iss'' = Some (JStr (lit i))"
    and "open_token mac s' t = Some w \<and> jget w ''iss'' = Some (JStr (lit j))"
  shows "i = j"
  using open_token_unique [of mac s t v s' w] assms by simp

text \<open>Verification reads the clock only through \<open>now_seconds\<close>.\<close>

lemma development_clock:
  "verifyDevelopmentTicket mac d er ns secret t =
   verifyDevelopmentTicket mac 0 er (Some (now_seconds ns d)) secret t"
  by (simp add: verifyDevelopmentTicket_def split: option.split)

lemma session_clock:
  "verifySessionTicket mac d ns secret t =
   verifySessionTicket mac 0 (Some (now_seconds ns d)) secret t"
  by (simp add: verifySessionTicket_def split: option.split)

text \<open>A ticket with opaque identifiers verifies from thirty seconds before its issue to its expiry.\<close>

lemma session_ticket_verifies:
  assumes "createSessionTicket mac dateNow options = Inr ticket"
    and "opaque_id (so_deviceId options)" "opaque_id (so_nonce options)"
      "opaque_id (so_sessionId options)"
    and "\<And>k m. mac k m \<noteq> []"
    and "issued = now_seconds (so_nowSeconds options) dateNow"
    and "lifetime = (case so_lifetimeSeconds options of Some l \<Rightarrow> l | None \<Rightarrow> 300)"
    and "issued \<le> now_seconds nowSeconds dateNow2 + 30"
      "now_seconds nowSeconds dateNow2 < issued + lifetime"
  shows "verifySessionTicket mac dateNow2 nowSeconds (so_secret options) ticket
    = Some (JObj (sessionPayload options issued lifetime))"
proof -
  obtain l where l: "1 \<le> l" "l \<le> 900" "subject_ok (so_sub options)" "l = lifetime"
    "seal_token mac (so_secret options) (JObj (sessionPayload options issued l)) = Inr ticket"
    using created_session_ticket [OF assms(1)] assms(6,7) by metis
  have "time_valid MAX_SESSION_TICKET_LIFETIME_SECONDS (now_seconds nowSeconds dateNow2)
      (JObj (sessionPayload options issued l))"
    using assms(8,9) l by (simp add: sessionPayload_times MAX_SESSION_TICKET_LIFETIME_SECONDS_def)
  then have "verifySessionTicket mac 0 (Some (now_seconds nowSeconds dateNow2)) (so_secret options) ticket
      = Some (JObj (sessionPayload options issued l))"
    by (rule session_ticket.verify_sealed [OF l(5) sessionPayload_wf assms(5)
        sessionPayload_admitted [OF assms(2-4) l(3)]])
  then show ?thesis
    by (subst session_clock) (simp add: l)
qed

end
