(* ===== verification/Http.thy ===== *)
theory Http
  imports JsonText
begin

text \<open>
  Requests and responses as the Worker and the Pages Function use them. A request carries
  the components the \<open>URL\<close> constructor parses out of its address; header names are lower
  case. The human-readable message beside an error code is not modelled.
\<close>

type_synonym headers = "string \<Rightarrow> jstring option"

record http_request =
  hr_method :: jstring
  hr_hostname :: jstring
  hr_pathname :: jstring
  hr_query :: "(jstring \<times> jstring) list"
  hr_headers :: headers

text \<open>\<open>url.searchParams.get(name)\<close>: the first value.\<close>

definition search_param :: "http_request \<Rightarrow> string \<Rightarrow> jstring option" where
  "search_param request name = map_of (hr_query request) (lit name)"

record json_response =
  resp_status :: nat
  resp_body :: json
  response_headers :: "(string \<times> jstring) list"

definition JSON_HEADERS :: "(string \<times> jstring) list" where
  "JSON_HEADERS =
     [(''cache-control'', lit ''no-store''),
      (''content-type'', lit ''application/json; charset=utf-8''),
      (''x-content-type-options'', lit ''nosniff'')]"

definition jsonError :: "string \<Rightarrow> nat \<Rightarrow> json_response" where
  "jsonError code st =
     \<lparr>resp_status = st, resp_body = JObj [(lit ''code'', JStr (lit code))], response_headers = JSON_HEADERS\<rparr>"

text \<open>
  \<open>headers.set(name, value)\<close>: the value must be a byte string, HTTP white space around it is
  dropped, and NUL, CR or LF inside it are refused. \<open>None\<close> is the \<open>TypeError\<close>.
\<close>

definition http_space :: "code_unit \<Rightarrow> bool" where
  "http_space u \<longleftrightarrow> u = 9 \<or> u = 10 \<or> u = 13 \<or> u = 32"

definition http_strip :: "jstring \<Rightarrow> jstring" where
  "http_strip s = rev (dropWhile http_space (rev (dropWhile http_space s)))"

definition header_value :: "jstring \<Rightarrow> jstring option" where
  "header_value s =
     (let t = http_strip s
      in if list_ex (\<lambda>u. unat u > 255) s \<or> list_ex (\<lambda>u. u = 0 \<or> u = 10 \<or> u = 13) t
         then None else Some t)"

definition header_set :: "string \<Rightarrow> jstring \<Rightarrow> headers \<Rightarrow> headers option" where
  "header_set name v hs = map_option (\<lambda>t. hs(name := Some t)) (header_value v)"

text \<open>\<open>!x\<close> on a JSON value.\<close>

fun json_truthy :: "json \<Rightarrow> bool" where
  "json_truthy JNull = False"
| "json_truthy (JBool b) = b"
| "json_truthy (JNum q) = (q \<noteq> 0)"
| "json_truthy (JStr s) = (s \<noteq> [])"
| "json_truthy _ = True"

section \<open>Lemmas\<close>

lemma http_strip_id: "(\<And>u. u \<in> set s \<Longrightarrow> \<not> http_space u) \<Longrightarrow> http_strip s = s"
proof -
  assume a: "\<And>u. u \<in> set s \<Longrightarrow> \<not> http_space u"
  have d: "dropWhile http_space t = t" if "set t \<subseteq> set s" for t
    using a that by (cases t) auto
  show ?thesis by (simp add: http_strip_def d)
qed

lemma header_value_opaque: "opaque_id s \<Longrightarrow> header_value s = Some s"
proof -
  assume a: "opaque_id s"
  then have u: "is_id_unit u" if "u \<in> set s" for u
    using that by (simp add: opaque_id_def)
  have "\<not> http_space u" "\<not> unat u > 255" "u \<noteq> 0 \<and> u \<noteq> 10 \<and> u \<noteq> 13" if "is_id_unit u" for u
    using that by (auto simp: http_space_def unit_class_defs word_le_nat_alt)
  with u show ?thesis
    by (auto simp: header_value_def Let_def http_strip_id list_ex_iff)
qed

lemma header_value_lit_role [simp]:
  "header_value (lit ''agent'') = Some (lit ''agent'')"
  "header_value (lit ''viewer'') = Some (lit ''viewer'')"
  by code_simp+

end
