(* ===== verification/ViewerConfig.thy ===== *)
theory ViewerConfig
  imports Tickets Http
begin

text \<open>
  Where the viewer takes its connection from: the development parameters
  (\<open>developmentConfig.ts\<close>) or a session ticket (\<open>productionSession.ts\<close>). The platform's URL
  parser is the parameter \<open>parse_url\<close>; \<open>history.state\<close> is a JSON value; the answers of the
  same-origin \<open>/session/ticket\<close> and of \<open>/turn\<close> are arguments (\<open>None\<close> when the request
  fails or its body is no JSON).
\<close>

record url_parts =
  url_protocol :: jstring
  url_hostname :: jstring
  url_pathname :: jstring

type_synonym url_parser = "jstring \<Rightarrow> url_parts option"

record connection_config =
  cc_deviceId :: jstring
  cc_sessionId :: jstring
  cc_ticket :: jstring
  cc_webSocketUrl :: jstring
  cc_iceServers :: "json list option"

definition LOCAL_HOSTS :: "string list" where
  "LOCAL_HOSTS = [''127.0.0.1'', ''localhost'', ''[::1]'']"

section \<open>Development parameters\<close>

text \<open>The check of a candidate, which is a parsed JSON value or the query's four strings.\<close>

definition isDevelopmentConnectionConfig :: "url_parser \<Rightarrow> json \<Rightarrow> connection_config option" where
  "isDevelopmentConnectionConfig parse_url value =
     (case (as_string (jget value ''deviceId''), as_string (jget value ''sessionId''),
            as_string (jget value ''ticket''), as_string (jget value ''webSocketUrl'')) of
        (Some d, Some s, Some t, Some w) \<Rightarrow>
          (case parse_url w of
             None \<Rightarrow> None
           | Some url \<Rightarrow>
               if length d > 0 \<and> length s > 0 \<and> length t > 0 \<and> url_protocol url = lit ''ws:''
                  \<and> url_hostname url \<in> lit ` set LOCAL_HOSTS \<and> url_pathname url = lit ''/ws''
               then Some \<lparr>cc_deviceId = d, cc_sessionId = s, cc_ticket = t, cc_webSocketUrl = w,
                          cc_iceServers = (case jget value ''iceServers'' of
                            Some (JArr l) \<Rightarrow> Some l | _ \<Rightarrow> None)\<rparr>
               else None)
      | _ \<Rightarrow> None)"

definition HISTORY_KEY :: string where
  "HISTORY_KEY = ''mirrorDevelopmentConnection''"

definition readHistoryConfig :: "url_parser \<Rightarrow> json \<Rightarrow> connection_config option" where
  "readHistoryConfig parse_url historyState =
     (case jget historyState HISTORY_KEY of
        Some config \<Rightarrow> isDevelopmentConnectionConfig parse_url config
      | None \<Rightarrow> None)"

definition config_json :: "connection_config \<Rightarrow> json" where
  "config_json c = JObj
     ([(lit ''deviceId'', JStr (cc_deviceId c)), (lit ''sessionId'', JStr (cc_sessionId c)),
       (lit ''ticket'', JStr (cc_ticket c)), (lit ''webSocketUrl'', JStr (cc_webSocketUrl c))]
      @ (case cc_iceServers c of Some l \<Rightarrow> [(lit ''iceServers'', JArr l)] | None \<Rightarrow> []))"

definition readDevelopmentConfig ::
  "url_parser \<Rightarrow> (string \<Rightarrow> jstring option) \<Rightarrow> json \<Rightarrow> connection_config option" where
  "readDevelopmentConfig parse_url param historyState =
     (if truthy (param ''deviceId'') \<and> truthy (param ''sessionId'') \<and> truthy (param ''ticket'')
         \<and> truthy (param ''ws'')
      then isDevelopmentConnectionConfig parse_url (config_json
             \<lparr>cc_deviceId = the (param ''deviceId''), cc_sessionId = the (param ''sessionId''),
              cc_ticket = the (param ''ticket''), cc_webSocketUrl = the (param ''ws''),
              cc_iceServers = None\<rparr>)
      else readHistoryConfig parse_url historyState)"

text \<open>
  The new history state: the object there was, with the configuration under its key. The
  page's address loses its query, so the ticket does not stay in it.
\<close>

definition preserveDevelopmentConfig :: "connection_config \<Rightarrow> json \<Rightarrow> json" where
  "preserveDevelopmentConfig config currentState =
     JObj (al_set (lit HISTORY_KEY) (config_json config)
             (case currentState of JObj ps \<Rightarrow> ps | _ \<Rightarrow> []))"

lemma config_roundtrip:
  assumes "isDevelopmentConnectionConfig parse_url v = Some c"
  shows "isDevelopmentConnectionConfig parse_url (config_json c) = Some c"
proof -
  obtain l where l: "cc_iceServers c = l" by blast
  then show ?thesis
    using assms
    by (cases l) (auto simp: isDevelopmentConnectionConfig_def config_json_def
        split: option.splits if_splits)
qed

lemma preserved_config:
  assumes "isDevelopmentConnectionConfig parse_url v = Some c"
  shows "readHistoryConfig parse_url (preserveDevelopmentConfig c state) = Some c"
  using config_roundtrip [OF assms]
  by (simp add: readHistoryConfig_def preserveDevelopmentConfig_def)

lemma config_local:
  assumes "isDevelopmentConnectionConfig parse_url v = Some c"
  shows "\<exists>url. parse_url (cc_webSocketUrl c) = Some url \<and> url_protocol url = lit ''ws:''
    \<and> url_hostname url \<in> lit ` set LOCAL_HOSTS"
  using assms
  by (auto simp: isDevelopmentConnectionConfig_def split: option.splits if_splits)

section \<open>Production session\<close>

record location =
  loc_protocol :: jstring
  loc_hostname :: jstring
  loc_host :: jstring

definition isProductionHost :: "location \<Rightarrow> bool" where
  "isProductionHost loc \<longleftrightarrow> loc_hostname loc \<notin> lit ` set LOCAL_HOSTS"

definition isSessionTicketResponse :: "json \<Rightarrow> bool" where
  "isSessionTicketResponse v \<longleftrightarrow>
     string_prop v ''deviceId'' (\<lambda>s. length s > 0)
     \<and> (jget v ''permission'' = Some (JStr (lit ''view''))
        \<or> jget v ''permission'' = Some (JStr (lit ''control'')))
     \<and> string_prop v ''sessionId'' (\<lambda>s. length s > 0)
     \<and> string_prop v ''ticket'' (\<lambda>s. length s > 0)"

definition signalingWebSocketUrl :: "jstring option \<Rightarrow> location \<Rightarrow> jstring option" where
  "signalingWebSocketUrl configured loc =
     (if truthy configured then configured
      else if loc_hostname loc \<notin> lit ` set LOCAL_HOSTS then None
      else Some ((if loc_protocol loc = lit ''https:'' then lit ''wss:'' else lit ''ws:'')
                 @ lit ''//'' @ loc_host loc @ lit ''/ws''))"

definition replace_prefix :: "string \<Rightarrow> string \<Rightarrow> jstring \<Rightarrow> jstring" where
  "replace_prefix p q s = (if js_starts_with (lit p) s then lit q @ drop (length p) s else s)"

definition drop_suffix :: "string \<Rightarrow> jstring \<Rightarrow> jstring" where
  "drop_suffix p s =
     (if js_starts_with (rev (lit p)) (rev s) then take (length s - length p) s else s)"

definition signalingBaseUrl :: "jstring option \<Rightarrow> location \<Rightarrow> jstring option" where
  "signalingBaseUrl configured loc =
     map_option
       (\<lambda>wsUrl. drop_suffix ''/ws'' (replace_prefix ''ws:'' ''http:'' (replace_prefix ''wss:'' ''https:'' wsUrl)))
       (signalingWebSocketUrl configured loc)"

text \<open>
  \<open>turn\<close> answers a request to the base address with the ticket: \<open>None\<close> on a failure of any
  kind, the body otherwise.
\<close>

definition fetchIceServers ::
  "(jstring \<Rightarrow> jstring \<Rightarrow> json option) \<Rightarrow> jstring option \<Rightarrow> location \<Rightarrow> jstring \<Rightarrow> json list" where
  "fetchIceServers turn configured loc ticket =
     (case signalingBaseUrl configured loc of
        None \<Rightarrow> []
      | Some base \<Rightarrow>
          (case turn base ticket of
             None \<Rightarrow> []
           | Some payload \<Rightarrow> (case jget payload ''iceServers'' of Some (JArr l) \<Rightarrow> l | _ \<Rightarrow> [])))"

datatype session_error = RequestFailed | MalformedResponse | SignalingUrlMissing

definition requestSessionConfig ::
  "(jstring \<Rightarrow> jstring \<Rightarrow> json option) \<Rightarrow> jstring option \<Rightarrow> location \<Rightarrow> json option \<Rightarrow>
   session_error + connection_config" where
  "requestSessionConfig turn configured loc response =
     (case response of
        None \<Rightarrow> Inl RequestFailed
      | Some payload \<Rightarrow>
          if \<not> isSessionTicketResponse payload then Inl MalformedResponse
          else
            (let ticket = string_of (jget payload ''ticket'');
                 ice = fetchIceServers turn configured loc ticket
             in case signalingWebSocketUrl configured loc of
                  None \<Rightarrow> Inl SignalingUrlMissing
                | Some url \<Rightarrow>
                    Inr \<lparr>cc_deviceId = string_of (jget payload ''deviceId''),
                         cc_sessionId = string_of (jget payload ''sessionId''),
                         cc_ticket = ticket, cc_webSocketUrl = url, cc_iceServers = Some ice\<rparr>))"

end
