(* ===== verification/Regex.thy ===== *)
theory Regex
  imports Prelude
begin

text \<open>
  The language's regular expressions as far as the code's patterns use them: classes,
  sequences, alternatives and repetition, anchored at both ends. Matching is by
  derivatives, so it evaluates. All classes are ASCII, so a match on code units and a
  match on code points (the \<open>u\<close> flag) agree.
\<close>

datatype regex =
    RNone
  | REmpty
  | RClass "(nat \<times> nat) list"
  | RSeq regex regex
  | RAlt regex regex
  | RStar regex

fun in_class :: "(nat \<times> nat) list \<Rightarrow> code_unit \<Rightarrow> bool" where
  "in_class [] u = False"
| "in_class ((a, b) # rs) u = (a \<le> unat u \<and> unat u \<le> b \<or> in_class rs u)"

fun nullable :: "regex \<Rightarrow> bool" where
  "nullable RNone = False"
| "nullable REmpty = True"
| "nullable (RClass rs) = False"
| "nullable (RSeq r s) = (nullable r \<and> nullable s)"
| "nullable (RAlt r s) = (nullable r \<or> nullable s)"
| "nullable (RStar r) = True"

fun deriv :: "code_unit \<Rightarrow> regex \<Rightarrow> regex" where
  "deriv u RNone = RNone"
| "deriv u REmpty = RNone"
| "deriv u (RClass rs) = (if in_class rs u then REmpty else RNone)"
| "deriv u (RSeq r s) =
     (if nullable r then RAlt (RSeq (deriv u r) s) (deriv u s) else RSeq (deriv u r) s)"
| "deriv u (RAlt r s) = RAlt (deriv u r) (deriv u s)"
| "deriv u (RStar r) = RSeq (deriv u r) (RStar r)"

fun rmatch :: "regex \<Rightarrow> jstring \<Rightarrow> bool" where
  "rmatch r [] = nullable r"
| "rmatch r (u # us) = rmatch (deriv u r) us"

section \<open>Notation of patterns\<close>

fun rtext :: "string \<Rightarrow> regex" where
  "rtext [] = REmpty"
| "rtext (c # s) = RSeq (RClass [(of_char c, of_char c)]) (rtext s)"

fun ralts :: "regex list \<Rightarrow> regex" where
  "ralts [] = RNone"
| "ralts (r # rs) = RAlt r (ralts rs)"

fun rrep :: "nat \<Rightarrow> regex \<Rightarrow> regex" where
  "rrep 0 r = REmpty"
| "rrep (Suc n) r = RSeq r (rrep n r)"

definition rplus :: "regex \<Rightarrow> regex" where
  "rplus r = RSeq r (RStar r)"

section \<open>The language of a pattern\<close>

text \<open>Matching by derivatives meets the textbook semantics.\<close>

inductive in_lang :: "regex \<Rightarrow> jstring \<Rightarrow> bool" where
  lang_empty: "in_lang REmpty []"
| lang_class: "in_class rs u \<Longrightarrow> in_lang (RClass rs) [u]"
| lang_seq: "in_lang r x \<Longrightarrow> in_lang s y \<Longrightarrow> in_lang (RSeq r s) (x @ y)"
| lang_left: "in_lang r x \<Longrightarrow> in_lang (RAlt r s) x"
| lang_right: "in_lang s x \<Longrightarrow> in_lang (RAlt r s) x"
| lang_stop: "in_lang (RStar r) []"
| lang_more: "in_lang r x \<Longrightarrow> in_lang (RStar r) y \<Longrightarrow> in_lang (RStar r) (x @ y)"

inductive_simps in_lang_simps [simp]:
  "in_lang RNone x" "in_lang REmpty x" "in_lang (RClass rs) x"
  "in_lang (RSeq r s) x" "in_lang (RAlt r s) x"

lemma nullable_iff: "nullable r \<longleftrightarrow> in_lang r []"
  by (induction r) (auto intro: lang_stop)

lemma star_Cons:
  "in_lang q w \<Longrightarrow> q = RStar r \<Longrightarrow> w = u # us \<Longrightarrow>
   \<exists>x y. us = x @ y \<and> in_lang r (u # x) \<and> in_lang (RStar r) y"
proof (induction arbitrary: u us rule: in_lang.induct)
  case (lang_more r' x y)
  then show ?case by (cases x) auto
qed auto

lemma deriv_iff: "in_lang (deriv u r) us \<longleftrightarrow> in_lang r (u # us)"
proof (induction r arbitrary: us)
  case (RSeq r s)
  show ?case
    by (auto simp: RSeq nullable_iff Cons_eq_append_conv)
next
  case (RStar r)
  show ?case
    by (auto simp: RStar dest: star_Cons [OF _ refl refl]
        intro: lang_more [where x = "u # x" for x, simplified])
qed auto

lemma rmatch_iff: "rmatch r us \<longleftrightarrow> in_lang r us"
  by (induction us arbitrary: r) (simp_all add: nullable_iff deriv_iff)

section \<open>One class, repeated\<close>

lemma in_lang_class_star: "in_lang (RStar (RClass rs)) us \<longleftrightarrow> list_all (in_class rs) us"
proof (induction us)
  case Nil
  show ?case by (simp add: lang_stop)
next
  case (Cons u us)
  have "in_lang (RStar (RClass rs)) (u # us) \<longleftrightarrow> in_class rs u \<and> in_lang (RStar (RClass rs)) us"
    by (auto dest!: star_Cons [OF _ refl refl]
        intro: lang_more [of "RClass rs" "[u]", simplified])
  with Cons show ?case by simp
qed

lemma in_lang_class_seq:
  "in_lang (RSeq (RClass rs) q) us \<longleftrightarrow>
   (case us of [] \<Rightarrow> False | u # w \<Rightarrow> in_class rs u \<and> in_lang q w)"
  by (cases us) (auto intro: exI [of _ "[u]" for u])

lemma rmatch_class_plus [simp]:
  "rmatch (rplus (RClass rs)) us \<longleftrightarrow> us \<noteq> [] \<and> list_all (in_class rs) us"
  by (cases us) (simp_all only: rmatch_iff rplus_def in_lang_class_seq in_lang_class_star
      list.case list.pred_inject simp_thms list.distinct)

lemma rmatch_class_rep [simp]:
  "rmatch (rrep n (RClass rs)) us \<longleftrightarrow> length us = n \<and> list_all (in_class rs) us"
proof -
  have "in_lang (rrep n (RClass rs)) us \<longleftrightarrow> length us = n \<and> list_all (in_class rs) us"
  proof (induction n arbitrary: us)
    case (Suc n)
    show ?case
      by (simp only: rrep.simps in_lang_class_seq Suc) (cases us, auto)
  qed auto
  then show ?thesis by (simp only: rmatch_iff)
qed

section \<open>Patterns without repetition\<close>

text \<open>
  The words of a pattern without repetition, so that a whitelist written as a pattern can
  be compared with a list of words.
\<close>

fun class_units :: "(nat \<times> nat) list \<Rightarrow> code_unit list" where
  "class_units [] = []"
| "class_units ((a, b) # rs) = map word_of_nat [a..<Suc b] @ class_units rs"

fun words_of :: "regex \<Rightarrow> jstring list option" where
  "words_of RNone = Some []"
| "words_of REmpty = Some [[]]"
| "words_of (RClass rs) =
     (if list_all (\<lambda>(a, b). b < 65536) rs then Some (map (\<lambda>u. [u]) (class_units rs)) else None)"
| "words_of (RSeq r s) =
     (case (words_of r, words_of s) of
        (Some xs, Some ys) \<Rightarrow> Some (concat (map (\<lambda>x. map (\<lambda>y. x @ y) ys) xs)) | _ \<Rightarrow> None)"
| "words_of (RAlt r s) =
     (case (words_of r, words_of s) of (Some xs, Some ys) \<Rightarrow> Some (xs @ ys) | _ \<Rightarrow> None)"
| "words_of (RStar r) = None"

lemma class_units_iff:
  "list_all (\<lambda>(a, b). b < 65536) rs \<Longrightarrow> u \<in> set (class_units rs) \<longleftrightarrow> in_class rs u"
proof (induction rs)
  case (Cons p rs)
  obtain a b where p: "p = (a, b)" by (cases p)
  have "u \<in> word_of_nat ` set [a..<Suc b] \<longleftrightarrow> a \<le> unat u \<and> unat u \<le> b"
  proof
    assume "u \<in> word_of_nat ` set [a..<Suc b]"
    then obtain n where "u = word_of_nat n" "a \<le> n" "n \<le> b"
      unfolding set_upt by (auto simp: less_Suc_eq_le)
    moreover have "n < 2 ^ 16" using \<open>n \<le> b\<close> Cons.prems by (simp add: p)
    ultimately show "a \<le> unat u \<and> unat u \<le> b" by (simp add: unat_of_nat)
  next
    assume "a \<le> unat u \<and> unat u \<le> b"
    then show "u \<in> word_of_nat ` set [a..<Suc b]"
      unfolding set_upt by (intro image_eqI [of _ _ "unat u"]) auto
  qed
  with Cons show ?case by (simp add: p del: upt_Suc set_upt)
qed simp

lemma words_of_iff: "words_of r = Some ws \<Longrightarrow> in_lang r us \<longleftrightarrow> us \<in> set ws"
proof (induction r arbitrary: ws us)
  case (RClass rs)
  then show ?case by (auto split: if_splits simp: class_units_iff)
next
  case (RSeq r s)
  then show ?case by (fastforce split: option.splits)
next
  case (RAlt r s)
  then show ?case by (auto split: option.splits)
qed auto

lemma rmatch_words: "words_of r = Some ws \<Longrightarrow> rmatch r us \<longleftrightarrow> us \<in> set ws"
  by (simp add: rmatch_iff words_of_iff)

end
