(* ===== verification/Schema.thy ===== *)
theory Schema
  imports JsonText Regex
begin

text \<open>
  The JSON-Schema constructors the protocol's schemas are built from (\<open>Type.Object\<close> with
  \<open>additionalProperties: false\<close>, \<open>Type.Union\<close>, \<open>Type.Literal\<close>, ...) as a datatype, and the
  contract of a validator for them. The validator itself, Ajv, is a package outside the
  repository: it is a parameter, a function of the schema and the value, and the locale
  \<open>json_schema_validator\<close> states the JSON-Schema meaning of each keyword the code uses.
  \<open>schema_accepts\<close> is the executable reference reading; any validator under the contract
  equals it (\<open>validator_unique\<close>).
\<close>

section \<open>Schemas\<close>

datatype schema =
    SConst string
  | SConstInt int
  | SInteger "int option" "int option"
  | SNumber int int
  | SString "nat option" "nat option" "regex option"
  | SBoolean
  | SNull
  | SArray schema nat
  | SObject "property list"
  | SUnion "schema list"
and property =
    Required string schema
  | Optional string schema

fun property_name :: "property \<Rightarrow> string" where
  "property_name (Required k s) = k"
| "property_name (Optional k s) = k"

fun in_bounds :: "int option \<Rightarrow> int option \<Rightarrow> rat \<Rightarrow> bool" where
  "in_bounds lo hi q =
     ((case lo of None \<Rightarrow> True | Some l \<Rightarrow> of_int l \<le> q)
      \<and> (case hi of None \<Rightarrow> True | Some h \<Rightarrow> q \<le> of_int h))"

text \<open>\<open>minLength\<close>, \<open>maxLength\<close> and \<open>pattern\<close>; lengths count characters.\<close>

definition string_bounds :: "nat option \<Rightarrow> nat option \<Rightarrow> regex option \<Rightarrow> jstring \<Rightarrow> bool" where
  "string_bounds lo hi pat s \<longleftrightarrow>
     (case lo of None \<Rightarrow> True | Some l \<Rightarrow> l \<le> ucs2length s)
     \<and> (case hi of None \<Rightarrow> True | Some h \<Rightarrow> ucs2length s \<le> h)
     \<and> (case pat of None \<Rightarrow> True | Some r \<Rightarrow> rmatch r s)"

definition known_keys :: "property list \<Rightarrow> (jstring \<times> json) list \<Rightarrow> bool" where
  "known_keys props ps \<longleftrightarrow> list_all (\<lambda>(k, w). k \<in> (lit \<circ> property_name) ` set props) ps"

text \<open>A property of an object under the validator \<open>v\<close> of its schema.\<close>

fun property_ok :: "(schema \<Rightarrow> json \<Rightarrow> bool) \<Rightarrow> (jstring \<times> json) list \<Rightarrow> property \<Rightarrow> bool" where
  "property_ok v ps (Required k s) =
     (case map_of ps (lit k) of Some w \<Rightarrow> v s w | None \<Rightarrow> False)"
| "property_ok v ps (Optional k s) =
     (case map_of ps (lit k) of Some w \<Rightarrow> v s w | None \<Rightarrow> True)"

section \<open>The validator's contract\<close>

locale json_schema_validator =
  fixes ajv :: "schema \<Rightarrow> json \<Rightarrow> bool"
  assumes const_law: "ajv (SConst k) v \<longleftrightarrow> v = JStr (lit k)"
    and const_int_law: "ajv (SConstInt i) v \<longleftrightarrow> v = JNum (of_int i)"
    and integer_law: "ajv (SInteger lo hi) v \<longleftrightarrow>
      (case v of JNum q \<Rightarrow> is_integer q \<and> in_bounds lo hi q | _ \<Rightarrow> False)"
    and number_law: "ajv (SNumber l h) v \<longleftrightarrow>
      (case v of JNum q \<Rightarrow> of_int l \<le> q \<and> q \<le> of_int h | _ \<Rightarrow> False)"
    and string_law: "ajv (SString mn mx pat) v \<longleftrightarrow>
      (case v of JStr s \<Rightarrow> string_bounds mn mx pat s | _ \<Rightarrow> False)"
    and boolean_law: "ajv SBoolean v \<longleftrightarrow> (case v of JBool b \<Rightarrow> True | _ \<Rightarrow> False)"
    and null_law: "ajv SNull v \<longleftrightarrow> v = JNull"
    and array_law: "ajv (SArray s m) v \<longleftrightarrow>
      (case v of JArr vs \<Rightarrow> length vs \<le> m \<and> (\<forall>w \<in> set vs. ajv s w) | _ \<Rightarrow> False)"
    and object_law: "ajv (SObject props) v \<longleftrightarrow>
      (case v of
         JObj ps \<Rightarrow> known_keys props ps \<and> (\<forall>p \<in> set props. property_ok ajv ps p)
       | _ \<Rightarrow> False)"
    and union_law: "ajv (SUnion ss) v \<longleftrightarrow> (\<exists>s \<in> set ss. ajv s v)"
begin

lemma required_field:
  assumes "ajv (SObject props) (JObj ps)" "Required k s \<in> set props"
  shows "\<exists>w. map_of ps (lit k) = Some w \<and> ajv s w"
proof -
  have "property_ok ajv ps (Required k s)"
    using assms unfolding object_law json.case by blast
  then show ?thesis by (auto split: option.splits)
qed

lemma optional_field:
  assumes "ajv (SObject props) (JObj ps)" "Optional k s \<in> set props" "map_of ps (lit k) = Some w"
  shows "ajv s w"
proof -
  have "property_ok ajv ps (Optional k s)"
    using assms(1,2) unfolding object_law json.case by blast
  then show ?thesis using assms(3) by simp
qed

lemma no_other_field:
  assumes "ajv (SObject props) (JObj ps)" "k \<in> fst ` set ps"
  shows "\<exists>p \<in> set props. k = lit (property_name p)"
proof -
  have "list_all (\<lambda>(k, w). k \<in> (lit \<circ> property_name) ` set props) ps"
    using assms(1) by (simp add: object_law known_keys_def)
  then show ?thesis using assms(2) by (force simp: list_all_iff)
qed

end

section \<open>The reference reading\<close>

fun schema_accepts :: "schema \<Rightarrow> json \<Rightarrow> bool"
  and property_accepts :: "property \<Rightarrow> (jstring \<times> json) list \<Rightarrow> bool" where
  "schema_accepts (SConst k) v = (v = JStr (lit k))"
| "schema_accepts (SConstInt i) v = (v = JNum (of_int i))"
| "schema_accepts (SInteger lo hi) v =
     (case v of JNum q \<Rightarrow> is_integer q \<and> in_bounds lo hi q | _ \<Rightarrow> False)"
| "schema_accepts (SNumber l h) v =
     (case v of JNum q \<Rightarrow> of_int l \<le> q \<and> q \<le> of_int h | _ \<Rightarrow> False)"
| "schema_accepts (SString lo hi pat) v =
     (case v of JStr s \<Rightarrow> string_bounds lo hi pat s | _ \<Rightarrow> False)"
| "schema_accepts SBoolean v = (case v of JBool b \<Rightarrow> True | _ \<Rightarrow> False)"
| "schema_accepts SNull v = (v = JNull)"
| "schema_accepts (SArray s m) v =
     (case v of JArr vs \<Rightarrow> length vs \<le> m \<and> list_all (schema_accepts s) vs | _ \<Rightarrow> False)"
| "schema_accepts (SObject props) v =
     (case v of
        JObj ps \<Rightarrow> known_keys props ps \<and> list_all (\<lambda>p. property_accepts p ps) props
      | _ \<Rightarrow> False)"
| "schema_accepts (SUnion ss) v = list_ex (\<lambda>s. schema_accepts s v) ss"
| "property_accepts (Required k s) ps =
     (case map_of ps (lit k) of Some w \<Rightarrow> schema_accepts s w | None \<Rightarrow> False)"
| "property_accepts (Optional k s) ps =
     (case map_of ps (lit k) of Some w \<Rightarrow> schema_accepts s w | None \<Rightarrow> True)"

lemma property_accepts_ok: "property_accepts p ps = property_ok schema_accepts ps p"
  by (cases p) simp_all

interpretation reference: json_schema_validator schema_accepts
  by unfold_locales (simp_all add: property_accepts_ok list_all_iff list_ex_iff split: json.split)

text \<open>A validator under the contract is the reference reading.\<close>

context json_schema_validator
begin

lemma validator_reference:
  "ajv s v \<longleftrightarrow> schema_accepts s v"
  "property_ok ajv ps p \<longleftrightarrow> property_accepts p ps"
  by (induction s and p arbitrary: v and ps)
    (simp_all add: const_law const_int_law integer_law number_law string_law boolean_law null_law
      array_law object_law union_law list_all_iff list_ex_iff split: json.split option.split)

end

lemma validator_unique: "json_schema_validator ajv \<Longrightarrow> ajv = schema_accepts"
  by (intro ext) (rule json_schema_validator.validator_reference)

end
