(* ===== verification/Messages.thy ===== *)
theory Messages
  imports Schema
begin

text \<open>
  The message schemas of \<open>packages/protocol/src/schemas\<close> and the four \<open>validate*Message\<close>
  functions of \<open>validation.ts\<close>. The validator is the parameter \<open>ajv\<close>; a validation result
  carries the accepted value, its error list is not modelled (no caller reads it).
\<close>

section \<open>Shared schemas\<close>

definition PROTOCOL_VERSION :: int where
  "PROTOCOL_VERSION = 1"

definition MAX_SAFE_INTEGER :: int where
  "MAX_SAFE_INTEGER = 9007199254740991"

definition id_class :: "(nat \<times> nat) list" where
  "id_class = [(65, 90), (97, 122), (48, 57), (95, 95), (45, 45)]"

definition OpaqueIdSchema :: schema where
  "OpaqueIdSchema = SString (Some 16) (Some 128) (Some (rplus (RClass id_class)))"

definition SequenceSchema :: schema where
  "SequenceSchema = SInteger (Some 0) (Some MAX_SAFE_INTEGER)"

definition TimestampSchema :: schema where
  "TimestampSchema = SInteger (Some 0) None"

definition literals :: "string list \<Rightarrow> schema" where
  "literals ks = SUnion (map SConst ks)"

section \<open>Signaling messages\<close>

definition SIGNALING_TYPES :: "string list" where
  "SIGNALING_TYPES =
     [''agent.online'', ''agent.heartbeat'', ''agent.offline'', ''session.request'',
      ''session.accept'', ''session.reject'', ''session.close'', ''session.configure'',
      ''session.configured'', ''session.policy'', ''webrtc.offer'', ''webrtc.answer'',
      ''webrtc.ice'', ''error'']"

definition signaling_envelope :: "string \<Rightarrow> schema \<Rightarrow> schema" where
  "signaling_envelope type payloadSchema = SObject
     [Required ''payload'' payloadSchema,
      Required ''sequence'' SequenceSchema,
      Required ''sessionId'' OpaqueIdSchema,
      Required ''type'' (SConst type),
      Required ''version'' (SConstInt PROTOCOL_VERSION)]"

definition EmptyPayloadSchema :: schema where
  "EmptyPayloadSchema = SObject []"

definition PermissionSchema :: schema where
  "PermissionSchema = literals [''view'', ''control'']"

definition VideoProfileSchema :: schema where
  "VideoProfileSchema = literals [''low'', ''balanced'', ''high'']"

definition upper_code_class :: "(nat \<times> nat) list" where
  "upper_code_class = [(65, 90), (48, 57), (95, 95)]"

definition signaling_payloads :: "(string \<times> schema) list" where
  "signaling_payloads =
     [(''agent.online'', SObject
        [Required ''agentId'' OpaqueIdSchema, Required ''deviceId'' OpaqueIdSchema,
         Required ''protocolVersion'' (SConstInt PROTOCOL_VERSION)]),
      (''agent.heartbeat'', EmptyPayloadSchema),
      (''agent.offline'', EmptyPayloadSchema),
      (''session.request'', SObject
        [Required ''deviceId'' OpaqueIdSchema, Required ''permission'' PermissionSchema,
         Optional ''videoProfile'' VideoProfileSchema]),
      (''session.accept'', SObject
        [Required ''expiresAt'' (SInteger (Some 0) None), Required ''permission'' PermissionSchema,
         Optional ''videoProfile'' VideoProfileSchema]),
      (''session.reject'', SObject
        [Required ''code'' (literals [''BUSY'', ''EXPIRED'', ''NOT_ALLOWED''])]),
      (''session.close'', SObject
        [Required ''reason''
           (literals [''USER_REQUEST'', ''AGENT_STOPPED'', ''TIMEOUT'', ''WINDOWS_LOCKED''])]),
      (''session.configure'', SObject [Required ''videoProfile'' VideoProfileSchema]),
      (''session.configured'', SObject [Required ''videoProfile'' VideoProfileSchema]),
      (''session.policy'', SObject
        [Required ''controlEnabled'' SBoolean, Required ''controlGranted'' SBoolean,
         Required ''locked'' SBoolean]),
      (''webrtc.offer'', SObject [Required ''sdp'' (SString (Some 1) (Some 131072) None)]),
      (''webrtc.answer'', SObject [Required ''sdp'' (SString (Some 1) (Some 131072) None)]),
      (''webrtc.ice'', SObject
        [Required ''candidate'' (SString (Some 1) (Some 4096) None),
         Optional ''sdpMLineIndex'' (SInteger (Some 0) None),
         Optional ''sdpMid'' (SString None (Some 256) None)]),
      (''error'', SObject
        [Required ''code'' (SString (Some 1) (Some 64) (Some (rplus (RClass upper_code_class)))),
         Required ''retryable'' SBoolean])]"

definition SignalingMessageSchema :: schema where
  "SignalingMessageSchema = SUnion (map (\<lambda>(t, p). signaling_envelope t p) signaling_payloads)"

section \<open>Control messages\<close>

definition CONTROL_EVENTS :: "string list" where
  "CONTROL_EVENTS =
     [''pointer.move'', ''pointer.button'', ''pointer.wheel'', ''key.down'', ''key.up'',
      ''text.input'', ''control.release-all'', ''session.ping'', ''session.pong'',
      ''video.receiver-report'', ''clipboard.text'', ''clipboard.set'']"

definition CLIPBOARD_TEXT_MAX_LENGTH :: nat where
  "CLIPBOARD_TEXT_MAX_LENGTH = 16384"

definition TEXT_INPUT_MAX_LENGTH :: nat where
  "TEXT_INPUT_MAX_LENGTH = 256"

definition event_envelope :: "string \<Rightarrow> schema \<Rightarrow> schema" where
  "event_envelope event dataSchema = SObject
     [Required ''data'' dataSchema,
      Required ''event'' (SConst event),
      Required ''sequence'' SequenceSchema,
      Required ''sessionId'' OpaqueIdSchema,
      Required ''timestamp'' TimestampSchema,
      Required ''version'' (SConstInt PROTOCOL_VERSION)]"

definition rtexts :: "string list \<Rightarrow> regex" where
  "rtexts ks = ralts (map rtext ks)"

definition KEYBOARD_CODE_PATTERN :: regex where
  "KEYBOARD_CODE_PATTERN = ralts
     [RSeq (rtext ''Key'') (RClass [(65, 90)]),
      RSeq (rtext ''Digit'') (RClass [(48, 57)]),
      RSeq (rtext ''Numpad'') (RAlt (RClass [(48, 57)])
        (rtexts [''Add'', ''Subtract'', ''Multiply'', ''Divide'', ''Decimal'', ''Enter'',
          ''Equal'', ''Comma''])),
      rtexts [''NumLock'', ''CapsLock''],
      RSeq (rtext ''Arrow'') (rtexts [''Up'', ''Down'', ''Left'', ''Right'']),
      RSeq (rtext ''F'') (RAlt (RClass [(49, 57)]) (RSeq (rtext ''1'') (RClass [(48, 50)]))),
      rtexts [''Backspace'', ''Tab'', ''Enter'', ''Escape'', ''Space'', ''Delete'', ''Home'',
        ''End'', ''PageUp'', ''PageDown''],
      RSeq (rtext ''Shift'') (rtexts [''Left'', ''Right'']),
      RSeq (rtext ''Control'') (rtexts [''Left'', ''Right'']),
      RSeq (rtext ''Alt'') (rtexts [''Left'', ''Right'']),
      RSeq (rtext ''Meta'') (rtexts [''Left'', ''Right'']),
      rtexts [''Minus'', ''Equal'', ''BracketLeft'', ''BracketRight'', ''Backslash'',
        ''Semicolon'', ''Quote'', ''Backquote'', ''Comma'', ''Period'', ''Slash''],
      RSeq (rtext ''Lang'') (RClass [(49, 50)])]"

definition KeyboardCodeSchema :: schema where
  "KeyboardCodeSchema = SString None (Some 16) (Some KEYBOARD_CODE_PATTERN)"

definition nullable_number :: "int \<Rightarrow> int \<Rightarrow> schema" where
  "nullable_number l h = SUnion [SNumber l h, SNull]"

definition control_data :: "(string \<times> schema) list" where
  "control_data =
     [(''pointer.move'', SObject [Required ''x'' (SNumber 0 1), Required ''y'' (SNumber 0 1)]),
      (''pointer.button'', SObject
        [Required ''action'' (literals [''down'', ''up'']),
         Required ''button'' (literals [''left'', ''right'', ''middle''])]),
      (''pointer.wheel'', SObject
        [Required ''deltaX'' (SInteger (Some (- 1200)) (Some 1200)),
         Required ''deltaY'' (SInteger (Some (- 1200)) (Some 1200))]),
      (''key.down'', SObject [Required ''code'' KeyboardCodeSchema]),
      (''key.up'', SObject [Required ''code'' KeyboardCodeSchema]),
      (''text.input'', SObject
        [Required ''text'' (SString (Some 1) (Some TEXT_INPUT_MAX_LENGTH) None)]),
      (''control.release-all'', SObject []),
      (''session.ping'', SObject []),
      (''session.pong'', SObject []),
      (''video.receiver-report'', SObject
        [Required ''jitterMs'' (nullable_number 0 60000),
         Required ''packetLossPercent'' (nullable_number 0 100),
         Required ''receivedBitrateMbps'' (SNumber 0 1000),
         Required ''route'' (literals [''direct'', ''turn'', ''unknown''])]),
      (''clipboard.text'', SObject
        [Required ''text'' (SString None (Some CLIPBOARD_TEXT_MAX_LENGTH) None)]),
      (''clipboard.set'', SObject
        [Required ''text'' (SString (Some 1) (Some CLIPBOARD_TEXT_MAX_LENGTH) None)])]"

definition ControlMessageSchema :: schema where
  "ControlMessageSchema = SUnion (map (\<lambda>(e, d). event_envelope e d) control_data)"

section \<open>File and image-clipboard messages\<close>

definition FILE_EVENTS :: "string list" where
  "FILE_EVENTS =
     [''file.offer'', ''file.complete'', ''file.cancel'', ''file.accept'', ''file.progress'',
      ''file.done'', ''file.error'', ''file.list-request'', ''file.list'', ''file.download'',
      ''file.download-offer'', ''file.download-complete'']"

definition FILE_MAX_BYTES :: int where
  "FILE_MAX_BYTES = 500 * 1024 * 1024"

definition FileNameSchema :: schema where
  "FileNameSchema = SString (Some 1) (Some 255) None"

definition FileSizeSchema :: schema where
  "FileSizeSchema = SInteger (Some 0) (Some FILE_MAX_BYTES)"

definition hex_class :: "(nat \<times> nat) list" where
  "hex_class = [(48, 57), (97, 102)]"

definition Sha256Schema :: schema where
  "Sha256Schema = SString None None (Some (rrep 64 (RClass hex_class)))"

definition error_code_class :: "(nat \<times> nat) list" where
  "error_code_class = [(65, 90), (95, 95)]"

definition ErrorCodeSchema :: schema where
  "ErrorCodeSchema = SString None (Some 48) (Some (rplus (RClass error_code_class)))"

definition transfer_only :: schema where
  "transfer_only = SObject [Required ''transferId'' OpaqueIdSchema]"

definition file_data :: "(string \<times> schema) list" where
  "file_data =
     [(''file.offer'', SObject
        [Required ''name'' FileNameSchema, Required ''sha256'' Sha256Schema,
         Required ''size'' FileSizeSchema, Required ''transferId'' OpaqueIdSchema]),
      (''file.complete'', transfer_only),
      (''file.cancel'', transfer_only),
      (''file.accept'', transfer_only),
      (''file.progress'', SObject
        [Required ''received'' FileSizeSchema, Required ''transferId'' OpaqueIdSchema]),
      (''file.done'', SObject
        [Required ''savedAs'' FileNameSchema, Required ''transferId'' OpaqueIdSchema]),
      (''file.error'', SObject
        [Required ''code'' ErrorCodeSchema, Required ''transferId'' OpaqueIdSchema]),
      (''file.list-request'', SObject []),
      (''file.list'', SObject
        [Required ''files'' (SArray
           (SObject [Required ''name'' FileNameSchema, Required ''size'' FileSizeSchema]) 500)]),
      (''file.download'', SObject
        [Required ''name'' FileNameSchema, Required ''transferId'' OpaqueIdSchema]),
      (''file.download-offer'', SObject
        [Required ''name'' FileNameSchema, Required ''size'' FileSizeSchema,
         Required ''transferId'' OpaqueIdSchema]),
      (''file.download-complete'', SObject
        [Required ''sha256'' Sha256Schema, Required ''transferId'' OpaqueIdSchema])]"

definition FileMessageSchema :: schema where
  "FileMessageSchema = SUnion (map (\<lambda>(e, d). event_envelope e d) file_data)"

definition IMAGE_CLIPBOARD_EVENTS :: "string list" where
  "IMAGE_CLIPBOARD_EVENTS =
     [''clipboard.image-offer'', ''clipboard.image-complete'', ''clipboard.image-applied'',
      ''clipboard.image-error'']"

definition CLIPBOARD_IMAGE_MAX_BYTES :: int where
  "CLIPBOARD_IMAGE_MAX_BYTES = 20 * 1024 * 1024"

definition image_data :: "(string \<times> schema) list" where
  "image_data =
     [(''clipboard.image-offer'', SObject
        [Required ''mimeType'' (SConst ''image/png''), Required ''sha256'' Sha256Schema,
         Required ''size'' (SInteger (Some 1) (Some CLIPBOARD_IMAGE_MAX_BYTES)),
         Required ''transferId'' OpaqueIdSchema]),
      (''clipboard.image-complete'', transfer_only),
      (''clipboard.image-applied'', transfer_only),
      (''clipboard.image-error'', SObject
        [Required ''code'' ErrorCodeSchema, Required ''transferId'' OpaqueIdSchema])]"

definition ImageClipboardMessageSchema :: schema where
  "ImageClipboardMessageSchema = SUnion (map (\<lambda>(e, d). event_envelope e d) image_data)"

section \<open>Validation\<close>

definition validate :: "(json \<Rightarrow> bool) \<Rightarrow> json \<Rightarrow> json option" where
  "validate validator input = (if validator input then Some input else None)"

definition validateControlMessage :: "(schema \<Rightarrow> json \<Rightarrow> bool) \<Rightarrow> json \<Rightarrow> json option" where
  "validateControlMessage ajv input = validate (ajv ControlMessageSchema) input"

definition validateSignalingMessage :: "(schema \<Rightarrow> json \<Rightarrow> bool) \<Rightarrow> json \<Rightarrow> json option" where
  "validateSignalingMessage ajv input = validate (ajv SignalingMessageSchema) input"

definition validateFileMessage :: "(schema \<Rightarrow> json \<Rightarrow> bool) \<Rightarrow> json \<Rightarrow> json option" where
  "validateFileMessage ajv input = validate (ajv FileMessageSchema) input"

definition validateImageClipboardMessage :: "(schema \<Rightarrow> json \<Rightarrow> bool) \<Rightarrow> json \<Rightarrow> json option" where
  "validateImageClipboardMessage ajv input = validate (ajv ImageClipboardMessageSchema) input"

lemmas validate_defs = validate_def validateControlMessage_def validateSignalingMessage_def
  validateFileMessage_def validateImageClipboardMessage_def

section \<open>Identifiers and codes\<close>

lemma in_id_class [simp]: "in_class id_class u \<longleftrightarrow> is_id_unit u"
  by (auto simp: id_class_def unit_class_defs word_le_nat_alt unat_eq_nat_uint [symmetric]
      word_unat_eq_iff)

lemma ucs2length_ascii: "list_all (\<lambda>u. unat u < 0xD800) s \<Longrightarrow> ucs2length s = length s"
  by (induction s rule: ucs2length.induct) (auto simp: high_surrogate_def)

lemma id_unit_ascii: "is_id_unit u \<Longrightarrow> unat u < 0xD800"
  by (auto simp: unit_class_defs word_le_nat_alt)

lemma string_bounds_opaque:
  "string_bounds (Some 16) (Some 128) (Some (rplus (RClass id_class))) s \<longleftrightarrow> opaque_id s"
proof -
  have "ucs2length s = length s" if "\<forall>u \<in> set s. is_id_unit u"
    using that by (intro ucs2length_ascii) (auto simp: list_all_iff id_unit_ascii)
  moreover have "s \<noteq> []" if "16 \<le> length s"
    using that by auto
  ultimately show ?thesis
    by (auto simp: string_bounds_def opaque_id_def list_all_iff)
qed

lemma known_keys_Nil: "known_keys [] ps \<longleftrightarrow> ps = []"
  by (cases ps) (auto simp: known_keys_def)

context json_schema_validator
begin

lemma opaque_id_schema: "ajv OpaqueIdSchema v \<longleftrightarrow> (\<exists>s. v = JStr s \<and> opaque_id s)"
  by (cases v) (simp_all add: OpaqueIdSchema_def string_law string_bounds_opaque)

lemma literals_schema: "ajv (literals ks) v \<longleftrightarrow> (\<exists>k \<in> set ks. v = JStr (lit k))"
  by (simp add: literals_def union_law const_law)

lemma empty_object: "ajv (SObject []) v \<longleftrightarrow> v = JObj []"
  by (cases v) (auto simp: object_law known_keys_Nil)

lemma sequence_schema:
  "ajv SequenceSchema v \<longleftrightarrow> (\<exists>n. v = JNum (of_int n) \<and> 0 \<le> n \<and> n \<le> MAX_SAFE_INTEGER)"
proof
  assume "ajv SequenceSchema v"
  then obtain q where q: "v = JNum q" "is_integer q" "0 \<le> q" "q \<le> of_int MAX_SAFE_INTEGER"
    by (cases v) (simp_all add: SequenceSchema_def integer_law)
  then have "q = of_int \<lfloor>q\<rfloor>" by (metis is_integer_def)
  then obtain n where "q = of_int n" by blast
  with q show "\<exists>n. v = JNum (of_int n) \<and> 0 \<le> n \<and> n \<le> MAX_SAFE_INTEGER"
    by auto
qed (auto simp: SequenceSchema_def integer_law)

lemma signaling_schema:
  "ajv SignalingMessageSchema v \<longleftrightarrow>
   (\<exists>t p. (t, p) \<in> set signaling_payloads \<and> ajv (signaling_envelope t p) v)"
  by (force simp: SignalingMessageSchema_def union_law)

lemma signaling_envelope_fields:
  assumes "ajv (signaling_envelope t p) v"
  shows "\<exists>ps w n s. v = JObj ps \<and>
    (\<forall>k \<in> fst ` set ps. k \<in> lit ` {''payload'', ''sequence'', ''sessionId'', ''type'', ''version''}) \<and>
    map_of ps (lit ''payload'') = Some w \<and> ajv p w \<and>
    map_of ps (lit ''sequence'') = Some (JNum (of_int n)) \<and> 0 \<le> n \<and> n \<le> MAX_SAFE_INTEGER \<and>
    map_of ps (lit ''sessionId'') = Some (JStr s) \<and> opaque_id s \<and>
    map_of ps (lit ''type'') = Some (JStr (lit t)) \<and>
    map_of ps (lit ''version'') = Some (JNum 1)"
proof -
  note ajv = assms [unfolded signaling_envelope_def]
  obtain ps where v: "v = JObj ps"
    using ajv unfolding object_law by (cases v) simp_all
  note field = required_field [OF ajv [unfolded v]]
  have keys: "\<forall>k \<in> fst ` set ps.
      k \<in> lit ` {''payload'', ''sequence'', ''sessionId'', ''type'', ''version''}"
    using no_other_field [OF ajv [unfolded v]] by fastforce
  have "\<exists>w. map_of ps (lit ''payload'') = Some w \<and> ajv p w"
    by (rule field) simp
  moreover have "\<exists>w. map_of ps (lit ''sequence'') = Some w \<and> ajv SequenceSchema w"
    by (rule field) simp
  moreover have "\<exists>w. map_of ps (lit ''sessionId'') = Some w \<and> ajv OpaqueIdSchema w"
    by (rule field) simp
  moreover have "\<exists>w. map_of ps (lit ''type'') = Some w \<and> ajv (SConst t) w"
    by (rule field) simp
  moreover have "\<exists>w. map_of ps (lit ''version'') = Some w \<and> ajv (SConstInt PROTOCOL_VERSION) w"
    by (rule field) simp
  ultimately show ?thesis
    using v keys
    by (auto simp: sequence_schema opaque_id_schema const_law const_int_law PROTOCOL_VERSION_def)
qed

lemma signaling_envelope_intro:
  assumes "ajv p w" "0 \<le> n" "n \<le> MAX_SAFE_INTEGER" "opaque_id s"
  shows "ajv (signaling_envelope t p)
    (JObj [(lit ''payload'', w), (lit ''sequence'', JNum (of_int n)), (lit ''sessionId'', JStr s),
           (lit ''type'', JStr (lit t)), (lit ''version'', JNum 1)])"
proof -
  have "ajv SequenceSchema (JNum (of_int n))" "ajv OpaqueIdSchema (JStr s)"
    using assms by (auto simp: sequence_schema opaque_id_schema)
  then show ?thesis
    using assms
    by (simp add: signaling_envelope_def object_law known_keys_def const_law const_int_law
        PROTOCOL_VERSION_def)
qed

end

section \<open>Message fields\<close>

definition message_type :: "json \<Rightarrow> jstring" where
  "message_type m = string_of (jget m ''type'')"

definition message_sessionId :: "json \<Rightarrow> jstring" where
  "message_sessionId m = string_of (jget m ''sessionId'')"

lemma signaling_types: "map fst signaling_payloads = SIGNALING_TYPES"
  by (simp add: signaling_payloads_def SIGNALING_TYPES_def)

lemma signaling_types_distinct: "distinct (map fst signaling_payloads)"
  by (simp add: signaling_types SIGNALING_TYPES_def)

lemma validated_type:
  assumes "json_schema_validator ajv" "validateSignalingMessage ajv v = Some m"
  shows "m = v" "message_type m \<in> lit ` set SIGNALING_TYPES" "opaque_id (message_sessionId m)"
proof -
  note laws = json_schema_validator.signaling_schema [OF assms(1)]
    json_schema_validator.signaling_envelope_fields [OF assms(1)]
  show "m = v" using assms(2) by (simp add: validate_defs split: if_splits)
  have "ajv SignalingMessageSchema m"
    using assms(2) by (auto simp: validate_defs split: if_splits)
  then obtain t p where t: "(t, p) \<in> set signaling_payloads" "ajv (signaling_envelope t p) m"
    unfolding laws(1) by blast
  have "t \<in> set SIGNALING_TYPES"
    using t(1) by (force simp flip: signaling_types)
  with laws(2) [OF t(2)]
  show "message_type m \<in> lit ` set SIGNALING_TYPES" "opaque_id (message_sessionId m)"
    by (auto simp: message_type_def message_sessionId_def string_of_def)
qed

end
