(* ===== verification/ViewerMetrics.thy ===== *)
theory ViewerMetrics
  imports Messages
begin

text \<open>
  The viewer's measurements (\<open>apps/viewer/src/viewerMetrics.ts\<close>): the route of the selected
  candidate pair, telemetry from two statistics samples, the quality verdict and the
  session clock. Numbers are rationals (binary64 rounding is not modelled); \<open>null\<close> is
  \<open>None\<close>. Quality labels are named by their meaning.
\<close>

section \<open>The connection route\<close>

datatype route = Direct | Turn | UnknownRoute

record ice_record =
  ice_candidateType :: "jstring option"
  ice_id :: "jstring option"
  ice_localCandidateId :: "jstring option"
  ice_nominated :: "bool option"
  ice_protocol :: "jstring option"
  ice_remoteCandidateId :: "jstring option"
  ice_selected :: "bool option"
  ice_selectedCandidatePairId :: "jstring option"
  ice_state :: "jstring option"
  ice_type :: "jstring option"

record route_telemetry =
  rt_protocol :: "jstring option"
  rt_route :: route

definition EMPTY_CONNECTION_ROUTE :: route_telemetry where
  "EMPTY_CONNECTION_ROUTE = \<lparr>rt_protocol = None, rt_route = UnknownRoute\<rparr>"

record route_scan =
  sc_entries :: "jstring \<rightharpoonup> ice_record"
  sc_selected :: "jstring option"
  sc_pairs :: "ice_record list"

definition scan_record :: "ice_record \<Rightarrow> route_scan \<Rightarrow> route_scan" where
  "scan_record r s =
     (let s1 = (if truthy (ice_id r) then s\<lparr>sc_entries := (sc_entries s)(the (ice_id r) \<mapsto> r)\<rparr> else s)
      in if ice_type r = Some (lit ''transport'') \<and> truthy (ice_selectedCandidatePairId r)
         then s1\<lparr>sc_selected := ice_selectedCandidatePairId r\<rparr>
         else if ice_type r = Some (lit ''candidate-pair'') then s1\<lparr>sc_pairs := sc_pairs s1 @ [r]\<rparr>
         else s1)"

definition or_else :: "'a option \<Rightarrow> 'a option \<Rightarrow> 'a option" where
  "or_else x y = (case x of Some v \<Rightarrow> Some v | None \<Rightarrow> y)"

definition selected_pair :: "route_scan \<Rightarrow> ice_record option" where
  "selected_pair s =
     or_else (Option.bind (sc_selected s) (sc_entries s))
       (or_else (find (\<lambda>p. ice_selected p = Some True) (sc_pairs s))
         (or_else (find (\<lambda>p. ice_nominated p = Some True \<and> ice_state p = Some (lit ''succeeded''))
                     (sc_pairs s))
           (find (\<lambda>p. ice_state p = Some (lit ''succeeded'')) (sc_pairs s))))"

definition readConnectionRoute :: "ice_record list \<Rightarrow> route_telemetry" where
  "readConnectionRoute report =
     (let s = fold scan_record report
                \<lparr>sc_entries = Map.empty, sc_selected = None, sc_pairs = []\<rparr>
      in case selected_pair s of
           None \<Rightarrow> EMPTY_CONNECTION_ROUTE
         | Some pair \<Rightarrow>
             if \<not> truthy (ice_localCandidateId pair) \<or> \<not> truthy (ice_remoteCandidateId pair)
             then EMPTY_CONNECTION_ROUTE
             else
               (case (sc_entries s (the (ice_localCandidateId pair)),
                      sc_entries s (the (ice_remoteCandidateId pair))) of
                  (Some l, Some r) \<Rightarrow>
                    \<lparr>rt_protocol = or_else (ice_protocol l) (ice_protocol r),
                     rt_route = (if ice_candidateType l = Some (lit ''relay'')
                                    \<or> ice_candidateType r = Some (lit ''relay'')
                                 then Turn else Direct)\<rparr>
                | _ \<Rightarrow> EMPTY_CONNECTION_ROUTE))"

section \<open>Telemetry\<close>

record stats_sample =
  ss_bytesReceived :: rat
  ss_framesDecoded :: rat
  ss_framesPerSecond :: "rat option"
  ss_frameHeight :: "rat option"
  ss_frameWidth :: "rat option"
  ss_jitterSeconds :: "rat option"
  ss_packetsLost :: rat
  ss_packetsReceived :: rat
  ss_qpSum :: "rat option"
  ss_timestampMs :: rat

record video_telemetry =
  averageQp :: "rat option"
  decodedFramesPerSecond :: "rat option"
  frameHeight :: "rat option"
  frameWidth :: "rat option"
  jitterMs :: "rat option"
  packetLossPercent :: "rat option"
  receivedBitrateMbps :: "rat option"

definition EMPTY_VIDEO_TELEMETRY :: video_telemetry where
  "EMPTY_VIDEO_TELEMETRY =
     \<lparr>averageQp = None, decodedFramesPerSecond = None, frameHeight = None, frameWidth = None,
      jitterMs = None, packetLossPercent = None, receivedBitrateMbps = None\<rparr>"

text \<open>\<open>Math.round(value * scale) / scale\<close>; \<open>Math.round\<close> rounds halves up.\<close>

definition rounded :: "rat \<Rightarrow> nat \<Rightarrow> rat" where
  "rounded x digits = of_int \<lfloor>x * 10 ^ digits + 1 / 2\<rfloor> / 10 ^ digits"

definition computeVideoTelemetry :: "stats_sample option \<Rightarrow> stats_sample \<Rightarrow> video_telemetry" where
  "computeVideoTelemetry previous current =
     (let delta = (\<lambda>f. case previous of Some p \<Rightarrow> f current - f p | None \<Rightarrow> - 1);
          elapsedSeconds = (case previous of
            Some p \<Rightarrow> (ss_timestampMs current - ss_timestampMs p) / 1000 | None \<Rightarrow> 0);
          bytesDelta = delta ss_bytesReceived;
          receivedDelta = delta ss_packetsReceived;
          lostDelta = delta ss_packetsLost;
          frameDelta = delta ss_framesDecoded;
          qpDelta = (case (previous, ss_qpSum current) of
            (Some p, Some q) \<Rightarrow> (case ss_qpSum p of Some q' \<Rightarrow> q - q' | None \<Rightarrow> - 1)
          | _ \<Rightarrow> - 1);
          packetDelta = receivedDelta + lostDelta
      in \<lparr>averageQp = (if frameDelta > 0 \<and> qpDelta \<ge> 0
                       then Some (rounded (qpDelta / frameDelta) 1) else None),
          decodedFramesPerSecond = (case ss_framesPerSecond current of
            Some f \<Rightarrow> Some (rounded f 1)
          | None \<Rightarrow> if elapsedSeconds > 0 \<and> frameDelta \<ge> 0
                    then Some (rounded (frameDelta / elapsedSeconds) 1) else None),
          frameHeight = ss_frameHeight current,
          frameWidth = ss_frameWidth current,
          jitterMs = (case ss_jitterSeconds current of
            Some j \<Rightarrow> Some (rounded (j * 1000) 1) | None \<Rightarrow> None),
          packetLossPercent = (if packetDelta > 0 \<and> lostDelta \<ge> 0
                       then Some (rounded (lostDelta / packetDelta * 100) 1) else None),
          receivedBitrateMbps = (if elapsedSeconds > 0 \<and> bytesDelta \<ge> 0
                       then Some (rounded (bytesDelta * 8 / elapsedSeconds / 1000000) 2) else None)\<rparr>)"

section \<open>Quality and clock\<close>

datatype quality_tone = Neutral | Good | Fair | Poor

datatype quality_label = QualityDegraded | Unstable | Measuring | Smooth | Normal | Delayed

definition reaches :: "rat option \<Rightarrow> rat \<Rightarrow> bool" where
  "reaches x l = (case x of Some v \<Rightarrow> v \<ge> l | None \<Rightarrow> False)"

text \<open>\<open>roundTripTimeMs\<close> is \<open>None\<close> for \<open>null\<close> and for a number that is not finite.\<close>

definition getConnectionQuality ::
  "rat option \<Rightarrow> video_telemetry \<Rightarrow> quality_label \<times> quality_tone" where
  "getConnectionQuality roundTripTimeMs video =
     (if reaches (packetLossPercent video) 5 \<or> reaches (averageQp video) 38
      then (QualityDegraded, Poor)
      else if reaches (packetLossPercent video) 1 \<or> reaches (jitterMs video) 30
              \<or> reaches (averageQp video) 32
      then (Unstable, Fair)
      else (case roundTripTimeMs of
              None \<Rightarrow> (Measuring, Neutral)
            | Some t \<Rightarrow>
                if t \<le> 80 then (Smooth, Good) else if t \<le> 180 then (Normal, Fair) else (Delayed, Poor)))"

definition pad2 :: "int \<Rightarrow> jstring" where
  "pad2 n = (let t = int_text n in replicate (2 - length t) 48 @ t)"

definition formatSessionDuration :: "rat option \<Rightarrow> jstring" where
  "formatSessionDuration elapsedSeconds =
     (let safeSeconds = (case elapsedSeconds of Some s \<Rightarrow> max 0 \<lfloor>s\<rfloor> | None \<Rightarrow> 0);
          hours = safeSeconds div 3600;
          minutes = safeSeconds mod 3600 div 60;
          seconds = safeSeconds mod 60;
          minuteSecond = pad2 minutes @ 58 # pad2 seconds
      in if hours > 0 then pad2 hours @ 58 # minuteSecond else minuteSecond)"

datatype display_mode = Fit | Actual

datatype mode_label = OriginalSize | FitScreen

definition getDisplayModeLabel :: "display_mode \<Rightarrow> mode_label" where
  "getDisplayModeLabel mode = (if mode = Fit then OriginalSize else FitScreen)"

section \<open>Lemmas\<close>

lemma rounded_mono: "x \<le> y \<Longrightarrow> rounded x d \<le> rounded y d"
proof -
  assume "x \<le> y"
  then have "x * 10 ^ d + 1 / 2 \<le> y * 10 ^ d + 1 / 2"
    by (simp add: mult_right_mono)
  then have "\<lfloor>x * 10 ^ d + 1 / 2\<rfloor> \<le> \<lfloor>y * 10 ^ d + 1 / 2\<rfloor>"
    by (rule floor_mono)
  then show ?thesis
    unfolding rounded_def by (intro divide_right_mono) simp_all
qed

lemma rounded_int: "rounded (of_int n) d = of_int n"
proof -
  have "(of_int n :: rat) * 10 ^ d + 1 / 2 = of_int (n * 10 ^ d) + 1 / 2" by simp
  moreover have "\<lfloor>(of_int (n * 10 ^ d) :: rat) + 1 / 2\<rfloor> = n * 10 ^ d"
    by (rule floor_unique) simp_all
  ultimately show ?thesis by (simp add: rounded_def)
qed

lemma packet_loss_bounds:
  assumes "packetLossPercent (computeVideoTelemetry (Some p) c) = Some l"
    and "ss_packetsReceived p \<le> ss_packetsReceived c"
  shows "0 \<le> l \<and> l \<le> 100"
proof -
  define lost received where "lost = ss_packetsLost c - ss_packetsLost p"
    and "received = ss_packetsReceived c - ss_packetsReceived p"
  have l: "0 < received + lost" "0 \<le> lost" "l = rounded (lost / (received + lost) * 100) 1"
    using assms(1) by (auto simp: computeVideoTelemetry_def Let_def lost_def received_def
        split: if_splits)
  have "lost \<le> received + lost" using assms(2) by (simp add: received_def)
  then have "0 \<le> lost / (received + lost) * 100" "lost / (received + lost) * 100 \<le> 100"
    using l(1,2) by (simp_all add: divide_le_eq)
  then show ?thesis
    using rounded_mono [of 0 "lost / (received + lost) * 100" 1]
      rounded_mono [of "lost / (received + lost) * 100" 100 1]
      rounded_int [of 0 1] rounded_int [of 100 1] l(3) by simp
qed

end
