(* ===== verification/RemoteState.thy ===== *)
theory RemoteState
  imports ViewerRecovery ViewerConfig ViewerMetrics
begin

text \<open>
  The state of the viewer's session hook (\<open>apps/viewer/src/useRemoteSession.ts\<close>): its refs
  and React states as one record, with the sockets and peer connections it has opened as two
  stores (a reference is an index, so a superseded object keeps its identity), and the
  operations every handler shares: state moves, sending, timers, and the release of
  everything at the end of a cycle. A timer is its captured arguments, or \<open>None\<close>. Which
  \<open>send\<close> on an open data channel throws is the parameter \<open>throws\<close>, by sequence number.
\<close>

section \<open>Platform objects\<close>

datatype video_profile = LowProfile | BalancedProfile | HighProfile

fun profile_text :: "video_profile \<Rightarrow> string" where
  "profile_text LowProfile = ''low''"
| "profile_text BalancedProfile = ''balanced''"
| "profile_text HighProfile = ''high''"

fun as_profile :: "jstring option \<Rightarrow> video_profile option" where
  "as_profile (Some s) =
     (if s = lit ''low'' then Some LowProfile else if s = lit ''balanced'' then Some BalancedProfile
      else if s = lit ''high'' then Some HighProfile else None)"
| "as_profile None = None"

text \<open>A socket with the variables its listeners close over.\<close>

record viewer_socket =
  vs_ready :: channel_state
  vs_sent :: "json list"
  vs_cycle :: nat
  vs_config :: connection_config
  vs_resume :: bool
  vs_profile :: video_profile
  vs_receivedServerIssue :: bool
  vs_suppressAutoReconnect :: bool

datatype channel_frame = TextFrame json | BinaryFrame "byte list"

record data_channel =
  dc_ready :: channel_state
  dc_sent :: "channel_frame list"

record viewer_peer =
  vp_state :: peer_state
  vp_cycle :: nat
  vp_config :: connection_config
  vp_control :: data_channel
  vp_image :: data_channel
  vp_file :: data_channel
  vp_offering :: bool

datatype ticket_request = ConnectTicket nat bool video_profile | RecoveryTicket nat video_profile

section \<open>Transfers\<close>

datatype transfer_status = TransferPreparing | TransferSending | TransferVerifying | TransferDone | TransferError

record transfer_state =
  ts_errorCode :: "jstring option"
  ts_fileName :: jstring
  ts_progress :: rat
  ts_status :: transfer_status

text \<open>
  Where \<open>runUpload\<close> is: it awaits the data, the agent's answer, the stream or the result. Its
  variables are the channel it captured, the data once read, and how much of it has been sent.
\<close>

datatype upload_phase = ReadingFile | AwaitingAccept | Streaming | AwaitingDone | UploadSettled

record file_upload =
  fu_transferId :: jstring
  fu_name :: jstring
  fu_size :: nat
  fu_cancelled :: bool
  fu_lastPercent :: int
  fu_phase :: upload_phase
  fu_channel :: nat
  fu_data :: "byte list"
  fu_sent :: nat

datatype download_status = Downloading | DownloadVerifying | DownloadDone | DownloadError

record download_state =
  ds_errorCode :: "jstring option"
  ds_fileName :: jstring
  ds_progress :: rat
  ds_status :: download_status

record file_download =
  fd_transferId :: jstring
  fd_name :: jstring
  fd_size :: nat
  fd_received :: nat
  fd_lastPercent :: int
  fd_chunks :: "byte list list"

record incoming_image =
  ci_chunks :: "byte list list"
  ci_received :: nat
  ci_sha256 :: jstring
  ci_size :: nat
  ci_transferId :: jstring

datatype image_outcome = ImagePending | ImageResolved | ImageRejected jstring

record image_upload =
  iu_transferId :: jstring
  iu_cancelled :: bool
  iu_outcome :: image_outcome
  iu_data :: "byte list"

section \<open>The hook's state\<close>

record viewer =
  isProduction :: bool
  configRef :: "connection_config option"
  isConnecting :: bool
  webSocket :: "nat option"
  peerConnection :: "nat option"
  controlChannel :: "nat option"
  fileChannel :: "nat option"
  imageClipboardChannel :: "nat option"
  viewerSockets :: "viewer_socket list"
  viewerPeers :: "viewer_peer list"
  ticketRequests :: "ticket_request list"
  signalingSequence :: nat
  controlSequence :: nat
  pingTimer :: "(nat \<times> nat \<times> connection_config) option"
  videoStatsTimer :: "(nat \<times> nat) option"
  previousVideoStats :: "stats_sample option"
  missedControlPongs :: nat
  videoProfileTimer :: bool
  videoProfileStabilizeTimer :: bool
  stabilizingVideoProfile :: "video_profile option"
  connectionEstablishmentTimer :: "nat option"
  signalingRecoveryTimer :: "nat option"
  signalingRecoveryDelay :: int
  signalingRecoveryInFlight :: bool
  stateRef :: connection_state
  connectionState :: connection_state
  channelOpenRef :: bool
  trackReadyRef :: bool
  grantedControlRef :: bool
  activeCycle :: nat
  autoReconnectTimer :: bool
  autoReconnectAttempts :: nat
  userDisconnected :: bool
  errorMessage :: "issue_text option"
  errorAction :: "issue_text option"
  canRetry :: bool
  mediaStream :: bool
  roundTripTimeMs :: "int option"
  videoTelemetry :: video_telemetry
  connectionRoute :: route_telemetry
  controlGranted :: bool
  controlLocked :: bool
  controlPolicyEnabled :: bool
  videoProfile :: video_profile
  videoProfileError :: bool
  videoProfilePending :: bool
  videoProfileStabilizing :: bool
  clipboardEntries :: "(nat \<times> int \<times> jstring) list"
  clipboardId :: nat
  clipboardImages :: "(nat \<times> int \<times> byte list) list"
  clipboardImageId :: nat
  canSendClipboardImage :: bool
  canSendFiles :: bool
  fileUpload :: "nat option"
  fileUploads :: "file_upload list"
  fileTransfer :: "transfer_state option"
  fileDownload :: "file_download option"
  fileDownloadState :: "download_state option"
  downloadableFiles :: "(jstring \<times> nat) list"
  verifyingDownloads :: "(file_download \<times> jstring) list"
  savedFiles :: "(jstring \<times> byte list) list"
  incomingClipboardImage :: "incoming_image option"
  verifyingImages :: "incoming_image list"
  clipboardImageUpload :: "nat option"
  imageUploads :: "image_upload list"

definition update_viewer_socket :: "nat \<Rightarrow> (viewer_socket \<Rightarrow> viewer_socket) \<Rightarrow> viewer \<Rightarrow> viewer" where
  "update_viewer_socket i f v = v\<lparr>viewerSockets := (viewerSockets v)[i := f (viewerSockets v ! i)]\<rparr>"

definition update_peer :: "nat \<Rightarrow> (viewer_peer \<Rightarrow> viewer_peer) \<Rightarrow> viewer \<Rightarrow> viewer" where
  "update_peer i f v = v\<lparr>viewerPeers := (viewerPeers v)[i := f (viewerPeers v ! i)]\<rparr>"

section \<open>State moves\<close>

text \<open>
  \<open>transitionConnectionState\<close> throws on a move the table does not allow. \<open>finishOffline\<close>,
  \<open>updateActiveState\<close> and \<open>teardownForCycle\<close> make only moves it allows (\<open>closing_legal\<close>,
  \<open>offline_legal\<close>, \<open>active_step_legal\<close> of \<open>RemoteTeardown\<close>), so the branches that would
  abort them are dead.
\<close>

definition moveTo :: "connection_state \<Rightarrow> viewer \<Rightarrow> state_error + viewer" where
  "moveTo next v =
     (case transitionConnectionState (stateRef v) next of
        Inl e \<Rightarrow> Inl e
      | Inr transitioned \<Rightarrow> Inr (v\<lparr>stateRef := transitioned, connectionState := transitioned\<rparr>))"

definition move_or_stay :: "connection_state \<Rightarrow> viewer \<Rightarrow> viewer" where
  "move_or_stay next v = (case moveTo next v of Inl _ \<Rightarrow> v | Inr v' \<Rightarrow> v')"

definition finishOffline :: "viewer \<Rightarrow> viewer" where
  "finishOffline v =
     (let v1 = (if stateRef v \<noteq> Offline \<and> stateRef v \<noteq> Closing then move_or_stay Closing v else v)
      in if stateRef v1 = Closing then move_or_stay Offline v1 else v1)"

text \<open>\<open>ACTIVE_STATE_ORDER.indexOf(state)\<close>, \<open>None\<close> for -1.\<close>

fun active_index :: "connection_state \<Rightarrow> nat option" where
  "active_index Negotiating = Some 0"
| "active_index ViewActive = Some 1"
| "active_index ControlActive = Some 2"
| "active_index _ = None"

definition updateActiveState :: "viewer \<Rightarrow> viewer" where
  "updateActiveState v =
     (case active_index (stateRef v) of
        None \<Rightarrow> v
      | Some currentIndex \<Rightarrow>
          (let target = deriveActiveState
                 \<lparr>isControlChannelOpen = channelOpenRef v, isVideoTrackReady = trackReadyRef v\<rparr>;
               targetIndex = the (active_index target)
           in fold (\<lambda>index. move_or_stay (ACTIVE_STATE_ORDER ! index))
                [currentIndex + 1..<targetIndex + 1] v))"

section \<open>Sending\<close>

datatype session_failure = SignalingNotOpen

definition signaling_json :: "string \<Rightarrow> jstring \<Rightarrow> nat \<Rightarrow> json \<Rightarrow> json" where
  "signaling_json type sessionId sequence payload = JObj
     [(lit ''payload'', payload), (lit ''sequence'', JNum (of_nat sequence)),
      (lit ''sessionId'', JStr sessionId), (lit ''type'', JStr (lit type)), (lit ''version'', JNum 1)]"

definition control_json :: "string \<Rightarrow> jstring \<Rightarrow> nat \<Rightarrow> int \<Rightarrow> json \<Rightarrow> json" where
  "control_json event sessionId sequence now data = JObj
     [(lit ''data'', data), (lit ''event'', JStr (lit event)),
      (lit ''sequence'', JNum (of_nat sequence)), (lit ''sessionId'', JStr sessionId),
      (lit ''timestamp'', JNum (of_int now)), (lit ''version'', JNum 1)]"

definition socket_ready :: "viewer \<Rightarrow> channel_state option" where
  "socket_ready v = map_option (\<lambda>i. vs_ready (viewerSockets v ! i)) (webSocket v)"

text \<open>
  \<open>sendSignaling({..., sequence: nextSignalingSequence(), ...})\<close>: the number is taken before
  the socket is looked at.
\<close>

definition sendSignaling ::
  "string \<Rightarrow> jstring \<Rightarrow> json \<Rightarrow> viewer \<Rightarrow> (session_failure + unit) \<times> viewer" where
  "sendSignaling type sessionId payload v =
     (let v1 = v\<lparr>signalingSequence := signalingSequence v + 1\<rparr>
      in if socket_ready v1 \<noteq> Some ChOpen then (Inl SignalingNotOpen, v1)
         else (Inr (), update_viewer_socket (the (webSocket v1))
                 (\<lambda>s. s\<lparr>vs_sent := vs_sent s @
                    [signaling_json type sessionId (signalingSequence v1) payload]\<rparr>) v1))"

definition control_ready :: "viewer \<Rightarrow> channel_state option" where
  "control_ready v = map_option (\<lambda>i. dc_ready (vp_control (viewerPeers v ! i))) (controlChannel v)"

definition peer_ready :: "viewer \<Rightarrow> peer_state option" where
  "peer_ready v = map_option (\<lambda>i. vp_state (viewerPeers v ! i)) (peerConnection v)"

text \<open>\<open>channel.send(text)\<close> on the control channel of peer \<open>i\<close>; \<open>None\<close> when it throws.\<close>

definition send_control ::
  "(nat \<Rightarrow> bool) \<Rightarrow> nat \<Rightarrow> nat \<Rightarrow> json \<Rightarrow> viewer \<Rightarrow> viewer option" where
  "send_control throws i sequence message v =
     (if dc_ready (vp_control (viewerPeers v ! i)) \<noteq> ChOpen \<or> throws sequence then None
      else Some (update_peer i (\<lambda>p. p\<lparr>vp_control := (vp_control p)
             \<lparr>dc_sent := dc_sent (vp_control p) @ [TextFrame message]\<rparr>\<rparr>) v))"

section \<open>Timers and statistics\<close>

definition stopPing :: "viewer \<Rightarrow> viewer" where
  "stopPing v = v\<lparr>pingTimer := None, missedControlPongs := 0\<rparr>"

definition stopVideoStats :: "bool \<Rightarrow> viewer \<Rightarrow> viewer" where
  "stopVideoStats reset v =
     (let v1 = v\<lparr>videoStatsTimer := None, previousVideoStats := None\<rparr>
      in if reset
         then v1\<lparr>videoTelemetry := EMPTY_VIDEO_TELEMETRY, connectionRoute := EMPTY_CONNECTION_ROUTE\<rparr>
         else v1)"

definition clearVideoProfileStabilizing :: "viewer \<Rightarrow> viewer" where
  "clearVideoProfileStabilizing v =
     v\<lparr>videoProfileStabilizeTimer := False, stabilizingVideoProfile := None,
       videoProfileStabilizing := False\<rparr>"

definition clearVideoProfileTimer :: "viewer \<Rightarrow> viewer" where
  "clearVideoProfileTimer v = v\<lparr>videoProfileTimer := False\<rparr>"

definition clearConnectionEstablishmentTimer :: "viewer \<Rightarrow> viewer" where
  "clearConnectionEstablishmentTimer v = v\<lparr>connectionEstablishmentTimer := None\<rparr>"

definition cancelAutoReconnect :: "viewer \<Rightarrow> viewer" where
  "cancelAutoReconnect v = v\<lparr>autoReconnectTimer := False\<rparr>"

definition cancelSignalingRecovery :: "viewer \<Rightarrow> viewer" where
  "cancelSignalingRecovery v =
     v\<lparr>signalingRecoveryTimer := None, signalingRecoveryInFlight := False,
       signalingRecoveryDelay := SIGNALING_RECOVERY_INITIAL_DELAY_MS\<rparr>"

definition canPreservePeerDuringSignalingRecovery :: "viewer \<Rightarrow> bool" where
  "canPreservePeerDuringSignalingRecovery v =
     canRecoverSignalingWithoutPeerRestart (stateRef v) (peer_ready v) (control_ready v)"

definition applyConnectionIssue :: "jstring \<Rightarrow> bool option \<Rightarrow> viewer \<Rightarrow> viewer" where
  "applyConnectionIssue code retryable v =
     (case describeConnectionIssue code retryable of
        Some i \<Rightarrow> v\<lparr>errorMessage := Some (issue_message i), errorAction := Some (issue_action i),
                    canRetry := issue_retryable i\<rparr>
      | None \<Rightarrow> v\<lparr>errorMessage := None, errorAction := None, canRetry := False\<rparr>)"

definition AUTO_RECONNECT_MAX_ATTEMPTS :: nat where
  "AUTO_RECONNECT_MAX_ATTEMPTS = 5"

definition scheduleAutoReconnect :: "viewer \<Rightarrow> viewer" where
  "scheduleAutoReconnect v =
     (if userDisconnected v \<or> autoReconnectTimer v
         \<or> autoReconnectAttempts v \<ge> AUTO_RECONNECT_MAX_ATTEMPTS
      then v
      else v\<lparr>autoReconnectAttempts := autoReconnectAttempts v + 1, autoReconnectTimer := True\<rparr>)"

definition scheduleSignalingRecovery :: "nat \<Rightarrow> viewer \<Rightarrow> viewer" where
  "scheduleSignalingRecovery cycle v =
     (if cycle \<noteq> activeCycle v \<or> userDisconnected v \<or> signalingRecoveryTimer v \<noteq> None
         \<or> signalingRecoveryInFlight v \<or> \<not> canPreservePeerDuringSignalingRecovery v
      then v
      else v\<lparr>signalingRecoveryDelay := nextSignalingRecoveryDelay (signalingRecoveryDelay v),
             signalingRecoveryTimer := Some cycle\<rparr>)"

section \<open>Releasing a cycle\<close>

definition close_ready :: "channel_state \<Rightarrow> channel_state" where
  "close_ready s = (if s = ChClosed then ChClosed else ChClosing)"

definition close_channel :: "data_channel \<Rightarrow> data_channel" where
  "close_channel c = c\<lparr>dc_ready := close_ready (dc_ready c)\<rparr>"

text \<open>\<open>peer.close()\<close> closes its channels with it.\<close>

definition close_peer :: "viewer_peer \<Rightarrow> viewer_peer" where
  "close_peer p = p\<lparr>vp_state := PeerClosedState, vp_control := (vp_control p)\<lparr>dc_ready := ChClosed\<rparr>,
     vp_image := (vp_image p)\<lparr>dc_ready := ChClosed\<rparr>, vp_file := (vp_file p)\<lparr>dc_ready := ChClosed\<rparr>\<rparr>"

definition close_viewer_socket :: "viewer_socket \<Rightarrow> viewer_socket" where
  "close_viewer_socket s = s\<lparr>vs_ready := close_ready (vs_ready s)\<rparr>"

text \<open>
  \<open>upload.onFail?.(code)\<close>: it rejects the promise the upload awaits, and \<open>runUpload\<close> then
  shows the error and lets go of the upload. While the bytes are being read or streamed there
  is no such promise, or one already settled, and the call does nothing. The rejection runs in
  a microtask, after the caller returned; no caller reads afterwards what it sets, so its
  effect is taken at once.
\<close>

definition fail_upload :: "nat \<Rightarrow> jstring \<Rightarrow> viewer \<Rightarrow> viewer" where
  "fail_upload i code v =
     (let u = fileUploads v ! i
      in if fu_phase u = AwaitingAccept \<or> fu_phase u = AwaitingDone
         then v\<lparr>fileUploads := (fileUploads v)[i := u\<lparr>fu_phase := UploadSettled\<rparr>],
                fileTransfer := Some \<lparr>ts_errorCode = Some code, ts_fileName = fu_name u,
                  ts_progress = 0, ts_status = TransferError\<rparr>,
                fileUpload := (if fileUpload v = Some i then None else fileUpload v)\<rparr>
         else v)"

definition cancel_upload :: "nat \<Rightarrow> viewer \<Rightarrow> viewer" where
  "cancel_upload i v =
     v\<lparr>fileUploads := (fileUploads v)[i := (fileUploads v ! i)\<lparr>fu_cancelled := True\<rparr>]\<rparr>"

text \<open>\<open>upload.reject(error)\<close>, once: a promise settles only the first time.\<close>

definition settle_image :: "nat \<Rightarrow> bool \<Rightarrow> image_outcome \<Rightarrow> viewer \<Rightarrow> viewer" where
  "settle_image i cancel outcome v =
     v\<lparr>imageUploads := (imageUploads v)[i := (imageUploads v ! i)
         \<lparr>iu_cancelled := iu_cancelled (imageUploads v ! i) \<or> cancel,
          iu_outcome := (if iu_outcome (imageUploads v ! i) = ImagePending then outcome
                         else iu_outcome (imageUploads v ! i))\<rparr>]\<rparr>"

definition release_timers :: "viewer \<Rightarrow> viewer" where
  "release_timers v =
     clearVideoProfileStabilizing (clearVideoProfileTimer (clearConnectionEstablishmentTimer
       (stopVideoStats True (stopPing (cancelSignalingRecovery (cancelAutoReconnect
         (v\<lparr>isConnecting := False\<rparr>)))))))"

definition release_control_channel :: "viewer \<Rightarrow> viewer" where
  "release_control_channel v =
     (case controlChannel v of
        Some i \<Rightarrow> update_peer i (\<lambda>p. p\<lparr>vp_control := close_channel (vp_control p)\<rparr>) v
      | None \<Rightarrow> v)\<lparr>controlChannel := None\<rparr>"

definition release_image_upload :: "viewer \<Rightarrow> viewer" where
  "release_image_upload v =
     (case clipboardImageUpload v of
        Some i \<Rightarrow> (settle_image i True (ImageRejected (lit ''DISCONNECTED'')) v)
                    \<lparr>clipboardImageUpload := None\<rparr>
      | None \<Rightarrow> v)"

definition release_image_channel :: "viewer \<Rightarrow> viewer" where
  "release_image_channel v =
     (case imageClipboardChannel v of
        Some i \<Rightarrow> update_peer i (\<lambda>p. p\<lparr>vp_image := close_channel (vp_image p)\<rparr>) v
      | None \<Rightarrow> v)
       \<lparr>incomingClipboardImage := None, imageClipboardChannel := None, canSendClipboardImage := False\<rparr>"

definition release_upload :: "viewer \<Rightarrow> viewer" where
  "release_upload v =
     (case fileUpload v of
        Some i \<Rightarrow> (fail_upload i (lit ''DISCONNECTED'') (cancel_upload i v))\<lparr>fileUpload := None\<rparr>
      | None \<Rightarrow> v)"

definition release_download :: "viewer \<Rightarrow> viewer" where
  "release_download v =
     (case fileDownload v of
        Some d \<Rightarrow> v\<lparr>fileDownload := None,
          fileDownloadState := Some \<lparr>ds_errorCode = Some (lit ''DISCONNECTED''),
            ds_fileName = fd_name d, ds_progress = 0, ds_status = DownloadError\<rparr>\<rparr>
      | None \<Rightarrow> v)\<lparr>downloadableFiles := []\<rparr>"

definition release_file_channel :: "viewer \<Rightarrow> viewer" where
  "release_file_channel v =
     (case fileChannel v of
        Some i \<Rightarrow> update_peer i (\<lambda>p. p\<lparr>vp_file := close_channel (vp_file p)\<rparr>) v
      | None \<Rightarrow> v)\<lparr>fileChannel := None, canSendFiles := False\<rparr>"

definition release_peer :: "viewer \<Rightarrow> viewer" where
  "release_peer v =
     (case peerConnection v of Some i \<Rightarrow> update_peer i close_peer v | None \<Rightarrow> v)\<lparr>peerConnection := None\<rparr>"

definition release_socket :: "viewer \<Rightarrow> viewer" where
  "release_socket v =
     (case webSocket v of Some i \<Rightarrow> update_viewer_socket i close_viewer_socket v | None \<Rightarrow> v)\<lparr>webSocket := None\<rparr>"

definition releaseResources :: "viewer \<Rightarrow> viewer" where
  "releaseResources v =
     (release_socket (release_peer (release_file_channel (release_download (release_upload
       (release_image_channel (release_image_upload (release_control_channel (release_timers v)))))))))
       \<lparr>mediaStream := False, roundTripTimeMs := None, channelOpenRef := False, trackReadyRef := False,
        grantedControlRef := False, controlGranted := False, videoProfilePending := False,
        videoProfileError := False\<rparr>"

definition teardownForCycle :: "nat \<Rightarrow> viewer \<Rightarrow> viewer" where
  "teardownForCycle cycle v =
     (if cycle \<noteq> activeCycle v then v
      else if stateRef v = Offline \<and> \<not> isConnecting v \<and> webSocket v = None \<and> peerConnection v = None
      then v
      else
        (let v1 = v\<lparr>activeCycle := activeCycle v + 1\<rparr>;
             v2 = (case configRef v1 of
                     Some c \<Rightarrow>
                       if socket_ready v1 = Some ChOpen
                       then snd (sendSignaling ''session.close'' (cc_sessionId c)
                              (JObj [(lit ''reason'', JStr (lit ''USER_REQUEST''))]) v1)
                       else v1
                   | None \<Rightarrow> v1);
             v3 = (if stateRef v2 \<noteq> Offline \<and> stateRef v2 \<noteq> Closing then move_or_stay Closing v2 else v2)
         in finishOffline (releaseResources v3)))"

definition disconnect :: "viewer \<Rightarrow> viewer" where
  "disconnect v =
     (let v1 = cancelAutoReconnect (v\<lparr>userDisconnected := True, autoReconnectAttempts := 0\<rparr>)
      in teardownForCycle (activeCycle v1) v1)"

definition recoverControlChannel :: "nat \<Rightarrow> nat \<Rightarrow> viewer \<Rightarrow> viewer" where
  "recoverControlChannel channel cycle v =
     (if cycle \<noteq> activeCycle v \<or> controlChannel v \<noteq> Some channel \<or> userDisconnected v then v
      else scheduleAutoReconnect (teardownForCycle cycle
             ((stopPing (v\<lparr>channelOpenRef := False\<rparr>))\<lparr>roundTripTimeMs := None\<rparr>)))"

end
