(* ===== verification/RemoteSession.thy ===== *)
theory RemoteSession
  imports RemoteState
begin

text \<open>
  The handlers of the viewer's session hook (\<open>apps/viewer/src/useRemoteSession.ts\<close>): input,
  the heartbeat, statistics, connecting, signaling, the peer connection and the recovery
  timers. \<open>Date.now()\<close> is \<open>now\<close>; \<open>profile\<close> is the \<open>videoProfile\<close> of the render a callback
  belongs to. What the platform decides is the record \<open>platform\<close>: which sends on an open data
  channel throw (by sequence number) and with what message, and for which configurations the
  socket and the peer can be constructed.
\<close>

record platform =
  pf_ajv :: "schema \<Rightarrow> json \<Rightarrow> bool"
  pf_throws :: "nat \<Rightarrow> bool"
  pf_socket :: "connection_config \<Rightarrow> bool"
  pf_peer :: "connection_config \<Rightarrow> bool"
  pf_sendError :: jstring

section \<open>Input\<close>

definition emitControl :: "platform \<Rightarrow> int \<Rightarrow> string \<Rightarrow> json \<Rightarrow> viewer \<Rightarrow> viewer" where
  "emitControl pf now event data v =
     (if stateRef v \<noteq> ControlActive \<or> \<not> grantedControlRef v then v
      else
        (case (configRef v, controlChannel v) of
           (Some c, Some i) \<Rightarrow>
             if control_ready v \<noteq> Some ChOpen then v
             else
               (let v1 = v\<lparr>controlSequence := controlSequence v + 1\<rparr>
                in case send_control (pf_throws pf) i (controlSequence v1)
                          (control_json event (cc_sessionId c) (controlSequence v1) now data) v1 of
                     Some v2 \<Rightarrow> v2
                   | None \<Rightarrow> recoverControlChannel i (activeCycle v1) v1)
         | _ \<Rightarrow> v))"

definition sendPointerMove :: "platform \<Rightarrow> int \<Rightarrow> rat \<Rightarrow> rat \<Rightarrow> viewer \<Rightarrow> viewer" where
  "sendPointerMove pf now x y v =
     emitControl pf now ''pointer.move'' (JObj [(lit ''x'', JNum x), (lit ''y'', JNum y)]) v"

definition sendPointerButton :: "platform \<Rightarrow> int \<Rightarrow> string \<Rightarrow> string \<Rightarrow> viewer \<Rightarrow> viewer" where
  "sendPointerButton pf now button action v =
     emitControl pf now ''pointer.button''
       (JObj [(lit ''action'', JStr (lit action)), (lit ''button'', JStr (lit button))]) v"

definition sendPointerWheel :: "platform \<Rightarrow> int \<Rightarrow> int \<Rightarrow> int \<Rightarrow> viewer \<Rightarrow> viewer" where
  "sendPointerWheel pf now deltaX deltaY v =
     emitControl pf now ''pointer.wheel''
       (JObj [(lit ''deltaX'', JNum (of_int deltaX)), (lit ''deltaY'', JNum (of_int deltaY))]) v"

definition sendKey :: "platform \<Rightarrow> int \<Rightarrow> jstring \<Rightarrow> string \<Rightarrow> viewer \<Rightarrow> viewer" where
  "sendKey pf now code action v =
     emitControl pf now (if action = ''down'' then ''key.down'' else ''key.up'')
       (JObj [(lit ''code'', JStr code)]) v"

definition setRemoteClipboard :: "platform \<Rightarrow> int \<Rightarrow> jstring \<Rightarrow> viewer \<Rightarrow> viewer" where
  "setRemoteClipboard pf now text v =
     (if length text > 0
      then emitControl pf now ''clipboard.set'' (JObj [(lit ''text'', JStr (take 16384 text))]) v
      else v)"

definition releaseRemoteInput :: "platform \<Rightarrow> int \<Rightarrow> viewer \<Rightarrow> viewer" where
  "releaseRemoteInput pf now v = emitControl pf now ''control.release-all'' (JObj []) v"

section \<open>Heartbeat\<close>

definition sendPing ::
  "platform \<Rightarrow> int \<Rightarrow> nat \<Rightarrow> nat \<Rightarrow> connection_config \<Rightarrow> viewer \<Rightarrow> viewer" where
  "sendPing pf now channel cycle c v =
     (if controlChannelNeedsRecovery (dc_ready (vp_control (viewerPeers v ! channel))) (missedControlPongs v)
      then recoverControlChannel channel cycle v
      else
        (let v1 = v\<lparr>controlSequence := controlSequence v + 1,
                    missedControlPongs := missedControlPongs v + 1\<rparr>
         in case send_control (pf_throws pf) channel (controlSequence v1)
                   (control_json ''session.ping'' (cc_sessionId c) (controlSequence v1) now (JObj [])) v1 of
              Some v2 \<Rightarrow> v2
            | None \<Rightarrow> recoverControlChannel channel cycle v1))"

definition startControlPing :: "platform \<Rightarrow> int \<Rightarrow> nat \<Rightarrow> nat \<Rightarrow> viewer \<Rightarrow> viewer" where
  "startControlPing pf now channel cycle v =
     (case configRef v of
        None \<Rightarrow> v
      | Some c \<Rightarrow>
          (sendPing pf now channel cycle c (v\<lparr>missedControlPongs := 0\<rparr>))
            \<lparr>pingTimer := Some (channel, cycle, c)\<rparr>)"

section \<open>Statistics\<close>

record inbound_record =
  ib_bytesReceived :: "rat option"
  ib_framesDecoded :: "rat option"
  ib_framesPerSecond :: "rat option"
  ib_frameHeight :: "rat option"
  ib_frameWidth :: "rat option"
  ib_isRemote :: bool
  ib_jitter :: "rat option"
  ib_kind :: "jstring option"
  ib_mediaType :: "jstring option"
  ib_packetsLost :: "rat option"
  ib_packetsReceived :: "rat option"
  ib_qpSum :: "rat option"
  ib_timestamp :: "rat option"
  ib_type :: "jstring option"

text \<open>A field is \<open>None\<close> where \<open>finiteNumber\<close> gives \<open>null\<close>.\<close>

definition readInboundVideoSample :: "int \<Rightarrow> inbound_record list \<Rightarrow> stats_sample option" where
  "readInboundVideoSample now report =
     (case find (\<lambda>r. ib_type r = Some (lit ''inbound-rtp'') \<and> \<not> ib_isRemote r
                  \<and> (ib_kind r = Some (lit ''video'') \<or> ib_mediaType r = Some (lit ''video''))) report of
        None \<Rightarrow> None
      | Some r \<Rightarrow>
          (let or_zero = (\<lambda>x. case x of Some q \<Rightarrow> q | None \<Rightarrow> 0)
           in Some
             \<lparr>ss_bytesReceived = or_zero (ib_bytesReceived r),
              ss_framesDecoded = or_zero (ib_framesDecoded r),
              ss_framesPerSecond = ib_framesPerSecond r,
              ss_frameHeight = ib_frameHeight r,
              ss_frameWidth = ib_frameWidth r,
              ss_jitterSeconds = ib_jitter r,
              ss_packetsLost = or_zero (ib_packetsLost r),
              ss_packetsReceived = or_zero (ib_packetsReceived r),
              ss_qpSum = ib_qpSum r,
              ss_timestampMs = (case ib_timestamp r of Some t \<Rightarrow> t | None \<Rightarrow> of_int now)\<rparr>))"

fun VIDEO_PROFILE_DIMENSIONS :: "video_profile \<Rightarrow> rat \<times> rat" where
  "VIDEO_PROFILE_DIMENSIONS BalancedProfile = (1600, 900)"
| "VIDEO_PROFILE_DIMENSIONS HighProfile = (1920, 1080)"
| "VIDEO_PROFILE_DIMENSIONS LowProfile = (1280, 720)"

definition finishVideoProfileStabilizingIfDecoded :: "video_telemetry \<Rightarrow> viewer \<Rightarrow> viewer" where
  "finishVideoProfileStabilizingIfDecoded telemetry v =
     (case stabilizingVideoProfile v of
        None \<Rightarrow> v
      | Some profile \<Rightarrow>
          if frameWidth telemetry = Some (fst (VIDEO_PROFILE_DIMENSIONS profile))
             \<and> frameHeight telemetry = Some (snd (VIDEO_PROFILE_DIMENSIONS profile))
          then clearVideoProfileStabilizing v else v)"

fun route_text :: "route \<Rightarrow> string" where
  "route_text Direct = ''direct''"
| "route_text Turn = ''turn''"
| "route_text UnknownRoute = ''unknown''"

definition nullable_json :: "rat option \<Rightarrow> json" where
  "nullable_json x = (case x of Some q \<Rightarrow> JNum q | None \<Rightarrow> JNull)"

definition sendReceiverReport ::
  "platform \<Rightarrow> int \<Rightarrow> nat \<Rightarrow> video_telemetry \<Rightarrow> route_telemetry \<Rightarrow> viewer \<Rightarrow> viewer" where
  "sendReceiverReport pf now channel telemetry route v =
     (case (configRef v, receivedBitrateMbps telemetry) of
        (Some c, Some bitrate) \<Rightarrow>
          if dc_ready (vp_control (viewerPeers v ! channel)) \<noteq> ChOpen
             \<or> (packetLossPercent telemetry = None \<and> jitterMs telemetry = None)
          then v
          else
            (let v1 = v\<lparr>controlSequence := controlSequence v + 1\<rparr>
             in case send_control (pf_throws pf) channel (controlSequence v1)
                       (control_json ''video.receiver-report'' (cc_sessionId c) (controlSequence v1) now
                          (JObj [(lit ''jitterMs'', nullable_json (jitterMs telemetry)),
                                 (lit ''packetLossPercent'', nullable_json (packetLossPercent telemetry)),
                                 (lit ''receivedBitrateMbps'', JNum bitrate),
                                 (lit ''route'', JStr (lit (route_text (rt_route route))))])) v1 of
                  Some v2 \<Rightarrow> v2
                | None \<Rightarrow> v1)
      | _ \<Rightarrow> v)"

text \<open>
  The part of \<open>sampleVideoStats\<close> after \<open>getStats\<close>; the report is its inbound records and its
  ICE records.
\<close>

definition sampleVideoStats ::
  "platform \<Rightarrow> int \<Rightarrow> nat \<Rightarrow> nat \<Rightarrow> inbound_record list \<Rightarrow> ice_record list \<Rightarrow> viewer \<Rightarrow> viewer" where
  "sampleVideoStats pf now peer cycle inbound ice v =
     (case readInboundVideoSample now inbound of
        None \<Rightarrow> v
      | Some sample \<Rightarrow>
          if cycle \<noteq> activeCycle v \<or> peerConnection v \<noteq> Some peer then v
          else
            (let telemetry = computeVideoTelemetry (previousVideoStats v) sample;
                 route = readConnectionRoute ice;
                 v1 = finishVideoProfileStabilizingIfDecoded telemetry
                        (v\<lparr>videoTelemetry := telemetry, connectionRoute := route\<rparr>);
                 v2 = (case controlChannel v1 of
                         Some channel \<Rightarrow> sendReceiverReport pf now channel telemetry route v1
                       | None \<Rightarrow> v1)
             in v2\<lparr>previousVideoStats := Some sample\<rparr>))"

definition startVideoStats :: "nat \<Rightarrow> nat \<Rightarrow> viewer \<Rightarrow> viewer" where
  "startVideoStats peer cycle v = (stopVideoStats False v)\<lparr>videoStatsTimer := Some (peer, cycle)\<rparr>"

section \<open>Connecting\<close>

text \<open>\<open>None\<close> where \<open>new URL\<close> or \<open>new WebSocket\<close> throws.\<close>

definition startConnection ::
  "platform \<Rightarrow> video_profile \<Rightarrow> connection_config \<Rightarrow> nat \<Rightarrow> bool \<Rightarrow> viewer \<Rightarrow> viewer option" where
  "startConnection pf profile c cycle resumeExistingPeer v =
     (if \<not> pf_socket pf c then None
      else Some (v\<lparr>viewerSockets := viewerSockets v @
             [\<lparr>vs_ready = ChConnecting, vs_sent = [], vs_cycle = cycle, vs_config = c,
               vs_resume = resumeExistingPeer, vs_profile = profile, vs_receivedServerIssue = False,
               vs_suppressAutoReconnect = False\<rparr>],
           webSocket := Some (length (viewerSockets v))\<rparr>))"

definition connectInternal :: "platform \<Rightarrow> video_profile \<Rightarrow> bool \<Rightarrow> viewer \<Rightarrow> viewer" where
  "connectInternal pf profile isAuto v =
     (if isConnecting v \<or> stateRef v \<noteq> Offline then v
      else
        (let v1 = v\<lparr>userDisconnected := False\<rparr>;
             v2 = (if \<not> isAuto then cancelAutoReconnect (v1\<lparr>autoReconnectAttempts := 0\<rparr>) else v1);
             cycle = activeCycle v2 + 1;
             v3 = v2\<lparr>errorMessage := None, errorAction := None, canRetry := False,
                     activeCycle := cycle, connectionEstablishmentTimer := Some cycle\<rparr>
         in if \<not> isProduction v3 then
              (case configRef v3 of
                 None \<Rightarrow> clearConnectionEstablishmentTimer v3
               | Some c \<Rightarrow>
                   (case startConnection pf profile c cycle False v3 of
                      Some v4 \<Rightarrow> v4
                    | None \<Rightarrow> applyConnectionIssue (lit ''SIGNALING_HANDSHAKE_FAILED'') None
                                (clearConnectionEstablishmentTimer v3)))
            else v3\<lparr>isConnecting := True,
                    ticketRequests := ticketRequests v3 @ [ConnectTicket cycle isAuto profile]\<rparr>))"

text \<open>The answer to \<open>requestSessionConfig\<close>; \<open>None\<close> where it was rejected.\<close>

definition connect_ticket ::
  "platform \<Rightarrow> nat \<Rightarrow> bool \<Rightarrow> video_profile \<Rightarrow> connection_config option \<Rightarrow> viewer \<Rightarrow> viewer" where
  "connect_ticket pf cycle isAuto profile answer v =
     (let v1 = v\<lparr>isConnecting := False\<rparr>;
          failed = (\<lambda>code w.
            (let w1 = applyConnectionIssue (lit code) None (clearConnectionEstablishmentTimer w)
             in if isAuto then scheduleAutoReconnect w1 else w1))
      in case answer of
           Some fetched \<Rightarrow>
             if cycle \<noteq> activeCycle v1 \<or> stateRef v1 \<noteq> Offline then v1
             else
               (let v2 = v1\<lparr>configRef := Some fetched\<rparr>
                in case startConnection pf profile fetched cycle False v2 of
                     Some v3 \<Rightarrow> v3
                   | None \<Rightarrow> failed ''SIGNALING_HANDSHAKE_FAILED'' v2)
         | None \<Rightarrow>
             if cycle \<noteq> activeCycle v1 then v1 else failed ''SESSION_TICKET_FAILED'' v1)"

definition recovery_ticket ::
  "platform \<Rightarrow> nat \<Rightarrow> video_profile \<Rightarrow> connection_config option \<Rightarrow> viewer \<Rightarrow> viewer" where
  "recovery_ticket pf cycle profile answer v =
     (let v1 = v\<lparr>signalingRecoveryInFlight := False\<rparr>
      in case answer of
           Some fetched \<Rightarrow>
             if cycle \<noteq> activeCycle v1 \<or> userDisconnected v1
                \<or> \<not> canPreservePeerDuringSignalingRecovery v1
             then v1
             else
               (case startConnection pf profile fetched cycle True v1 of
                  Some v2 \<Rightarrow> v2
                | None \<Rightarrow> scheduleSignalingRecovery cycle v1)
         | None \<Rightarrow> scheduleSignalingRecovery cycle v1)"

section \<open>Timers\<close>

definition signaling_recovery_fired :: "platform \<Rightarrow> video_profile \<Rightarrow> nat \<Rightarrow> viewer \<Rightarrow> viewer" where
  "signaling_recovery_fired pf profile cycle v =
     (let v1 = v\<lparr>signalingRecoveryTimer := None\<rparr>
      in if cycle \<noteq> activeCycle v1 \<or> userDisconnected v1 \<or> \<not> canPreservePeerDuringSignalingRecovery v1
         then v1
         else
           (case configRef v1 of
              None \<Rightarrow> v1
            | Some c \<Rightarrow>
                if \<not> isProduction v1 then
                  (case startConnection pf profile c cycle True v1 of Some v2 \<Rightarrow> v2 | None \<Rightarrow> v1)
                else v1\<lparr>signalingRecoveryInFlight := True,
                         ticketRequests := ticketRequests v1 @ [RecoveryTicket cycle profile]\<rparr>))"

definition auto_reconnect_fired :: "platform \<Rightarrow> video_profile \<Rightarrow> viewer \<Rightarrow> viewer" where
  "auto_reconnect_fired pf profile v =
     (let v1 = v\<lparr>autoReconnectTimer := False\<rparr>
      in if userDisconnected v1 \<or> stateRef v1 \<noteq> Offline then v1 else connectInternal pf profile True v1)"

definition establishment_timeout :: "nat \<Rightarrow> viewer \<Rightarrow> viewer" where
  "establishment_timeout cycle v =
     (let v1 = v\<lparr>connectionEstablishmentTimer := None\<rparr>
      in if cycle \<noteq> activeCycle v1 \<or> userDisconnected v1 then v1
         else if peer_ready v1 = Some PeerConnected \<and> trackReadyRef v1 then v1
         else scheduleAutoReconnect (teardownForCycle cycle
                (applyConnectionIssue (lit ''CONNECTION_TIMEOUT'') None v1)))"

text \<open>What a failure inside a handled message leads to, in the handlers' \<open>catch\<close>.\<close>

definition cycle_failed :: "string \<Rightarrow> nat \<Rightarrow> viewer \<Rightarrow> viewer" where
  "cycle_failed code cycle v =
     (if cycle \<noteq> activeCycle v then v
      else scheduleAutoReconnect (teardownForCycle cycle (applyConnectionIssue (lit code) None v)))"

section \<open>Signaling messages\<close>

definition payload_of :: "json \<Rightarrow> string \<Rightarrow> json option" where
  "payload_of m k = Option.bind (jget m ''payload'') (\<lambda>p. jget p k)"

definition new_channel :: data_channel where
  "new_channel = \<lparr>dc_ready = ChConnecting, dc_sent = []\<rparr>"

text \<open>
  \<open>createPeerConnection\<close> up to its first \<open>await\<close>; \<open>offer_ready\<close> below is the rest. \<open>True\<close> when
  it threw. The constructor throws on a configuration it rejects (a malformed ICE server). The
  calls after it take constant arguments on the connection just made, which is not closed, and
  WebRTC gives them no other reason to throw; \<open>setCodecPreferences\<close> is in a \<open>try\<close> of its own.
\<close>

definition createPeerConnection :: "platform \<Rightarrow> nat \<Rightarrow> viewer \<Rightarrow> bool \<times> viewer" where
  "createPeerConnection pf cycle v =
     (case configRef v of
        None \<Rightarrow> (True, v)
      | Some c \<Rightarrow>
          if \<not> pf_peer pf c then (True, v)
          else
            (let i = length (viewerPeers v)
             in (False, v\<lparr>viewerPeers := viewerPeers v @
                   [\<lparr>vp_state = PeerNew, vp_cycle = cycle, vp_config = c, vp_control = new_channel,
                     vp_image = new_channel, vp_file = new_channel, vp_offering = True\<rparr>],
                 peerConnection := Some i, controlChannel := Some i, imageClipboardChannel := Some i,
                 fileChannel := Some i\<rparr>)))"

text \<open>
  The offer is gathered (\<open>None\<close>: a step of the negotiation failed, or there is no SDP). The
  code does not look at the cycle again before it sends.
\<close>

definition offer_ready :: "nat \<Rightarrow> jstring option \<Rightarrow> viewer \<Rightarrow> viewer" where
  "offer_ready i sdp v =
     (let p = viewerPeers v ! i;
          v1 = update_peer i (\<lambda>p. p\<lparr>vp_offering := False\<rparr>) v
      in case sdp of
           None \<Rightarrow> cycle_failed ''WEBRTC_NEGOTIATION_FAILED'' (vp_cycle p) v1
         | Some text \<Rightarrow>
             if text = [] then cycle_failed ''WEBRTC_NEGOTIATION_FAILED'' (vp_cycle p) v1
             else
               (case sendSignaling ''webrtc.offer'' (cc_sessionId (vp_config p))
                       (JObj [(lit ''sdp'', JStr text)]) v1 of
                  (Inr _, v2) \<Rightarrow> v2
                | (Inl _, v2) \<Rightarrow> cycle_failed ''WEBRTC_NEGOTIATION_FAILED'' (vp_cycle p) v2))"

definition session_accepted ::
  "platform \<Rightarrow> json \<Rightarrow> nat \<Rightarrow> connection_config option \<Rightarrow> viewer \<Rightarrow> bool \<times> viewer" where
  "session_accepted pf m cycle resumeConfig v =
     (let granted = (payload_of m ''permission'' = Some (JStr (lit ''control'')));
          v1 = v\<lparr>grantedControlRef := granted, controlGranted := granted,
                 controlPolicyEnabled := granted, controlLocked := False\<rparr>;
          v2 = (case as_profile (as_string (payload_of m ''videoProfile'')) of
                  Some p \<Rightarrow> v1\<lparr>videoProfile := p\<rparr>
                | None \<Rightarrow> v1)
      in case resumeConfig of
           Some c \<Rightarrow>
             (False, if canPreservePeerDuringSignalingRecovery v2
                     then cancelSignalingRecovery (v2\<lparr>configRef := Some c\<rparr>) else v2)
         | None \<Rightarrow>
             (case moveTo Negotiating v2 of
                Inl _ \<Rightarrow> (True, v2)
              | Inr v3 \<Rightarrow> createPeerConnection pf cycle v3))"

definition session_configured :: "json \<Rightarrow> viewer \<Rightarrow> viewer" where
  "session_configured m v =
     (let v1 = clearVideoProfileTimer v;
          profile = as_profile (as_string (payload_of m ''videoProfile''));
          v2 = (case profile of Some p \<Rightarrow> v1\<lparr>videoProfile := p\<rparr> | None \<Rightarrow> v1)
                 \<lparr>videoProfilePending := False, videoProfileError := False\<rparr>
      in (clearVideoProfileStabilizing v2)
           \<lparr>stabilizingVideoProfile := profile, videoProfileStabilizing := True,
             videoProfileStabilizeTimer := True\<rparr>)"

definition session_policy :: "platform \<Rightarrow> int \<Rightarrow> json \<Rightarrow> viewer \<Rightarrow> viewer" where
  "session_policy pf now m v =
     (let enabled = (payload_of m ''controlEnabled'' = Some (JBool True));
          granted = (payload_of m ''controlGranted'' = Some (JBool True));
          locked = (payload_of m ''locked'' = Some (JBool True));
          v1 = v\<lparr>controlPolicyEnabled := enabled, controlLocked := locked\<rparr>
      in if \<not> enabled \<or> \<not> granted \<or> locked
         then (releaseRemoteInput pf now v1)\<lparr>grantedControlRef := False, controlGranted := False\<rparr>
         else v1)"

definition server_issue :: "json \<Rightarrow> nat \<Rightarrow> viewer \<Rightarrow> viewer" where
  "server_issue m cycle v =
     (let code = string_of (payload_of m ''code'');
          isError = (message_type m = lit ''error'')
      in if isError \<and> code = lit ''PEER_OFFLINE'' \<and> canPreservePeerDuringSignalingRecovery v
         then (clearVideoProfileTimer v)\<lparr>videoProfilePending := False, videoProfileError := True\<rparr>
         else teardownForCycle cycle
                (applyConnectionIssue code
                   (if isError then Some (payload_of m ''retryable'' = Some (JBool True)) else None) v))"

definition handleSignalingMessage ::
  "platform \<Rightarrow> int \<Rightarrow> json \<Rightarrow> nat \<Rightarrow> connection_config option \<Rightarrow> viewer \<Rightarrow> bool \<times> viewer" where
  "handleSignalingMessage pf now m cycle resumeConfig v =
     (let type = message_type m
      in if type = lit ''session.accept'' then session_accepted pf m cycle resumeConfig v
         else if type = lit ''webrtc.answer'' \<or> type = lit ''webrtc.ice'' then (False, v)
         else if type = lit ''session.configured'' then (False, session_configured m v)
         else if type = lit ''session.policy'' then (False, session_policy pf now m v)
         else if type = lit ''agent.online'' then
           (False, if stateRef v = Reserved \<or> stateRef v = Negotiating
                   then scheduleAutoReconnect (teardownForCycle cycle v) else v)
         else if type = lit ''session.reject'' \<or> type = lit ''error'' then (False, server_issue m cycle v)
         else if type = lit ''session.close'' \<or> type = lit ''agent.offline'' then
           (False, teardownForCycle cycle (applyConnectionIssue (lit ''AGENT_OFFLINE'') None v))
         else (False, v))"

section \<open>The socket's listeners\<close>

definition session_request :: "viewer_socket \<Rightarrow> json" where
  "session_request s = JObj
     [(lit ''deviceId'', JStr (cc_deviceId (vs_config s))), (lit ''permission'', JStr (lit ''control'')),
      (lit ''videoProfile'', JStr (lit (profile_text (vs_profile s))))]"

definition socket_opened :: "nat \<Rightarrow> viewer \<Rightarrow> viewer" where
  "socket_opened i v =
     (let s = viewerSockets v ! i;
          cycle = vs_cycle s
      in if cycle \<noteq> activeCycle v then update_viewer_socket i close_viewer_socket v
         else if vs_resume s \<and> \<not> canPreservePeerDuringSignalingRecovery v
         then update_viewer_socket i close_viewer_socket v
         else
           (case (if vs_resume s then Inr v else moveTo Online v) of
              Inl _ \<Rightarrow> v
            | Inr v1 \<Rightarrow>
                (case sendSignaling ''session.request'' (cc_sessionId (vs_config s)) (session_request s) v1 of
                   (Inl _, v2) \<Rightarrow> cycle_failed ''SIGNALING_HANDSHAKE_FAILED'' cycle v2
                 | (Inr _, v2) \<Rightarrow>
                     if vs_resume s then v2
                     else
                       (case moveTo Reserved v2 of
                          Inr v3 \<Rightarrow> v3
                        | Inl _ \<Rightarrow> cycle_failed ''SIGNALING_HANDSHAKE_FAILED'' cycle v2))))"

definition mark_issue :: "json \<Rightarrow> viewer_socket \<Rightarrow> viewer_socket" where
  "mark_issue m s =
     (if message_type m = lit ''error'' \<or> message_type m = lit ''session.reject''
      then s\<lparr>vs_receivedServerIssue := True,
             vs_suppressAutoReconnect := (payload_of m ''code'' = Some (JStr (lit ''SESSION_REPLACED'')))\<rparr>
      else s)"

definition socket_message :: "platform \<Rightarrow> int \<Rightarrow> nat \<Rightarrow> jstring \<Rightarrow> viewer \<Rightarrow> viewer" where
  "socket_message pf now i text v =
     (let s = viewerSockets v ! i;
          cycle = vs_cycle s
      in if cycle \<noteq> activeCycle v then v
         else
           (case json_parse text of
              None \<Rightarrow> v
            | Some parsed \<Rightarrow>
                (case validateSignalingMessage (pf_ajv pf) parsed of
                   None \<Rightarrow> v
                 | Some m \<Rightarrow>
                     (let v1 = update_viewer_socket i (mark_issue m) v
                      in if vs_resume s \<and> message_type m = lit ''error''
                            \<and> payload_of m ''code'' = Some (JStr (lit ''AGENT_OFFLINE''))
                         then v1
                         else
                           (case handleSignalingMessage pf now m cycle
                                   (if vs_resume s then Some (vs_config s) else None) v1 of
                              (False, v2) \<Rightarrow> v2
                            | (True, v2) \<Rightarrow> cycle_failed ''WEBRTC_NEGOTIATION_FAILED'' cycle v2)))))"

definition socket_error :: "nat \<Rightarrow> viewer \<Rightarrow> viewer" where
  "socket_error i v =
     (let s = viewerSockets v ! i
      in if vs_cycle s \<noteq> activeCycle v then v
         else if \<not> vs_receivedServerIssue s \<and> \<not> canPreservePeerDuringSignalingRecovery v
         then applyConnectionIssue (lit ''SIGNALING_HANDSHAKE_FAILED'') None v
         else v)"

definition socket_closed :: "nat \<Rightarrow> viewer \<Rightarrow> viewer" where
  "socket_closed i v =
     (let s = viewerSockets v ! i;
          cycle = vs_cycle s;
          v1 = (if webSocket v = Some i then v\<lparr>webSocket := None\<rparr> else v)
      in if cycle \<noteq> activeCycle v1 \<or> userDisconnected v1 then
           (if \<not> vs_suppressAutoReconnect s \<and> stateRef v1 = Offline then scheduleAutoReconnect v1 else v1)
         else if canPreservePeerDuringSignalingRecovery v1 then scheduleSignalingRecovery cycle v1
         else
           (let v2 = teardownForCycle cycle v1
            in if \<not> vs_suppressAutoReconnect s then scheduleAutoReconnect v2 else v2))"

section \<open>The peer's listeners\<close>

definition control_opened :: "platform \<Rightarrow> int \<Rightarrow> nat \<Rightarrow> viewer \<Rightarrow> viewer" where
  "control_opened pf now i v =
     (let cycle = vp_cycle (viewerPeers v ! i)
      in if cycle \<noteq> activeCycle v then v
         else startControlPing pf now i cycle (updateActiveState (v\<lparr>channelOpenRef := True\<rparr>)))"

definition MAX_CLIPBOARD_ENTRIES :: nat where
  "MAX_CLIPBOARD_ENTRIES = 20"

definition control_message :: "platform \<Rightarrow> int \<Rightarrow> nat \<Rightarrow> jstring \<Rightarrow> viewer \<Rightarrow> viewer" where
  "control_message pf now i text v =
     (if vp_cycle (viewerPeers v ! i) \<noteq> activeCycle v then v
      else
        (case json_parse text of
           None \<Rightarrow> v\<lparr>errorMessage := Some (TextOf ''CHANNEL_MESSAGE'')\<rparr>
         | Some parsed \<Rightarrow>
             (case validateControlMessage (pf_ajv pf) parsed of
                None \<Rightarrow> v
              | Some m \<Rightarrow>
                  if jget m ''event'' = Some (JStr (lit ''session.pong'')) then
                    v\<lparr>missedControlPongs := 0,
                      roundTripTimeMs := Some (max 0 (now -
                        (case as_integer (jget m ''timestamp'') of Some t \<Rightarrow> t | None \<Rightarrow> 0)))\<rparr>
                  else if jget m ''event'' = Some (JStr (lit ''clipboard.text'')) then
                    (let n = clipboardId v + 1
                     in v\<lparr>clipboardId := n,
                          clipboardEntries := take MAX_CLIPBOARD_ENTRIES
                            ((n, now, string_of (Option.bind (jget m ''data'') (\<lambda>d. jget d ''text'')))
                             # clipboardEntries v)\<rparr>)
                  else v)))"

definition control_closed :: "nat \<Rightarrow> viewer \<Rightarrow> viewer" where
  "control_closed i v =
     (let cycle = vp_cycle (viewerPeers v ! i)
      in if cycle \<noteq> activeCycle v then v
         else recoverControlChannel i cycle (clearVideoProfileTimer v))"

definition track_arrived :: "nat \<Rightarrow> viewer \<Rightarrow> viewer" where
  "track_arrived i v =
     (let cycle = vp_cycle (viewerPeers v ! i)
      in if cycle \<noteq> activeCycle v then v
         else
           (let v1 = updateActiveState
                  ((startVideoStats i cycle (v\<lparr>mediaStream := True\<rparr>))\<lparr>trackReadyRef := True\<rparr>)
            in if vp_state (viewerPeers v ! i) = PeerConnected
               then clearConnectionEstablishmentTimer v1 else v1))"

definition peer_state_changed :: "nat \<Rightarrow> viewer \<Rightarrow> viewer" where
  "peer_state_changed i v =
     (case vp_state (viewerPeers v ! i) of
        PeerConnected \<Rightarrow>
          (let v1 = v\<lparr>autoReconnectAttempts := 0\<rparr>
           in if trackReadyRef v1 then clearConnectionEstablishmentTimer v1 else v1)
      | PeerFailed \<Rightarrow>
          scheduleAutoReconnect (teardownForCycle (vp_cycle (viewerPeers v ! i))
            (applyConnectionIssue (lit ''WEBRTC_FAILED'') None v))
      | _ \<Rightarrow> v)"

section \<open>The user\<close>

definition changeVideoProfile :: "video_profile \<Rightarrow> viewer \<Rightarrow> viewer" where
  "changeVideoProfile profile v =
     (if profile = videoProfile v \<or> videoProfilePending v \<or> videoProfileStabilizing v then v
      else
        (let v1 = v\<lparr>videoProfileError := False\<rparr>
         in case configRef v1 of
              None \<Rightarrow> v1\<lparr>videoProfile := profile\<rparr>
            | Some c \<Rightarrow>
                if socket_ready v1 \<noteq> Some ChOpen
                   \<or> (stateRef v1 \<noteq> ViewActive \<and> stateRef v1 \<noteq> ControlActive)
                then v1\<lparr>videoProfile := profile\<rparr>
                else
                  (let v2 = v1\<lparr>videoProfilePending := True, videoProfileError := False\<rparr>
                   in (snd (sendSignaling ''session.configure'' (cc_sessionId c)
                         (JObj [(lit ''videoProfile'', JStr (lit (profile_text profile)))]) v2))
                        \<lparr>videoProfileTimer := True\<rparr>)))"

definition profile_timeout :: "viewer \<Rightarrow> viewer" where
  "profile_timeout v =
     v\<lparr>videoProfileTimer := False, videoProfilePending := False, videoProfileError := True\<rparr>"

definition stabilize_timeout :: "viewer \<Rightarrow> viewer" where
  "stabilize_timeout v =
     v\<lparr>videoProfileStabilizeTimer := False, stabilizingVideoProfile := None,
       videoProfileStabilizing := False\<rparr>"

definition isControlActive :: "viewer \<Rightarrow> bool" where
  "isControlActive v \<longleftrightarrow> connectionState v = ControlActive \<and> controlGranted v"

text \<open>The cleanup of the hook's effect.\<close>

definition unmount :: "viewer \<Rightarrow> viewer" where
  "unmount v = releaseResources (v\<lparr>userDisconnected := True, activeCycle := activeCycle v + 1\<rparr>)"

end
