(* ===== verification/FileUpload.thy ===== *)
theory FileUpload
  imports ViewerRecovery Messages
begin

text \<open>
  The chunked upload of \<open>apps/viewer/src/fileUpload.ts\<close>. The channel and the cancel flag
  change while the code awaits: \<open>env k\<close> is what the \<open>k\<close>-th turn of a loop observes. The
  loops may run forever (a buffer that never drains), so they take fuel; the lemma
  \<open>stream_returns\<close> gives enough fuel for a channel that drains.
\<close>

record observation =
  ob_cancelled :: bool
  ob_ready :: channel_state
  ob_buffered :: nat

definition FILE_CHUNK_BYTES :: nat where
  "FILE_CHUNK_BYTES = 64 * 1024"

definition BUFFERED_AMOUNT_HIGH :: nat where
  "BUFFERED_AMOUNT_HIGH = 4 * 1024 * 1024"

definition stopped :: "observation \<Rightarrow> bool" where
  "stopped ob \<longleftrightarrow> ob_cancelled ob \<or> ob_ready ob \<noteq> ChOpen"

text \<open>The result of a wait: whether the buffer drained, and the turn it ended at.\<close>

fun waitForBufferBelow :: "nat \<Rightarrow> (nat \<Rightarrow> observation) \<Rightarrow> nat \<Rightarrow> nat \<Rightarrow> (bool \<times> nat) option" where
  "waitForBufferBelow 0 env k target = None"
| "waitForBufferBelow (Suc n) env k target =
     (if ob_buffered (env k) > target
      then (if stopped (env k) then Some (False, k) else waitForBufferBelow n env (Suc k) target)
      else Some (True, k))"

record upload =
  up_chunks :: "byte list list"
  up_progress :: "nat list"

fun streamLoop ::
  "nat \<Rightarrow> (nat \<Rightarrow> observation) \<Rightarrow> nat \<Rightarrow> byte list \<Rightarrow> nat \<Rightarrow> upload \<Rightarrow> (bool \<times> upload) option" where
  "streamLoop 0 env k data offset u = None"
| "streamLoop (Suc n) env k data offset u =
     (if offset < length data then
        (if stopped (env k) then Some (False, u)
         else if ob_buffered (env k) > BUFFERED_AMOUNT_HIGH then
           (case waitForBufferBelow n env k (BUFFERED_AMOUNT_HIGH div 2) of
              None \<Rightarrow> None
            | Some (False, _) \<Rightarrow> Some (False, u)
            | Some (True, k') \<Rightarrow> streamLoop n env k' data offset u)
         else
           (let stop = min (offset + FILE_CHUNK_BYTES) (length data)
            in streamLoop n env (Suc k) data stop
                 \<lparr>up_chunks = up_chunks u @ [take (stop - offset) (drop offset data)],
                  up_progress = up_progress u @ [stop]\<rparr>))
      else Some (\<not> stopped (env k), u))"

definition streamFileChunks ::
  "nat \<Rightarrow> (nat \<Rightarrow> observation) \<Rightarrow> byte list \<Rightarrow> (bool \<times> upload) option" where
  "streamFileChunks fuel env data = streamLoop fuel env 0 data 0 \<lparr>up_chunks = [], up_progress = []\<rparr>"

section \<open>What is sent\<close>

text \<open>The chunks so far are the data up to the offset; each is at most a chunk long.\<close>

definition upload_ok :: "byte list \<Rightarrow> nat \<Rightarrow> upload \<Rightarrow> bool" where
  "upload_ok data offset u \<longleftrightarrow> offset \<le> length data
     \<and> concat (up_chunks u) = take offset data
     \<and> (\<forall>c \<in> set (up_chunks u). c \<noteq> [] \<and> length c \<le> FILE_CHUNK_BYTES)
     \<and> up_progress u = map (\<lambda>i. length (concat (take (Suc i) (up_chunks u)))) [0..<length (up_chunks u)]"

lemma chunk_pos: "0 < FILE_CHUNK_BYTES"
  by (simp add: FILE_CHUNK_BYTES_def)

lemma upload_ok_send:
  assumes "upload_ok data offset u" "offset < length data"
  defines "stop \<equiv> min (offset + FILE_CHUNK_BYTES) (length data)"
  shows "upload_ok data stop
    \<lparr>up_chunks = up_chunks u @ [take (stop - offset) (drop offset data)], up_progress = up_progress u @ [stop]\<rparr>"
proof -
  have le: "offset < stop" "stop \<le> length data" "stop - offset \<le> FILE_CHUNK_BYTES"
    using assms(2) chunk_pos by (auto simp: stop_def)
  have cat: "take offset data @ take (stop - offset) (drop offset data) = take stop data"
    using le by (metis le_add_diff_inverse less_imp_le take_add)
  then have len: "length (concat (up_chunks u) @ take (stop - offset) (drop offset data)) = stop"
    using assms(1) le by (simp add: upload_ok_def)
  show ?thesis
    using assms(1) le cat len by (auto simp: upload_ok_def)
qed

lemma stream_ok:
  "streamLoop n env k data offset u = Some (b, u') \<Longrightarrow> upload_ok data offset u \<Longrightarrow>
   \<exists>offset'. offset \<le> offset' \<and> upload_ok data offset' u' \<and> (b \<longrightarrow> offset' = length data)"
proof (induction n arbitrary: k offset u)
  case (Suc n)
  show ?case
  proof (cases "offset < length data \<and> \<not> stopped (env k)")
    case False
    then show ?thesis
      using Suc.prems by (auto simp: upload_ok_def split: if_splits)
  next
    case True
    let ?stop = "min (offset + FILE_CHUNK_BYTES) (length data)"
    show ?thesis
    proof (cases "ob_buffered (env k) > BUFFERED_AMOUNT_HIGH")
      case wait: True
      then show ?thesis
        using Suc.prems True Suc.IH [of _ offset u]
        by (auto split: option.splits prod.splits bool.splits)
    next
      case False
      then have "streamLoop n env (Suc k) data ?stop
          \<lparr>up_chunks = up_chunks u @ [take (?stop - offset) (drop offset data)],
           up_progress = up_progress u @ [?stop]\<rparr> = Some (b, u')"
        using Suc.prems(1) True by (simp add: Let_def)
      then show ?thesis
        using Suc.IH upload_ok_send [OF Suc.prems(2)] True
        by (smt (verit, ccfv_threshold) min.bounded_iff le_add1 less_imp_le order_trans)
    qed
  qed
qed simp

text \<open>With a channel that stays open and drained, a turn per chunk is enough fuel.\<close>

lemma stream_returns:
  assumes "\<And>k. \<not> stopped (env k) \<and> ob_buffered (env k) \<le> BUFFERED_AMOUNT_HIGH"
  shows "length data - offset < n \<Longrightarrow> \<exists>u'. streamLoop n env k data offset u = Some (True, u')"
proof (induction n arbitrary: k offset u)
  case (Suc n)
  show ?case
  proof (cases "offset < length data")
    case True
    let ?stop = "min (offset + FILE_CHUNK_BYTES) (length data)"
    have "offset < ?stop" using True chunk_pos by simp
    then have "length data - ?stop < n" using Suc.prems True by arith
    then show ?thesis
      using Suc.IH True assms [of k] by (simp add: Let_def not_less [symmetric])
  qed (use assms in simp)
qed simp

section \<open>The digest's text\<close>

definition hex_digit :: "nat \<Rightarrow> code_unit" where
  "hex_digit d = (if d < 10 then word_of_nat (48 + d) else word_of_nat (97 + (d - 10)))"

text \<open>\<open>byte.toString(16).padStart(2, '0')\<close>, and the digest as the parameter \<open>digest\<close>.\<close>

definition byte_hex :: "byte \<Rightarrow> jstring" where
  "byte_hex b = [hex_digit (unat b div 16), hex_digit (unat b mod 16)]"

definition sha256Hex :: "(byte list \<Rightarrow> byte list) \<Rightarrow> byte list \<Rightarrow> jstring" where
  "sha256Hex digest data = concat (map byte_hex (digest data))"

lemma hex_digit_class: "list_all (\<lambda>d. in_class hex_class (hex_digit d)) [0..<16]"
  by code_simp

lemma byte_hex_class: "list_all (in_class hex_class) (byte_hex b)"
proof -
  have "unat b div 16 < 16" "unat b mod 16 < 16"
    using unat_byte_less [of b] by auto
  then show ?thesis
    using hex_digit_class by (simp add: byte_hex_def list_all_iff)
qed

lemma sha256Hex_class: "list_all (in_class hex_class) (sha256Hex digest data)"
  using byte_hex_class by (auto simp: sha256Hex_def list_all_iff)

lemma length_sha256Hex: "length (sha256Hex digest data) = 2 * length (digest data)"
proof -
  have "length (concat (map byte_hex bs)) = 2 * length bs" for bs
    by (induction bs) (simp_all add: byte_hex_def)
  then show ?thesis by (simp add: sha256Hex_def)
qed

end
