(* ===== verification/RemoteTransfers.thy ===== *)
theory RemoteTransfers
  imports RemoteSession FileUpload Base64Url
begin

text \<open>
  File transfers and clipboard images of the viewer's session hook. An asynchronous function
  is its synchronous parts: the part up to the first \<open>await\<close> and one definition per
  continuation. Digests are the parameter \<open>digest\<close> of \<open>sha256Hex\<close>, random bytes are arguments.
\<close>

definition newTransferId :: "byte list \<Rightarrow> jstring" where
  "newTransferId bytes = lit ''transfer_'' @ encodeBase64Url bytes"

definition data_of :: "json \<Rightarrow> string \<Rightarrow> json option" where
  "data_of m k = Option.bind (jget m ''data'') (\<lambda>d. jget d k)"

definition text_data :: "json \<Rightarrow> string \<Rightarrow> jstring" where
  "text_data m k = string_of (data_of m k)"

definition nat_data :: "json \<Rightarrow> string \<Rightarrow> nat" where
  "nat_data m k = (case as_integer (data_of m k) of Some n \<Rightarrow> nat n | None \<Rightarrow> 0)"

definition is_event :: "json \<Rightarrow> string \<Rightarrow> bool" where
  "is_event m e \<longleftrightarrow> jget m ''event'' = Some (JStr (lit e))"

section \<open>Clipboard images from the host\<close>

definition finishIncomingClipboardImage :: "incoming_image \<Rightarrow> viewer \<Rightarrow> viewer" where
  "finishIncomingClipboardImage incoming v =
     (if incomingClipboardImage v \<noteq> Some incoming then v
      else
        (let v1 = v\<lparr>incomingClipboardImage := None\<rparr>
         in if ci_received incoming \<noteq> ci_size incoming then v1
            else v1\<lparr>verifyingImages := verifyingImages v1 @ [incoming]\<rparr>))"

text \<open>The digest of the image at place \<open>k\<close> of those awaiting one has been computed.\<close>

definition image_verified :: "(byte list \<Rightarrow> byte list) \<Rightarrow> int \<Rightarrow> nat \<Rightarrow> viewer \<Rightarrow> viewer" where
  "image_verified digest now k v =
     (let incoming = verifyingImages v ! k;
          merged = concat (ci_chunks incoming);
          v1 = v\<lparr>verifyingImages := take k (verifyingImages v) @ drop (Suc k) (verifyingImages v)\<rparr>
      in if sha256Hex digest merged \<noteq> ci_sha256 incoming then v1
         else v1\<lparr>clipboardImageId := clipboardImageId v1 + 1,
                 clipboardImages := take 6 ((clipboardImageId v1 + 1, now, merged) # clipboardImages v1)\<rparr>)"

definition handleImageClipboardMessage :: "json \<Rightarrow> viewer \<Rightarrow> viewer" where
  "handleImageClipboardMessage m v =
     (if is_event m ''clipboard.image-offer'' then
        v\<lparr>incomingClipboardImage := Some
            \<lparr>ci_chunks = [], ci_received = 0, ci_sha256 = text_data m ''sha256'',
             ci_size = nat_data m ''size'', ci_transferId = text_data m ''transferId''\<rparr>\<rparr>
      else if is_event m ''clipboard.image-complete'' then
        (case incomingClipboardImage v of
           Some incoming \<Rightarrow>
             if ci_transferId incoming = text_data m ''transferId''
             then finishIncomingClipboardImage incoming v else v
         | None \<Rightarrow> v)
      else
        (case clipboardImageUpload v of
           Some i \<Rightarrow>
             if iu_transferId (imageUploads v ! i) \<noteq> text_data m ''transferId'' then v
             else settle_image i False
                    (if is_event m ''clipboard.image-applied'' then ImageResolved
                     else ImageRejected (text_data m ''code''))
                    (v\<lparr>clipboardImageUpload := None\<rparr>)
         | None \<Rightarrow> v))"

definition handleImageClipboardChunk :: "byte list \<Rightarrow> viewer \<Rightarrow> viewer" where
  "handleImageClipboardChunk chunk v =
     (case incomingClipboardImage v of
        None \<Rightarrow> v
      | Some incoming \<Rightarrow>
          if length chunk > 256 * 1024 \<or> ci_received incoming + length chunk > ci_size incoming
          then v\<lparr>incomingClipboardImage := None\<rparr>
          else v\<lparr>incomingClipboardImage := Some
                   (incoming\<lparr>ci_chunks := ci_chunks incoming @ [chunk],
                             ci_received := ci_received incoming + length chunk\<rparr>)\<rparr>)"

section \<open>Clipboard images to the host\<close>

definition send_image_frame :: "nat \<Rightarrow> channel_frame \<Rightarrow> viewer \<Rightarrow> viewer" where
  "send_image_frame i frame v =
     update_peer i (\<lambda>p. p\<lparr>vp_image := (vp_image p)\<lparr>dc_sent := dc_sent (vp_image p) @ [frame]\<rparr>\<rparr>) v"

definition image_ready :: "viewer \<Rightarrow> channel_state option" where
  "image_ready v = map_option (\<lambda>i. dc_ready (vp_image (viewerPeers v ! i))) (imageClipboardChannel v)"

definition sendImageClipboardMessage ::
  "platform \<Rightarrow> int \<Rightarrow> string \<Rightarrow> json \<Rightarrow> viewer \<Rightarrow> bool \<times> viewer" where
  "sendImageClipboardMessage pf now event data v =
     (case configRef v of
        None \<Rightarrow> (False, v)
      | Some c \<Rightarrow>
          if image_ready v \<noteq> Some ChOpen then (False, v)
          else
            (let v1 = v\<lparr>controlSequence := controlSequence v + 1\<rparr>
             in if pf_throws pf (controlSequence v1) then (False, v1)
                else (True, send_image_frame (the (imageClipboardChannel v1))
                        (TextFrame (control_json event (cc_sessionId c) (controlSequence v1) now data)) v1)))"

text \<open>The checks of \<open>sendRemoteClipboardImage\<close>, whose exception rejects its promise.\<close>

definition sendRemoteClipboardImage :: "jstring \<Rightarrow> int \<Rightarrow> viewer \<Rightarrow> string + unit" where
  "sendRemoteClipboardImage mimeType bytes v =
     (if mimeType \<noteq> lit ''image/png'' \<or> bytes \<le> 0 \<or> bytes > CLIPBOARD_IMAGE_MAX_BYTES
      then Inl ''INVALID_IMAGE''
      else if stateRef v \<noteq> ControlActive \<or> \<not> grantedControlRef v \<or> image_ready v \<noteq> Some ChOpen
      then Inl ''CONTROL_INACTIVE''
      else if clipboardImageUpload v \<noteq> None then Inl ''BUSY''
      else Inr ())"

definition reject_current_image :: "nat \<Rightarrow> jstring \<Rightarrow> viewer \<Rightarrow> viewer" where
  "reject_current_image i code v =
     (if clipboardImageUpload v = Some i
      then settle_image i True (ImageRejected code) (v\<lparr>clipboardImageUpload := None\<rparr>)
      else v)"

text \<open>The data and its digest are there: the upload is registered and offered.\<close>

definition image_prepared ::
  "platform \<Rightarrow> (byte list \<Rightarrow> byte list) \<Rightarrow> int \<Rightarrow> byte list \<Rightarrow> byte list \<Rightarrow> viewer \<Rightarrow> viewer" where
  "image_prepared pf digest now data randomBytes v =
     (let i = length (imageUploads v);
          transferId = newTransferId randomBytes;
          v1 = v\<lparr>imageUploads := imageUploads v @
                   [\<lparr>iu_transferId = transferId, iu_cancelled = False, iu_outcome = ImagePending,
                     iu_data = data\<rparr>],
                 clipboardImageUpload := Some i\<rparr>
      in case sendImageClipboardMessage pf now ''clipboard.image-offer''
                (JObj [(lit ''mimeType'', JStr (lit ''image/png'')),
                       (lit ''sha256'', JStr (sha256Hex digest data)),
                       (lit ''size'', JNum (of_nat (length data))),
                       (lit ''transferId'', JStr transferId)]) v1 of
           (True, v2) \<Rightarrow> v2
         | (False, v2) \<Rightarrow> reject_current_image i (lit ''DISCONNECTED'') v2)"

text \<open>
  How \<open>streamFileChunks\<close> ends: it returns true, it returns false, or a \<open>send\<close> in it throws. Its
  turns are steps of their own, one for each chunk.
\<close>

datatype stream_end = StreamSent | StreamStopped | StreamThrew

definition chunk_at :: "byte list \<Rightarrow> nat \<Rightarrow> byte list" where
  "chunk_at data offset = take FILE_CHUNK_BYTES (drop offset data)"

text \<open>The stream of an image hands the channel captured by the call its next chunk.\<close>

definition image_chunk :: "nat \<Rightarrow> nat \<Rightarrow> nat \<Rightarrow> viewer \<Rightarrow> viewer" where
  "image_chunk i channel offset v =
     send_image_frame channel (BinaryFrame (chunk_at (iu_data (imageUploads v ! i)) offset)) v"

definition image_streamed ::
  "platform \<Rightarrow> int \<Rightarrow> nat \<Rightarrow> stream_end \<Rightarrow> viewer \<Rightarrow> viewer" where
  "image_streamed pf now i how v =
     (case how of
        StreamThrew \<Rightarrow> reject_current_image i (pf_sendError pf) v
      | StreamStopped \<Rightarrow> reject_current_image i (lit ''DISCONNECTED'') v
      | StreamSent \<Rightarrow>
        (case sendImageClipboardMessage pf now ''clipboard.image-complete''
                (JObj [(lit ''transferId'', JStr (iu_transferId (imageUploads v ! i)))]) v of
           (True, v1) \<Rightarrow> v1
         | (False, v1) \<Rightarrow> reject_current_image i (lit ''DISCONNECTED'') v1))"

definition image_timeout :: "nat \<Rightarrow> viewer \<Rightarrow> viewer" where
  "image_timeout i v = reject_current_image i (lit ''TIMEOUT'') v"

section \<open>Files: messages\<close>

definition file_ready :: "viewer \<Rightarrow> channel_state option" where
  "file_ready v = map_option (\<lambda>i. dc_ready (vp_file (viewerPeers v ! i))) (fileChannel v)"

definition send_file_frame :: "nat \<Rightarrow> channel_frame \<Rightarrow> viewer \<Rightarrow> viewer" where
  "send_file_frame i frame v =
     update_peer i (\<lambda>p. p\<lparr>vp_file := (vp_file p)\<lparr>dc_sent := dc_sent (vp_file p) @ [frame]\<rparr>\<rparr>) v"

text \<open>\<open>True\<close> where \<open>send\<close> threw.\<close>

definition sendFileMessage ::
  "platform \<Rightarrow> int \<Rightarrow> string \<Rightarrow> json \<Rightarrow> viewer \<Rightarrow> bool \<times> viewer" where
  "sendFileMessage pf now event data v =
     (case configRef v of
        None \<Rightarrow> (False, v)
      | Some c \<Rightarrow>
          if file_ready v \<noteq> Some ChOpen then (False, v)
          else
            (let v1 = v\<lparr>controlSequence := controlSequence v + 1\<rparr>
             in if pf_throws pf (controlSequence v1) then (True, v1)
                else (False, send_file_frame (the (fileChannel v1))
                        (TextFrame (control_json event (cc_sessionId c) (controlSequence v1) now data)) v1)))"

definition show_download :: "jstring option \<Rightarrow> jstring \<Rightarrow> rat \<Rightarrow> download_status \<Rightarrow> viewer \<Rightarrow> viewer" where
  "show_download code name progress status v =
     v\<lparr>fileDownloadState := Some \<lparr>ds_errorCode = code, ds_fileName = name, ds_progress = progress,
         ds_status = status\<rparr>\<rparr>"

definition show_transfer :: "nat \<Rightarrow> jstring option \<Rightarrow> rat \<Rightarrow> transfer_status \<Rightarrow> viewer \<Rightarrow> viewer" where
  "show_transfer i code progress status v =
     v\<lparr>fileTransfer := Some \<lparr>ts_errorCode = code, ts_fileName = fu_name (fileUploads v ! i),
         ts_progress = progress, ts_status = status\<rparr>\<rparr>"

definition set_phase :: "nat \<Rightarrow> upload_phase \<Rightarrow> viewer \<Rightarrow> viewer" where
  "set_phase i phase v =
     v\<lparr>fileUploads := (fileUploads v)[i := (fileUploads v ! i)\<lparr>fu_phase := phase\<rparr>]\<rparr>"

text \<open>The \<open>finally\<close> of \<open>sendFile\<close>.\<close>

definition forget_upload :: "nat \<Rightarrow> viewer \<Rightarrow> viewer" where
  "forget_upload i v = (if fileUpload v = Some i then v\<lparr>fileUpload := None\<rparr> else v)"

text \<open>\<open>onAccept\<close> and \<open>onDone\<close>: they settle the promise the upload awaits, if it is that one.\<close>

definition upload_accepted :: "nat \<Rightarrow> viewer \<Rightarrow> viewer" where
  "upload_accepted i v =
     (if fu_phase (fileUploads v ! i) = AwaitingAccept
      then show_transfer i None 0 TransferSending (set_phase i Streaming v) else v)"

definition upload_done :: "nat \<Rightarrow> viewer \<Rightarrow> viewer" where
  "upload_done i v =
     (if fu_phase (fileUploads v ! i) = AwaitingDone
      then forget_upload i (show_transfer i None 1 TransferDone (set_phase i UploadSettled v)) else v)"

section \<open>Downloads\<close>

definition finishDownload :: "file_download \<Rightarrow> jstring \<Rightarrow> viewer \<Rightarrow> viewer" where
  "finishDownload download expectedSha v =
     (let v1 = show_download None (fd_name download) 1 DownloadVerifying (v\<lparr>fileDownload := None\<rparr>)
      in if sum_list (map length (fd_chunks download)) \<noteq> fd_size download
         then show_download (Some (lit ''SIZE_MISMATCH'')) (fd_name download) 0 DownloadError v1
         else v1\<lparr>verifyingDownloads := verifyingDownloads v1 @ [(download, expectedSha)]\<rparr>)"

definition triggerBrowserDownload :: "jstring \<Rightarrow> byte list \<Rightarrow> viewer \<Rightarrow> viewer" where
  "triggerBrowserDownload name bytes v = v\<lparr>savedFiles := savedFiles v @ [(name, bytes)]\<rparr>"

definition download_verified :: "(byte list \<Rightarrow> byte list) \<Rightarrow> nat \<Rightarrow> viewer \<Rightarrow> viewer" where
  "download_verified digest k v =
     (let (download, expectedSha) = verifyingDownloads v ! k;
          merged = concat (fd_chunks download);
          v1 = v\<lparr>verifyingDownloads := take k (verifyingDownloads v) @ drop (Suc k) (verifyingDownloads v)\<rparr>
      in if sha256Hex digest merged \<noteq> expectedSha
         then show_download (Some (lit ''DIGEST_MISMATCH'')) (fd_name download) 0 DownloadError v1
         else show_download None (fd_name download) 1 DownloadDone
                (triggerBrowserDownload (fd_name download) merged v1))"

definition handleDownloadChunk :: "byte list \<Rightarrow> viewer \<Rightarrow> viewer" where
  "handleDownloadChunk chunk v =
     (case fileDownload v of
        None \<Rightarrow> v
      | Some download \<Rightarrow>
          (let received = fd_received download + length chunk;
               progress = (if fd_size download = 0 then 1
                           else min 1 (of_nat received / of_nat (fd_size download)));
               percent = \<lfloor>progress * 100\<rfloor>;
               d1 = download\<lparr>fd_chunks := fd_chunks download @ [chunk], fd_received := received\<rparr>
           in if percent \<noteq> fd_lastPercent d1
              then show_download None (fd_name d1) progress Downloading
                     (v\<lparr>fileDownload := Some (d1\<lparr>fd_lastPercent := percent\<rparr>)\<rparr>)
              else v\<lparr>fileDownload := Some d1\<rparr>))"

definition requestFileList :: "platform \<Rightarrow> int \<Rightarrow> viewer \<Rightarrow> viewer" where
  "requestFileList pf now v = snd (sendFileMessage pf now ''file.list-request'' (JObj []) v)"

definition downloadFile :: "platform \<Rightarrow> int \<Rightarrow> byte list \<Rightarrow> jstring \<Rightarrow> viewer \<Rightarrow> viewer" where
  "downloadFile pf now randomBytes name v =
     (if fileDownload v \<noteq> None \<or> file_ready v \<noteq> Some ChOpen then v
      else
        (let transferId = newTransferId randomBytes;
             v1 = show_download None name 0 Downloading
                    (v\<lparr>fileDownload := Some \<lparr>fd_transferId = transferId, fd_name = name, fd_size = 0,
                        fd_received = 0, fd_lastPercent = - 1, fd_chunks = []\<rparr>\<rparr>)
         in snd (sendFileMessage pf now ''file.download''
                   (JObj [(lit ''name'', JStr name), (lit ''transferId'', JStr transferId)]) v1)))"

definition clearFileDownload :: "viewer \<Rightarrow> viewer" where
  "clearFileDownload v = (if fileDownload v = None then v\<lparr>fileDownloadState := None\<rparr> else v)"

definition clearFileTransfer :: "viewer \<Rightarrow> viewer" where
  "clearFileTransfer v = (if fileUpload v = None then v\<lparr>fileTransfer := None\<rparr> else v)"

section \<open>Uploads\<close>

definition sendFile :: "byte list \<Rightarrow> jstring \<Rightarrow> nat \<Rightarrow> viewer \<Rightarrow> viewer" where
  "sendFile randomBytes name fileBytes v =
     (if fileUpload v \<noteq> None \<or> file_ready v \<noteq> Some ChOpen then v
      else if int fileBytes > FILE_MAX_BYTES
      then v\<lparr>fileTransfer := Some \<lparr>ts_errorCode = Some (lit ''TOO_LARGE''), ts_fileName = name,
               ts_progress = 0, ts_status = TransferError\<rparr>\<rparr>
      else v\<lparr>fileUploads := fileUploads v @
               [\<lparr>fu_transferId = newTransferId randomBytes, fu_name = name, fu_size = fileBytes,
                 fu_cancelled = False, fu_lastPercent = - 1, fu_phase = ReadingFile,
                 fu_channel = the (fileChannel v), fu_data = [], fu_sent = 0\<rparr>],
             fileUpload := Some (length (fileUploads v)),
             fileTransfer := Some \<lparr>ts_errorCode = None, ts_fileName = name, ts_progress = 0,
               ts_status = TransferPreparing\<rparr>\<rparr>)"

text \<open>
  \<open>runUpload\<close> in its parts: the file is read and hashed (or cannot be), the stream hands on a
  chunk and reports it, the stream ends, a wait of thirty seconds runs out. An exception of
  \<open>send\<close> rejects the wait it happens in, or ends the stream with its message.
\<close>

definition upload_error :: "nat \<Rightarrow> jstring \<Rightarrow> viewer \<Rightarrow> viewer" where
  "upload_error i code v =
     forget_upload i (show_transfer i (Some code) 0 TransferError (set_phase i UploadSettled v))"

definition update_upload :: "nat \<Rightarrow> (file_upload \<Rightarrow> file_upload) \<Rightarrow> viewer \<Rightarrow> viewer" where
  "update_upload i f v = v\<lparr>fileUploads := (fileUploads v)[i := f (fileUploads v ! i)]\<rparr>"

definition upload_read ::
  "platform \<Rightarrow> (byte list \<Rightarrow> byte list) \<Rightarrow> int \<Rightarrow> byte list \<Rightarrow> nat \<Rightarrow> viewer \<Rightarrow> viewer" where
  "upload_read pf digest now data i v =
     (let u = fileUploads v ! i
      in case sendFileMessage pf now ''file.offer''
                (JObj [(lit ''name'', JStr (fu_name u)), (lit ''sha256'', JStr (sha256Hex digest data)),
                       (lit ''size'', JNum (of_nat (fu_size u))),
                       (lit ''transferId'', JStr (fu_transferId u))])
                (update_upload i (\<lambda>u. u\<lparr>fu_phase := AwaitingAccept, fu_data := data\<rparr>) v) of
           (False, v1) \<Rightarrow> v1
         | (True, v1) \<Rightarrow> fail_upload i (pf_sendError pf) v1)"

text \<open>\<open>file.arrayBuffer\<close> or the digest rejects; \<open>code\<close> is the error's message.\<close>

definition upload_unread :: "nat \<Rightarrow> jstring \<Rightarrow> viewer \<Rightarrow> viewer" where
  "upload_unread i code v = upload_error i code v"

definition upload_progress :: "nat \<Rightarrow> viewer \<Rightarrow> viewer" where
  "upload_progress i v =
     (let u = fileUploads v ! i;
          progress = (if length (fu_data u) = 0 then 1 else of_nat (fu_sent u) / of_nat (length (fu_data u)));
          percent = \<lfloor>progress * 100\<rfloor> :: int
      in if percent \<noteq> fu_lastPercent u
         then show_transfer i None progress TransferSending
                (update_upload i (\<lambda>u. u\<lparr>fu_lastPercent := percent\<rparr>) v)
         else v)"

text \<open>\<open>isCancelled\<close>, as the stream asks it before each chunk and at its end.\<close>

definition upload_stopped :: "viewer \<Rightarrow> file_upload \<Rightarrow> bool" where
  "upload_stopped v u \<longleftrightarrow> fu_cancelled u \<or> dc_ready (vp_file (viewerPeers v ! fu_channel u)) \<noteq> ChOpen"

definition upload_chunk :: "nat \<Rightarrow> viewer \<Rightarrow> viewer" where
  "upload_chunk i v =
     (let u = fileUploads v ! i;
          stop = min (fu_sent u + FILE_CHUNK_BYTES) (length (fu_data u))
      in upload_progress i (update_upload i (\<lambda>u. u\<lparr>fu_sent := stop\<rparr>)
           (send_file_frame (fu_channel u)
             (BinaryFrame (take (stop - fu_sent u) (drop (fu_sent u) (fu_data u)))) v)))"

definition upload_streamed :: "platform \<Rightarrow> int \<Rightarrow> stream_end \<Rightarrow> nat \<Rightarrow> viewer \<Rightarrow> viewer" where
  "upload_streamed pf now how i v =
     (case how of
        StreamThrew \<Rightarrow> upload_error i (pf_sendError pf) v
      | StreamStopped \<Rightarrow> upload_error i (lit ''CANCELLED'') v
      | StreamSent \<Rightarrow>
        (case sendFileMessage pf now ''file.complete''
                (JObj [(lit ''transferId'', JStr (fu_transferId (fileUploads v ! i)))])
                (set_phase i AwaitingDone (show_transfer i None 1 TransferVerifying v)) of
           (False, v1) \<Rightarrow> v1
         | (True, v1) \<Rightarrow> fail_upload i (pf_sendError pf) v1))"

text \<open>When a stream can end in each of its ways, and when it can hand on a chunk.\<close>

definition upload_sends :: "viewer \<Rightarrow> nat \<Rightarrow> bool" where
  "upload_sends v i \<longleftrightarrow> i < length (fileUploads v)
     \<and> (let u = fileUploads v ! i
        in fu_phase u = Streaming \<and> \<not> upload_stopped v u \<and> fu_sent u < length (fu_data u))"

fun upload_ends :: "viewer \<Rightarrow> nat \<Rightarrow> stream_end \<Rightarrow> bool" where
  "upload_ends v i StreamThrew = upload_sends v i"
| "upload_ends v i how =
     (i < length (fileUploads v)
      \<and> (let u = fileUploads v ! i
         in fu_phase u = Streaming
            \<and> (if how = StreamSent then \<not> upload_stopped v u \<and> fu_sent u \<ge> length (fu_data u)
               else upload_stopped v u)))"

definition upload_timeout :: "nat \<Rightarrow> viewer \<Rightarrow> viewer" where
  "upload_timeout i v = fail_upload i (lit ''TIMEOUT'') v"

section \<open>Messages of the file channel\<close>

definition json_files :: "json option \<Rightarrow> (jstring \<times> nat) list" where
  "json_files v =
     (case v of
        Some (JArr fs) \<Rightarrow>
          map (\<lambda>f. (string_of (jget f ''name''),
                    case as_integer (jget f ''size'') of Some n \<Rightarrow> nat n | None \<Rightarrow> 0)) fs
      | _ \<Rightarrow> [])"

definition download_event :: "json \<Rightarrow> file_download \<Rightarrow> viewer \<Rightarrow> viewer" where
  "download_event m download v =
     (if is_event m ''file.download-offer'' then
        show_download None (fd_name download) (if nat_data m ''size'' = 0 then 1 else 0) Downloading
          (v\<lparr>fileDownload := Some (download\<lparr>fd_size := nat_data m ''size''\<rparr>)\<rparr>)
      else if is_event m ''file.download-complete'' then
        finishDownload download (text_data m ''sha256'') v
      else if is_event m ''file.error'' then
        show_download (Some (text_data m ''code'')) (fd_name download) 0 DownloadError
          (v\<lparr>fileDownload := None\<rparr>)
      else v)"

definition upload_event :: "json \<Rightarrow> viewer \<Rightarrow> viewer" where
  "upload_event m v =
     (case fileUpload v of
        None \<Rightarrow> v
      | Some i \<Rightarrow>
          if fu_transferId (fileUploads v ! i) \<noteq> text_data m ''transferId'' then v
          else if is_event m ''file.accept'' then upload_accepted i v
          else if is_event m ''file.done'' then upload_done i v
          else if is_event m ''file.error'' then fail_upload i (text_data m ''code'') v
          else v)"

definition handleFileMessage :: "json \<Rightarrow> viewer \<Rightarrow> viewer" where
  "handleFileMessage m v =
     (if is_event m ''file.list'' then v\<lparr>downloadableFiles := json_files (data_of m ''files'')\<rparr>
      else if \<not> is_event m ''file.download-offer'' \<and> \<not> is_event m ''file.download-complete''
              \<and> \<not> is_event m ''file.accept'' \<and> \<not> is_event m ''file.done'' \<and> \<not> is_event m ''file.error''
      then v
      else
        (case fileDownload v of
           Some download \<Rightarrow>
             if text_data m ''transferId'' = fd_transferId download then download_event m download v
             else upload_event m v
         | None \<Rightarrow> upload_event m v))"

section \<open>The channels' listeners\<close>

datatype channel_data = ArrayData "byte list" | TextData jstring | OtherData

definition image_channel_opened :: "nat \<Rightarrow> viewer \<Rightarrow> viewer" where
  "image_channel_opened i v =
     (if vp_cycle (viewerPeers v ! i) = activeCycle v then v\<lparr>canSendClipboardImage := True\<rparr> else v)"

definition image_channel_message :: "platform \<Rightarrow> nat \<Rightarrow> channel_data \<Rightarrow> viewer \<Rightarrow> viewer" where
  "image_channel_message pf i data v =
     (if vp_cycle (viewerPeers v ! i) \<noteq> activeCycle v then v
      else
        (case data of
           ArrayData bytes \<Rightarrow> handleImageClipboardChunk bytes v
         | OtherData \<Rightarrow> v
         | TextData text \<Rightarrow>
             (case json_parse text of
                None \<Rightarrow> v
              | Some parsed \<Rightarrow>
                  (case validateImageClipboardMessage (pf_ajv pf) parsed of
                     Some m \<Rightarrow> handleImageClipboardMessage m v
                   | None \<Rightarrow> v))))"

definition image_channel_closed :: "nat \<Rightarrow> viewer \<Rightarrow> viewer" where
  "image_channel_closed i v =
     (if vp_cycle (viewerPeers v ! i) \<noteq> activeCycle v then v
      else
        (let v1 = v\<lparr>canSendClipboardImage := False, incomingClipboardImage := None\<rparr>
         in case clipboardImageUpload v1 of
              Some k \<Rightarrow> reject_current_image k (lit ''DISCONNECTED'') v1
            | None \<Rightarrow> v1))"

definition file_channel_opened :: "nat \<Rightarrow> viewer \<Rightarrow> viewer" where
  "file_channel_opened i v =
     (if vp_cycle (viewerPeers v ! i) = activeCycle v then v\<lparr>canSendFiles := True\<rparr> else v)"

definition file_channel_message :: "platform \<Rightarrow> nat \<Rightarrow> channel_data \<Rightarrow> viewer \<Rightarrow> viewer" where
  "file_channel_message pf i data v =
     (if vp_cycle (viewerPeers v ! i) \<noteq> activeCycle v then v
      else
        (case data of
           ArrayData bytes \<Rightarrow> handleDownloadChunk bytes v
         | OtherData \<Rightarrow> v
         | TextData text \<Rightarrow>
             (case json_parse text of
                None \<Rightarrow> v
              | Some parsed \<Rightarrow>
                  (case validateFileMessage (pf_ajv pf) parsed of
                     Some m \<Rightarrow> handleFileMessage m v
                   | None \<Rightarrow> v))))"

definition file_channel_closed :: "nat \<Rightarrow> viewer \<Rightarrow> viewer" where
  "file_channel_closed i v =
     (if vp_cycle (viewerPeers v ! i) = activeCycle v then v\<lparr>canSendFiles := False\<rparr> else v)"

section \<open>Staged clipboard entries\<close>

definition dismissClipboardEntry :: "nat \<Rightarrow> viewer \<Rightarrow> viewer" where
  "dismissClipboardEntry k v = v\<lparr>clipboardEntries := filter (\<lambda>e. fst e \<noteq> k) (clipboardEntries v)\<rparr>"

definition dismissClipboardImageEntry :: "nat \<Rightarrow> viewer \<Rightarrow> viewer" where
  "dismissClipboardImageEntry k v = v\<lparr>clipboardImages := filter (\<lambda>e. fst e \<noteq> k) (clipboardImages v)\<rparr>"

end
