(* ===== verification/RemoteTeardown.thy ===== *)
theory RemoteTeardown
  imports RemoteTransfers
begin

text \<open>
  What the moves and releases of the session hook come to: no move they make is illegal, and
  a teardown leaves nothing of its cycle behind.
\<close>

section \<open>The moves are legal\<close>

lemma move_or_stay_legal:
  "canTransitionConnectionState (stateRef v) s \<Longrightarrow>
   move_or_stay s v = v\<lparr>stateRef := s, connectionState := s\<rparr>"
  by (simp add: move_or_stay_def moveTo_def transitionConnectionState_def)

lemma closing_legal:
  "stateRef v \<noteq> Offline \<Longrightarrow> move_or_stay Closing v = v\<lparr>stateRef := Closing, connectionState := Closing\<rparr>"
  by (rule move_or_stay_legal) (cases "stateRef v"; simp add: canTransitionConnectionState_def)

lemma offline_legal:
  "finishOffline v =
     (if stateRef v = Offline then v else v\<lparr>stateRef := Offline, connectionState := Offline\<rparr>)"
  by (simp add: finishOffline_def closing_legal Let_def move_or_stay_legal canTransitionConnectionState_def)

lemma active_step_legal:
  "updateActiveState v =
     (let target = deriveActiveState \<lparr>isControlChannelOpen = channelOpenRef v, isVideoTrackReady = trackReadyRef v\<rparr>
      in if stateRef v \<in> set ACTIVE_STATE_ORDER \<and> stateRef v < target
         then v\<lparr>stateRef := target, connectionState := target\<rparr> else v)"
  by (cases "stateRef v"; cases "channelOpenRef v"; cases "trackReadyRef v")
    (simp_all add: updateActiveState_def deriveActiveState_def ACTIVE_STATE_ORDER_def Let_def
      move_or_stay_legal canTransitionConnectionState_def state_order_defs upt_rec)

section \<open>Release\<close>

text \<open>Nothing of a connection is held: no object, no timer, no grant.\<close>

definition released :: "viewer \<Rightarrow> bool" where
  "released v \<longleftrightarrow>
     webSocket v = None \<and> peerConnection v = None \<and> controlChannel v = None \<and> fileChannel v = None
     \<and> imageClipboardChannel v = None \<and> \<not> isConnecting v
     \<and> pingTimer v = None \<and> videoStatsTimer v = None \<and> connectionEstablishmentTimer v = None
     \<and> signalingRecoveryTimer v = None \<and> \<not> signalingRecoveryInFlight v \<and> \<not> videoProfileTimer v
     \<and> \<not> videoProfileStabilizeTimer v \<and> \<not> autoReconnectTimer v
     \<and> \<not> grantedControlRef v \<and> \<not> controlGranted v \<and> \<not> channelOpenRef v \<and> \<not> trackReadyRef v
     \<and> fileUpload v = None \<and> fileDownload v = None \<and> incomingClipboardImage v = None
     \<and> clipboardImageUpload v = None \<and> \<not> canSendFiles v \<and> \<not> canSendClipboardImage v
     \<and> \<not> mediaStream v \<and> missedControlPongs v = 0"

text \<open>What closing changes in a peer and in a socket, and what it keeps.\<close>

definition peer_closes :: "viewer_peer \<Rightarrow> viewer_peer \<Rightarrow> bool" where
  "peer_closes p q \<longleftrightarrow>
     vp_cycle q = vp_cycle p \<and> vp_config q = vp_config p \<and> vp_offering q = vp_offering p
     \<and> dc_sent (vp_control q) = dc_sent (vp_control p) \<and> dc_sent (vp_image q) = dc_sent (vp_image p)
     \<and> dc_sent (vp_file q) = dc_sent (vp_file p)
     \<and> (vp_state q = vp_state p \<or> vp_state q = PeerClosedState)
     \<and> (dc_ready (vp_control q) = ChOpen \<longrightarrow> dc_ready (vp_control p) = ChOpen)
     \<and> (dc_ready (vp_image q) = ChOpen \<longrightarrow> dc_ready (vp_image p) = ChOpen)
     \<and> (dc_ready (vp_file q) = ChOpen \<longrightarrow> dc_ready (vp_file p) = ChOpen)"

definition socket_closes :: "viewer_socket \<Rightarrow> viewer_socket \<Rightarrow> bool" where
  "socket_closes s t \<longleftrightarrow> t = s \<or> t = close_viewer_socket s"

lemma peer_closes_refl: "peer_closes p p"
  by (simp add: peer_closes_def)

lemma peer_closes_trans: "peer_closes p q \<Longrightarrow> peer_closes q r \<Longrightarrow> peer_closes p r"
  by (auto simp: peer_closes_def)

lemma peer_closes_close:
  "peer_closes p (p\<lparr>vp_control := close_channel (vp_control p)\<rparr>)"
  "peer_closes p (p\<lparr>vp_image := close_channel (vp_image p)\<rparr>)"
  "peer_closes p (p\<lparr>vp_file := close_channel (vp_file p)\<rparr>)"
  "peer_closes p (close_peer p)"
  by (simp_all add: peer_closes_def close_channel_def close_peer_def close_ready_def)

lemma list_all2_update:
  "(\<And>x. R x x) \<Longrightarrow> (\<And>x. R x (f x)) \<Longrightarrow> list_all2 R xs (xs[i := f (xs ! i)])"
  by (simp add: list_all2_conv_all_nth) (metis nth_list_update_eq nth_list_update_neq)

lemma map_update_same: "g (f (xs ! i)) = g (xs ! i) \<Longrightarrow> map g (xs[i := f (xs ! i)]) = map g xs"
  by (cases "i < length xs") (simp_all add: map_update list_update_same_conv list_update_beyond)

lemma map_nth_update [simp]: "(map g xs)[i := g (xs ! i)] = map g xs"
  by (cases "i < length xs") (simp_all add: list_update_same_conv list_update_beyond)

lemma peers_trans:
  "list_all2 peer_closes a b \<Longrightarrow> list_all2 peer_closes b c \<Longrightarrow> list_all2 peer_closes a c"
  by (rule list_all2_trans [OF peer_closes_trans])

lemmas peers_update = list_all2_update [where R = peer_closes, OF peer_closes_refl]

text \<open>
  The release as one record update: the fields that are not named keep their values.
\<close>

lemma close_ready [simp]:
  "vp_state (close_peer p) = PeerClosedState"
  "vs_ready (close_viewer_socket s) = close_ready (vs_ready s)"
  "vs_cycle (close_viewer_socket s) = vs_cycle s"
  "close_ready r = ChClosing \<or> close_ready r = ChClosed"
  by (simp_all add: close_peer_def close_viewer_socket_def close_ready_def)

lemma socket_closes_refl: "socket_closes s s"
  by (simp add: socket_closes_def)

lemma socket_closes_close: "socket_closes s (close_viewer_socket s)"
  by (simp add: socket_closes_def)

lemmas peer_steps = peers_update peer_closes_close list.rel_refl peer_closes_refl
lemmas socket_steps = list_all2_update [where R = socket_closes, OF socket_closes_refl]
  socket_closes_close list.rel_refl socket_closes_refl

lemma release_control_channel_shape:
  "\<exists>ps. release_control_channel v = v\<lparr>viewerPeers := ps, controlChannel := None\<rparr>
     \<and> list_all2 peer_closes (viewerPeers v) ps"
  by (rule exI [of _ "viewerPeers (release_control_channel v)"])
    (auto simp: release_control_channel_def update_peer_def intro!: peer_steps split: option.splits)

lemma release_image_upload_shape:
  "\<exists>us. release_image_upload v = v\<lparr>imageUploads := us, clipboardImageUpload := None\<rparr>"
  by (rule exI [of _ "imageUploads (release_image_upload v)"])
    (auto simp: release_image_upload_def settle_image_def split: option.splits)

lemma release_image_channel_shape:
  "\<exists>ps. release_image_channel v = v\<lparr>viewerPeers := ps, incomingClipboardImage := None,
       imageClipboardChannel := None, canSendClipboardImage := False\<rparr>
     \<and> list_all2 peer_closes (viewerPeers v) ps"
  by (rule exI [of _ "viewerPeers (release_image_channel v)"])
    (auto simp: release_image_channel_def update_peer_def intro!: peer_steps split: option.splits)

lemma release_upload_shape:
  "\<exists>us t. release_upload v = v\<lparr>fileUploads := us, fileTransfer := t, fileUpload := None\<rparr>"
  by (rule exI [of _ "fileUploads (release_upload v)"], rule exI [of _ "fileTransfer (release_upload v)"])
    (auto simp: release_upload_def fail_upload_def cancel_upload_def Let_def split: option.splits)

lemma release_download_shape:
  "\<exists>d. release_download v = v\<lparr>fileDownload := None, fileDownloadState := d, downloadableFiles := []\<rparr>"
  by (rule exI [of _ "fileDownloadState (release_download v)"])
    (auto simp: release_download_def split: option.splits)

lemma release_file_channel_shape:
  "\<exists>ps. release_file_channel v = v\<lparr>viewerPeers := ps, fileChannel := None, canSendFiles := False\<rparr>
     \<and> list_all2 peer_closes (viewerPeers v) ps"
  by (rule exI [of _ "viewerPeers (release_file_channel v)"])
    (auto simp: release_file_channel_def update_peer_def intro!: peer_steps split: option.splits)

lemma release_peer_shape:
  "\<exists>ps. release_peer v = v\<lparr>viewerPeers := ps, peerConnection := None\<rparr>
     \<and> list_all2 peer_closes (viewerPeers v) ps
     \<and> (\<forall>i. peerConnection v = Some i \<and> i < length ps \<longrightarrow> vp_state (ps ! i) = PeerClosedState)"
  by (rule exI [of _ "viewerPeers (release_peer v)"])
    (auto simp: release_peer_def update_peer_def intro!: peer_steps split: option.splits)

lemma release_socket_shape:
  "\<exists>ss. release_socket v = v\<lparr>viewerSockets := ss, webSocket := None\<rparr>
     \<and> list_all2 socket_closes (viewerSockets v) ss
     \<and> (\<forall>i. webSocket v = Some i \<and> i < length ss \<longrightarrow> vs_ready (ss ! i) \<in> {ChClosing, ChClosed})"
  by (rule exI [of _ "viewerSockets (release_socket v)"])
    (auto simp: release_socket_def update_viewer_socket_def intro!: socket_steps split: option.splits)

lemmas release_timer_defs = release_timers_def clearVideoProfileStabilizing_def
  clearVideoProfileTimer_def clearConnectionEstablishmentTimer_def stopVideoStats_def stopPing_def
  cancelSignalingRecovery_def cancelAutoReconnect_def

text \<open>The release as one record update: fields that are not named keep their values.\<close>

lemma releaseResources_shape:
  obtains ps ss us t ius d where
    "releaseResources v = v\<lparr>isConnecting := False, autoReconnectTimer := False,
       signalingRecoveryTimer := None, signalingRecoveryInFlight := False,
       signalingRecoveryDelay := SIGNALING_RECOVERY_INITIAL_DELAY_MS, pingTimer := None,
       missedControlPongs := 0, videoStatsTimer := None, previousVideoStats := None,
       videoTelemetry := EMPTY_VIDEO_TELEMETRY, connectionRoute := EMPTY_CONNECTION_ROUTE,
       connectionEstablishmentTimer := None, videoProfileTimer := False,
       videoProfileStabilizeTimer := False, stabilizingVideoProfile := None,
       videoProfileStabilizing := False, viewerPeers := ps, controlChannel := None,
       imageUploads := ius, clipboardImageUpload := None, incomingClipboardImage := None,
       imageClipboardChannel := None, canSendClipboardImage := False, fileUploads := us,
       fileTransfer := t, fileUpload := None, fileDownload := None, fileDownloadState := d,
       downloadableFiles := [], fileChannel := None, canSendFiles := False, peerConnection := None,
       viewerSockets := ss, webSocket := None, mediaStream := False, roundTripTimeMs := None,
       channelOpenRef := False, trackReadyRef := False, grantedControlRef := False,
       controlGranted := False, videoProfilePending := False, videoProfileError := False\<rparr>"
    "list_all2 peer_closes (viewerPeers v) ps" "list_all2 socket_closes (viewerSockets v) ss"
    "\<And>i. peerConnection v = Some i \<Longrightarrow> i < length ps \<Longrightarrow> vp_state (ps ! i) = PeerClosedState"
    "\<And>i. webSocket v = Some i \<Longrightarrow> i < length ss \<Longrightarrow> vs_ready (ss ! i) \<in> {ChClosing, ChClosed}"
proof -
  let ?v0 = "release_timers v"
  obtain p1 where 1: "release_control_channel ?v0 = ?v0\<lparr>viewerPeers := p1, controlChannel := None\<rparr>"
      "list_all2 peer_closes (viewerPeers ?v0) p1"
    using release_control_channel_shape by blast
  let ?v1 = "?v0\<lparr>viewerPeers := p1, controlChannel := None\<rparr>"
  obtain ius where 2: "release_image_upload ?v1 = ?v1\<lparr>imageUploads := ius, clipboardImageUpload := None\<rparr>"
    using release_image_upload_shape by blast
  let ?v2 = "?v1\<lparr>imageUploads := ius, clipboardImageUpload := None\<rparr>"
  obtain p3 where 3: "release_image_channel ?v2 = ?v2\<lparr>viewerPeers := p3, incomingClipboardImage := None,
       imageClipboardChannel := None, canSendClipboardImage := False\<rparr>"
      "list_all2 peer_closes (viewerPeers ?v2) p3"
    using release_image_channel_shape by blast
  let ?v3 = "?v2\<lparr>viewerPeers := p3, incomingClipboardImage := None,
       imageClipboardChannel := None, canSendClipboardImage := False\<rparr>"
  obtain us t where 4: "release_upload ?v3 = ?v3\<lparr>fileUploads := us, fileTransfer := t, fileUpload := None\<rparr>"
    using release_upload_shape by blast
  let ?v4 = "?v3\<lparr>fileUploads := us, fileTransfer := t, fileUpload := None\<rparr>"
  obtain d where 5: "release_download ?v4 = ?v4\<lparr>fileDownload := None, fileDownloadState := d, downloadableFiles := []\<rparr>"
    using release_download_shape by blast
  let ?v5 = "?v4\<lparr>fileDownload := None, fileDownloadState := d, downloadableFiles := []\<rparr>"
  obtain p6 where 6: "release_file_channel ?v5 = ?v5\<lparr>viewerPeers := p6, fileChannel := None, canSendFiles := False\<rparr>"
      "list_all2 peer_closes (viewerPeers ?v5) p6"
    using release_file_channel_shape by blast
  let ?v6 = "?v5\<lparr>viewerPeers := p6, fileChannel := None, canSendFiles := False\<rparr>"
  obtain p7 where 7: "release_peer ?v6 = ?v6\<lparr>viewerPeers := p7, peerConnection := None\<rparr>"
      "list_all2 peer_closes (viewerPeers ?v6) p7"
      "\<forall>i. peerConnection ?v6 = Some i \<and> i < length p7 \<longrightarrow> vp_state (p7 ! i) = PeerClosedState"
    using release_peer_shape by blast
  let ?v7 = "?v6\<lparr>viewerPeers := p7, peerConnection := None\<rparr>"
  obtain ss where 8: "release_socket ?v7 = ?v7\<lparr>viewerSockets := ss, webSocket := None\<rparr>"
      "list_all2 socket_closes (viewerSockets ?v7) ss"
      "\<forall>i. webSocket ?v7 = Some i \<and> i < length ss \<longrightarrow> vs_ready (ss ! i) \<in> {ChClosing, ChClosed}"
    using release_socket_shape by blast
  have ps: "list_all2 peer_closes (viewerPeers v) p7"
    using peers_trans [OF peers_trans [OF peers_trans [OF 1(2)]]] 3(2) 6(2) 7(2)
    by (simp add: release_timer_defs)
  show thesis
  proof (rule that [of ss d t us ius p7])
    show "list_all2 peer_closes (viewerPeers v) p7" by (rule ps)
    show "list_all2 socket_closes (viewerSockets v) ss" using 8(2) by (simp add: release_timer_defs)
    show "vp_state (p7 ! i) = PeerClosedState" if "peerConnection v = Some i" "i < length p7" for i
      using 7(3) that by (simp add: release_timer_defs)
    show "vs_ready (ss ! i) \<in> {ChClosing, ChClosed}" if "webSocket v = Some i" "i < length ss" for i
      using 8(3) that by (simp add: release_timer_defs)
  qed (simp only: releaseResources_def 1 2 3 4 5 6 7 8, simp add: release_timer_defs)
qed

lemma released_releaseResources: "released (releaseResources v)"
  by (rule releaseResources_shape [of v]) (simp add: released_def)

section \<open>Teardown\<close>

definition idle :: "viewer \<Rightarrow> bool" where
  "idle v \<longleftrightarrow> stateRef v = Offline \<and> \<not> isConnecting v \<and> webSocket v = None \<and> peerConnection v = None"

text \<open>A socket's end: perhaps one more frame, and perhaps closed.\<close>

definition socket_ends :: "viewer_socket \<Rightarrow> viewer_socket \<Rightarrow> bool" where
  "socket_ends s t \<longleftrightarrow>
     vs_cycle t = vs_cycle s \<and> vs_config t = vs_config s \<and> vs_resume t = vs_resume s
     \<and> vs_suppressAutoReconnect t = vs_suppressAutoReconnect s
     \<and> (vs_ready t = vs_ready s \<or> vs_ready t = close_ready (vs_ready s))"

lemma socket_closes_ends: "socket_closes s t \<Longrightarrow> socket_ends s t"
  by (auto simp: socket_closes_def socket_ends_def close_viewer_socket_def)

lemma socket_ends_closes: "socket_ends a b \<Longrightarrow> socket_closes b c \<Longrightarrow> socket_ends a c"
  by (auto simp: socket_closes_def socket_ends_def close_viewer_socket_def close_ready_def)

lemma sendSignaling_shape:
  obtains ss where
    "snd (sendSignaling ty sid payload v) =
       v\<lparr>signalingSequence := signalingSequence v + 1, viewerSockets := ss\<rparr>"
    "list_all2 socket_ends (viewerSockets v) ss"
    "map vs_ready ss = map vs_ready (viewerSockets v)"
proof -
  let ?w = "snd (sendSignaling ty sid payload v)"
  have eq: "?w = v\<lparr>signalingSequence := signalingSequence v + 1, viewerSockets := viewerSockets ?w\<rparr>"
    by (simp add: sendSignaling_def Let_def update_viewer_socket_def)
  have "list_all2 socket_ends (viewerSockets v) (viewerSockets ?w)"
    by (auto simp: sendSignaling_def Let_def update_viewer_socket_def socket_ends_def
        intro!: list_all2_update list_all2_refl)
  moreover have "map vs_ready (viewerSockets ?w) = map vs_ready (viewerSockets v)"
    by (auto simp: sendSignaling_def Let_def update_viewer_socket_def intro!: map_update_same)
  ultimately show thesis using that eq by metis
qed

lemma offline_fields [simp]:
  "stateRef (finishOffline v) = Offline" "released (finishOffline v) = released v"
  "connectionState (finishOffline v) = (if stateRef v = Offline then connectionState v else Offline)"
  "activeCycle (finishOffline v) = activeCycle v"
  "userDisconnected (finishOffline v) = userDisconnected v"
  "autoReconnectAttempts (finishOffline v) = autoReconnectAttempts v"
  "signalingRecoveryDelay (finishOffline v) = signalingRecoveryDelay v"
  "ticketRequests (finishOffline v) = ticketRequests v" "configRef (finishOffline v) = configRef v"
  "isProduction (finishOffline v) = isProduction v" "errorMessage (finishOffline v) = errorMessage v"
  "controlSequence (finishOffline v) = controlSequence v" "savedFiles (finishOffline v) = savedFiles v"
  "verifyingDownloads (finishOffline v) = verifyingDownloads v"
  "viewerPeers (finishOffline v) = viewerPeers v" "viewerSockets (finishOffline v) = viewerSockets v"
  by (simp_all add: offline_legal released_def)

lemma release_keeps [simp]:
  "stateRef (releaseResources v) = stateRef v" "connectionState (releaseResources v) = connectionState v"
  "activeCycle (releaseResources v) = activeCycle v"
  "userDisconnected (releaseResources v) = userDisconnected v"
  "autoReconnectAttempts (releaseResources v) = autoReconnectAttempts v"
  "signalingRecoveryDelay (releaseResources v) = 2000"
  "ticketRequests (releaseResources v) = ticketRequests v" "configRef (releaseResources v) = configRef v"
  "isProduction (releaseResources v) = isProduction v" "errorMessage (releaseResources v) = errorMessage v"
  "controlSequence (releaseResources v) = controlSequence v"
  "savedFiles (releaseResources v) = savedFiles v"
  "verifyingDownloads (releaseResources v) = verifyingDownloads v"
  by (rule releaseResources_shape [of v], simp add: SIGNALING_RECOVERY_INITIAL_DELAY_MS_def)+

lemma release_objects:
  "list_all2 peer_closes (viewerPeers v) (viewerPeers (releaseResources v))"
  "list_all2 socket_closes (viewerSockets v) (viewerSockets (releaseResources v))"
  "peerConnection v = Some i \<Longrightarrow> i < length (viewerPeers v) \<Longrightarrow>
     vp_state (viewerPeers (releaseResources v) ! i) = PeerClosedState"
  "webSocket v = Some j \<Longrightarrow> j < length (viewerSockets v) \<Longrightarrow>
     vs_ready (viewerSockets (releaseResources v) ! j) \<in> {ChClosing, ChClosed}"
  by (rule releaseResources_shape [of v], simp add: list_all2_lengthD)+

text \<open>
  A teardown that is not stale and not idle: everything is released, the state is
  \<open>Offline\<close>, the cycle is over, and the objects that were held are closed.
\<close>

lemma teardown_live:
  assumes "\<not> idle v"
  defines "w \<equiv> teardownForCycle (activeCycle v) v"
  shows "released w" "stateRef w = Offline" "connectionState w = (if stateRef v = Offline then connectionState v else Offline)"
    "activeCycle w = activeCycle v + 1"
    "userDisconnected w = userDisconnected v" "autoReconnectAttempts w = autoReconnectAttempts v"
    "signalingRecoveryDelay w = 2000" "ticketRequests w = ticketRequests v"
    "configRef w = configRef v" "isProduction w = isProduction v" "errorMessage w = errorMessage v"
    "controlSequence w = controlSequence v" "savedFiles w = savedFiles v"
    "verifyingDownloads w = verifyingDownloads v"
    "list_all2 peer_closes (viewerPeers v) (viewerPeers w)"
    "list_all2 socket_ends (viewerSockets v) (viewerSockets w)"
    "\<And>i. peerConnection v = Some i \<Longrightarrow> i < length (viewerPeers v) \<Longrightarrow>
       vp_state (viewerPeers w ! i) = PeerClosedState"
    "\<And>i. webSocket v = Some i \<Longrightarrow> i < length (viewerSockets v) \<Longrightarrow>
       vs_ready (viewerSockets w ! i) \<in> {ChClosing, ChClosed}"
proof -
  let ?v1 = "v\<lparr>activeCycle := activeCycle v + 1\<rparr>"
  obtain sq ss where 2: "(case configRef ?v1 of
        Some c \<Rightarrow> if socket_ready ?v1 = Some ChOpen
          then snd (sendSignaling ''session.close'' (cc_sessionId c)
                 (JObj [(lit ''reason'', JStr (lit ''USER_REQUEST''))]) ?v1)
          else ?v1
      | None \<Rightarrow> ?v1) = ?v1\<lparr>signalingSequence := sq, viewerSockets := ss\<rparr>"
    and ss: "list_all2 socket_ends (viewerSockets v) ss"
  proof (cases "configRef ?v1 \<noteq> None \<and> socket_ready ?v1 = Some ChOpen")
    case True
    then obtain c where c: "configRef v = Some c" "socket_ready ?v1 = Some ChOpen" by auto
    obtain ss where "snd (sendSignaling ''session.close'' (cc_sessionId c)
                 (JObj [(lit ''reason'', JStr (lit ''USER_REQUEST''))]) ?v1) =
        ?v1\<lparr>signalingSequence := signalingSequence ?v1 + 1, viewerSockets := ss\<rparr>"
      "list_all2 socket_ends (viewerSockets ?v1) ss"
      by (rule sendSignaling_shape)
    then show thesis using c by (intro that [of ss "signalingSequence v + 1"]) simp_all
  next
    case False
    then show thesis
      by (intro that [of "viewerSockets v" "signalingSequence v"])
        (auto split: option.splits intro!: list_all2_refl simp: socket_ends_def)
  qed
  let ?v2 = "?v1\<lparr>signalingSequence := sq, viewerSockets := ss\<rparr>"
  let ?v3 = "if stateRef ?v2 \<noteq> Offline \<and> stateRef ?v2 \<noteq> Closing then move_or_stay Closing ?v2 else ?v2"
  define v3 where "v3 = ?v2\<lparr>stateRef := if stateRef v = Offline then Offline else Closing,
      connectionState := if stateRef v = Offline \<or> stateRef v = Closing then connectionState v else Closing\<rparr>"
  have 3: "?v3 = v3" by (auto simp: closing_legal v3_def)
  have w: "w = finishOffline (releaseResources v3)"
    using assms(1) by (simp only: w_def teardownForCycle_def Let_def 2 3 idle_def) auto
  have v3: "activeCycle v3 = activeCycle v + 1" "userDisconnected v3 = userDisconnected v"
    "autoReconnectAttempts v3 = autoReconnectAttempts v" "ticketRequests v3 = ticketRequests v"
    "configRef v3 = configRef v" "isProduction v3 = isProduction v" "errorMessage v3 = errorMessage v"
    "controlSequence v3 = controlSequence v" "savedFiles v3 = savedFiles v"
    "verifyingDownloads v3 = verifyingDownloads v" "viewerPeers v3 = viewerPeers v"
    "viewerSockets v3 = ss" "webSocket v3 = webSocket v" "peerConnection v3 = peerConnection v"
    "stateRef v3 = Offline \<longleftrightarrow> stateRef v = Offline"
    "stateRef v = Offline \<Longrightarrow> connectionState v3 = connectionState v"
    by (simp_all add: v3_def)
  show "released w" "stateRef w = Offline" 
    "connectionState w = (if stateRef v = Offline then connectionState v else Offline)"
    "activeCycle w = activeCycle v + 1"
    "userDisconnected w = userDisconnected v" "autoReconnectAttempts w = autoReconnectAttempts v"
    "signalingRecoveryDelay w = 2000" "ticketRequests w = ticketRequests v"
    "configRef w = configRef v" "isProduction w = isProduction v" "errorMessage w = errorMessage v"
    "controlSequence w = controlSequence v" "savedFiles w = savedFiles v"
    "verifyingDownloads w = verifyingDownloads v"
    using v3 by (simp_all add: w released_releaseResources)
  have rs: "list_all2 socket_closes ss (viewerSockets w)"
    using release_objects(2) [of v3] by (simp add: w v3)
  show "list_all2 peer_closes (viewerPeers v) (viewerPeers w)"
    using release_objects(1) [of v3] by (simp add: w v3)
  show "list_all2 socket_ends (viewerSockets v) (viewerSockets w)"
    by (rule list_all2_trans [OF socket_ends_closes ss rs])
  show "vp_state (viewerPeers w ! i) = PeerClosedState"
    if "peerConnection v = Some i" "i < length (viewerPeers v)" for i
    using release_objects(3) [of v3 i] that by (simp add: w v3)
  show "vs_ready (viewerSockets w ! i) \<in> {ChClosing, ChClosed}"
    if "webSocket v = Some i" "i < length (viewerSockets v)" for i
    using release_objects(4) [of v3 i] that ss by (simp add: w v3 list_all2_lengthD)
qed

lemma teardown_idle: "idle v \<Longrightarrow> teardownForCycle cycle v = v"
  by (simp add: teardownForCycle_def idle_def)

lemma teardown_stale: "cycle \<noteq> activeCycle v \<Longrightarrow> teardownForCycle cycle v = v"
  by (simp add: teardownForCycle_def)

end
