(* ===== verification/Keyboard.thy ===== *)
theory Keyboard
  imports Messages
begin

text \<open>
  The keyboard whitelists: the pattern of the control schema (\<open>control.ts\<close>) and the one of
  the input capture (\<open>useInputCapture.ts\<close>), as the finite sets of codes they accept, and
  the two helpers of the capture that choose a code and clamp a wheel delta.
\<close>

section \<open>The capture's pattern and helpers\<close>

definition KEY_CODE_PATTERN :: regex where
  "KEY_CODE_PATTERN = ralts
     [RSeq (rtext ''Key'') (RClass [(65, 90)]),
      RSeq (rtext ''Digit'') (RClass [(48, 57)]),
      RSeq (rtext ''Numpad'') (RAlt (RClass [(48, 57)])
        (rtexts [''Add'', ''Subtract'', ''Multiply'', ''Divide'', ''Decimal'', ''Enter'',
          ''Equal'', ''Comma''])),
      rtexts [''NumLock'', ''CapsLock''],
      RSeq (rtext ''Arrow'') (rtexts [''Up'', ''Down'', ''Left'', ''Right'']),
      RSeq (rtext ''F'') (RAlt (RClass [(49, 57)]) (RSeq (rtext ''1'') (RClass [(48, 50)]))),
      rtexts [''Backspace'', ''Tab'', ''Enter'', ''Escape'', ''Space'', ''Delete'', ''Home'',
        ''End'', ''PageUp'', ''PageDown''],
      RSeq (rtext ''Shift'') (rtexts [''Left'', ''Right'']),
      RSeq (rtext ''Control'') (rtexts [''Left'', ''Right'']),
      RSeq (rtext ''Alt'') (rtexts [''Left'', ''Right'']),
      rtexts [''Minus'', ''Equal'', ''BracketLeft'', ''BracketRight'', ''Backslash'',
        ''Semicolon'', ''Quote'', ''Backquote'', ''Comma'', ''Period'', ''Slash''],
      RSeq (rtext ''Lang'') (RClass [(49, 50)])]"

definition getRemoteKeyCode :: "jstring \<Rightarrow> jstring \<Rightarrow> jstring" where
  "getRemoteKeyCode key code =
     (if key = lit ''HangulMode'' \<or> key = lit ''Hangul'' then lit ''Lang1''
      else if key = lit ''HanjaMode'' \<or> key = lit ''Hanja'' then lit ''Lang2''
      else code)"

definition WHEEL_LIMIT :: int where
  "WHEEL_LIMIT = 1200"

definition clampWheel :: "rat \<Rightarrow> int" where
  "clampWheel v = max (- WHEEL_LIMIT) (min WHEEL_LIMIT \<lfloor>v + 1 / 2\<rfloor>)"

section \<open>The codes as lists\<close>

definition prefixed :: "string \<Rightarrow> string list \<Rightarrow> string list" where
  "prefixed p ks = map (\<lambda>k. p @ k) ks"

definition letters :: "string list" where
  "letters = map (\<lambda>c. [c]) ''ABCDEFGHIJKLMNOPQRSTUVWXYZ''"

definition digits :: "string list" where
  "digits = map (\<lambda>c. [c]) ''0123456789''"

definition CAPTURE_CODES :: "string list" where
  "CAPTURE_CODES =
     prefixed ''Key'' letters @ prefixed ''Digit'' digits
     @ prefixed ''Numpad'' (digits @ [''Add'', ''Subtract'', ''Multiply'', ''Divide'', ''Decimal'',
         ''Enter'', ''Equal'', ''Comma''])
     @ [''NumLock'', ''CapsLock''] @ prefixed ''Arrow'' [''Up'', ''Down'', ''Left'', ''Right'']
     @ prefixed ''F'' (map (\<lambda>c. [c]) ''123456789'' @ [''10'', ''11'', ''12''])
     @ [''Backspace'', ''Tab'', ''Enter'', ''Escape'', ''Space'', ''Delete'', ''Home'', ''End'',
        ''PageUp'', ''PageDown'']
     @ prefixed ''Shift'' [''Left'', ''Right''] @ prefixed ''Control'' [''Left'', ''Right'']
     @ prefixed ''Alt'' [''Left'', ''Right'']
     @ [''Minus'', ''Equal'', ''BracketLeft'', ''BracketRight'', ''Backslash'', ''Semicolon'',
        ''Quote'', ''Backquote'', ''Comma'', ''Period'', ''Slash'']
     @ [''Lang1'', ''Lang2'']"

text \<open>A pattern that accepts exactly the words of a list.\<close>

definition accepts_codes :: "regex \<Rightarrow> string list \<Rightarrow> bool" where
  "accepts_codes r ks \<longleftrightarrow> (\<forall>s. in_lang r s \<longleftrightarrow> s \<in> lit ` set ks)"

lemma codes_cong: "accepts_codes r ks \<Longrightarrow> set ks = set ks' \<Longrightarrow> accepts_codes r ks'"
  by (simp add: accepts_codes_def)

lemma codes_text: "accepts_codes (rtext k) [k]"
proof -
  have "in_lang (rtext k) s \<longleftrightarrow> s = lit k" for s
  proof (induction k arbitrary: s)
    case (Cons c k)
    have "(of_char c \<le> unat u \<and> unat u \<le> of_char c) = (u = unit_of_char c)" for u
      using unat_unit_of_char [of c] by (metis eq_iff unsigned_word_eqI)
    then show ?case by (auto simp: Cons lit_Cons)
  qed simp
  then show ?thesis by (simp add: accepts_codes_def)
qed

lemma codes_class:
  "map of_char cs = [a..<Suc b] \<Longrightarrow>
   accepts_codes (RClass [(a, b)]) (map (\<lambda>c. [c]) cs)"
proof -
  assume m: "map of_char cs = [a..<Suc b]"
  have "a \<le> unat u \<and> unat u \<le> b \<longleftrightarrow> unat u \<in> set [a..<Suc b]" for u :: code_unit
    by auto
  also have "\<dots> u \<longleftrightarrow> (\<exists>c \<in> set cs. unat u = of_char c)" for u :: code_unit
    unfolding m [symmetric] by auto
  also have "\<dots> u \<longleftrightarrow> (\<exists>c \<in> set cs. u = unit_of_char c)" for u :: code_unit
    by (metis unat_unit_of_char unsigned_word_eqI)
  finally have "a \<le> unat u \<and> unat u \<le> b \<longleftrightarrow> (\<exists>c \<in> set cs. u = unit_of_char c)" for u :: code_unit .
  then show ?thesis by (auto simp: accepts_codes_def lit_Cons image_iff)
qed

lemma codes_alt: "accepts_codes r ks \<Longrightarrow> accepts_codes s ls \<Longrightarrow> accepts_codes (RAlt r s) (ks @ ls)"
  by (auto simp: accepts_codes_def)

lemma codes_none: "accepts_codes RNone []"
  by (simp add: accepts_codes_def)

lemma codes_ralts:
  "list_all2 accepts_codes rs kss \<Longrightarrow> accepts_codes (ralts rs) (concat kss)"
  by (induction rs kss rule: list_all2_induct) (auto intro: codes_none codes_alt)

lemma codes_seq:
  "accepts_codes r [p] \<Longrightarrow> accepts_codes s ks \<Longrightarrow> accepts_codes (RSeq r s) (prefixed p ks)"
  by (auto simp: accepts_codes_def prefixed_def lit_append image_iff)

lemma codes_texts: "accepts_codes (rtexts ks) ks"
proof -
  have "accepts_codes (ralts (map rtext ks)) (concat (map (\<lambda>k. [k]) ks))"
    by (rule codes_ralts) (simp add: list_all2_conv_all_nth codes_text)
  then show ?thesis by (simp add: rtexts_def concat_map_singleton)
qed

lemma codes_prefix: "accepts_codes s ks \<Longrightarrow> accepts_codes (RSeq (rtext p) s) (prefixed p ks)"
  by (rule codes_seq [OF codes_text])

lemma class_codes:
  "accepts_codes (RClass [(65, 90)]) letters"
  "accepts_codes (RClass [(48, 57)]) digits"
  "accepts_codes (RClass [(49, 57)]) (map (\<lambda>c. [c]) ''123456789'')"
  "accepts_codes (RClass [(48, 50)]) (map (\<lambda>c. [c]) ''012'')"
  "accepts_codes (RClass [(49, 50)]) (map (\<lambda>c. [c]) ''12'')"
  unfolding letters_def digits_def
  by (rule codes_class; simp add: upt_conv_Cons)+

lemmas code_intros = codes_prefix codes_alt codes_texts class_codes

section \<open>The two whitelists\<close>

lemma capture_codes: "accepts_codes KEY_CODE_PATTERN CAPTURE_CODES"
proof -
  let ?one = "\<lambda>s. map (\<lambda>c. [c]) s"
  let ?ks = "[prefixed ''Key'' letters, prefixed ''Digit'' digits,
     prefixed ''Numpad'' (digits @ [''Add'', ''Subtract'', ''Multiply'', ''Divide'', ''Decimal'',
         ''Enter'', ''Equal'', ''Comma'']),
     [''NumLock'', ''CapsLock''], prefixed ''Arrow'' [''Up'', ''Down'', ''Left'', ''Right''],
     prefixed ''F'' (?one ''123456789'' @ prefixed ''1'' (?one ''012'')),
     [''Backspace'', ''Tab'', ''Enter'', ''Escape'', ''Space'', ''Delete'', ''Home'', ''End'',
        ''PageUp'', ''PageDown''],
     prefixed ''Shift'' [''Left'', ''Right''], prefixed ''Control'' [''Left'', ''Right''],
     prefixed ''Alt'' [''Left'', ''Right''],
     [''Minus'', ''Equal'', ''BracketLeft'', ''BracketRight'', ''Backslash'', ''Semicolon'',
        ''Quote'', ''Backquote'', ''Comma'', ''Period'', ''Slash''],
     prefixed ''Lang'' (?one ''12'')]"
  have "accepts_codes KEY_CODE_PATTERN (concat ?ks)"
    unfolding KEY_CODE_PATTERN_def
    by (rule codes_ralts) (intro list.rel_intros code_intros)
  then show ?thesis
    by (rule codes_cong) (simp add: CAPTURE_CODES_def prefixed_def)
qed

definition SCHEMA_CODES :: "string list" where
  "SCHEMA_CODES = CAPTURE_CODES @ [''MetaLeft'', ''MetaRight'']"

lemma schema_codes: "accepts_codes KEYBOARD_CODE_PATTERN SCHEMA_CODES"
proof -
  have "in_lang KEYBOARD_CODE_PATTERN s \<longleftrightarrow>
      in_lang KEY_CODE_PATTERN s \<or> in_lang (RSeq (rtext ''Meta'') (rtexts [''Left'', ''Right''])) s" for s
    by (simp only: KEYBOARD_CODE_PATTERN_def KEY_CODE_PATTERN_def ralts.simps in_lang_simps(5)) blast
  moreover have "accepts_codes (RSeq (rtext ''Meta'') (rtexts [''Left'', ''Right'']))
      (prefixed ''Meta'' [''Left'', ''Right''])"
    by (intro code_intros)
  ultimately show ?thesis
    using capture_codes by (auto simp: accepts_codes_def SCHEMA_CODES_def prefixed_def)
qed

lemma code_lengths: "list_all (\<lambda>k. length k \<le> 16) SCHEMA_CODES"
  by (simp add: SCHEMA_CODES_def CAPTURE_CODES_def prefixed_def letters_def digits_def)

lemma meta_not_captured: "''MetaLeft'' \<notin> set CAPTURE_CODES" "''MetaRight'' \<notin> set CAPTURE_CODES"
  by (simp_all add: CAPTURE_CODES_def prefixed_def letters_def digits_def)

lemma code_string_bounds:
  "string_bounds None (Some 16) (Some KEYBOARD_CODE_PATTERN) s \<longleftrightarrow> s \<in> lit ` set SCHEMA_CODES"
proof -
  have "ucs2length (lit k) \<le> 16" if "k \<in> set SCHEMA_CODES" for k
  proof -
    have "(of_char c :: nat) < 0xD800" for c
      by (rule less_trans [OF nat_of_char_less_256]) simp
    then have "list_all (\<lambda>u. unat u < 0xD800) (lit k)"
      by (auto simp: list_all_iff lit_def unat_unit_of_char)
    then show ?thesis
      using code_lengths that by (simp add: ucs2length_ascii list_all_iff)
  qed
  then show ?thesis
    using schema_codes by (auto simp: string_bounds_def rmatch_iff accepts_codes_def)
qed

lemma clampWheel_bounds: "- 1200 \<le> clampWheel v \<and> clampWheel v \<le> 1200"
  by (auto simp: clampWheel_def WHEEL_LIMIT_def)

end
