(* ===== verification/Pointer.thy ===== *)
theory Pointer
  imports Prelude
begin

text \<open>
  The pointer geometry of \<open>packages/protocol/src/pointer.ts\<close>. The code's binary64 arithmetic
  is modelled by exact rationals: the statements hold of the code up to rounding.
\<close>

record contain_rect =
  width :: rat
  height :: rat
  offsetX :: rat
  offsetY :: rat

record point =
  px :: rat
  py :: rat

datatype pointer_error = DimensionsMustBePositive

definition computeContainRect :: "rat \<Rightarrow> rat \<Rightarrow> rat \<Rightarrow> rat \<Rightarrow> pointer_error + contain_rect" where
  "computeContainRect containerWidth containerHeight contentWidth contentHeight =
     (if containerWidth \<le> 0 \<or> containerHeight \<le> 0 \<or> contentWidth \<le> 0 \<or> contentHeight \<le> 0
      then Inl DimensionsMustBePositive
      else
        (let scale = min (containerWidth / contentWidth) (containerHeight / contentHeight);
             w = contentWidth * scale;
             h = contentHeight * scale
         in Inr \<lparr>width = w, height = h, offsetX = (containerWidth - w) / 2,
                 offsetY = (containerHeight - h) / 2\<rparr>))"

definition normalizePointerToContent ::
  "rat \<Rightarrow> rat \<Rightarrow> rat \<Rightarrow> rat \<Rightarrow> rat \<Rightarrow> rat \<Rightarrow> pointer_error + point option" where
  "normalizePointerToContent pointerX pointerY containerWidth containerHeight
       contentWidth contentHeight =
     (case computeContainRect containerWidth containerHeight contentWidth contentHeight of
        Inl e \<Rightarrow> Inl e
      | Inr rect \<Rightarrow>
          (let relativeX = pointerX - offsetX rect;
               relativeY = pointerY - offsetY rect
           in if relativeX < 0 \<or> relativeY < 0 \<or> relativeX > width rect \<or> relativeY > height rect
              then Inr None
              else Inr (Some \<lparr>px = relativeX / width rect, py = relativeY / height rect\<rparr>)))"

section \<open>The rectangle\<close>

lemma rect_geometry:
  assumes "computeContainRect cw ch w h = Inr r"
  shows "0 < width r" "0 < height r" "width r \<le> cw" "height r \<le> ch"
    "width r = cw \<or> height r = ch" "width r * h = height r * w"
    "2 * offsetX r + width r = cw" "2 * offsetY r + height r = ch"
proof -
  have pos: "0 < cw" "0 < ch" "0 < w" "0 < h"
    using assms by (auto simp: computeContainRect_def Let_def split: if_splits)
  define s where "s = min (cw / w) (ch / h)"
  have r: "r = \<lparr>width = w * s, height = h * s, offsetX = (cw - w * s) / 2,
      offsetY = (ch - h * s) / 2\<rparr>"
    using assms by (auto simp: computeContainRect_def Let_def s_def split: if_splits)
  have s: "0 < s" "s \<le> cw / w" "s \<le> ch / h" "s = cw / w \<or> s = ch / h"
    using pos by (auto simp: s_def min_def)
  show "0 < width r" "0 < height r" using s pos by (simp_all add: r)
  show "width r \<le> cw" "height r \<le> ch" using s pos by (simp_all add: r field_simps)
  show "width r = cw \<or> height r = ch" using s pos by (auto simp: r)
  show "width r * h = height r * w" by (simp add: r)
  show "2 * offsetX r + width r = cw" "2 * offsetY r + height r = ch" by (simp_all add: r field_simps)
qed

text \<open>The agent's inverse: the point of the element a frame-relative point stands for.\<close>

definition place_point :: "contain_rect \<Rightarrow> point \<Rightarrow> rat \<times> rat" where
  "place_point r p = (offsetX r + px p * width r, offsetY r + py p * height r)"

lemma normalized_unit:
  assumes "normalizePointerToContent x y cw ch w h = Inr (Some p)"
  shows "0 \<le> px p \<and> px p \<le> 1 \<and> 0 \<le> py p \<and> py p \<le> 1"
proof -
  obtain r where r: "computeContainRect cw ch w h = Inr r"
    using assms by (auto simp: normalizePointerToContent_def split: sum.splits)
  show ?thesis
    using assms rect_geometry(1,2) [OF r]
    by (auto simp: normalizePointerToContent_def r Let_def divide_le_eq split: if_splits)
qed

lemma normalized_place:
  assumes "normalizePointerToContent x y cw ch w h = Inr (Some p)"
    "computeContainRect cw ch w h = Inr r"
  shows "place_point r p = (x, y)"
  using assms rect_geometry(1,2) [OF assms(2)]
  by (auto simp: normalizePointerToContent_def Let_def place_point_def split: if_splits)

lemma place_normalized:
  assumes "computeContainRect cw ch w h = Inr r" "0 \<le> px p" "px p \<le> 1" "0 \<le> py p" "py p \<le> 1"
  shows "normalizePointerToContent (fst (place_point r p)) (snd (place_point r p)) cw ch w h
    = Inr (Some \<lparr>px = px p, py = py p\<rparr>)"
  using assms(2-) rect_geometry(1,2) [OF assms(1)]
  by (simp add: normalizePointerToContent_def assms(1) Let_def place_point_def mult_le_cancel_right1
      not_less mult_le_cancel_right2)

end
