(* ===== verification/InputCapture.thy ===== *)
theory InputCapture
  imports Keyboard Pointer
begin

text \<open>
  The viewer's input capture (\<open>apps/viewer/src/useInputCapture.ts\<close>): the closure state of the
  effect, one definition per event handler, and the runs of handlers, timers and frames. What
  the handlers do to the outside (the five senders, and what they ask of the DOM) is appended
  to the log \<open>effects\<close>. What a handler reads from the DOM (the video's size and place, whether
  a pointer is captured) comes with the event. An exception of the geometry ends the handler,
  keeping what it did so far: the browser only reports it.
\<close>

section \<open>Events and effects\<close>

datatype pointer_button = LeftButton | RightButton | MiddleButton

datatype key_action = Down | Up

datatype effect =
    SendKey jstring key_action
  | SendPointerButton pointer_button key_action
  | SendPointerMove rat rat
  | SendPointerWheel int int
  | ReleaseRemoteInput
  | PreventDefault
  | FocusVideo
  | SetPointerCapture int
  | ReleasePointerCapture int

fun DOM_BUTTON :: "int \<Rightarrow> pointer_button option" where
  "DOM_BUTTON n =
     (if n = 0 then Some LeftButton else if n = 1 then Some MiddleButton
      else if n = 2 then Some RightButton else None)"

text \<open>The video element as a handler finds it: its frame size and its bounding rectangle.\<close>

record video_view =
  vw_videoWidth :: rat
  vw_videoHeight :: rat
  vw_left :: rat
  vw_top :: rat
  vw_width :: rat
  vw_height :: rat

record pointer_event =
  pe_touch :: bool
  pe_button :: int
  pe_pointerId :: int
  pe_clientX :: rat
  pe_clientY :: rat
  pe_view :: video_view
  pe_hasCapture :: bool

text \<open>A target is \<open>None\<close> when it is no HTML element.\<close>

record html_target =
  ht_isContentEditable :: bool
  ht_tagName :: jstring

record key_event =
  ke_key :: jstring
  ke_code :: jstring
  ke_repeat :: bool
  ke_shiftKey :: bool
  ke_target :: "html_target option"

definition isInteractiveTarget :: "html_target option \<Rightarrow> bool" where
  "isInteractiveTarget target =
     (case target of
        None \<Rightarrow> False
      | Some t \<Rightarrow> ht_isContentEditable t
          \<or> ht_tagName t \<in> lit ` set [''BUTTON'', ''INPUT'', ''SELECT'', ''TEXTAREA''])"

section \<open>The state of the effect\<close>

datatype touch_phase = Pending | Dragging | Converted

record capture =
  touchPhase :: "touch_phase option"
  touchOrigin :: "(rat \<times> rat) option"
  longPressTimer :: bool
  forwardedKeys :: "jstring set"
  synthesizedShift :: "jstring option"
  pointerFrame :: bool
  pendingPointerMove :: "(rat \<times> rat) option"
  effects :: "effect list"

text \<open>The effect runs when control is active and the element is there.\<close>

definition useInputCapture :: "bool \<Rightarrow> bool \<Rightarrow> capture option" where
  "useInputCapture hasVideo isControlActive =
     (if \<not> isControlActive \<or> \<not> hasVideo then None
      else Some \<lparr>touchPhase = None, touchOrigin = None, longPressTimer = False, forwardedKeys = {},
                 synthesizedShift = None, pointerFrame = False, pendingPointerMove = None,
                 effects = []\<rparr>)"

definition emit :: "effect \<Rightarrow> capture \<Rightarrow> capture" where
  "emit e s = s\<lparr>effects := effects s @ [e]\<rparr>"

definition LONG_PRESS_DRAG_THRESHOLD_PX :: rat where
  "LONG_PRESS_DRAG_THRESHOLD_PX = 12"

definition toNormalized :: "video_view \<Rightarrow> rat \<Rightarrow> rat \<Rightarrow> pointer_error + point option" where
  "toNormalized video clientX clientY =
     (if vw_videoWidth video = 0 \<or> vw_videoHeight video = 0 then Inr None
      else normalizePointerToContent (clientX - vw_left video) (clientY - vw_top video)
             (vw_width video) (vw_height video) (vw_videoWidth video) (vw_videoHeight video))"

section \<open>Pointer moves\<close>

definition send_pending :: "capture \<Rightarrow> capture" where
  "send_pending s =
     (case pendingPointerMove s of
        None \<Rightarrow> s
      | Some (x, y) \<Rightarrow> emit (SendPointerMove x y) (s\<lparr>pendingPointerMove := None\<rparr>))"

definition flushPointerMove :: "capture \<Rightarrow> capture" where
  "flushPointerMove s = send_pending (s\<lparr>pointerFrame := False\<rparr>)"

definition queuePointerMove :: "rat \<Rightarrow> rat \<Rightarrow> capture \<Rightarrow> capture" where
  "queuePointerMove x y s = s\<lparr>pendingPointerMove := Some (x, y), pointerFrame := True\<rparr>"

text \<open>The animation frame that \<open>queuePointerMove\<close> asked for.\<close>

definition pointer_frame_fired :: "capture \<Rightarrow> capture" where
  "pointer_frame_fired s = send_pending (s\<lparr>pointerFrame := False\<rparr>)"

definition sendPointerMoveImmediately :: "rat \<Rightarrow> rat \<Rightarrow> capture \<Rightarrow> capture" where
  "sendPointerMoveImmediately x y s =
     emit (SendPointerMove x y) (s\<lparr>pendingPointerMove := None, pointerFrame := False\<rparr>)"

section \<open>Pointer handlers\<close>

definition clearLongPressTimer :: "capture \<Rightarrow> capture" where
  "clearLongPressTimer s = s\<lparr>longPressTimer := False\<rparr>"

definition resetTouchGesture :: "capture \<Rightarrow> capture" where
  "resetTouchGesture s = (clearLongPressTimer s)\<lparr>touchPhase := None, touchOrigin := None\<rparr>"

text \<open>\<open>Math.hypot(dx, dy) <= LONG_PRESS_DRAG_THRESHOLD_PX\<close>, squared.\<close>

definition within_threshold :: "pointer_event \<Rightarrow> rat \<times> rat \<Rightarrow> bool" where
  "within_threshold event origin \<longleftrightarrow>
     (pe_clientX event - fst origin)\<^sup>2 + (pe_clientY event - snd origin)\<^sup>2
       \<le> LONG_PRESS_DRAG_THRESHOLD_PX\<^sup>2"

definition stream_move :: "pointer_event \<Rightarrow> capture \<Rightarrow> capture" where
  "stream_move event s =
     (case toNormalized (pe_view event) (pe_clientX event) (pe_clientY event) of
        Inl _ \<Rightarrow> s
      | Inr None \<Rightarrow> s
      | Inr (Some p) \<Rightarrow> queuePointerMove (px p) (py p) s)"

definition handlePointerMove :: "pointer_event \<Rightarrow> capture \<Rightarrow> capture" where
  "handlePointerMove event s =
     (if pe_touch event then
        (case (touchPhase s, touchOrigin s) of
           (Some Pending, Some origin) \<Rightarrow>
             if within_threshold event origin then s
             else stream_move event
                    (emit (SendPointerButton LeftButton Down)
                       ((clearLongPressTimer s)\<lparr>touchPhase := Some Dragging\<rparr>))
         | (phase, _) \<Rightarrow> if phase \<noteq> Some Dragging then s else stream_move event s)
      else stream_move event s)"

definition handlePointerDown :: "pointer_event \<Rightarrow> capture \<Rightarrow> capture" where
  "handlePointerDown event s =
     (case DOM_BUTTON (pe_button event) of
        None \<Rightarrow> s
      | Some button \<Rightarrow>
          (let s1 = emit (SetPointerCapture (pe_pointerId event)) (emit FocusVideo (emit PreventDefault s))
           in case toNormalized (pe_view event) (pe_clientX event) (pe_clientY event) of
                Inl _ \<Rightarrow> s1
              | Inr point \<Rightarrow>
                  (let s2 = (case point of
                               None \<Rightarrow> s1
                             | Some p \<Rightarrow> sendPointerMoveImmediately (px p) (py p) s1)
                   in if pe_touch event \<and> button = LeftButton
                      then (clearLongPressTimer
                              (s2\<lparr>touchPhase := Some Pending,
                                  touchOrigin := Some (pe_clientX event, pe_clientY event)\<rparr>))
                             \<lparr>longPressTimer := True\<rparr>
                      else emit (SendPointerButton button Down) s2)))"

text \<open>The timer that a touch armed.\<close>

definition long_press_fired :: "capture \<Rightarrow> capture" where
  "long_press_fired s =
     (let s1 = s\<lparr>longPressTimer := False\<rparr>
      in if touchPhase s1 = Some Pending
         then emit (SendPointerButton RightButton Up) (emit (SendPointerButton RightButton Down)
                (s1\<lparr>touchPhase := Some Converted\<rparr>))
         else s1)"

definition release_capture :: "pointer_event \<Rightarrow> capture \<Rightarrow> capture" where
  "release_capture event s =
     (if pe_hasCapture event then emit (ReleasePointerCapture (pe_pointerId event)) s else s)"

definition handlePointerUp :: "pointer_event \<Rightarrow> capture \<Rightarrow> capture" where
  "handlePointerUp event s =
     (let s1 = flushPointerMove s;
          s2 = (if pe_touch event \<and> touchPhase s1 \<noteq> None then
                  resetTouchGesture
                    (if touchPhase s1 = Some Pending
                     then emit (SendPointerButton LeftButton Up) (emit (SendPointerButton LeftButton Down) s1)
                     else if touchPhase s1 = Some Dragging
                     then emit (SendPointerButton LeftButton Up) s1
                     else s1)
                else
                  (case DOM_BUTTON (pe_button event) of
                     Some button \<Rightarrow> emit (SendPointerButton button Up) s1
                   | None \<Rightarrow> s1))
      in release_capture event s2)"

definition handlePointerCancel :: "pointer_event \<Rightarrow> capture \<Rightarrow> capture" where
  "handlePointerCancel event s = emit ReleaseRemoteInput (release_capture event (resetTouchGesture s))"

definition handleWheel :: "rat \<Rightarrow> rat \<Rightarrow> capture \<Rightarrow> capture" where
  "handleWheel deltaX deltaY s =
     emit (SendPointerWheel (clampWheel deltaX) (clampWheel (- deltaY))) (emit PreventDefault s)"

definition handleContextMenu :: "capture \<Rightarrow> capture" where
  "handleContextMenu s = emit PreventDefault s"

section \<open>Keyboard handlers\<close>

definition release_key :: "jstring \<Rightarrow> capture \<Rightarrow> capture" where
  "release_key code s = (emit (SendKey code Up) s)\<lparr>forwardedKeys := forwardedKeys s - {code}\<rparr>"

definition press_key :: "jstring \<Rightarrow> capture \<Rightarrow> capture" where
  "press_key code s = (emit (SendKey code Down) s)\<lparr>forwardedKeys := insert code (forwardedKeys s)\<rparr>"

definition release_if_forwarded :: "jstring \<Rightarrow> capture \<Rightarrow> capture" where
  "release_if_forwarded code s = (if code \<in> forwardedKeys s then release_key code s else s)"

definition is_shift :: "jstring \<Rightarrow> bool" where
  "is_shift code \<longleftrightarrow> js_starts_with (lit ''Shift'') code"

definition repair_shift :: "key_event \<Rightarrow> jstring \<Rightarrow> capture \<Rightarrow> capture" where
  "repair_shift event remoteCode s =
     (let s1 = (if \<not> ke_shiftKey event \<and> \<not> is_shift remoteCode
                then (release_if_forwarded (lit ''ShiftRight'')
                        (release_if_forwarded (lit ''ShiftLeft'') s))\<lparr>synthesizedShift := None\<rparr>
                else s)
      in if ke_shiftKey event \<and> \<not> is_shift remoteCode
            \<and> lit ''ShiftLeft'' \<notin> forwardedKeys s1 \<and> lit ''ShiftRight'' \<notin> forwardedKeys s1
         then (press_key (lit ''ShiftLeft'') s1)\<lparr>synthesizedShift := Some (lit ''ShiftLeft'')\<rparr>
         else s1)"

definition handleKeyDown :: "key_event \<Rightarrow> capture \<Rightarrow> capture" where
  "handleKeyDown event s =
     (let remoteCode = getRemoteKeyCode (ke_key event) (ke_code event)
      in if ke_repeat event \<or> isInteractiveTarget (ke_target event)
            \<or> \<not> rmatch KEY_CODE_PATTERN remoteCode
         then s
         else press_key remoteCode (repair_shift event remoteCode (emit PreventDefault s)))"

definition handleKeyUp :: "key_event \<Rightarrow> capture \<Rightarrow> capture" where
  "handleKeyUp event s =
     (let remoteCode = getRemoteKeyCode (ke_key event) (ke_code event)
      in if \<not> rmatch KEY_CODE_PATTERN remoteCode then s
         else
           (let isShiftRelease = is_shift remoteCode;
                wasForwarded = (remoteCode \<in> forwardedKeys s)
            in if isInteractiveTarget (ke_target event) \<and> \<not> wasForwarded \<and> \<not> isShiftRelease then s
               else
                 (let s1 = emit PreventDefault s;
                      s2 = (case synthesizedShift s1 of
                              Some shift \<Rightarrow>
                                if isShiftRelease \<and> shift \<noteq> remoteCode
                                then (release_key shift s1)\<lparr>synthesizedShift := None\<rparr>
                                else s1
                            | None \<Rightarrow> s1);
                      s3 = release_key remoteCode s2
                  in case synthesizedShift s3 of
                       Some shift \<Rightarrow>
                         if shift = remoteCode then s3\<lparr>synthesizedShift := None\<rparr>
                         else if \<not> isShiftRelease
                         then (release_key shift s3)\<lparr>synthesizedShift := None\<rparr>
                         else s3
                     | None \<Rightarrow> s3)))"

definition releaseAll :: "capture \<Rightarrow> capture" where
  "releaseAll s = (emit ReleaseRemoteInput s)\<lparr>forwardedKeys := {}, synthesizedShift := None\<rparr>"

definition handleVisibilityChange :: "bool \<Rightarrow> capture \<Rightarrow> capture" where
  "handleVisibilityChange hidden s = (if hidden then releaseAll s else s)"

text \<open>The function the effect returns; no handler, timer or frame runs after it.\<close>

definition cleanup :: "capture \<Rightarrow> capture" where
  "cleanup s =
     emit ReleaseRemoteInput
       ((resetTouchGesture s)\<lparr>pendingPointerMove := None, pointerFrame := False\<rparr>)"

section \<open>Runs\<close>

datatype input_event =
    PointerMoved pointer_event
  | PointerPressed pointer_event
  | PointerReleased pointer_event
  | PointerCancelled pointer_event
  | Wheeled rat rat
  | ContextMenuOpened
  | KeyPressed key_event
  | KeyReleased key_event
  | Blurred
  | VisibilityChanged bool
  | LongPressFired
  | FrameFired

text \<open>The timer and the frame run only while they are set.\<close>

fun handle :: "input_event \<Rightarrow> capture \<Rightarrow> capture" where
  "handle (PointerMoved e) s = handlePointerMove e s"
| "handle (PointerPressed e) s = handlePointerDown e s"
| "handle (PointerReleased e) s = handlePointerUp e s"
| "handle (PointerCancelled e) s = handlePointerCancel e s"
| "handle (Wheeled dx dy) s = handleWheel dx dy s"
| "handle ContextMenuOpened s = handleContextMenu s"
| "handle (KeyPressed e) s = handleKeyDown e s"
| "handle (KeyReleased e) s = handleKeyUp e s"
| "handle Blurred s = releaseAll s"
| "handle (VisibilityChanged hidden) s = handleVisibilityChange hidden s"
| "handle LongPressFired s = (if longPressTimer s then long_press_fired s else s)"
| "handle FrameFired s = (if pointerFrame s then pointer_frame_fired s else s)"

inductive captured :: "capture \<Rightarrow> bool" where
  captured_start: "useInputCapture True True = Some s \<Longrightarrow> captured s"
| captured_event: "captured s \<Longrightarrow> captured (handle e s)"

section \<open>What the far side holds\<close>

fun key_effect :: "effect \<Rightarrow> jstring set \<Rightarrow> jstring set" where
  "key_effect (SendKey code Down) ks = insert code ks"
| "key_effect (SendKey code Up) ks = ks - {code}"
| "key_effect ReleaseRemoteInput ks = {}"
| "key_effect _ ks = ks"

definition held_keys :: "effect list \<Rightarrow> jstring set" where
  "held_keys es = fold key_effect es {}"

fun is_button :: "effect \<Rightarrow> bool" where
  "is_button (SendPointerButton b a) = True"
| "is_button _ = False"

definition button_sends :: "effect list \<Rightarrow> effect list" where
  "button_sends es = filter is_button es"

lemma held_keys_Nil [simp]: "held_keys [] = {}"
  by (simp add: held_keys_def)

lemma held_keys_append [simp]: "held_keys (es @ fs) = fold key_effect fs (held_keys es)"
  by (simp add: held_keys_def)

lemma button_sends_append [simp]: "button_sends (es @ fs) = button_sends es @ filter is_button fs"
  by (simp add: button_sends_def)

lemma emit_fields [simp]:
  "touchPhase (emit e s) = touchPhase s" "touchOrigin (emit e s) = touchOrigin s"
  "longPressTimer (emit e s) = longPressTimer s" "forwardedKeys (emit e s) = forwardedKeys s"
  "synthesizedShift (emit e s) = synthesizedShift s" "pointerFrame (emit e s) = pointerFrame s"
  "pendingPointerMove (emit e s) = pendingPointerMove s" "effects (emit e s) = effects s @ [e]"
  by (simp_all add: emit_def)

lemma press_fields [simp]:
  "forwardedKeys (press_key c s) = insert c (forwardedKeys s)"
  "synthesizedShift (press_key c s) = synthesizedShift s"
  "effects (press_key c s) = effects s @ [SendKey c Down]"
  by (simp_all add: press_key_def)

lemma release_fields [simp]:
  "forwardedKeys (release_key c s) = forwardedKeys s - {c}"
  "synthesizedShift (release_key c s) = synthesizedShift s"
  "effects (release_key c s) = effects s @ [SendKey c Up]"
  by (simp_all add: release_key_def)

lemmas pointer_defs = flushPointerMove_def pointer_frame_fired_def send_pending_def queuePointerMove_def
  sendPointerMoveImmediately_def clearLongPressTimer_def resetTouchGesture_def stream_move_def
  release_capture_def long_press_fired_def

lemmas handler_defs = handlePointerMove_def handlePointerDown_def handlePointerUp_def
  handlePointerCancel_def handleWheel_def handleContextMenu_def handleVisibilityChange_def releaseAll_def

section \<open>Keys\<close>

text \<open>
  Whatever the far side holds is remembered as forwarded, only codes of the whitelist are,
  and a repaired Shift is the left one and remembered.
\<close>

definition captured_codes :: "jstring set" where
  "captured_codes = {c. rmatch KEY_CODE_PATTERN c}"

definition keys_ok :: "capture \<Rightarrow> bool" where
  "keys_ok s \<longleftrightarrow> held_keys (effects s) \<subseteq> forwardedKeys s \<and> forwardedKeys s \<subseteq> captured_codes"

definition shift_ok :: "capture \<Rightarrow> bool" where
  "shift_ok s \<longleftrightarrow> synthesizedShift s = None
     \<or> (synthesizedShift s = Some (lit ''ShiftLeft'') \<and> lit ''ShiftLeft'' \<in> forwardedKeys s)"

lemma captured_codes_iff: "c \<in> captured_codes \<longleftrightarrow> c \<in> lit ` set CAPTURE_CODES"
  using capture_codes by (simp add: captured_codes_def rmatch_iff accepts_codes_def)

lemma shift_codes: "lit ''ShiftLeft'' \<in> captured_codes" "lit ''ShiftRight'' \<in> captured_codes"
  by (simp_all add: captured_codes_iff CAPTURE_CODES_def prefixed_def)

lemma is_shift_literals: "is_shift (lit ''ShiftLeft'')" "is_shift (lit ''ShiftRight'')"
  by (simp_all add: is_shift_def js_starts_with_def lit_Cons)

lemma keys_ok_press: "keys_ok s \<Longrightarrow> c \<in> captured_codes \<Longrightarrow> keys_ok (press_key c s)"
  by (auto simp: keys_ok_def)

lemma keys_ok_release: "keys_ok s \<Longrightarrow> keys_ok (release_key c s)"
  by (auto simp: keys_ok_def)

lemma keys_ok_emit: "keys_ok s \<Longrightarrow> (\<And>ks. key_effect e ks \<subseteq> ks) \<Longrightarrow> keys_ok (emit e s)"
  unfolding keys_ok_def emit_fields held_keys_append fold.simps o_def id_def by blast

lemma keys_ok_synth [simp]: "keys_ok (s\<lparr>synthesizedShift := x\<rparr>) \<longleftrightarrow> keys_ok s"
  by (simp add: keys_ok_def)

lemma keys_ok_release_if: "keys_ok s \<Longrightarrow> keys_ok (release_if_forwarded c s)"
  by (simp add: release_if_forwarded_def keys_ok_release)

lemma release_if_fields:
  "forwardedKeys (release_if_forwarded c s) = forwardedKeys s - {c}"
  "synthesizedShift (release_if_forwarded c s) = synthesizedShift s"
  by (simp_all add: release_if_forwarded_def)

lemma keys_ok_repair: "keys_ok s \<Longrightarrow> keys_ok (repair_shift e c s)"
  using shift_codes by (auto simp: repair_shift_def Let_def intro!: keys_ok_press keys_ok_release_if)

lemma shift_ok_repair: "shift_ok s \<Longrightarrow> shift_ok (repair_shift e c s)"
  by (auto simp: repair_shift_def Let_def shift_ok_def release_if_fields)

lemma shift_ok_press: "shift_ok s \<Longrightarrow> shift_ok (press_key c s)"
  by (auto simp: shift_ok_def)

text \<open>The two keyboard handlers.\<close>

lemma keyDown_ok: "keys_ok s \<and> shift_ok s \<Longrightarrow> keys_ok (handleKeyDown e s) \<and> shift_ok (handleKeyDown e s)"
  by (auto simp: handleKeyDown_def Let_def captured_codes_def
      intro!: keys_ok_press keys_ok_repair keys_ok_emit shift_ok_press shift_ok_repair)
    (simp add: shift_ok_def)

text \<open>A key-up that is not ignored: the code, and a repaired Shift, are up afterwards.\<close>

definition ignored_up :: "key_event \<Rightarrow> capture \<Rightarrow> bool" where
  "ignored_up e s \<longleftrightarrow> \<not> rmatch KEY_CODE_PATTERN (getRemoteKeyCode (ke_key e) (ke_code e))
     \<or> (isInteractiveTarget (ke_target e)
        \<and> getRemoteKeyCode (ke_key e) (ke_code e) \<notin> forwardedKeys s
        \<and> \<not> is_shift (getRemoteKeyCode (ke_key e) (ke_code e)))"

lemma keyUp_ignored: "ignored_up e s \<Longrightarrow> handleKeyUp e s = s"
  by (auto simp: ignored_up_def handleKeyUp_def Let_def)

lemma keyUp_handled:
  assumes "\<not> ignored_up e s" "shift_ok s"
  defines "c \<equiv> getRemoteKeyCode (ke_key e) (ke_code e)"
  shows "synthesizedShift (handleKeyUp e s) = None"
    "forwardedKeys (handleKeyUp e s) = forwardedKeys s - {c} - set_option (synthesizedShift s)"
    "held_keys (effects (handleKeyUp e s)) = held_keys (effects s) - {c} - set_option (synthesizedShift s)"
proof -
  have go: "rmatch KEY_CODE_PATTERN c" "\<not> (isInteractiveTarget (ke_target e) \<and> c \<notin> forwardedKeys s \<and> \<not> is_shift c)"
    using assms(1) by (auto simp: ignored_up_def c_def)
  have other: "\<not> is_shift c \<Longrightarrow> c \<noteq> lit ''ShiftLeft''"
    using is_shift_literals by auto
  show "synthesizedShift (handleKeyUp e s) = None"
    "forwardedKeys (handleKeyUp e s) = forwardedKeys s - {c} - set_option (synthesizedShift s)"
    "held_keys (effects (handleKeyUp e s)) = held_keys (effects s) - {c} - set_option (synthesizedShift s)"
    using assms(2) go other
    by (auto simp: handleKeyUp_def Let_def c_def [symmetric] shift_ok_def split: option.split)
qed

lemma keyUp_ok:
  assumes "keys_ok s" "shift_ok s"
  shows "keys_ok (handleKeyUp e s)" "shift_ok (handleKeyUp e s)"
  using keyUp_handled [OF _ assms(2), of e] keyUp_ignored [of e s] assms
  by (cases "ignored_up e s"; auto simp: keys_ok_def shift_ok_def)+

section \<open>Every handler keeps the keys\<close>

text \<open>What the pointer handlers leave alone.\<close>

definition same_keys :: "capture \<Rightarrow> capture \<Rightarrow> bool" where
  "same_keys s s' \<longleftrightarrow> forwardedKeys s' = forwardedKeys s \<and> synthesizedShift s' = synthesizedShift s
     \<and> held_keys (effects s') = held_keys (effects s)"

lemma same_keys_pointer:
  "same_keys s (send_pending s)" "same_keys s (handlePointerMove e s)" "same_keys s (handlePointerDown e s)"
  "same_keys s (handlePointerUp e s)" "same_keys s (long_press_fired s)"
  "same_keys s (pointer_frame_fired s)" "same_keys s (handleWheel dx dy s)" "same_keys s (handleContextMenu s)"
  by (auto simp: same_keys_def handler_defs pointer_defs Let_def
      split: option.split sum.split touch_phase.split prod.split)

lemma keys_same: "keys_ok s \<and> shift_ok s \<Longrightarrow> same_keys s s' \<Longrightarrow> keys_ok s' \<and> shift_ok s'"
  by (simp add: same_keys_def keys_ok_def shift_ok_def)

lemma keys_cancel: "keys_ok s \<and> shift_ok s \<Longrightarrow> keys_ok (handlePointerCancel e s) \<and> shift_ok (handlePointerCancel e s)"
  by (auto simp: handler_defs pointer_defs keys_ok_def shift_ok_def)

lemma keys_release: "keys_ok (releaseAll s) \<and> shift_ok (releaseAll s)"
  by (simp add: handler_defs keys_ok_def shift_ok_def)

lemma handle_keys:
  assumes "keys_ok s \<and> shift_ok s"
  shows "keys_ok (handle e s) \<and> shift_ok (handle e s)"
proof -
  have same: "same_keys s t \<Longrightarrow> keys_ok t \<and> shift_ok t" for t
    using keys_same [OF assms] .
  have up: "keys_ok (handleKeyUp k s)" "shift_ok (handleKeyUp k s)" for k
    using keyUp_ok assms by simp_all
  show ?thesis
    by (cases e; simp add: assms up keyDown_ok keys_cancel keys_release handleVisibilityChange_def
        same same_keys_pointer)
qed

lemma captured_keys: "captured s \<Longrightarrow> keys_ok s \<and> shift_ok s"
proof (induction rule: captured.induct)
  case (captured_start s)
  then show ?case by (auto simp: useInputCapture_def keys_ok_def shift_ok_def)
qed (rule handle_keys)

section \<open>Gestures\<close>

definition touch_ok :: "capture \<Rightarrow> bool" where
  "touch_ok s \<longleftrightarrow> (longPressTimer s \<longleftrightarrow> touchPhase s = Some Pending)
     \<and> (touchOrigin s = None \<longleftrightarrow> touchPhase s = None)"

text \<open>What the keyboard handlers, frames and wheel leave alone.\<close>

definition same_touch :: "capture \<Rightarrow> capture \<Rightarrow> bool" where
  "same_touch s s' \<longleftrightarrow> longPressTimer s' = longPressTimer s \<and> touchPhase s' = touchPhase s
     \<and> touchOrigin s' = touchOrigin s \<and> button_sends (effects s') = button_sends (effects s)"

definition same_moves :: "capture \<Rightarrow> capture \<Rightarrow> bool" where
  "same_moves s s' \<longleftrightarrow> pointerFrame s' = pointerFrame s \<and> pendingPointerMove s' = pendingPointerMove s"

lemma same_touch_refl [simp]: "same_touch s s" "same_moves s s"
  by (simp_all add: same_touch_def same_moves_def)

lemma same_touch_step:
  "same_touch s (press_key c t) \<longleftrightarrow> same_touch s t" "same_touch s (release_key c t) \<longleftrightarrow> same_touch s t"
  "same_touch s (t\<lparr>synthesizedShift := x\<rparr>) \<longleftrightarrow> same_touch s t"
  "same_touch s (t\<lparr>forwardedKeys := ks\<rparr>) \<longleftrightarrow> same_touch s t"
  "same_moves s (t\<lparr>forwardedKeys := ks\<rparr>) \<longleftrightarrow> same_moves s t"
  "same_moves s (press_key c t) \<longleftrightarrow> same_moves s t" "same_moves s (release_key c t) \<longleftrightarrow> same_moves s t"
  "same_moves s (t\<lparr>synthesizedShift := x\<rparr>) \<longleftrightarrow> same_moves s t"
  "same_moves s (emit e t) \<longleftrightarrow> same_moves s t"
  "\<not> is_button e \<Longrightarrow> same_touch s (emit e t) \<longleftrightarrow> same_touch s t"
  by (simp_all add: same_touch_def same_moves_def press_key_def release_key_def)

lemma same_repair:
  "same_touch s t \<Longrightarrow> same_touch s (repair_shift e c t)"
  "same_moves s t \<Longrightarrow> same_moves s (repair_shift e c t)"
  by (simp_all add: repair_shift_def Let_def release_if_forwarded_def same_touch_step)

lemma same_touch_keyboard:
  "same_touch s (handleKeyDown k s)" "same_touch s (handleKeyUp k s)" "same_touch s (releaseAll s)"
  "same_moves s (handleKeyDown k s)" "same_moves s (handleKeyUp k s)" "same_moves s (releaseAll s)"
  by (simp_all add: handleKeyDown_def handleKeyUp_def Let_def releaseAll_def same_touch_step
      same_repair split: option.split)

lemma same_touch_pointer:
  "same_touch s (stream_move e s)" "same_touch s (pointer_frame_fired s)" "same_touch s (handleWheel dx dy s)"
  "same_touch s (handleContextMenu s)" "same_touch s (flushPointerMove s)"
  by (auto simp: same_touch_def handler_defs pointer_defs split: option.split sum.split)

lemma touch_same: "touch_ok s \<Longrightarrow> same_touch s s' \<Longrightarrow> touch_ok s'"
  by (simp add: touch_ok_def same_touch_def)

lemma stream_move_touch [simp]:
  "touchPhase (stream_move e s) = touchPhase s" "touchOrigin (stream_move e s) = touchOrigin s"
  "longPressTimer (stream_move e s) = longPressTimer s"
  "button_sends (effects (stream_move e s)) = button_sends (effects s)"
  using same_touch_pointer(1) [of s e] by (simp_all add: same_touch_def)

lemma flush_touch [simp]:
  "touchPhase (flushPointerMove s) = touchPhase s" "touchOrigin (flushPointerMove s) = touchOrigin s"
  "longPressTimer (flushPointerMove s) = longPressTimer s"
  "button_sends (effects (flushPointerMove s)) = button_sends (effects s)"
  using same_touch_pointer(5) [of s] by (simp_all add: same_touch_def)

text \<open>A move while the touch is undecided starts a drag or does nothing; else it only streams.\<close>

lemma pointerMove_cases:
  assumes "touch_ok s"
  shows "same_touch s (handlePointerMove e s) \<or>
    (touchPhase s = Some Pending \<and> touchPhase (handlePointerMove e s) = Some Dragging
     \<and> \<not> longPressTimer (handlePointerMove e s) \<and> touchOrigin (handlePointerMove e s) = touchOrigin s
     \<and> button_sends (effects (handlePointerMove e s))
       = button_sends (effects s) @ [SendPointerButton LeftButton Down])"
proof (cases "pe_touch e \<and> touchPhase s = Some Pending")
  case True
  then obtain origin where "touchOrigin s = Some origin"
    using assms by (auto simp: touch_ok_def)
  then show ?thesis
    using True by (simp add: handlePointerMove_def clearLongPressTimer_def)
next
  case False
  then show ?thesis
    by (auto simp: handlePointerMove_def same_touch_pointer split: option.split touch_phase.split)
qed

lemma touch_pointerDown: "touch_ok s \<Longrightarrow> touch_ok (handlePointerDown e s)"
  by (simp add: handlePointerDown_def Let_def touch_ok_def pointer_defs split: option.split sum.split)

lemma touch_pointerUp: "touch_ok s \<Longrightarrow> touch_ok (handlePointerUp e s)"
  by (auto simp: handlePointerUp_def Let_def touch_ok_def resetTouchGesture_def
      clearLongPressTimer_def release_capture_def split: option.split)

lemma touch_cancel: "touch_ok (handlePointerCancel e s)"
  by (simp add: handlePointerCancel_def touch_ok_def pointer_defs)

lemma touch_long_press: "touch_ok s \<Longrightarrow> touch_ok (long_press_fired s)"
  by (simp add: long_press_fired_def Let_def touch_ok_def)

lemma handle_touch: "touch_ok s \<Longrightarrow> touch_ok (handle e s)"
proof -
  assume ok: "touch_ok s"
  have same: "same_touch s t \<Longrightarrow> touch_ok t" for t by (rule touch_same [OF ok])
  have move: "touch_ok (handlePointerMove p s)" for p
    using pointerMove_cases [OF ok, of p]
  proof
    assume "same_touch s (handlePointerMove p s)"
    then show ?thesis by (rule same)
  qed (use ok in \<open>simp add: touch_ok_def\<close>)
  show ?thesis
    by (cases e; simp add: ok move touch_pointerDown touch_pointerUp touch_cancel touch_long_press
        same same_touch_keyboard same_touch_pointer handleVisibilityChange_def)
qed

lemma captured_touch: "captured s \<Longrightarrow> touch_ok s"
proof (induction rule: captured.induct)
  case (captured_start s)
  then show ?case by (auto simp: useInputCapture_def touch_ok_def)
qed (rule handle_touch)

text \<open>
  The events of one touch between its press and its release, and what they may have made of
  it: nothing yet, a left drag, or a right click.
\<close>

fun gesture_event :: "input_event \<Rightarrow> bool" where
  "gesture_event (PointerPressed e) = False"
| "gesture_event (PointerReleased e) = False"
| "gesture_event (PointerCancelled e) = False"
| "gesture_event _ = True"

definition gesture_state :: "effect list \<Rightarrow> capture \<Rightarrow> bool" where
  "gesture_state bs s \<longleftrightarrow>
     (touchPhase s = Some Pending \<and> button_sends (effects s) = bs)
     \<or> (touchPhase s = Some Dragging
        \<and> button_sends (effects s) = bs @ [SendPointerButton LeftButton Down])
     \<or> (touchPhase s = Some Converted
        \<and> button_sends (effects s) = bs @ [SendPointerButton RightButton Down, SendPointerButton RightButton Up])"

lemma gesture_same: "gesture_state bs s \<Longrightarrow> same_touch s s' \<Longrightarrow> gesture_state bs s'"
  by (simp add: gesture_state_def same_touch_def)

lemma gesture_move: "touch_ok s \<Longrightarrow> gesture_state bs s \<Longrightarrow> gesture_state bs (handlePointerMove e s)"
proof -
  assume a: "touch_ok s" "gesture_state bs s"
  from pointerMove_cases [OF a(1), of e] show ?thesis
  proof
    assume "same_touch s (handlePointerMove e s)"
    then show ?thesis by (rule gesture_same [OF a(2)])
  qed (use a(2) in \<open>auto simp: gesture_state_def\<close>)
qed

lemma gesture_long_press:
  "touch_ok s \<Longrightarrow> gesture_state bs s \<Longrightarrow> longPressTimer s \<Longrightarrow> gesture_state bs (long_press_fired s)"
  by (auto simp: gesture_state_def touch_ok_def long_press_fired_def Let_def)

lemma gesture_step:
  assumes "touch_ok s" "gesture_state bs s" "gesture_event e"
  shows "gesture_state bs (handle e s)"
proof -
  have same: "same_touch s t \<Longrightarrow> gesture_state bs t" for t by (rule gesture_same [OF assms(2)])
  show ?thesis
    using assms(3)
    by (cases e; simp add: assms(1,2) gesture_move gesture_long_press
        same same_touch_keyboard same_touch_pointer handleVisibilityChange_def)
qed

lemma gesture_run:
  "list_all gesture_event es \<Longrightarrow> touch_ok s \<Longrightarrow> gesture_state bs s \<Longrightarrow>
   touch_ok (fold handle es s) \<and> gesture_state bs (fold handle es s)"
  by (induction es arbitrary: s) (simp_all add: handle_touch gesture_step)

lemma gesture_press:
  assumes "pe_touch e" "pe_button e = 0"
    and "\<not> isl (toNormalized (pe_view e) (pe_clientX e) (pe_clientY e))"
  shows "gesture_state (button_sends (effects s)) (handlePointerDown e s)"
proof -
  obtain p where "toNormalized (pe_view e) (pe_clientX e) (pe_clientY e) = Inr p"
    using assms(3) by (cases "toNormalized (pe_view e) (pe_clientX e) (pe_clientY e)") auto
  then show ?thesis
    using assms(1,2)
    by (simp add: handlePointerDown_def Let_def gesture_state_def pointer_defs split: option.split)
qed

lemma gesture_release:
  assumes "pe_touch e" "gesture_state bs s"
  shows "touchPhase (handlePointerUp e s) = None \<and>
    (button_sends (effects (handlePointerUp e s))
       = bs @ [SendPointerButton LeftButton Down, SendPointerButton LeftButton Up]
     \<or> button_sends (effects (handlePointerUp e s))
       = bs @ [SendPointerButton RightButton Down, SendPointerButton RightButton Up])"
  using assms
  by (auto simp: handlePointerUp_def Let_def gesture_state_def resetTouchGesture_def
      clearLongPressTimer_def release_capture_def)

section \<open>What is sent\<close>

definition unit_point :: "rat \<Rightarrow> rat \<Rightarrow> bool" where
  "unit_point x y \<longleftrightarrow> 0 \<le> x \<and> x \<le> 1 \<and> 0 \<le> y \<and> y \<le> 1"

fun effect_ok :: "effect \<Rightarrow> bool" where
  "effect_ok (SendKey code a) = (code \<in> captured_codes)"
| "effect_ok (SendPointerMove x y) = unit_point x y"
| "effect_ok (SendPointerWheel dx dy) = (\<bar>dx\<bar> \<le> 1200 \<and> \<bar>dy\<bar> \<le> 1200)"
| "effect_ok _ = True"

definition moves_ok :: "capture \<Rightarrow> bool" where
  "moves_ok s \<longleftrightarrow> (pointerFrame s \<longleftrightarrow> pendingPointerMove s \<noteq> None)
     \<and> (\<forall>x y. pendingPointerMove s = Some (x, y) \<longrightarrow> unit_point x y)"

definition effects_ok :: "capture \<Rightarrow> bool" where
  "effects_ok s \<longleftrightarrow> list_all effect_ok (effects s)"

lemma toNormalized_unit: "toNormalized v x y = Inr (Some p) \<Longrightarrow> unit_point (px p) (py p)"
  using normalized_unit by (auto simp: toNormalized_def unit_point_def split: if_splits)

lemma moves_stream: "moves_ok s \<Longrightarrow> moves_ok (stream_move e s)"
  using toNormalized_unit
  by (auto simp: stream_move_def moves_ok_def queuePointerMove_def split: sum.split option.split)

lemma effects_stream [simp]: "effects (stream_move e s) = effects s"
  by (simp add: stream_move_def queuePointerMove_def split: sum.split option.split)

lemma moves_same: "moves_ok s \<Longrightarrow> same_moves s s' \<Longrightarrow> moves_ok s'"
  by (simp add: moves_ok_def same_moves_def)

lemma moves_flush:
  "moves_ok s \<Longrightarrow> moves_ok (send_pending (s\<lparr>pointerFrame := False\<rparr>))"
  "moves_ok s \<Longrightarrow> effects_ok s \<Longrightarrow> effects_ok (send_pending (s\<lparr>pointerFrame := False\<rparr>))"
  by (auto simp: send_pending_def moves_ok_def effects_ok_def split: option.split)

lemma moves_pointer:
  assumes "moves_ok s"
  shows "moves_ok (handlePointerMove e s)" "moves_ok (handlePointerDown e s)"
    "moves_ok (handlePointerUp e s)" "moves_ok (handlePointerCancel e s)" "moves_ok (long_press_fired s)"
proof -
  have drag: "moves_ok (stream_move e (emit b ((clearLongPressTimer s)\<lparr>touchPhase := p\<rparr>)))" for b p
    by (rule moves_stream, rule moves_same [OF assms]) (simp add: same_moves_def clearLongPressTimer_def)
  show "moves_ok (handlePointerMove e s)"
    using assms drag by (auto simp: handlePointerMove_def moves_stream split: option.split touch_phase.split)
  show "moves_ok (handlePointerDown e s)"
    using assms by (auto simp: handlePointerDown_def Let_def moves_ok_def pointer_defs
        split: option.split sum.split)
  have "moves_ok (flushPointerMove s)"
    using moves_flush(1) [OF assms] by (simp add: flushPointerMove_def)
  then show "moves_ok (handlePointerUp e s)"
    by (auto simp: handlePointerUp_def Let_def moves_ok_def resetTouchGesture_def
        clearLongPressTimer_def release_capture_def split: option.split)
  show "moves_ok (handlePointerCancel e s)" "moves_ok (long_press_fired s)"
    using assms by (simp_all add: handlePointerCancel_def moves_ok_def pointer_defs Let_def)
qed

lemma handle_moves: "moves_ok s \<Longrightarrow> moves_ok (handle e s)"
proof -
  assume ok: "moves_ok s"
  have same: "same_moves s t \<Longrightarrow> moves_ok t" for t by (rule moves_same [OF ok])
  show ?thesis
    by (cases e; simp add: ok moves_pointer pointer_frame_fired_def moves_flush
        same same_touch_keyboard same_touch_step handleWheel_def handleContextMenu_def
        handleVisibilityChange_def)
qed

lemma effects_ok_step [simp]:
  "effects_ok (emit e s) \<longleftrightarrow> effects_ok s \<and> effect_ok e"
  "effects_ok (press_key c s) \<longleftrightarrow> effects_ok s \<and> c \<in> captured_codes"
  "effects_ok (release_key c s) \<longleftrightarrow> effects_ok s \<and> c \<in> captured_codes"
  "effects_ok (s\<lparr>synthesizedShift := x\<rparr>) \<longleftrightarrow> effects_ok s"
  "effects_ok (s\<lparr>forwardedKeys := ks\<rparr>) \<longleftrightarrow> effects_ok s"
  "effects_ok (s\<lparr>touchPhase := ph\<rparr>) \<longleftrightarrow> effects_ok s"
  "effects_ok (s\<lparr>touchOrigin := og\<rparr>) \<longleftrightarrow> effects_ok s"
  "effects_ok (s\<lparr>longPressTimer := b\<rparr>) \<longleftrightarrow> effects_ok s"
  "effects_ok (s\<lparr>pendingPointerMove := q\<rparr>) \<longleftrightarrow> effects_ok s"
  "effects_ok (s\<lparr>pointerFrame := b\<rparr>) \<longleftrightarrow> effects_ok s"
  by (simp_all add: effects_ok_def press_key_def release_key_def)

lemma clampWheel_abs: "\<bar>clampWheel v\<bar> \<le> 1200"
  using clampWheel_bounds [of v] by (simp add: abs_le_iff)

lemma effects_pointer:
  assumes "moves_ok s" "effects_ok s"
  shows "effects_ok (handlePointerMove e s)" "effects_ok (handlePointerDown e s)"
    "effects_ok (handlePointerUp e s)" "effects_ok (handlePointerCancel e s)"
    "effects_ok (long_press_fired s)" "effects_ok (handleWheel dx dy s)"
proof -
  have stream: "effects_ok (stream_move e t) \<longleftrightarrow> effects_ok t" for t
    by (simp add: effects_ok_def)
  show "effects_ok (handlePointerMove e s)"
    using assms by (auto simp: handlePointerMove_def stream clearLongPressTimer_def
        split: option.split touch_phase.split)
  show "effects_ok (handlePointerDown e s)"
    using assms toNormalized_unit
    by (auto simp: handlePointerDown_def Let_def sendPointerMoveImmediately_def clearLongPressTimer_def
        split: option.split sum.split)
  have "effects_ok (flushPointerMove s)"
    using moves_flush(2) [OF assms] by (simp add: flushPointerMove_def)
  then show "effects_ok (handlePointerUp e s)"
    by (auto simp: handlePointerUp_def Let_def resetTouchGesture_def
        clearLongPressTimer_def release_capture_def split: option.split)
  show "effects_ok (handlePointerCancel e s)" "effects_ok (long_press_fired s)" "effects_ok (handleWheel dx dy s)"
    using assms clampWheel_abs
    by (simp_all add: handlePointerCancel_def pointer_defs Let_def handleWheel_def)
qed

lemma effects_repair: "effects_ok s \<Longrightarrow> effects_ok (repair_shift e c s)"
  using shift_codes by (simp add: repair_shift_def Let_def release_if_forwarded_def)

lemma effects_keyboard:
  assumes "shift_ok s" "effects_ok s"
  shows "effects_ok (handleKeyDown e s)" "effects_ok (handleKeyUp e s)"
proof -
  have code: "rmatch KEY_CODE_PATTERN c \<longleftrightarrow> c \<in> captured_codes" for c
    by (simp add: captured_codes_def)
  show "effects_ok (handleKeyDown e s)" "effects_ok (handleKeyUp e s)"
    using assms shift_codes
    by (auto simp: handleKeyDown_def handleKeyUp_def Let_def code effects_repair shift_ok_def
        split: option.split)
qed

lemma handle_effects:
  assumes "moves_ok s" "shift_ok s" "effects_ok s"
  shows "effects_ok (handle e s)"
  by (cases e; simp add: assms effects_pointer effects_keyboard pointer_frame_fired_def moves_flush
      handleContextMenu_def handleVisibilityChange_def releaseAll_def)

lemma captured_effects: "captured s \<Longrightarrow> moves_ok s \<and> effects_ok s"
proof (induction rule: captured.induct)
  case (captured_start s)
  then show ?case by (auto simp: useInputCapture_def moves_ok_def effects_ok_def)
next
  case (captured_event s e)
  then show ?case using handle_moves handle_effects captured_keys by blast
qed

section \<open>Modifiers\<close>

text \<open>
  A key-down that is forwarded: the far side's idea of Shift follows the event's, as long as
  the far side holds what was forwarded.
\<close>

lemma keyDown_forwarded:
  assumes "\<not> ke_repeat e" "\<not> isInteractiveTarget (ke_target e)"
    and "rmatch KEY_CODE_PATTERN (getRemoteKeyCode (ke_key e) (ke_code e))"
  shows "handleKeyDown e s = press_key (getRemoteKeyCode (ke_key e) (ke_code e))
    (repair_shift e (getRemoteKeyCode (ke_key e) (ke_code e)) (emit PreventDefault s))"
  using assms by (simp add: handleKeyDown_def Let_def)

lemma release_if_held:
  "held_keys (effects s) \<subseteq> forwardedKeys s \<Longrightarrow>
   held_keys (effects (release_if_forwarded c s)) = held_keys (effects s) - {c}"
  by (auto simp: release_if_forwarded_def)

lemma release_if_subset:
  "held_keys (effects s) \<subseteq> forwardedKeys s \<Longrightarrow>
   held_keys (effects (release_if_forwarded c s)) \<subseteq> forwardedKeys (release_if_forwarded c s)"
  by (auto simp: release_if_forwarded_def)

definition shifted :: "jstring set \<Rightarrow> bool" where
  "shifted ks \<longleftrightarrow> lit ''ShiftLeft'' \<in> ks \<or> lit ''ShiftRight'' \<in> ks"

lemma keyDown_shift:
  assumes "keys_ok s" "\<not> ke_repeat e" "\<not> isInteractiveTarget (ke_target e)"
    and "rmatch KEY_CODE_PATTERN c" "\<not> is_shift c"
    and "c = getRemoteKeyCode (ke_key e) (ke_code e)"
  shows "c \<in> held_keys (effects (handleKeyDown e s))"
    "\<not> ke_shiftKey e \<Longrightarrow> \<not> shifted (held_keys (effects (handleKeyDown e s)))"
    "ke_shiftKey e \<Longrightarrow> held_keys (effects s) = forwardedKeys s \<Longrightarrow>
       shifted (held_keys (effects (handleKeyDown e s)))"
proof -
  have h: "handleKeyDown e s = press_key c (repair_shift e c (emit PreventDefault s))"
    using keyDown_forwarded [OF assms(2,3)] assms(4,6) by simp
  have c: "c \<noteq> lit ''ShiftLeft''" "c \<noteq> lit ''ShiftRight''"
    using assms(5) is_shift_literals by auto
  have sub: "held_keys (effects (emit PreventDefault s)) \<subseteq> forwardedKeys (emit PreventDefault s)"
    using assms(1) by (simp add: keys_ok_def)
  show "c \<in> held_keys (effects (handleKeyDown e s))" by (simp add: h)
  show "\<not> shifted (held_keys (effects (handleKeyDown e s)))" if "\<not> ke_shiftKey e"
    using that c assms(5) release_if_held [OF sub] release_if_subset [OF sub] release_if_held
    by (simp add: h repair_shift_def Let_def shifted_def)
  show "shifted (held_keys (effects (handleKeyDown e s)))"
    if "ke_shiftKey e" "held_keys (effects s) = forwardedKeys s"
    using that assms(5) by (auto simp: h repair_shift_def Let_def shifted_def)
qed

end
