(* ===== verification/RemoteRuns.thy ===== *)
theory RemoteRuns
  imports RemoteTeardown InputCapture
begin

text \<open>
  The runs of the session hook: its events (what the user, the platform, the timers and the
  far side cause), one step per event, and the states they reach. A step first does what the
  platform does to the object (a socket opens, a channel closes), then runs the handler. The
  conditions say when an event can occur; where the platform gives no guarantee the event is
  always allowed, so there are more runs here than a browser has. In particular the channel an
  image's stream captured, and the offset it has reached, are arguments of its event.
\<close>

datatype viewer_event =
    Connect video_profile
  | Disconnect
  | Unmount
  | ChangeProfile video_profile
  | UserEffect effect
  | SetClipboard jstring
  | DismissText nat
  | DismissImage nat
  | RequestFiles
  | DownloadFile "byte list" jstring
  | SendFile "byte list" jstring nat
  | ClearTransfer
  | ClearDownload
  | UploadRead "byte list" nat
  | UploadUnread nat jstring
  | UploadChunk nat
  | UploadStreamed stream_end nat
  | UploadTimeout nat
  | DownloadVerified nat
  | ImagePrepared "byte list" "byte list"
  | ImageChunk nat nat nat
  | ImageStreamed nat stream_end
  | ImageTimeout nat
  | ImageVerified nat
  | TicketAnswered nat "connection_config option"
  | SocketOpened nat
  | SocketText nat jstring
  | SocketErrored nat
  | SocketClosed nat
  | ControlOpened nat
  | ControlText nat jstring
  | ControlClosed nat
  | ImageOpened nat
  | ImageData nat channel_data
  | ImageClosed nat
  | FileOpened nat
  | FileData nat channel_data
  | FileClosed nat
  | TrackArrived nat
  | PeerStateChanged nat peer_state
  | OfferReady nat "jstring option"
  | NegotiationFailed nat
  | PingTick nat connection_config
  | StatsReport nat "inbound_record list" "ice_record list"
  | EstablishmentTimeout
  | AutoReconnectFired video_profile
  | SignalingRecoveryFired video_profile
  | ProfileTimeout
  | StabilizeTimeout

fun button_text :: "pointer_button \<Rightarrow> string" where
  "button_text LeftButton = ''left''"
| "button_text RightButton = ''right''"
| "button_text MiddleButton = ''middle''"

fun action_text :: "key_action \<Rightarrow> string" where
  "action_text Down = ''down''"
| "action_text Up = ''up''"

text \<open>The application hands the capture the session's own senders.\<close>

fun perform :: "platform \<Rightarrow> int \<Rightarrow> effect \<Rightarrow> viewer \<Rightarrow> viewer" where
  "perform pf now (SendKey code action) v = sendKey pf now code (action_text action) v"
| "perform pf now (SendPointerButton button action) v =
     sendPointerButton pf now (button_text button) (action_text action) v"
| "perform pf now (SendPointerMove x y) v = sendPointerMove pf now x y v"
| "perform pf now (SendPointerWheel dx dy) v = sendPointerWheel pf now dx dy v"
| "perform pf now ReleaseRemoteInput v = releaseRemoteInput pf now v"
| "perform pf now _ v = v"

definition ticket_answered ::
  "platform \<Rightarrow> nat \<Rightarrow> connection_config option \<Rightarrow> viewer \<Rightarrow> viewer" where
  "ticket_answered pf k answer v =
     (let v1 = v\<lparr>ticketRequests := take k (ticketRequests v) @ drop (Suc k) (ticketRequests v)\<rparr>
      in case ticketRequests v ! k of
           ConnectTicket cycle isAuto profile \<Rightarrow> connect_ticket pf cycle isAuto profile answer v1
         | RecoveryTicket cycle profile \<Rightarrow> recovery_ticket pf cycle profile answer v1)"

definition occurs :: "bool \<Rightarrow> viewer \<Rightarrow> viewer option" where
  "occurs possible w = (if possible then Some w else None)"

definition set_socket :: "nat \<Rightarrow> channel_state \<Rightarrow> viewer \<Rightarrow> viewer" where
  "set_socket i r v = update_viewer_socket i (\<lambda>s. s\<lparr>vs_ready := r\<rparr>) v"

definition set_control :: "nat \<Rightarrow> channel_state \<Rightarrow> viewer \<Rightarrow> viewer" where
  "set_control i r v = update_peer i (\<lambda>p. p\<lparr>vp_control := (vp_control p)\<lparr>dc_ready := r\<rparr>\<rparr>) v"

definition set_image :: "nat \<Rightarrow> channel_state \<Rightarrow> viewer \<Rightarrow> viewer" where
  "set_image i r v = update_peer i (\<lambda>p. p\<lparr>vp_image := (vp_image p)\<lparr>dc_ready := r\<rparr>\<rparr>) v"

definition set_file :: "nat \<Rightarrow> channel_state \<Rightarrow> viewer \<Rightarrow> viewer" where
  "set_file i r v = update_peer i (\<lambda>p. p\<lparr>vp_file := (vp_file p)\<lparr>dc_ready := r\<rparr>\<rparr>) v"

definition set_peer :: "nat \<Rightarrow> peer_state \<Rightarrow> viewer \<Rightarrow> viewer" where
  "set_peer i st v = update_peer i (\<lambda>p. p\<lparr>vp_state := st\<rparr>) v"

definition socket_at :: "viewer \<Rightarrow> nat \<Rightarrow> channel_state option" where
  "socket_at v i = (if i < length (viewerSockets v) then Some (vs_ready (viewerSockets v ! i)) else None)"

definition peer_at :: "viewer \<Rightarrow> nat \<Rightarrow> viewer_peer option" where
  "peer_at v i = (if i < length (viewerPeers v) then Some (viewerPeers v ! i) else None)"

fun viewer_step ::
  "platform \<Rightarrow> (byte list \<Rightarrow> byte list) \<Rightarrow> int \<Rightarrow> viewer_event \<Rightarrow> viewer \<Rightarrow> viewer option" where
  "viewer_step pf digest now (Connect profile) v = Some (connectInternal pf profile False v)"
| "viewer_step pf digest now Disconnect v = Some (disconnect v)"
| "viewer_step pf digest now Unmount v = Some (unmount v)"
| "viewer_step pf digest now (ChangeProfile profile) v = Some (changeVideoProfile profile v)"
| "viewer_step pf digest now (UserEffect e) v = Some (perform pf now e v)"
| "viewer_step pf digest now (SetClipboard text) v = Some (setRemoteClipboard pf now text v)"
| "viewer_step pf digest now (DismissText k) v = Some (dismissClipboardEntry k v)"
| "viewer_step pf digest now (DismissImage k) v = Some (dismissClipboardImageEntry k v)"
| "viewer_step pf digest now RequestFiles v = Some (requestFileList pf now v)"
| "viewer_step pf digest now (DownloadFile random name) v = Some (downloadFile pf now random name v)"
| "viewer_step pf digest now (SendFile random name n) v = Some (sendFile random name n v)"
| "viewer_step pf digest now ClearTransfer v = Some (clearFileTransfer v)"
| "viewer_step pf digest now ClearDownload v = Some (clearFileDownload v)"
| "viewer_step pf digest now (UploadRead data i) v =
     occurs (i < length (fileUploads v) \<and> fu_phase (fileUploads v ! i) = ReadingFile)
       (upload_read pf digest now data i v)"
| "viewer_step pf digest now (UploadUnread i code) v =
     occurs (i < length (fileUploads v) \<and> fu_phase (fileUploads v ! i) = ReadingFile)
       (upload_unread i code v)"
| "viewer_step pf digest now (UploadChunk i) v = occurs (upload_sends v i) (upload_chunk i v)"
| "viewer_step pf digest now (UploadStreamed how i) v =
     occurs (upload_ends v i how) (upload_streamed pf now how i v)"
| "viewer_step pf digest now (UploadTimeout i) v =
     occurs (i < length (fileUploads v)) (upload_timeout i v)"
| "viewer_step pf digest now (DownloadVerified k) v =
     occurs (k < length (verifyingDownloads v)) (download_verified digest k v)"
| "viewer_step pf digest now (ImagePrepared data random) v = Some (image_prepared pf digest now data random v)"
| "viewer_step pf digest now (ImageChunk i channel offset) v =
     occurs (i < length (imageUploads v) \<and> \<not> iu_cancelled (imageUploads v ! i)
         \<and> offset < length (iu_data (imageUploads v ! i))
         \<and> map_option (\<lambda>p. dc_ready (vp_image p)) (peer_at v channel) = Some ChOpen)
       (image_chunk i channel offset v)"
| "viewer_step pf digest now (ImageStreamed i how) v =
     occurs (i < length (imageUploads v)) (image_streamed pf now i how v)"
| "viewer_step pf digest now (ImageTimeout i) v =
     occurs (i < length (imageUploads v)) (image_timeout i v)"
| "viewer_step pf digest now (ImageVerified k) v =
     occurs (k < length (verifyingImages v)) (image_verified digest now k v)"
| "viewer_step pf digest now (TicketAnswered k answer) v =
     occurs (k < length (ticketRequests v)) (ticket_answered pf k answer v)"
| "viewer_step pf digest now (SocketOpened i) v =
     occurs (socket_at v i = Some ChConnecting) (socket_opened i (set_socket i ChOpen v))"
| "viewer_step pf digest now (SocketText i text) v =
     occurs (socket_at v i \<in> {Some ChOpen, Some ChClosing}) (socket_message pf now i text v)"
| "viewer_step pf digest now (SocketErrored i) v =
     occurs (socket_at v i \<notin> {None, Some ChClosed}) (socket_error i v)"
| "viewer_step pf digest now (SocketClosed i) v =
     occurs (socket_at v i \<notin> {None, Some ChClosed}) (socket_closed i (set_socket i ChClosed v))"
| "viewer_step pf digest now (ControlOpened i) v =
     occurs (i < length (viewerPeers v) \<and> dc_ready (vp_control (viewerPeers v ! i)) = ChConnecting)
       (control_opened pf now i (set_control i ChOpen v))"
| "viewer_step pf digest now (ControlText i text) v =
     occurs (i < length (viewerPeers v)) (control_message pf now i text v)"
| "viewer_step pf digest now (ControlClosed i) v =
     occurs (i < length (viewerPeers v)) (control_closed i (set_control i ChClosed v))"
| "viewer_step pf digest now (ImageOpened i) v =
     occurs (i < length (viewerPeers v) \<and> dc_ready (vp_image (viewerPeers v ! i)) = ChConnecting)
       (image_channel_opened i (set_image i ChOpen v))"
| "viewer_step pf digest now (ImageData i data) v =
     occurs (i < length (viewerPeers v)) (image_channel_message pf i data v)"
| "viewer_step pf digest now (ImageClosed i) v =
     occurs (i < length (viewerPeers v)) (image_channel_closed i (set_image i ChClosed v))"
| "viewer_step pf digest now (FileOpened i) v =
     occurs (i < length (viewerPeers v) \<and> dc_ready (vp_file (viewerPeers v ! i)) = ChConnecting)
       (file_channel_opened i (set_file i ChOpen v))"
| "viewer_step pf digest now (FileData i data) v =
     occurs (i < length (viewerPeers v)) (file_channel_message pf i data v)"
| "viewer_step pf digest now (FileClosed i) v =
     occurs (i < length (viewerPeers v)) (file_channel_closed i (set_file i ChClosed v))"
| "viewer_step pf digest now (TrackArrived i) v =
     occurs (i < length (viewerPeers v)) (track_arrived i v)"
| "viewer_step pf digest now (PeerStateChanged i st) v =
     occurs (i < length (viewerPeers v) \<and> vp_state (viewerPeers v ! i) \<noteq> PeerClosedState)
       (peer_state_changed i (set_peer i st v))"
| "viewer_step pf digest now (OfferReady i sdp) v =
     occurs (i < length (viewerPeers v) \<and> vp_offering (viewerPeers v ! i)) (offer_ready i sdp v)"
| "viewer_step pf digest now (NegotiationFailed i) v =
     occurs (i < length (viewerSockets v))
       (cycle_failed ''WEBRTC_NEGOTIATION_FAILED'' (vs_cycle (viewerSockets v ! i)) v)"
| "viewer_step pf digest now (PingTick i c) v =
     occurs (i < length (viewerPeers v)) (sendPing pf now i (vp_cycle (viewerPeers v ! i)) c v)"
| "viewer_step pf digest now (StatsReport i inbound ice) v =
     occurs (i < length (viewerPeers v))
       (sampleVideoStats pf now i (vp_cycle (viewerPeers v ! i)) inbound ice v)"
| "viewer_step pf digest now EstablishmentTimeout v =
     occurs (connectionEstablishmentTimer v \<noteq> None)
       (establishment_timeout (the (connectionEstablishmentTimer v)) v)"
| "viewer_step pf digest now (AutoReconnectFired profile) v =
     occurs (autoReconnectTimer v) (auto_reconnect_fired pf profile v)"
| "viewer_step pf digest now (SignalingRecoveryFired profile) v =
     occurs (signalingRecoveryTimer v \<noteq> None)
       (signaling_recovery_fired pf profile (the (signalingRecoveryTimer v)) v)"
| "viewer_step pf digest now ProfileTimeout v = occurs (videoProfileTimer v) (profile_timeout v)"
| "viewer_step pf digest now StabilizeTimeout v = occurs (videoProfileStabilizeTimer v) (stabilize_timeout v)"

text \<open>The hook as its first render leaves it.\<close>

definition new_viewer :: "bool \<Rightarrow> connection_config option \<Rightarrow> viewer" where
  "new_viewer production c =
     \<lparr>isProduction = production, configRef = (if production then None else c), isConnecting = False,
      webSocket = None, peerConnection = None, controlChannel = None, fileChannel = None,
      imageClipboardChannel = None, viewerSockets = [], viewerPeers = [], ticketRequests = [],
      signalingSequence = 0, controlSequence = 0, pingTimer = None, videoStatsTimer = None,
      previousVideoStats = None, missedControlPongs = 0, videoProfileTimer = False,
      videoProfileStabilizeTimer = False, stabilizingVideoProfile = None,
      connectionEstablishmentTimer = None, signalingRecoveryTimer = None,
      signalingRecoveryDelay = SIGNALING_RECOVERY_INITIAL_DELAY_MS,
      signalingRecoveryInFlight = False, stateRef = Offline, connectionState = Offline,
      channelOpenRef = False, trackReadyRef = False, grantedControlRef = False, activeCycle = 0,
      autoReconnectTimer = False, autoReconnectAttempts = 0, userDisconnected = False,
      errorMessage = None, errorAction = None, canRetry = False, mediaStream = False,
      roundTripTimeMs = None, videoTelemetry = EMPTY_VIDEO_TELEMETRY,
      connectionRoute = EMPTY_CONNECTION_ROUTE, controlGranted = False, controlLocked = False,
      controlPolicyEnabled = False, videoProfile = BalancedProfile, videoProfileError = False,
      videoProfilePending = False, videoProfileStabilizing = False, clipboardEntries = [],
      clipboardId = 0, clipboardImages = [], clipboardImageId = 0, canSendClipboardImage = False,
      canSendFiles = False, fileUpload = None, fileUploads = [], fileTransfer = None,
      fileDownload = None, fileDownloadState = None, downloadableFiles = [],
      verifyingDownloads = [], savedFiles = [], incomingClipboardImage = None,
      verifyingImages = [], clipboardImageUpload = None, imageUploads = []\<rparr>"

fun viewer_run ::
  "platform \<Rightarrow> (byte list \<Rightarrow> byte list) \<Rightarrow> (int \<times> viewer_event) list \<Rightarrow> viewer \<Rightarrow> viewer option" where
  "viewer_run pf digest [] v = Some v"
| "viewer_run pf digest ((now, e) # es) v =
     (case viewer_step pf digest now e v of
        Some w \<Rightarrow> viewer_run pf digest es w
      | None \<Rightarrow> None)"

definition reachable_viewer :: "platform \<Rightarrow> (byte list \<Rightarrow> byte list) \<Rightarrow> viewer \<Rightarrow> bool" where
  "reachable_viewer pf digest v \<longleftrightarrow>
     (\<exists>production c es. viewer_run pf digest es (new_viewer production c) = Some v)"

lemma run_append:
  "viewer_run pf digest (es @ fs) v = Option.bind (viewer_run pf digest es v) (viewer_run pf digest fs)"
  by (induction pf digest es v rule: viewer_run.induct) (simp_all split: option.split)

text \<open>A property of the first state that every step keeps holds in every reachable state.\<close>

lemma run_invariant:
  assumes "viewer_run pf digest es v = Some w" "P v"
    and "\<And>now e v w. (now, e) \<in> set es \<Longrightarrow> P v \<Longrightarrow> viewer_step pf digest now e v = Some w \<Longrightarrow> P w"
  shows "P w"
  using assms
proof (induction es arbitrary: v)
  case (Cons x es)
  obtain now e where x: "x = (now, e)" by force
  obtain u where u: "viewer_step pf digest now e v = Some u" "viewer_run pf digest es u = Some w"
    using Cons.prems(1) by (auto simp: x split: option.splits)
  have "P u" using Cons.prems(2,3) u(1) by (auto simp: x)
  then show ?case using Cons.IH u(2) Cons.prems(3) by (metis list.set_intros(2))
qed simp

end
