(* ===== verification/RemoteInvariants.thy ===== *)
theory RemoteInvariants
  imports RemoteRuns
begin

text \<open>
  The invariant of the session hook: the rendered state is the state, the references of a
  connection belong together and to the active cycle, at most one attempt to reach the server
  is under way in a cycle, nothing waits to reconnect a user who disconnected, and the
  counters stay in their bounds.
\<close>

section \<open>What the invariant reads\<close>

definition socket_view :: "viewer_socket \<Rightarrow> nat \<times> bool" where
  "socket_view s = (vs_cycle s, vs_ready s = ChClosed)"

definition objects ::
  "viewer \<Rightarrow> nat option list \<times> (nat \<times> bool) list \<times> nat list \<times> ticket_request list \<times> nat option" where
  "objects v =
     ([webSocket v, peerConnection v, controlChannel v, fileChannel v, imageClipboardChannel v],
      map socket_view (viewerSockets v), map vp_cycle (viewerPeers v), ticketRequests v,
      signalingRecoveryTimer v)"

definition flags ::
  "viewer \<Rightarrow> nat \<times> connection_state \<times> connection_state \<times> bool \<times> bool \<times> bool \<times> bool" where
  "flags v = (activeCycle v, stateRef v, connectionState v, grantedControlRef v, controlGranted v,
     userDisconnected v, autoReconnectTimer v)"

definition counters :: "viewer \<Rightarrow> nat \<times> int \<times> nat" where
  "counters v = (autoReconnectAttempts v, signalingRecoveryDelay v, missedControlPongs v)"

definition same_core :: "viewer \<Rightarrow> viewer \<Rightarrow> bool" where
  "same_core v w \<longleftrightarrow> objects w = objects v \<and> flags w = flags v
     \<and> autoReconnectAttempts w \<le> autoReconnectAttempts v
     \<and> signalingRecoveryDelay w = signalingRecoveryDelay v
     \<and> (missedControlPongs v \<le> 8 \<longrightarrow> missedControlPongs w \<le> 8)"

lemmas core_defs = same_core_def objects_def flags_def counters_def

fun ticket_cycle :: "ticket_request \<Rightarrow> nat" where
  "ticket_cycle (ConnectTicket cycle isAuto profile) = cycle"
| "ticket_cycle (RecoveryTicket cycle profile) = cycle"

text \<open>
  The attempts to reach the server in the active cycle: tickets awaited, a recovery timer,
  sockets that are not closed.
\<close>

definition attempts :: "viewer \<Rightarrow> nat" where
  "attempts v =
     length (filter (\<lambda>t. ticket_cycle t = activeCycle v) (ticketRequests v))
     + (if signalingRecoveryTimer v = Some (activeCycle v) then 1 else 0)
     + length (filter (\<lambda>s. vs_cycle s = activeCycle v \<and> vs_ready s \<noteq> ChClosed) (viewerSockets v))"

definition refs_ok :: "viewer \<Rightarrow> bool" where
  "refs_ok v \<longleftrightarrow>
     controlChannel v = peerConnection v \<and> fileChannel v = peerConnection v
     \<and> imageClipboardChannel v = peerConnection v
     \<and> (\<forall>i. peerConnection v = Some i \<longrightarrow>
          i < length (viewerPeers v) \<and> vp_cycle (viewerPeers v ! i) = activeCycle v
          \<and> stateRef v \<in> {Negotiating, ViewActive, ControlActive})
     \<and> (peerConnection v = None \<longrightarrow> activeCycle v \<notin> vp_cycle ` set (viewerPeers v))
     \<and> (\<forall>i. webSocket v = Some i \<longrightarrow> i < length (viewerSockets v))"

definition cycles_ok :: "viewer \<Rightarrow> bool" where
  "cycles_ok v \<longleftrightarrow>
     (\<forall>p \<in> set (viewerPeers v). vp_cycle p \<le> activeCycle v)
     \<and> (\<forall>s \<in> set (viewerSockets v). vs_cycle s \<le> activeCycle v)
     \<and> (\<forall>t \<in> set (ticketRequests v). ticket_cycle t \<le> activeCycle v)"

definition attempts_ok :: "viewer \<Rightarrow> bool" where
  "attempts_ok v \<longleftrightarrow>
     attempts v \<le> 1
     \<and> (\<forall>c. signalingRecoveryTimer v = Some c \<longrightarrow> c = activeCycle v \<and> peerConnection v \<noteq> None)
     \<and> (\<forall>i < length (viewerSockets v). vs_cycle (viewerSockets v ! i) = activeCycle v
          \<longrightarrow> vs_ready (viewerSockets v ! i) \<noteq> ChClosed \<longrightarrow> webSocket v = Some i)"

definition flags_ok :: "viewer \<Rightarrow> bool" where
  "flags_ok v \<longleftrightarrow> connectionState v = stateRef v \<and> controlGranted v = grantedControlRef v
     \<and> (userDisconnected v \<longrightarrow> \<not> autoReconnectTimer v)"

definition counters_ok :: "viewer \<Rightarrow> bool" where
  "counters_ok v \<longleftrightarrow> autoReconnectAttempts v \<le> 5 \<and> 2000 \<le> signalingRecoveryDelay v
     \<and> signalingRecoveryDelay v \<le> 30000 \<and> missedControlPongs v \<le> 8"

definition viewer_inv :: "viewer \<Rightarrow> bool" where
  "viewer_inv v \<longleftrightarrow> refs_ok v \<and> cycles_ok v \<and> attempts_ok v \<and> flags_ok v \<and> counters_ok v"

lemmas inv_defs = viewer_inv_def refs_ok_def cycles_ok_def attempts_ok_def flags_ok_def counters_ok_def

section \<open>Steps that do not touch what it reads\<close>

lemma same_core_refl [simp]: "same_core v v"
  by (simp add: same_core_def)

lemma same_core_trans: "same_core u v \<Longrightarrow> same_core v w \<Longrightarrow> same_core u w"
  by (auto simp: same_core_def)

lemma attempts_views:
  "attempts v =
     length (filter (\<lambda>t. ticket_cycle t = activeCycle v) (ticketRequests v))
     + (if signalingRecoveryTimer v = Some (activeCycle v) then 1 else 0)
     + length (filter (\<lambda>(c, closed). c = activeCycle v \<and> \<not> closed) (map socket_view (viewerSockets v)))"
  by (simp add: attempts_def filter_map o_def socket_view_def)

lemma same_core_attempts: "same_core v w \<Longrightarrow> attempts w = attempts v"
  by (simp add: attempts_views core_defs)

lemma same_views:
  assumes "map socket_view ss = map socket_view ts"
  shows "length ss = length ts" "i < length ts \<Longrightarrow> vs_cycle (ss ! i) = vs_cycle (ts ! i)"
    "i < length ts \<Longrightarrow> (vs_ready (ss ! i) = ChClosed) = (vs_ready (ts ! i) = ChClosed)"
    "map vs_cycle ss = map vs_cycle ts"
proof -
  show len: "length ss = length ts" using assms by (rule map_eq_imp_length_eq)
  show "vs_cycle (ss ! i) = vs_cycle (ts ! i)"
    "(vs_ready (ss ! i) = ChClosed) = (vs_ready (ts ! i) = ChClosed)" if "i < length ts"
    using arg_cong [OF assms, of "\<lambda>xs. xs ! i"] that len by (simp_all add: socket_view_def)
  show "map vs_cycle ss = map vs_cycle ts"
    using arg_cong [OF assms, of "map fst"] by (simp add: o_def socket_view_def)
qed

lemma same_cycles:
  assumes "map vp_cycle ps = map vp_cycle qs"
  shows "length ps = length qs" "i < length qs \<Longrightarrow> vp_cycle (ps ! i) = vp_cycle (qs ! i)"
    "vp_cycle ` set ps = vp_cycle ` set qs"
proof -
  show len: "length ps = length qs" using assms by (rule map_eq_imp_length_eq)
  show "vp_cycle (ps ! i) = vp_cycle (qs ! i)" if "i < length qs"
    using arg_cong [OF assms, of "\<lambda>xs. xs ! i"] that len by simp
  show "vp_cycle ` set ps = vp_cycle ` set qs" using assms by (metis list.set_map)
qed

lemma ball_map_cong:
  assumes "map f xs = map f ys"
  shows "(\<forall>x \<in> set xs. P (f x)) \<longleftrightarrow> (\<forall>y \<in> set ys. P (f y))"
proof -
  have "(\<forall>x \<in> set zs. P (f x)) \<longleftrightarrow> list_all P (map f zs)" for zs by (simp add: list_all_iff)
  then show ?thesis using assms by simp
qed

definition connection_ok :: "viewer \<Rightarrow> bool" where
  "connection_ok v \<longleftrightarrow> refs_ok v \<and> cycles_ok v \<and> attempts_ok v"

abbreviation "ACTIVE \<equiv> {Negotiating, ViewActive, ControlActive}"

lemma viewer_inv_parts: "viewer_inv v \<longleftrightarrow> connection_ok v \<and> flags_ok v \<and> counters_ok v"
  by (auto simp: viewer_inv_def connection_ok_def)

lemma connection_ok_same:
  assumes "connection_ok v" and obj: "objects w = objects v" and cycle: "activeCycle w = activeCycle v"
    and st: "stateRef v \<in> ACTIVE \<Longrightarrow> stateRef w \<in> ACTIVE"
  shows "connection_ok w"
proof -
  have eqs: "webSocket w = webSocket v" "peerConnection w = peerConnection v"
      "controlChannel w = controlChannel v" "fileChannel w = fileChannel v"
      "imageClipboardChannel w = imageClipboardChannel v" "ticketRequests w = ticketRequests v"
      "signalingRecoveryTimer w = signalingRecoveryTimer v"
    and s: "map socket_view (viewerSockets w) = map socket_view (viewerSockets v)"
    and p: "map vp_cycle (viewerPeers w) = map vp_cycle (viewerPeers v)"
    using obj by (simp_all add: objects_def)
  have inv: "refs_ok v" "cycles_ok v" "attempts_ok v"
    using assms(1) by (simp_all add: connection_ok_def)
  note sv = same_views [OF s] and pv = same_cycles [OF p]
  have "refs_ok w" using inv(1) pv(2) st unfolding refs_ok_def eqs cycle pv(1,3) sv(1) by auto
  moreover have "cycles_ok w"
    using inv(2) ball_map_cong [OF p, of "\<lambda>n. n \<le> activeCycle v"]
      ball_map_cong [OF sv(4), of "\<lambda>n. n \<le> activeCycle v"]
    unfolding cycles_ok_def eqs cycle by simp
  moreover have "attempts w = attempts v" by (simp add: attempts_views eqs s cycle)
  then have "attempts_ok w"
    using inv(3) sv(2,3) unfolding attempts_ok_def eqs cycle sv(1) by auto
  ultimately show ?thesis by (simp add: connection_ok_def)
qed

lemma viewer_inv_core:
  assumes "viewer_inv v" "same_core v w" shows "viewer_inv w"
proof -
  have "connection_ok w"
    by (rule connection_ok_same [of v])
      (use assms in \<open>simp_all add: viewer_inv_parts same_core_def flags_def\<close>)
  then show ?thesis
    using assms by (auto simp: viewer_inv_parts same_core_def flags_def flags_ok_def counters_ok_def)
qed

lemma socket_view_fields [simp]:
  "socket_view (s\<lparr>vs_sent := fs\<rparr>) = socket_view s"
  "socket_view (s\<lparr>vs_receivedServerIssue := b, vs_suppressAutoReconnect := b'\<rparr>) = socket_view s"
  by (simp_all add: socket_view_def)

named_theorems neutral \<open>the operations that change nothing the invariant reads\<close>

lemmas send_defs = sendSignaling_def sendFileMessage_def sendImageClipboardMessage_def
  send_image_frame_def send_file_frame_def update_viewer_socket_def update_peer_def

lemma neutral_sendSignaling [neutral]: "same_core v (snd (sendSignaling ty sid d v))"
  by (simp add: core_defs send_defs Let_def map_update)

lemma neutral_sendFileMessage [neutral]: "same_core v (snd (sendFileMessage pf now e d v))"
  by (simp add: core_defs send_defs Let_def map_update split: option.split)

lemma neutral_sendImageClipboardMessage [neutral]:
  "same_core v (snd (sendImageClipboardMessage pf now e d v))"
  by (simp add: core_defs send_defs Let_def map_update split: option.split)

text \<open>A step that changes other fields only is neutral; so is one that ends with such changes.\<close>

lemma neutral_fields:
  "same_core v (v\<lparr>videoProfilePending := a, videoProfileError := b\<rparr>)"
  "same_core v (v\<lparr>errorMessage := m, errorAction := ac, canRetry := c\<rparr>)"
  by (simp_all add: core_defs)

lemma neutral_applyConnectionIssue [neutral]: "same_core v (applyConnectionIssue code r v)"
  by (simp add: applyConnectionIssue_def core_defs split: option.split)

lemma neutral_timers [neutral]:
  "same_core v (clearVideoProfileTimer v)" "same_core v (clearConnectionEstablishmentTimer v)"
  "same_core v (clearVideoProfileStabilizing v)" "same_core v (stopVideoStats b v)" "same_core v (stopPing v)"
  "same_core v (profile_timeout v)" "same_core v (stabilize_timeout v)"
  by (simp_all add: core_defs Let_def clearVideoProfileTimer_def clearConnectionEstablishmentTimer_def
      clearVideoProfileStabilizing_def stopVideoStats_def stopPing_def profile_timeout_def
      stabilize_timeout_def)

lemma neutral_changeVideoProfile [neutral]: "same_core v (changeVideoProfile profile v)"
proof -
  have "same_core v (snd (sendSignaling ty sid d (v\<lparr>videoProfileError := e, videoProfilePending := p, videoProfileError := e'\<rparr>))
      \<lparr>videoProfileTimer := t\<rparr>)" for ty sid d e p e' t
    using neutral_sendSignaling [of "v\<lparr>videoProfileError := e, videoProfilePending := p, videoProfileError := e'\<rparr>" ty sid d]
    by (simp add: core_defs)
  then show ?thesis
    by (auto simp: changeVideoProfile_def Let_def split: option.split) (simp_all add: core_defs)
qed

text \<open>Transfers.\<close>

lemmas transfer_defs = show_download_def show_transfer_def set_phase_def forget_upload_def
  fail_upload_def settle_image_def reject_current_image_def Let_def

lemma neutral_small [neutral]:
  "same_core v (show_download c n q st v)" "same_core v (show_transfer i c q ts v)"
  "same_core v (set_phase i ph v)" "same_core v (forget_upload i v)" "same_core v (fail_upload i code v)"
  "same_core v (settle_image i b oc v)" "same_core v (reject_current_image i cd v)"
  "same_core v (dismissClipboardEntry k v)" "same_core v (dismissClipboardImageEntry k v)"
  "same_core v (clearFileTransfer v)" "same_core v (clearFileDownload v)"
  "same_core v (triggerBrowserDownload n bs v)" "same_core v (upload_timeout i v)"
  by (simp_all add: core_defs transfer_defs dismissClipboardEntry_def dismissClipboardImageEntry_def
      clearFileTransfer_def clearFileDownload_def triggerBrowserDownload_def upload_timeout_def)

lemma neutral_frames [neutral]:
  "same_core v (send_image_frame i frame v)" "same_core v (send_file_frame i frame v)"
  by (simp_all add: core_defs send_defs map_update)

lemma neutral_update_upload [neutral]: "same_core v (update_upload i f v)"
  by (simp add: update_upload_def core_defs)

lemma neutral_update_upload_send:
  "sendFileMessage pf now e d (update_upload i f v) = (b, w) \<Longrightarrow> same_core v w"
  using neutral_sendFileMessage [of "update_upload i f v" pf now e d] neutral_update_upload same_core_trans by fastforce

lemma neutral_set_phase_send:
  "sendFileMessage pf now e d (set_phase i ph v) = (b, w) \<Longrightarrow> same_core v w"
  using neutral_sendFileMessage [of "set_phase i ph v" pf now e d] neutral_small(3) same_core_trans by fastforce

lemma neutral_uploads [neutral]:
  "same_core v (upload_read pf digest now data i v)" "same_core v (upload_progress i v)"
  "same_core v (upload_error i code v)" "same_core v (upload_streamed pf now how i v)"
  "same_core v (upload_unread i code v)" "same_core v (upload_chunk i v)"
  "same_core v (upload_accepted i v)" "same_core v (upload_done i v)"
  "same_core v (sendFile random name m v)"
proof -
  show error: "same_core v (upload_error i code v)" for code
    unfolding upload_error_def by (meson neutral_small same_core_trans)
  show "same_core v (upload_read pf digest now data i v)"
    unfolding upload_read_def Let_def
    by (auto split: prod.split bool.split intro: neutral_update_upload_send same_core_trans neutral_small)
  show progress: "same_core v (upload_progress i v)" for v
    by (simp add: upload_progress_def show_transfer_def update_upload_def Let_def core_defs)
  show "same_core v (upload_unread i code v)" unfolding upload_unread_def by (rule error)
  show "same_core v (upload_chunk i v)"
    unfolding upload_chunk_def Let_def
    by (rule same_core_trans [OF same_core_trans [OF neutral_frames(2) neutral_update_upload] progress])
  have send: "same_core v w"
    if "sendFileMessage pf now e d (set_phase i AwaitingDone (show_transfer i None 1 TransferVerifying v)) = (b, w)" for e d b w
    using neutral_set_phase_send [OF that] neutral_small(2) same_core_trans by blast
  show "same_core v (upload_streamed pf now how i v)"
    unfolding upload_streamed_def
    by (auto simp: error split: stream_end.split prod.split bool.split
        dest: send intro: send same_core_trans [OF send neutral_small(5)])
  show "same_core v (upload_accepted i v)"
    unfolding upload_accepted_def by (auto intro: same_core_trans neutral_small)
  show "same_core v (upload_done i v)"
    unfolding upload_done_def
    by (auto intro: same_core_trans [OF same_core_trans [OF neutral_small(3,2)] neutral_small(4)])
  show "same_core v (sendFile random name m v)"
    by (simp add: sendFile_def core_defs)
qed

lemma neutral_downloads [neutral]:
  "same_core v (handleDownloadChunk chunk v)" "same_core v (finishDownload d sha v)"
  "same_core v (download_verified digest k v)" "same_core v (download_event m d v)"
  "same_core v (requestFileList pf now v)" "same_core v (downloadFile pf now random name v)"
proof -
  show "same_core v (handleDownloadChunk chunk v)"
    by (simp add: handleDownloadChunk_def show_download_def Let_def core_defs split: option.split)
  show finish: "same_core v (finishDownload d sha v)" for d sha
    by (simp add: finishDownload_def show_download_def Let_def core_defs)
  show "same_core v (download_verified digest k v)"
    by (simp add: download_verified_def show_download_def triggerBrowserDownload_def Let_def core_defs split: prod.split)
  have "same_core v (show_download a b c e (v\<lparr>fileDownload := x\<rparr>))" for a b c e x
    by (simp add: core_defs show_download_def)
  then show "same_core v (download_event m d v)"
    by (auto simp: download_event_def finish)
  show "same_core v (requestFileList pf now v)"
    unfolding requestFileList_def by (rule neutral)
  have "same_core v (snd (sendFileMessage pf now e d (show_download a b c st (v\<lparr>fileDownload := x\<rparr>))))" for e d a b c st x
    by (rule same_core_trans [OF _ neutral_sendFileMessage]) (simp add: core_defs show_download_def)
  then show "same_core v (downloadFile pf now random name v)"
    by (simp add: downloadFile_def Let_def)
qed

lemma neutral_images [neutral]:
  "same_core v (handleImageClipboardMessage m v)" "same_core v (handleImageClipboardChunk chunk v)"
  "same_core v (image_verified digest now k v)" "same_core v (image_prepared pf digest now data random v)"
  "same_core v (image_streamed pf now i how v)" "same_core v (image_timeout i v)"
  "same_core v (image_chunk i ch offset v)"
proof -
  show "same_core v (handleImageClipboardMessage m v)"
    by (auto simp: handleImageClipboardMessage_def finishIncomingClipboardImage_def settle_image_def
        Let_def core_defs split: option.split)
  show "same_core v (handleImageClipboardChunk chunk v)"
    by (auto simp: handleImageClipboardChunk_def core_defs split: option.split)
  show "same_core v (image_verified digest now k v)"
    by (simp add: image_verified_def core_defs Let_def)
  have offer: "same_core v w" if "sendImageClipboardMessage pf now e d (v\<lparr>imageUploads := a, clipboardImageUpload := b\<rparr>) = (ok, w)"
    for e d a b ok w
    using neutral_sendImageClipboardMessage [of "v\<lparr>imageUploads := a, clipboardImageUpload := b\<rparr>" pf now e d] that
    by (simp add: core_defs)
  show "same_core v (image_prepared pf digest now data random v)"
    unfolding image_prepared_def Let_def
    by (auto split: prod.split bool.split intro: offer same_core_trans [OF offer neutral_small(7)])
  have send: "same_core v w" if "sendImageClipboardMessage pf now e d v = (ok, w)" for e d ok w
    using neutral_sendImageClipboardMessage [of v pf now e d] that by simp
  show "same_core v (image_chunk i ch offset v)"
    unfolding image_chunk_def by (rule neutral_frames)
  show "same_core v (image_streamed pf now i how v)"
    unfolding image_streamed_def
    by (auto split: stream_end.split prod.split bool.split intro: neutral_small send same_core_trans [OF send neutral_small(7)])
  show "same_core v (image_timeout i v)" unfolding image_timeout_def by (rule neutral_small)
qed

lemma neutral_channels [neutral]:
  "same_core v (image_channel_message pf i data v)" "same_core v (image_channel_opened i v)"
  "same_core v (image_channel_closed i v)" "same_core v (file_channel_message pf i data v)"
  "same_core v (file_channel_opened i v)" "same_core v (file_channel_closed i v)"
proof -
  show "same_core v (image_channel_message pf i data v)"
    unfolding image_channel_message_def
    by (auto split: channel_data.split option.split intro: neutral)
  show "same_core v (image_channel_opened i v)" by (simp add: image_channel_opened_def core_defs)
  have "same_core v (reject_current_image k cd (v\<lparr>canSendClipboardImage := a, incomingClipboardImage := b\<rparr>))" for k cd a b
    by (rule same_core_trans [OF _ neutral_small(7)]) (simp add: core_defs)
  moreover have "same_core v (v\<lparr>canSendClipboardImage := a, incomingClipboardImage := b\<rparr>)" for a b
    by (simp add: core_defs)
  ultimately show "same_core v (image_channel_closed i v)"
    by (auto simp: image_channel_closed_def Let_def split: option.split)
  have upload: "same_core v (upload_event m v)" for m
    unfolding upload_event_def by (auto split: option.split intro: neutral)
  have list: "same_core v (v\<lparr>downloadableFiles := fs\<rparr>)" for fs by (simp add: core_defs)
  have "same_core v (handleFileMessage m v)" for m
    unfolding handleFileMessage_def
    by (auto simp: upload list split: option.split intro: neutral)
  then show "same_core v (file_channel_message pf i data v)"
    unfolding file_channel_message_def
    by (auto split: channel_data.split option.split intro: neutral)
  show "same_core v (file_channel_opened i v)" "same_core v (file_channel_closed i v)"
    by (simp_all add: file_channel_opened_def file_channel_closed_def core_defs)
qed

section \<open>Steps that move, release and reconnect\<close>

lemma inv_updateActiveState: "viewer_inv v \<Longrightarrow> viewer_inv (updateActiveState v)"
proof -
  assume v: "viewer_inv v"
  have "connection_ok (updateActiveState v)"
    by (rule connection_ok_same [of v])
      (use v in \<open>auto simp: viewer_inv_parts active_step_legal Let_def objects_def deriveActiveState_def
         ACTIVE_STATE_ORDER_def\<close>)
  then show ?thesis
    using v by (simp add: viewer_inv_parts flags_ok_def counters_ok_def active_step_legal Let_def)
qed

lemma peers_cycles: "list_all2 peer_closes ps qs \<Longrightarrow> map vp_cycle qs = map vp_cycle ps"
  by (induction rule: list_all2_induct) (auto simp: peer_closes_def)

lemma sockets_cycles: "list_all2 socket_ends ss ts \<Longrightarrow> map vs_cycle ts = map vs_cycle ss"
  by (induction rule: list_all2_induct) (auto simp: socket_ends_def)

text \<open>A viewer that holds nothing, in a cycle later than every object's.\<close>

lemma inv_fresh_cycle:
  assumes "released w" "counters_ok w" "flags_ok w"
    and "\<forall>p \<in> set (viewerPeers w). vp_cycle p < activeCycle w"
    and "\<forall>s \<in> set (viewerSockets w). vs_cycle s < activeCycle w"
    and "\<forall>t \<in> set (ticketRequests w). ticket_cycle t < activeCycle w"
  shows "viewer_inv w"
proof -
  have "attempts w = 0"
    using assms by (auto simp: attempts_def released_def filter_empty_conv)
  then show ?thesis
    using assms by (auto simp: inv_defs released_def less_imp_le) (metis nth_mem less_irrefl)
qed

lemma inv_teardown:
  assumes "viewer_inv v" shows "viewer_inv (teardownForCycle cycle v)"
proof (cases "cycle = activeCycle v \<and> \<not> idle v")
  case True
  let ?w = "teardownForCycle (activeCycle v) v"
  note t = teardown_live [of v]
  have live: "\<not> idle v" using True by simp
  have cyc: "\<forall>p \<in> set (viewerPeers v). vp_cycle p < activeCycle ?w"
      "\<forall>s \<in> set (viewerSockets v). vs_cycle s < activeCycle ?w"
      "\<forall>q \<in> set (ticketRequests v). ticket_cycle q < activeCycle ?w"
    using assms t(4) [OF live] by (auto simp: inv_defs less_Suc_eq_le)
  have "viewer_inv ?w"
  proof (rule inv_fresh_cycle)
    show "released ?w" by (rule t(1) [OF live])
    show "counters_ok ?w" using assms t(1,6,7) [OF live] by (simp add: inv_defs released_def)
    show "flags_ok ?w" using assms t(1,2,3) [OF live] by (auto simp: inv_defs released_def)
    show "\<forall>p \<in> set (viewerPeers ?w). vp_cycle p < activeCycle ?w"
      using cyc(1) ball_map_cong [OF peers_cycles [OF t(15) [OF live]], of "\<lambda>n. n < activeCycle ?w"]
      by simp
    show "\<forall>s \<in> set (viewerSockets ?w). vs_cycle s < activeCycle ?w"
      using cyc(2) ball_map_cong [OF sockets_cycles [OF t(16) [OF live]], of "\<lambda>n. n < activeCycle ?w"]
      by simp
    show "\<forall>q \<in> set (ticketRequests ?w). ticket_cycle q < activeCycle ?w"
      using cyc(3) t(8) [OF live] by simp
  qed
  then show ?thesis using True by simp
next
  case False
  then show ?thesis using assms teardown_stale teardown_idle by metis
qed

lemma inv_scheduleAutoReconnect: "viewer_inv v \<Longrightarrow> viewer_inv (scheduleAutoReconnect v)"
proof -
  assume v: "viewer_inv v"
  have "connection_ok (scheduleAutoReconnect v)"
    by (rule connection_ok_same [of v])
      (use v in \<open>simp_all add: viewer_inv_parts scheduleAutoReconnect_def objects_def\<close>)
  then show ?thesis
    using v by (auto simp: viewer_inv_parts flags_ok_def counters_ok_def scheduleAutoReconnect_def
        AUTO_RECONNECT_MAX_ATTEMPTS_def)
qed

lemma inv_same: "viewer_inv v \<Longrightarrow> same_core v w \<Longrightarrow> viewer_inv w"
  by (rule viewer_inv_core)

lemma inv_cycle_failed: "viewer_inv v \<Longrightarrow> viewer_inv (cycle_failed code cycle v)"
  by (simp add: cycle_failed_def inv_scheduleAutoReconnect inv_teardown inv_same [OF _ neutral_applyConnectionIssue])

lemma inv_recoverControlChannel: "viewer_inv v \<Longrightarrow> viewer_inv (recoverControlChannel ch cycle v)"
proof -
  assume v: "viewer_inv v"
  have "same_core v ((stopPing (v\<lparr>channelOpenRef := False\<rparr>))\<lparr>roundTripTimeMs := None\<rparr>)"
    by (simp add: core_defs stopPing_def)
  then show ?thesis
    using v by (simp add: recoverControlChannel_def inv_scheduleAutoReconnect inv_teardown inv_same)
qed

lemma inv_disconnect: "viewer_inv v \<Longrightarrow> viewer_inv (disconnect v)"
proof -
  assume v: "viewer_inv v"
  let ?u = "cancelAutoReconnect (v\<lparr>userDisconnected := True, autoReconnectAttempts := 0\<rparr>)"
  have "connection_ok ?u"
    by (rule connection_ok_same [of v])
      (use v in \<open>simp_all add: viewer_inv_parts cancelAutoReconnect_def objects_def\<close>)
  then have "viewer_inv ?u"
    using v by (simp add: viewer_inv_parts flags_ok_def counters_ok_def cancelAutoReconnect_def)
  then show ?thesis by (simp add: disconnect_def Let_def inv_teardown)
qed

lemma inv_unmount:
  assumes "viewer_inv v" shows "viewer_inv (unmount v)"
proof -
  let ?u = "v\<lparr>userDisconnected := True, activeCycle := activeCycle v + 1\<rparr>"
  have cyc: "\<forall>p \<in> set (viewerPeers v). vp_cycle p < activeCycle ?u"
      "\<forall>s \<in> set (viewerSockets v). vs_cycle s < activeCycle ?u"
      "\<forall>q \<in> set (ticketRequests v). ticket_cycle q < activeCycle ?u"
    using assms by (auto simp: inv_defs less_Suc_eq_le)
  have "list_all2 socket_ends (viewerSockets ?u) (viewerSockets (releaseResources ?u))"
    using release_objects(2) [of ?u] socket_closes_ends list.rel_mono_strong by blast
  note s = ball_map_cong [OF sockets_cycles [OF this], of "\<lambda>n. n < activeCycle ?u"]
  note p = ball_map_cong [OF peers_cycles [OF release_objects(1) [of ?u]], of "\<lambda>n. n < activeCycle ?u"]
  have r: "released (releaseResources ?u)" by (rule released_releaseResources)
  show ?thesis
    unfolding unmount_def
    by (rule inv_fresh_cycle) (use assms r cyc s p in \<open>auto simp: inv_defs released_def\<close>)
qed

section \<open>Sending on the control channel\<close>

lemma same_core_counter:
  "same_core v (v\<lparr>controlSequence := n\<rparr>)"
  "missedControlPongs v < 8 \<Longrightarrow> same_core v (v\<lparr>controlSequence := n, missedControlPongs := missedControlPongs v + 1\<rparr>)"
  "same_core v (v\<lparr>missedControlPongs := 0\<rparr>)" "same_core v (v\<lparr>pingTimer := t\<rparr>)"
  by (simp_all add: core_defs)

lemma neutral_send_control: "send_control throws i k m v = Some w \<Longrightarrow> same_core v w"
  by (auto simp: send_control_def update_peer_def core_defs map_update split: if_splits)

lemma inv_emitControl: "viewer_inv v \<Longrightarrow> viewer_inv (emitControl pf now e d v)"
proof -
  assume v: "viewer_inv v"
  have seq: "viewer_inv (v\<lparr>controlSequence := n\<rparr>)" for n
    using v same_core_counter(1) by (rule inv_same)
  have "viewer_inv w" if "send_control throws i k m (v\<lparr>controlSequence := n\<rparr>) = Some w" for throws i k m n w
    using inv_same [OF seq neutral_send_control [OF that]] .
  then show ?thesis
    using v seq inv_recoverControlChannel
    by (auto simp: emitControl_def Let_def split: option.split)
qed

lemmas sender_defs = sendKey_def sendPointerButton_def sendPointerMove_def sendPointerWheel_def
  releaseRemoteInput_def setRemoteClipboard_def

lemma inv_senders:
  "viewer_inv v \<Longrightarrow> viewer_inv (perform pf now e v)"
  "viewer_inv v \<Longrightarrow> viewer_inv (setRemoteClipboard pf now text v)"
  "viewer_inv v \<Longrightarrow> viewer_inv (releaseRemoteInput pf now v)"
  by (cases e) (simp_all add: sender_defs inv_emitControl)

lemma inv_sendPing: "viewer_inv v \<Longrightarrow> viewer_inv (sendPing pf now i cycle c v)"
proof (cases "controlChannelNeedsRecovery (dc_ready (vp_control (viewerPeers v ! i))) (missedControlPongs v)")
  case True
  then show "viewer_inv v \<Longrightarrow> ?thesis" by (simp add: sendPing_def inv_recoverControlChannel)
next
  case False
  assume v: "viewer_inv v"
  have few: "missedControlPongs v < 8"
    using False by (simp add: controlChannelNeedsRecovery_def CONTROL_MAX_MISSED_PONGS_def)
  have one: "viewer_inv (v\<lparr>controlSequence := n, missedControlPongs := missedControlPongs v + 1\<rparr>)" for n
    using inv_same [OF v same_core_counter(2) [OF few]] .
  have "viewer_inv w" if "send_control throws j k m
      (v\<lparr>controlSequence := n, missedControlPongs := missedControlPongs v + 1\<rparr>) = Some w" for throws j k m n w
    using inv_same [OF one neutral_send_control [OF that]] .
  then show ?thesis
    using False one inv_recoverControlChannel
    by (auto simp: sendPing_def Let_def split: option.split)
qed

lemma inv_startControlPing: "viewer_inv v \<Longrightarrow> viewer_inv (startControlPing pf now i cycle v)"
  by (auto simp: startControlPing_def split: option.split
      intro: inv_same [OF _ same_core_counter(4)] inv_sendPing inv_same [OF _ same_core_counter(3)])

lemma neutral_sampleVideoStats [neutral]: "same_core v (sampleVideoStats pf now i cycle inbound ice v)"
proof -
  have report: "same_core u (sendReceiverReport pf now ch tel rt u)" for u ch tel rt
    by (auto simp: sendReceiverReport_def Let_def split: option.split
        intro: same_core_counter same_core_trans [OF same_core_counter(1) neutral_send_control])
  have shown: "same_core u (finishVideoProfileStabilizingIfDecoded tel (u\<lparr>videoTelemetry := tel, connectionRoute := r\<rparr>))" for u tel r
    by (simp add: finishVideoProfileStabilizingIfDecoded_def clearVideoProfileStabilizing_def core_defs
        split: option.split)
  have prev: "same_core u w \<Longrightarrow> same_core u (w\<lparr>previousVideoStats := p\<rparr>)" for u w p
    by (simp add: core_defs)
  show ?thesis
    by (auto simp: sampleVideoStats_def Let_def split: option.split
        intro!: prev intro: shown same_core_trans [OF shown report])
qed

section \<open>The peer's events\<close>

lemma same_core_update_peer:
  "vp_cycle (f (viewerPeers v ! i)) = vp_cycle (viewerPeers v ! i) \<Longrightarrow> same_core v (update_peer i f v)"
  by (simp add: core_defs update_peer_def map_update_same)

lemma inv_set_objects:
  "viewer_inv v \<Longrightarrow> viewer_inv (set_control i r v)" "viewer_inv v \<Longrightarrow> viewer_inv (set_image i r v)"
  "viewer_inv v \<Longrightarrow> viewer_inv (set_file i r v)" "viewer_inv v \<Longrightarrow> viewer_inv (set_peer i st v)"
  by (simp_all add: set_control_def set_image_def set_file_def set_peer_def
      inv_same [OF _ same_core_update_peer])

lemma inv_control_opened: "viewer_inv v \<Longrightarrow> viewer_inv (control_opened pf now i v)"
proof -
  assume v: "viewer_inv v"
  have "same_core v (v\<lparr>channelOpenRef := True\<rparr>)" by (simp add: core_defs)
  then show ?thesis
    using v by (simp add: control_opened_def Let_def inv_startControlPing inv_updateActiveState inv_same)
qed

lemma neutral_control_message [neutral]: "same_core v (control_message pf now i text v)"
  by (auto simp: control_message_def Let_def split: option.split) (simp_all add: core_defs)

lemma inv_control_closed: "viewer_inv v \<Longrightarrow> viewer_inv (control_closed i v)"
  by (simp add: control_closed_def Let_def inv_recoverControlChannel inv_same [OF _ neutral_timers(1)])

lemma inv_track_arrived: "viewer_inv v \<Longrightarrow> viewer_inv (track_arrived i v)"
proof -
  assume v: "viewer_inv v"
  have "same_core v ((startVideoStats i c (v\<lparr>mediaStream := True\<rparr>))\<lparr>trackReadyRef := True\<rparr>)" for c
    by (simp add: core_defs startVideoStats_def stopVideoStats_def Let_def)
  then show ?thesis
    using v by (simp add: track_arrived_def Let_def inv_updateActiveState inv_same
        inv_same [OF _ neutral_timers(2)])
qed

lemma inv_peer_state_changed: "viewer_inv v \<Longrightarrow> viewer_inv (peer_state_changed i v)"
proof -
  assume v: "viewer_inv v"
  have "same_core v (v\<lparr>autoReconnectAttempts := 0\<rparr>)" by (simp add: core_defs)
  then have "viewer_inv (v\<lparr>autoReconnectAttempts := 0\<rparr>)" using v by (rule inv_same [rotated])
  then show ?thesis
    using v by (auto simp: peer_state_changed_def Let_def inv_scheduleAutoReconnect inv_teardown
        inv_same [OF _ neutral_timers(2)] inv_same [OF _ neutral_applyConnectionIssue] split: peer_state.split)
qed

lemma inv_offer_ready: "viewer_inv v \<Longrightarrow> viewer_inv (offer_ready i sdp v)"
proof -
  assume v: "viewer_inv v"
  let ?u = "update_peer i (\<lambda>p. p\<lparr>vp_offering := False\<rparr>) v"
  have u: "viewer_inv ?u" using v by (simp add: inv_same [OF _ same_core_update_peer])
  have "viewer_inv w" if "sendSignaling ty sid d ?u = (r, w)" for ty sid d r w
    using inv_same [OF u neutral_sendSignaling] that by (metis snd_conv)
  then show ?thesis
    using u inv_cycle_failed
    by (auto simp: offer_ready_def Let_def split: option.split prod.split sum.split)
qed

section \<open>Connecting\<close>

lemma attempts_none:
  assumes "attempts v = 0"
  shows "signalingRecoveryTimer v \<noteq> Some (activeCycle v)"
    "s \<in> set (viewerSockets v) \<Longrightarrow> vs_cycle s = activeCycle v \<Longrightarrow> vs_ready s = ChClosed"
    "t \<in> set (ticketRequests v) \<Longrightarrow> ticket_cycle t \<noteq> activeCycle v"
  using assms by (auto simp: attempts_def filter_empty_conv split: if_splits)

lemma inv_startConnection:
  assumes inv: "viewer_inv v" and start: "startConnection pf profile c cycle r v = Some w"
    and cycle: "cycle = activeCycle v" and none: "attempts v = 0"
  shows "viewer_inv w"
proof -
  let ?s = "\<lparr>vs_ready = ChConnecting, vs_sent = [], vs_cycle = cycle, vs_config = c,
      vs_resume = r, vs_profile = profile, vs_receivedServerIssue = False,
      vs_suppressAutoReconnect = False\<rparr>"
  have w: "w = v\<lparr>viewerSockets := viewerSockets v @ [?s], webSocket := Some (length (viewerSockets v))\<rparr>"
    using start by (simp add: startConnection_def split: if_splits)
  have parts: "refs_ok v" "cycles_ok v" "attempts_ok v" "flags_ok v" "counters_ok v"
    using inv by (simp_all add: viewer_inv_def)
  have "refs_ok w" using parts(1) by (simp add: refs_ok_def w)
  moreover have "cycles_ok w" using parts(2) by (simp add: cycles_ok_def w cycle)
  moreover have "attempts w = attempts v + 1" by (simp add: attempts_def w cycle)
  then have "attempts_ok w"
    using parts(3) none attempts_none(2) [OF none]
    by (auto simp: attempts_ok_def w nth_append less_Suc_eq)
  moreover have "flags_ok w" "counters_ok w" using parts(4,5) by (simp_all add: flags_ok_def counters_ok_def w)
  ultimately show ?thesis by (simp add: viewer_inv_def)
qed

lemma inv_add_ticket:
  assumes inv: "viewer_inv v" and cycle: "ticket_cycle t = activeCycle v" and none: "attempts v = 0"
  shows "viewer_inv (v\<lparr>ticketRequests := ticketRequests v @ [t]\<rparr>)" (is "viewer_inv ?w")
proof -
  have parts: "refs_ok v" "cycles_ok v" "attempts_ok v" "flags_ok v" "counters_ok v"
    using inv by (simp_all add: viewer_inv_def)
  have "refs_ok ?w" using parts(1) by (simp add: refs_ok_def)
  moreover have "cycles_ok ?w" using parts(2) by (simp add: cycles_ok_def cycle)
  moreover have "attempts ?w = attempts v + 1" by (simp add: attempts_def cycle)
  then have "attempts_ok ?w" using parts(3) none by (simp add: attempts_ok_def)
  moreover have "flags_ok ?w" "counters_ok ?w" using parts(4,5) by (simp_all add: flags_ok_def counters_ok_def)
  ultimately show ?thesis by (simp add: viewer_inv_def)
qed

lemma inv_drop_ticket:
  assumes inv: "viewer_inv v" and k: "k < length (ticketRequests v)"
  defines "w \<equiv> v\<lparr>ticketRequests := take k (ticketRequests v) @ drop (Suc k) (ticketRequests v)\<rparr>"
  shows "viewer_inv w" "ticket_cycle (ticketRequests v ! k) = activeCycle v \<Longrightarrow> attempts w = 0"
proof -
  have parts: "refs_ok v" "cycles_ok v" "attempts_ok v" "flags_ok v" "counters_ok v"
    using inv by (simp_all add: viewer_inv_def)
  let ?f = "filter (\<lambda>t. ticket_cycle t = activeCycle v)"
  have split: "ticketRequests v = take k (ticketRequests v) @ ticketRequests v ! k # drop (Suc k) (ticketRequests v)"
    by (rule id_take_nth_drop [OF k])
  have count: "length (?f (ticketRequests v)) = length (?f (ticketRequests w))
      + (if ticket_cycle (ticketRequests v ! k) = activeCycle v then 1 else 0)"
    by (subst split) (simp add: w_def)
  then have att: "attempts v = attempts w
      + (if ticket_cycle (ticketRequests v ! k) = activeCycle v then 1 else 0)"
    by (simp add: attempts_def w_def)
  have "refs_ok w" using parts(1) by (simp add: refs_ok_def w_def)
  moreover have "cycles_ok w"
    using parts(2) by (auto simp: cycles_ok_def w_def dest: in_set_takeD in_set_dropD)
  moreover have "attempts_ok w" using parts(3) att by (simp add: attempts_ok_def w_def)
  moreover have "flags_ok w" "counters_ok w"
    using parts(4,5) by (simp_all add: flags_ok_def counters_ok_def w_def)
  ultimately show "viewer_inv w" by (simp add: viewer_inv_def)
  show "attempts w = 0" if "ticket_cycle (ticketRequests v ! k) = activeCycle v"
    using att parts(3) that by (simp add: attempts_ok_def)
qed

lemma inv_new_cycle:
  assumes inv: "viewer_inv v" and off: "stateRef v = Offline"
  defines "w \<equiv> v\<lparr>activeCycle := activeCycle v + 1\<rparr>"
  shows "viewer_inv w" "attempts w = 0"
proof -
  have parts: "refs_ok v" "cycles_ok v" "attempts_ok v" "flags_ok v" "counters_ok v"
    using inv by (simp_all add: viewer_inv_def)
  have peer: "peerConnection v = None" using parts(1) off by (auto simp: refs_ok_def)
  have timer: "signalingRecoveryTimer v = None" using parts(3) peer by (auto simp: attempts_ok_def)
  have later: "\<forall>p \<in> set (viewerPeers v). vp_cycle p < activeCycle w"
      "\<forall>s \<in> set (viewerSockets v). vs_cycle s < activeCycle w"
      "\<forall>q \<in> set (ticketRequests v). ticket_cycle q < activeCycle w"
    using parts(2) by (auto simp: cycles_ok_def w_def less_Suc_eq_le)
  have objs: "viewerPeers w = viewerPeers v" "viewerSockets w = viewerSockets v"
      "ticketRequests w = ticketRequests v" "signalingRecoveryTimer w = None" "peerConnection w = None"
    by (simp_all add: w_def peer timer)
  show none: "attempts w = 0"
    unfolding attempts_def objs using later by (auto simp: filter_empty_conv)
  have "refs_ok w" using parts(1) peer later(1) by (auto simp: refs_ok_def objs) (simp_all add: w_def)
  moreover have "cycles_ok w"
    using later unfolding cycles_ok_def objs by (simp add: less_imp_le)
  moreover have "attempts_ok w"
    using none later(2) unfolding attempts_ok_def objs by (auto dest!: nth_mem)
  moreover have "flags_ok w" "counters_ok w"
    using parts(4,5) by (simp_all add: flags_ok_def counters_ok_def w_def)
  ultimately show "viewer_inv w" by (simp add: viewer_inv_def)
qed

lemma inv_clear_flags:
  "viewer_inv v \<Longrightarrow> viewer_inv (v\<lparr>isConnecting := b\<rparr>)"
  "viewer_inv v \<Longrightarrow> viewer_inv (v\<lparr>signalingRecoveryInFlight := b\<rparr>)"
  "viewer_inv v \<Longrightarrow> viewer_inv (v\<lparr>configRef := c\<rparr>)"
  "viewer_inv v \<Longrightarrow> viewer_inv (v\<lparr>connectionEstablishmentTimer := t\<rparr>)"
  by (rule inv_same, assumption, simp add: core_defs)+

lemma inv_small:
  "viewer_inv v \<Longrightarrow> viewer_inv (applyConnectionIssue code r v)"
  "viewer_inv v \<Longrightarrow> viewer_inv (clearConnectionEstablishmentTimer v)"
  "viewer_inv v \<Longrightarrow> viewer_inv (clearVideoProfileTimer v)"
  by (auto intro: inv_same neutral)

lemma inv_connectInternal:
  assumes inv: "viewer_inv v" shows "viewer_inv (connectInternal pf profile isAuto v)"
proof (cases "isConnecting v \<or> stateRef v \<noteq> Offline")
  case False
  define v2 where "v2 = (if \<not> isAuto
      then cancelAutoReconnect (v\<lparr>userDisconnected := False, autoReconnectAttempts := 0\<rparr>)
      else v\<lparr>userDisconnected := False\<rparr>)"
  have "connection_ok v2"
    by (rule connection_ok_same [of v])
      (use inv in \<open>simp_all add: v2_def viewer_inv_parts cancelAutoReconnect_def objects_def\<close>)
  moreover have "flags_ok v2" "counters_ok v2" "stateRef v2 = Offline"
    using inv False by (simp_all add: v2_def viewer_inv_parts flags_ok_def counters_ok_def cancelAutoReconnect_def)
  ultimately have v2: "viewer_inv v2" "stateRef v2 = Offline" by (simp_all add: viewer_inv_parts)
  define cycle where "cycle = activeCycle v2 + 1"
  define v3 where "v3 = v2\<lparr>errorMessage := None, errorAction := None, canRetry := False,
      activeCycle := cycle, connectionEstablishmentTimer := Some cycle\<rparr>"
  have same: "same_core (v2\<lparr>activeCycle := activeCycle v2 + 1\<rparr>) v3"
    by (simp add: core_defs v3_def cycle_def)
  have v3: "viewer_inv v3" using inv_new_cycle(1) [OF v2] same by (rule inv_same)
  have none: "attempts v3 = 0"
    using inv_new_cycle(2) [OF v2] same_core_attempts [OF same] by simp
  have cyc: "cycle = activeCycle v3" by (simp add: v3_def)
  have start: "viewer_inv w" if "startConnection pf profile c cycle False v3 = Some w" for c w
    by (rule inv_startConnection [OF v3 that cyc none])
  define v4 where "v4 = v3\<lparr>isConnecting := True\<rparr>"
  have same4: "same_core v3 v4" by (simp add: core_defs v4_def)
  have ticket: "viewer_inv (v4\<lparr>ticketRequests := ticketRequests v4 @ [ConnectTicket cycle isAuto profile]\<rparr>)"
    by (rule inv_add_ticket [OF inv_same [OF v3 same4]])
      (use none same_core_attempts [OF same4] cyc in \<open>simp_all add: v4_def\<close>)
  have "connectInternal pf profile isAuto v =
      (if \<not> isProduction v3 then
         (case configRef v3 of
            None \<Rightarrow> clearConnectionEstablishmentTimer v3
          | Some c \<Rightarrow>
              (case startConnection pf profile c cycle False v3 of
                 Some v4 \<Rightarrow> v4
               | None \<Rightarrow> applyConnectionIssue (lit ''SIGNALING_HANDSHAKE_FAILED'') None
                           (clearConnectionEstablishmentTimer v3)))
       else v3\<lparr>isConnecting := True,
               ticketRequests := ticketRequests v3 @ [ConnectTicket cycle isAuto profile]\<rparr>)"
    using False
    by (simp only: connectInternal_def Let_def v2_def v3_def cycle_def if_False viewer.simps)
  then show ?thesis
    using v3 start ticket by (simp add: inv_small v4_def split: option.split)
qed (simp add: connectInternal_def inv)

lemma attempts_fields [simp]:
  "attempts (v\<lparr>isConnecting := b\<rparr>) = attempts v" "attempts (v\<lparr>configRef := c\<rparr>) = attempts v"
  "attempts (v\<lparr>signalingRecoveryInFlight := b\<rparr>) = attempts v"
  by (simp_all add: attempts_def)

lemma inv_connect_ticket:
  assumes "viewer_inv v" "cycle = activeCycle v \<Longrightarrow> attempts v = 0"
  shows "viewer_inv (connect_ticket pf cycle isAuto profile answer v)"
proof -
  have flags: "viewer_inv (v\<lparr>isConnecting := False\<rparr>)"
    "viewer_inv (v\<lparr>isConnecting := False, configRef := c\<rparr>)" for c
    using assms(1) inv_clear_flags by simp_all
  have "viewer_inv w"
    if "startConnection pf profile c cycle False (v\<lparr>isConnecting := False, configRef := d\<rparr>) = Some w"
      "cycle = activeCycle v" for c d w
    by (rule inv_startConnection [OF flags(2) that(1)]) (use assms(2) that(2) in simp_all)
  then show ?thesis
    using flags unfolding connect_ticket_def Let_def
    by (auto simp: inv_scheduleAutoReconnect inv_small split: option.split)
qed

lemma canPreserve_peer: "canPreservePeerDuringSignalingRecovery v \<Longrightarrow> peerConnection v \<noteq> None"
  by (auto simp: canPreservePeerDuringSignalingRecovery_def canRecoverSignalingWithoutPeerRestart_def peer_ready_def)

lemma inv_scheduleSignalingRecovery:
  assumes inv: "viewer_inv v" and none: "cycle = activeCycle v \<Longrightarrow> attempts v = 0"
  shows "viewer_inv (scheduleSignalingRecovery cycle v)"
proof (cases "cycle \<noteq> activeCycle v \<or> userDisconnected v \<or> signalingRecoveryTimer v \<noteq> None
     \<or> signalingRecoveryInFlight v \<or> \<not> canPreservePeerDuringSignalingRecovery v")
  case False
  let ?w = "v\<lparr>signalingRecoveryDelay := nextSignalingRecoveryDelay (signalingRecoveryDelay v),
      signalingRecoveryTimer := Some cycle\<rparr>"
  have parts: "refs_ok v" "cycles_ok v" "attempts_ok v" "flags_ok v" "counters_ok v"
    using inv by (simp_all add: viewer_inv_def)
  have "refs_ok ?w" using parts(1) by (simp add: refs_ok_def)
  moreover have "cycles_ok ?w" using parts(2) by (simp add: cycles_ok_def)
  moreover have "attempts ?w = attempts v + 1" using False by (simp add: attempts_def)
  then have "attempts_ok ?w"
    using parts(3) none False canPreserve_peer [of v] by (simp add: attempts_ok_def)
  moreover have "flags_ok ?w" using parts(4) by (simp add: flags_ok_def)
  moreover have "counters_ok ?w"
    using parts(5) delay_bounds [of "signalingRecoveryDelay v"] by (simp add: counters_ok_def)
  ultimately show ?thesis using False by (simp add: viewer_inv_def scheduleSignalingRecovery_def)
qed (use inv in \<open>simp add: scheduleSignalingRecovery_def\<close>)

lemma inv_recovery_ticket:
  assumes "viewer_inv v" "cycle = activeCycle v \<Longrightarrow> attempts v = 0"
  shows "viewer_inv (recovery_ticket pf cycle profile answer v)"
proof -
  let ?u = "v\<lparr>signalingRecoveryInFlight := False\<rparr>"
  have u: "viewer_inv ?u" using assms(1) inv_clear_flags by simp
  have "viewer_inv (scheduleSignalingRecovery cycle ?u)"
    by (rule inv_scheduleSignalingRecovery [OF u]) (use assms(2) in simp)
  moreover have "viewer_inv w"
    if "startConnection pf profile c cycle True ?u = Some w" "cycle = activeCycle v" for c w
    by (rule inv_startConnection [OF u that(1)]) (use assms(2) that(2) in simp_all)
  ultimately show ?thesis
    using u by (auto simp: recovery_ticket_def Let_def split: option.split)
qed

lemma inv_ticket_answered:
  assumes "viewer_inv v" "k < length (ticketRequests v)"
  shows "viewer_inv (ticket_answered pf k answer v)"
proof -
  let ?w = "v\<lparr>ticketRequests := take k (ticketRequests v) @ drop (Suc k) (ticketRequests v)\<rparr>"
  note drop = inv_drop_ticket [OF assms]
  show ?thesis
    using drop by (auto simp: ticket_answered_def Let_def split: ticket_request.split
        intro!: inv_connect_ticket inv_recovery_ticket)
qed

lemma inv_signaling_recovery_fired:
  assumes inv: "viewer_inv v" and timer: "signalingRecoveryTimer v = Some cycle"
  shows "viewer_inv (signaling_recovery_fired pf profile cycle v)"
proof -
  define u where "u = v\<lparr>signalingRecoveryTimer := None\<rparr>"
  have parts: "refs_ok v" "cycles_ok v" "attempts_ok v" "flags_ok v" "counters_ok v"
    using inv by (simp_all add: viewer_inv_def)
  have cycle: "cycle = activeCycle v" using parts(3) timer by (simp add: attempts_ok_def)
  have att: "attempts v = attempts u + 1" using timer cycle by (simp add: attempts_def u_def)
  then have none: "attempts u = 0" using parts(3) by (simp add: attempts_ok_def)
  have "refs_ok u" using parts(1) by (simp add: refs_ok_def u_def)
  moreover have "cycles_ok u" using parts(2) by (simp add: cycles_ok_def u_def)
  moreover have "attempts_ok u" using parts(3) none by (simp add: attempts_ok_def u_def)
  moreover have "flags_ok u" "counters_ok u"
    using parts(4,5) by (simp_all add: flags_ok_def counters_ok_def u_def)
  ultimately have u: "viewer_inv u" by (simp add: viewer_inv_def)
  have cyc: "cycle = activeCycle u" using cycle by (simp add: u_def)
  have start: "viewer_inv w" if "startConnection pf profile c cycle True u = Some w" for c w
    by (rule inv_startConnection [OF u that cyc none])
  define u2 where "u2 = u\<lparr>signalingRecoveryInFlight := True\<rparr>"
  have ticket: "viewer_inv (u2\<lparr>ticketRequests := ticketRequests u2 @ [RecoveryTicket cycle profile]\<rparr>)"
    by (rule inv_add_ticket) (use u none cyc in \<open>simp_all add: u2_def inv_clear_flags\<close>)
  show ?thesis
    using u start [unfolded cyc] ticket [unfolded cyc]
    by (simp add: cyc signaling_recovery_fired_def u_def [symmetric] Let_def u2_def split: option.split)
qed

lemma inv_timers:
  "viewer_inv v \<Longrightarrow> viewer_inv (auto_reconnect_fired pf profile v)"
  "viewer_inv v \<Longrightarrow> viewer_inv (establishment_timeout cycle v)"
proof -
  assume v: "viewer_inv v"
  have "connection_ok (v\<lparr>autoReconnectTimer := False\<rparr>)"
    by (rule connection_ok_same [of v]) (use v in \<open>simp_all add: viewer_inv_parts objects_def\<close>)
  then have "viewer_inv (v\<lparr>autoReconnectTimer := False\<rparr>)"
    using v by (simp add: viewer_inv_parts flags_ok_def counters_ok_def)
  then show "viewer_inv (auto_reconnect_fired pf profile v)"
    by (simp add: auto_reconnect_fired_def Let_def inv_connectInternal)
  show "viewer_inv (establishment_timeout cycle v)"
    using v by (simp add: establishment_timeout_def Let_def inv_clear_flags inv_scheduleAutoReconnect
        inv_teardown inv_small)
qed

section \<open>Signaling messages\<close>

lemma inv_moveTo:
  assumes inv: "viewer_inv v" and move: "moveTo s v = Inr w" and s: "s \<in> {Online, Reserved, Negotiating}"
  shows "viewer_inv w"
proof -
  have w: "w = v\<lparr>stateRef := s, connectionState := s\<rparr>" "canTransitionConnectionState (stateRef v) s"
    using move by (auto simp: moveTo_def transitionConnectionState_def split: if_splits)
  have "connection_ok w"
    by (rule connection_ok_same [of v])
      (use inv w s in \<open>auto simp: viewer_inv_parts objects_def canTransitionConnectionState_def\<close>)
  then show ?thesis using inv w(1) by (simp add: viewer_inv_parts flags_ok_def counters_ok_def)
qed

lemma inv_createPeerConnection:
  assumes inv: "viewer_inv v" and st: "stateRef v = Negotiating"
  shows "viewer_inv (snd (createPeerConnection pf (activeCycle v) v))"
proof -
  have parts: "refs_ok v" "cycles_ok v" "attempts_ok v" "flags_ok v" "counters_ok v"
    using inv by (simp_all add: viewer_inv_def)
  have "viewer_inv (v\<lparr>viewerPeers := viewerPeers v @ [p], peerConnection := Some i, controlChannel := Some i,
      imageClipboardChannel := Some i, fileChannel := Some i\<rparr>)" (is "viewer_inv ?w")
    if "vp_cycle p = activeCycle v" "i = length (viewerPeers v)" for p i
  proof -
    have "refs_ok ?w" using parts(1) that st by (simp add: refs_ok_def)
    moreover have "cycles_ok ?w" using parts(2) that by (simp add: cycles_ok_def)
    moreover have "attempts ?w = attempts v" by (simp add: attempts_def)
    then have "attempts_ok ?w" using parts(3) by (simp add: attempts_ok_def)
    moreover have "flags_ok ?w" "counters_ok ?w" using parts(4,5) by (simp_all add: flags_ok_def counters_ok_def)
    ultimately show ?thesis by (simp add: viewer_inv_def)
  qed
  then show ?thesis
    using inv by (simp add: createPeerConnection_def Let_def split: option.split)
qed

lemma inv_grants:
  assumes "viewer_inv v" shows "viewer_inv (v\<lparr>grantedControlRef := g, controlGranted := g\<rparr>)"
proof -
  have "connection_ok (v\<lparr>grantedControlRef := g, controlGranted := g\<rparr>)"
    by (rule connection_ok_same [of v]) (use assms in \<open>simp_all add: viewer_inv_parts objects_def\<close>)
  then show ?thesis using assms by (simp add: viewer_inv_parts flags_ok_def counters_ok_def)
qed

lemma inv_cancelSignalingRecovery:
  assumes inv: "viewer_inv v" shows "viewer_inv (cancelSignalingRecovery v)" (is "viewer_inv ?w")
proof -
  have parts: "refs_ok v" "cycles_ok v" "attempts_ok v" "flags_ok v" "counters_ok v"
    using inv by (simp_all add: viewer_inv_def)
  have "refs_ok ?w" using parts(1) by (simp add: refs_ok_def cancelSignalingRecovery_def)
  moreover have "cycles_ok ?w" using parts(2) by (simp add: cycles_ok_def cancelSignalingRecovery_def)
  moreover have "attempts ?w \<le> attempts v" by (simp add: attempts_def cancelSignalingRecovery_def)
  then have "attempts_ok ?w" using parts(3) by (simp add: attempts_ok_def cancelSignalingRecovery_def)
  moreover have "flags_ok ?w" "counters_ok ?w"
    using parts(4,5) by (simp_all add: flags_ok_def counters_ok_def cancelSignalingRecovery_def
        SIGNALING_RECOVERY_INITIAL_DELAY_MS_def)
  ultimately show ?thesis by (simp add: viewer_inv_def)
qed

lemma inv_session_accepted:
  assumes inv: "viewer_inv v" and cycle: "cycle = activeCycle v"
  shows "viewer_inv (snd (session_accepted pf m cycle rc v))"
proof -
  define g where "g = (payload_of m ''permission'' = Some (JStr (lit ''control'')))"
  define v1 where "v1 = v\<lparr>grantedControlRef := g, controlGranted := g,
      controlPolicyEnabled := g, controlLocked := False\<rparr>"
  define v2 where "v2 = (case as_profile (as_string (payload_of m ''videoProfile'')) of
      Some p \<Rightarrow> v1\<lparr>videoProfile := p\<rparr> | None \<Rightarrow> v1)"
  have "same_core (v\<lparr>grantedControlRef := g, controlGranted := g\<rparr>) v2"
    by (simp add: core_defs v1_def v2_def split: option.split)
  then have v2: "viewer_inv v2" using inv_grants [OF inv] inv_same by blast
  have cyc: "activeCycle v2 = activeCycle v" by (simp add: v2_def v1_def split: option.split)
  have neg: "viewer_inv (snd (createPeerConnection pf cycle w))" if "moveTo Negotiating v2 = Inr w" for w
  proof -
    have "stateRef w = Negotiating" "activeCycle w = activeCycle v2"
      using that by (auto simp: moveTo_def transitionConnectionState_def split: if_splits)
    then show ?thesis
      using inv_createPeerConnection [OF inv_moveTo [OF v2 that]] cycle cyc by simp
  qed
  have resumed: "viewer_inv (cancelSignalingRecovery (v2\<lparr>configRef := c\<rparr>))" for c
    by (intro inv_cancelSignalingRecovery inv_clear_flags v2)
  have "session_accepted pf m cycle rc v =
      (case rc of
         Some c \<Rightarrow>
           (False, if canPreservePeerDuringSignalingRecovery v2
                   then cancelSignalingRecovery (v2\<lparr>configRef := Some c\<rparr>) else v2)
       | None \<Rightarrow>
           (case moveTo Negotiating v2 of
              Inl _ \<Rightarrow> (True, v2)
            | Inr v3 \<Rightarrow> createPeerConnection pf cycle v3))"
    by (simp only: session_accepted_def Let_def v1_def v2_def g_def)
  then show ?thesis using v2 neg resumed by (simp split: option.split sum.split)
qed

lemma inv_session_policy: "viewer_inv v \<Longrightarrow> viewer_inv (session_policy pf now m v)"
proof -
  assume v: "viewer_inv v"
  have "same_core v (v\<lparr>controlPolicyEnabled := a, controlLocked := b\<rparr>)" for a b
    by (simp add: core_defs)
  then show ?thesis
    using v by (simp add: session_policy_def Let_def inv_grants inv_senders inv_same)
qed

lemma neutral_session_configured [neutral]: "same_core v (session_configured m v)"
  by (simp add: session_configured_def clearVideoProfileTimer_def clearVideoProfileStabilizing_def
      Let_def core_defs split: option.split)

lemma inv_server_issue: "viewer_inv v \<Longrightarrow> viewer_inv (server_issue m cycle v)"
proof -
  assume v: "viewer_inv v"
  have "same_core v ((clearVideoProfileTimer v)\<lparr>videoProfilePending := a, videoProfileError := b\<rparr>)" for a b
    by (simp add: core_defs clearVideoProfileTimer_def)
  then show ?thesis
    using v by (simp add: server_issue_def Let_def inv_teardown inv_small inv_same)
qed

lemma inv_handleSignalingMessage:
  "viewer_inv v \<Longrightarrow> cycle = activeCycle v \<Longrightarrow>
   viewer_inv (snd (handleSignalingMessage pf now m cycle rc v))"
  by (simp add: handleSignalingMessage_def Let_def inv_session_accepted inv_session_policy
      inv_server_issue inv_teardown inv_scheduleAutoReconnect inv_small
      inv_same [OF _ neutral_session_configured])

section \<open>The socket's events\<close>

lemma same_core_update_socket:
  "socket_view (f (viewerSockets v ! i)) = socket_view (viewerSockets v ! i) \<Longrightarrow>
   same_core v (update_viewer_socket i f v)"
  by (simp add: core_defs update_viewer_socket_def map_update_same)

lemma mark_issue_view [simp]: "socket_view (mark_issue m s) = socket_view s"
  by (simp add: mark_issue_def)

lemma inv_socket_message: "viewer_inv v \<Longrightarrow> viewer_inv (socket_message pf now i text v)"
proof -
  assume v: "viewer_inv v"
  have v1: "viewer_inv (update_viewer_socket i (mark_issue m) v)"
      "activeCycle (update_viewer_socket i (mark_issue m) v) = activeCycle v" for m
    using inv_same [OF v same_core_update_socket] by (simp_all add: update_viewer_socket_def)
  have "viewer_inv w" if "handleSignalingMessage pf now m (activeCycle v) rc
      (update_viewer_socket i (mark_issue m) v) = (b, w)" for m rc b w
    using inv_handleSignalingMessage [OF v1(1) v1(2) [symmetric]] that by (metis snd_conv)
  then show ?thesis
    using v v1(1)
    by (simp add: socket_message_def Let_def inv_cycle_failed split: option.split prod.split bool.split)
qed

lemma inv_socket_error: "viewer_inv v \<Longrightarrow> viewer_inv (socket_error i v)"
  by (simp add: socket_error_def Let_def inv_small)

text \<open>A socket closes, or opens: the view of the others is the same.\<close>

lemma update_split:
  "i < length xs \<Longrightarrow> xs[i := y] = take i xs @ y # drop (Suc i) xs"
  "i < length xs \<Longrightarrow> xs = take i xs @ xs ! i # drop (Suc i) xs"
  by (simp_all add: upd_conv_take_nth_drop id_take_nth_drop)

lemma inv_socket_gone:
  assumes inv: "viewer_inv v" and i: "i < length (viewerSockets v)"
    and ready: "vs_ready (viewerSockets v ! i) \<noteq> ChClosed"
  defines "u \<equiv> set_socket i ChClosed v"
  defines "w \<equiv> (if webSocket u = Some i then u\<lparr>webSocket := None\<rparr> else u)"
  shows "viewer_inv w" "vs_cycle (viewerSockets v ! i) = activeCycle v \<Longrightarrow> attempts w = 0"
proof -
  let ?s = "(viewerSockets v ! i)\<lparr>vs_ready := ChClosed\<rparr>"
  have parts: "refs_ok v" "cycles_ok v" "attempts_ok v" "flags_ok v" "counters_ok v"
    using inv by (simp_all add: viewer_inv_def)
  have ss: "viewerSockets w = (viewerSockets v)[i := ?s]"
    by (simp add: w_def u_def set_socket_def update_viewer_socket_def)
  have eqs: "peerConnection w = peerConnection v" "controlChannel w = controlChannel v"
      "fileChannel w = fileChannel v" "imageClipboardChannel w = imageClipboardChannel v"
      "viewerPeers w = viewerPeers v" "ticketRequests w = ticketRequests v"
      "activeCycle w = activeCycle v" "stateRef w = stateRef v"
      "signalingRecoveryTimer w = signalingRecoveryTimer v"
      "webSocket w = (if webSocket v = Some i then None else webSocket v)"
    by (simp_all add: w_def u_def set_socket_def update_viewer_socket_def)
  let ?f = "filter (\<lambda>s. vs_cycle s = activeCycle v \<and> vs_ready s \<noteq> ChClosed)"
  have "length (?f (viewerSockets v)) = length (?f (viewerSockets w))
      + (if vs_cycle (viewerSockets v ! i) = activeCycle v then 1 else 0)"
    unfolding ss update_split(1) [OF i] by (subst update_split(2) [OF i]) (simp add: ready)
  then have att: "attempts v = attempts w + (if vs_cycle (viewerSockets v ! i) = activeCycle v then 1 else 0)"
    unfolding attempts_def eqs by simp
  have "refs_ok w" using parts(1) unfolding refs_ok_def eqs by (simp add: ss)
  moreover have "cycles_ok w"
    using parts(2) i unfolding cycles_ok_def eqs ss
    by (auto dest!: set_update_subset_insert [THEN subsetD])
  moreover have "webSocket w = Some j"
    if "j < length (viewerSockets w)" "vs_cycle (viewerSockets w ! j) = activeCycle w"
      "vs_ready (viewerSockets w ! j) \<noteq> ChClosed" for j
  proof -
    have "j \<noteq> i" using that(3) i by (auto simp: ss)
    then have "webSocket v = Some j" "webSocket v \<noteq> Some i"
      using parts(3) that by (auto simp: attempts_ok_def ss eqs)
    then show ?thesis by (simp add: eqs)
  qed
  then have "attempts_ok w" using parts(3) att by (simp add: attempts_ok_def eqs)
  moreover have "flags_ok w" "counters_ok w"
    using parts(4,5) by (simp_all add: flags_ok_def counters_ok_def w_def u_def set_socket_def update_viewer_socket_def)
  ultimately show "viewer_inv w" by (simp add: viewer_inv_def)
  show "attempts w = 0" if "vs_cycle (viewerSockets v ! i) = activeCycle v"
    using att parts(3) that by (simp add: attempts_ok_def)
qed

lemma inv_socket_closed:
  assumes inv: "viewer_inv v" and i: "i < length (viewerSockets v)"
    and ready: "vs_ready (viewerSockets v ! i) \<noteq> ChClosed"
  shows "viewer_inv (socket_closed i (set_socket i ChClosed v))"
proof -
  define u where "u = set_socket i ChClosed v"
  define w where "w = (if webSocket u = Some i then u\<lparr>webSocket := None\<rparr> else u)"
  note gone = inv_socket_gone [OF assms, folded u_def, folded w_def]
  have s: "vs_cycle (viewerSockets u ! i) = vs_cycle (viewerSockets v ! i)" "activeCycle w = activeCycle v"
    using i by (simp_all add: w_def u_def set_socket_def update_viewer_socket_def)
  have "viewer_inv (scheduleSignalingRecovery (vs_cycle (viewerSockets v ! i)) w)"
    by (rule inv_scheduleSignalingRecovery [OF gone(1)]) (use gone(2) s in simp)
  then show ?thesis
    using gone(1) s unfolding socket_closed_def Let_def u_def [symmetric] w_def [symmetric]
    by (auto simp: inv_scheduleAutoReconnect inv_teardown)
qed

lemma inv_request:
  assumes "viewer_inv u"
  shows "viewer_inv (case sendSignaling ty sid d u of
       (Inl _, v2) \<Rightarrow> cycle_failed code c v2
     | (Inr _, v2) \<Rightarrow>
         if b then v2
         else (case moveTo Reserved v2 of Inr v3 \<Rightarrow> v3 | Inl _ \<Rightarrow> cycle_failed code c v2))"
proof -
  obtain r v2 where send: "sendSignaling ty sid d u = (r, v2)" by force
  then have v2: "viewer_inv v2"
    using inv_same [OF assms neutral_sendSignaling] by (metis snd_conv)
  then have "viewer_inv v3" if "moveTo Reserved v2 = Inr v3" for v3
    using inv_moveTo [OF v2 that] by simp
  then show ?thesis using send v2 inv_cycle_failed by (auto split: sum.split)
qed

lemma inv_socket_opened: "viewer_inv v \<Longrightarrow> vs_ready (viewerSockets v ! i) \<noteq> ChClosed \<Longrightarrow> viewer_inv (socket_opened i v)"
proof -
  assume v: "viewer_inv v" and r: "vs_ready (viewerSockets v ! i) \<noteq> ChClosed"
  have "socket_view (close_viewer_socket (viewerSockets v ! i)) = socket_view (viewerSockets v ! i)"
    using r by (simp add: socket_view_def close_ready_def)
  then have closed: "viewer_inv (update_viewer_socket i close_viewer_socket v)"
    using inv_same [OF v same_core_update_socket] by simp
  have online: "viewer_inv w" if "moveTo Online v = Inr w" for w
    using inv_moveTo [OF v that] by simp
  show ?thesis
  proof (cases "vs_resume (viewerSockets v ! i)")
    case True
    then show ?thesis
      using closed v inv_request [OF v, where b = "vs_resume (viewerSockets v ! i)"] by (simp add: socket_opened_def Let_def)
  next
    case False
    then show ?thesis
      using closed v inv_request [OF online, where b = "vs_resume (viewerSockets v ! i)"]
      by (simp add: socket_opened_def Let_def split: sum.split)
  qed
qed

section \<open>Every step\<close>

lemma viewer_inv_start: "viewer_inv (new_viewer production c)"
  by (simp add: inv_defs attempts_def new_viewer_def SIGNALING_RECOVERY_INITIAL_DELAY_MS_def)

lemma inv_set_socket_open:
  assumes "viewer_inv v" "socket_at v i = Some ChConnecting"
  shows "viewer_inv (set_socket i ChOpen v)" "vs_ready (viewerSockets (set_socket i ChOpen v) ! i) \<noteq> ChClosed"
proof -
  have i: "i < length (viewerSockets v)" "vs_ready (viewerSockets v ! i) = ChConnecting"
    using assms(2) by (auto simp: socket_at_def split: if_splits)
  show "viewer_inv (set_socket i ChOpen v)"
    unfolding set_socket_def
    by (rule inv_same [OF assms(1) same_core_update_socket]) (simp add: socket_view_def i)
  show "vs_ready (viewerSockets (set_socket i ChOpen v) ! i) \<noteq> ChClosed"
    using i by (simp add: set_socket_def update_viewer_socket_def)
qed

lemmas inv_neutral = neutral [THEN inv_same [rotated]]

lemma viewer_inv_step:
  "viewer_inv v \<Longrightarrow> viewer_step pf digest now e v = Some w \<Longrightarrow> viewer_inv w"
  by (cases e)
    (auto simp: occurs_def inv_connectInternal inv_disconnect inv_unmount inv_senders
      inv_ticket_answered inv_set_socket_open inv_socket_opened inv_socket_message inv_socket_error
      inv_set_objects inv_control_opened inv_control_closed inv_track_arrived inv_peer_state_changed
      inv_offer_ready inv_cycle_failed inv_sendPing inv_timers inv_signaling_recovery_fired
      socket_at_def
      split: if_splits intro: inv_neutral intro!: inv_socket_closed)

theorem reachable_viewer_inv: "reachable_viewer pf digest v \<Longrightarrow> viewer_inv v"
  unfolding reachable_viewer_def using run_invariant [where P = viewer_inv] viewer_inv_start viewer_inv_step
  by blast

end
