(* ===== verification/RemotePhases.thy ===== *)
theory RemotePhases
  imports RemoteInvariants
begin

text \<open>
  The phases of a session as an abstract machine, and the session hook as a refinement of it:
  every step of the hook keeps its phase, loses it, or makes one of the machine's moves; the
  hook never rests in \<open>Online\<close> or \<open>Closing\<close>.
\<close>

section \<open>The abstract machine\<close>

text \<open>
  A phase with what is ready: \<open>(phase, control channel open, video track there)\<close>.
\<close>

type_synonym phase = "connection_state \<times> bool \<times> bool"

inductive phase_step :: "phase \<Rightarrow> phase \<Rightarrow> bool" where
  stays: "phase_step (s, c, t) (s, c', t')"
| lost: "phase_step (s, c, t) (Offline, c', t')"
| reserved: "phase_step (Offline, c, t) (Reserved, c', t')"
| accepted: "phase_step (Reserved, c, t) (Negotiating, c', t')"
| viewing: "phase_step (Negotiating, c, t) (ViewActive, c', True)"
| controlling: "s \<in> {Negotiating, ViewActive} \<Longrightarrow> phase_step (s, c, t) (ControlActive, True, True)"

inductive_cases into_control: "phase_step (s, c, t) (ControlActive, c', t')"

definition phase_of :: "viewer \<Rightarrow> phase" where
  "phase_of v = (stateRef v, channelOpenRef v, trackReadyRef v)"

definition resting :: "connection_state \<Rightarrow> bool" where
  "resting s \<longleftrightarrow> s \<noteq> Online \<and> s \<noteq> Closing"

lemma phase_step_resting: "phase_step p q \<Longrightarrow> resting (fst p) \<Longrightarrow> resting (fst q)"
  by (induction rule: phase_step.induct) (simp_all add: resting_def)

section \<open>Steps that keep or lose the phase\<close>

definition falls :: "viewer \<Rightarrow> viewer \<Rightarrow> bool" where
  "falls v w \<longleftrightarrow> stateRef w = stateRef v \<or> stateRef w = Offline"

named_theorems falling \<open>the operations that keep or lose the phase\<close>

lemma falls_step: "falls v w \<Longrightarrow> phase_step (phase_of v) (phase_of w)"
  by (auto simp: falls_def phase_of_def intro: phase_step.intros)

lemma falls_refl [simp]: "falls v v"
  by (simp add: falls_def)

lemma falls_trans: "falls u v \<Longrightarrow> falls v w \<Longrightarrow> falls u w"
  by (auto simp: falls_def)

lemma falls_same: "stateRef w = stateRef v \<Longrightarrow> falls v w"
  by (simp add: falls_def)

lemma falls_core: "same_core v w \<Longrightarrow> falls v w"
  by (simp add: core_defs falls_def)

lemma state_small [simp]:
  "stateRef (scheduleAutoReconnect v) = stateRef v" "stateRef (scheduleSignalingRecovery cycle v) = stateRef v"
  "stateRef (applyConnectionIssue code r v) = stateRef v" "stateRef (stopPing v) = stateRef v"
  "stateRef (clearConnectionEstablishmentTimer v) = stateRef v" "stateRef (clearVideoProfileTimer v) = stateRef v"
  "stateRef (cancelAutoReconnect v) = stateRef v" "stateRef (cancelSignalingRecovery v) = stateRef v"
  "stateRef (unmount v) = stateRef v" "stateRef (snd (sendSignaling ty sid d v)) = stateRef v"
  "stateRef (update_viewer_socket i f v) = stateRef v" "stateRef (update_peer i g v) = stateRef v"
  by (simp_all add: scheduleAutoReconnect_def scheduleSignalingRecovery_def applyConnectionIssue_def
      stopPing_def clearConnectionEstablishmentTimer_def clearVideoProfileTimer_def cancelAutoReconnect_def
      cancelSignalingRecovery_def unmount_def sendSignaling_def update_viewer_socket_def update_peer_def
      Let_def split: option.split)

lemma falls_teardown [falling]: "falls v (teardownForCycle cycle v)"
proof (cases "cycle = activeCycle v \<and> \<not> idle v")
  case True
  then show ?thesis using teardown_live(2) by (simp add: falls_def)
next
  case False
  then show ?thesis using teardown_stale teardown_idle falls_refl by metis
qed

text \<open>A teardown of a step's state falls from where the step started.\<close>

lemma falls_teardown_from: "stateRef u = stateRef v \<Longrightarrow> falls v (teardownForCycle cycle u)"
  using falls_teardown [of u cycle] by (simp add: falls_def)

lemma falls_schedule: "falls v w \<Longrightarrow> falls v (scheduleAutoReconnect w)"
  by (simp add: falls_def)

lemma falls_ends [falling]:
  "falls v (cycle_failed code cycle v)" "falls v (recoverControlChannel ch cycle v)" "falls v (disconnect v)"
  by (simp_all add: cycle_failed_def recoverControlChannel_def disconnect_def Let_def
      falls_schedule falls_teardown_from)

lemma state_send_control: "send_control th i n m v = Some w \<Longrightarrow> stateRef w = stateRef v"
  by (auto simp: send_control_def split: if_splits)

lemma falls_recover_from: "stateRef u = stateRef v \<Longrightarrow> falls v (recoverControlChannel ch cycle u)"
  using falls_ends(2) [of u ch cycle] by (simp add: falls_def)

lemma falls_emit [falling]: "falls v (emitControl pf now e d v)"
  by (simp add: emitControl_def Let_def falls_same state_send_control falls_recover_from split: option.split)

lemma falls_user [falling]:
  "falls v (perform pf now e v)" "falls v (setRemoteClipboard pf now text v)"
  by (cases e; simp add: sender_defs falling) (simp add: setRemoteClipboard_def falling)

lemma falls_ping [falling]: "falls v (sendPing pf now i cycle c v)"
  by (simp add: sendPing_def Let_def falls_same state_send_control falls_recover_from split: option.split)

lemma falls_start_ping [falling]: "falls v (startControlPing pf now i cycle v)"
proof -
  have "falls v ((sendPing pf now i cycle c (v\<lparr>missedControlPongs := 0\<rparr>))\<lparr>pingTimer := x\<rparr>)" for c x
    using falls_ping [of "v\<lparr>missedControlPongs := 0\<rparr>" pf now i cycle c] by (simp add: falls_def)
  then show ?thesis by (simp add: startControlPing_def split: option.split)
qed

lemma state_startConnection: "startConnection pf profile c cycle r v = Some w \<Longrightarrow> stateRef w = stateRef v"
  by (auto simp: startConnection_def split: if_splits)

lemma state_connect [simp]: "stateRef (connectInternal pf profile isAuto v) = stateRef v"
  unfolding connectInternal_def Let_def by (simp add: state_startConnection split: option.split)

lemma falls_tickets [falling]:
  "falls v (ticket_answered pf k answer v)" "falls v (signaling_recovery_fired pf profile cycle v)"
  "falls v (auto_reconnect_fired pf profile v)" "falls v (establishment_timeout cycle v)"
  by (simp_all add: ticket_answered_def connect_ticket_def recovery_ticket_def signaling_recovery_fired_def
      auto_reconnect_fired_def establishment_timeout_def Let_def state_startConnection falls_same
      falls_schedule falls_teardown_from split: option.split ticket_request.split)

lemma falls_set [simp]:
  "stateRef (set_control i r v) = stateRef v" "stateRef (set_image i r v) = stateRef v"
  "stateRef (set_file i r v) = stateRef v" "stateRef (set_peer i st v) = stateRef v"
  "stateRef (set_socket i r v) = stateRef v"
  by (simp_all add: set_control_def set_image_def set_file_def set_peer_def set_socket_def)

lemma falls_peer_events [falling]:
  "falls v (control_closed i v)" "falls v (peer_state_changed i v)" "falls v (offer_ready i sdp v)"
proof -
  show "falls v (control_closed i v)"
    by (simp add: control_closed_def Let_def falls_recover_from)
  show "falls v (peer_state_changed i v)"
    by (simp add: peer_state_changed_def Let_def falls_same falls_schedule falls_teardown_from
        split: peer_state.split)
  have failed: "falls v (cycle_failed code cycle u)" if "stateRef u = stateRef v" for code cycle u
    using falls_ends(1) [of u code cycle] that by (simp add: falls_def)
  have sent: "stateRef w = stateRef u" if "sendSignaling ty sid d u = (r, w)" for ty sid d r u w
    using state_small(10) [of ty sid d u] that by simp
  show "falls v (offer_ready i sdp v)"
    by (simp add: offer_ready_def Let_def falls_same failed sent split: option.split prod.split sum.split)
qed

lemma falls_socket_events [falling]: "falls v (socket_error i v)" "falls v (socket_closed i v)"
  by (simp_all add: socket_error_def socket_closed_def Let_def falls_same falls_schedule falls_teardown_from)

lemma falls_from: "stateRef u = stateRef v \<Longrightarrow> falls u w \<Longrightarrow> falls v w"
  by (simp add: falls_def)

lemma falls_signaling [falling]:
  "falls v (session_policy pf now m v)" "falls v (server_issue m cycle v)"
  "falls v (session_configured m v)"
proof -
  have "falls v ((releaseRemoteInput pf now u)\<lparr>grantedControlRef := a, controlGranted := b\<rparr>)"
    if "stateRef u = stateRef v" for u a b
    using falls_emit [of u pf now "''control.release-all''" "JObj []"] that
    by (simp add: releaseRemoteInput_def falls_def)
  then show "falls v (session_policy pf now m v)"
    by (simp add: session_policy_def Let_def falls_same)
  show "falls v (server_issue m cycle v)"
    by (simp add: server_issue_def Let_def falls_same falls_teardown_from)
  show "falls v (session_configured m v)" by (rule falls_core [OF neutral_session_configured])
qed

section \<open>Steps that advance the phase\<close>

lemma ready_step: "phase_step (phase_of v) (phase_of (updateActiveState v))"
proof -
  have "phase_step (stateRef v, c, t) (phase_of (updateActiveState v))" for c t
    by (cases "stateRef v"; cases "channelOpenRef v"; cases "trackReadyRef v")
      (auto simp: active_step_legal deriveActiveState_def ACTIVE_STATE_ORDER_def state_order_defs
        phase_of_def Let_def intro: phase_step.intros)
  then show ?thesis by (simp add: phase_of_def)
qed

lemma phase_step_from:
  "stateRef u = stateRef v \<Longrightarrow> phase_step (phase_of u) q \<Longrightarrow> phase_step (phase_of v) q"
  by (auto simp: phase_of_def elim!: phase_step.cases intro: phase_step.intros)

text \<open>What follows an advance in the same step may lose the phase, or keeps what is ready.\<close>

lemma phase_step_then:
  assumes "phase_step (phase_of v) (phase_of u)" "falls u w" 
    and "stateRef w \<noteq> Offline \<Longrightarrow> channelOpenRef w = channelOpenRef u \<and> trackReadyRef w = trackReadyRef u"
  shows "phase_step (phase_of v) (phase_of w)"
proof (cases "stateRef w = Offline")
  case True
  then show ?thesis by (simp add: phase_of_def lost)
next
  case False
  then have "phase_of w = phase_of u" using assms(2,3) by (auto simp: falls_def phase_of_def)
  then show ?thesis using assms(1) by simp
qed

lemma recover_state:
  "recoverControlChannel ch cycle u = u \<or> stateRef (recoverControlChannel ch cycle u) = Offline"
proof (cases "cycle \<noteq> activeCycle u \<or> controlChannel u \<noteq> Some ch \<or> userDisconnected u")
  case True
  then show ?thesis by (simp add: recoverControlChannel_def)
next
  case False
  define x where "x = (stopPing (u\<lparr>channelOpenRef := False\<rparr>))\<lparr>roundTripTimeMs := None\<rparr>"
  have "recoverControlChannel ch cycle u = scheduleAutoReconnect (teardownForCycle (activeCycle x) x)"
    using False by (simp add: recoverControlChannel_def x_def stopPing_def)
  moreover have "stateRef (teardownForCycle (activeCycle x) x) = Offline"
    using teardown_live(2) [of x] teardown_idle [of x] by (cases "idle x") (simp_all add: idle_def)
  ultimately show ?thesis by simp
qed

lemma send_keeps_ready:
  "send_control th i n m v = Some w \<Longrightarrow> channelOpenRef w = channelOpenRef v \<and> trackReadyRef w = trackReadyRef v"
  by (auto simp: send_control_def update_peer_def split: if_splits)

lemma ping_keeps_ready:
  fixes u :: viewer and pf :: platform and now :: int and i cycle :: nat and c :: connection_config
  defines "w \<equiv> sendPing pf now i cycle c u"
  shows "stateRef w = Offline \<or> channelOpenRef w = channelOpenRef u \<and> trackReadyRef w = trackReadyRef u"
proof -
  define u1 where "u1 = u\<lparr>controlSequence := controlSequence u + 1, missedControlPongs := missedControlPongs u + 1\<rparr>"
  have u1: "channelOpenRef u1 = channelOpenRef u" "trackReadyRef u1 = trackReadyRef u" by (simp_all add: u1_def)
  have "w = (if controlChannelNeedsRecovery (dc_ready (vp_control (viewerPeers u ! i))) (missedControlPongs u)
      then recoverControlChannel i cycle u
      else case send_control (pf_throws pf) i (controlSequence u1)
             (control_json ''session.ping'' (cc_sessionId c) (controlSequence u1) now (JObj [])) u1 of
             Some v2 \<Rightarrow> v2 | None \<Rightarrow> recoverControlChannel i cycle u1)"
    unfolding w_def sendPing_def Let_def u1_def by simp
  then show ?thesis
    using recover_state [of i cycle u] recover_state [of i cycle u1] u1
    by (auto simp: send_keeps_ready split: if_splits option.splits)
qed

lemma control_opened_step: "phase_step (phase_of v) (phase_of (control_opened pf now i v))"
proof -
  define u where "u = updateActiveState (v\<lparr>channelOpenRef := True\<rparr>)"
  have u: "phase_step (phase_of v) (phase_of u)"
    unfolding u_def by (rule phase_step_from [OF _ ready_step]) simp
  have "stateRef w = Offline \<or> channelOpenRef w = channelOpenRef u \<and> trackReadyRef w = trackReadyRef u"
    if "w = startControlPing pf now i cycle u" for cycle w
  proof (cases "configRef u")
    case (Some c)
    then show ?thesis
      using ping_keeps_ready [of pf now i cycle c "u\<lparr>missedControlPongs := 0\<rparr>"]
      by (simp add: that startControlPing_def)
  qed (simp add: that startControlPing_def)
  then have "phase_step (phase_of v) (phase_of (startControlPing pf now i cycle u))" for cycle
    by (intro phase_step_then [OF u falls_start_ping]) blast
  then show ?thesis
    by (simp add: control_opened_def Let_def u_def [symmetric] falls_step)
qed

lemma track_arrived_step: "phase_step (phase_of v) (phase_of (track_arrived i v))"
proof -
  define u where "u = updateActiveState ((startVideoStats i (vp_cycle (viewerPeers v ! i))
      (v\<lparr>mediaStream := True\<rparr>))\<lparr>trackReadyRef := True\<rparr>)"
  have u: "phase_step (phase_of v) (phase_of u)"
    unfolding u_def by (rule phase_step_from [OF _ ready_step])
      (simp add: startVideoStats_def stopVideoStats_def Let_def)
  have "phase_of (clearConnectionEstablishmentTimer u) = phase_of u"
    by (simp add: phase_of_def clearConnectionEstablishmentTimer_def)
  then show ?thesis
    using u unfolding track_arrived_def Let_def u_def [symmetric] by (simp add: falls_step)
qed

lemma moveTo_state: "moveTo s v = Inr w \<Longrightarrow> stateRef w = s \<and> canTransitionConnectionState (stateRef v) s"
  by (auto simp: moveTo_def transitionConnectionState_def split: sum.splits if_splits)

lemma cycle_failed_offline: "cycle = activeCycle u \<Longrightarrow> stateRef (cycle_failed code cycle u) = Offline"
proof -
  assume c: "cycle = activeCycle u"
  define x where "x = applyConnectionIssue (lit code) None u"
  have "activeCycle x = activeCycle u" by (simp add: x_def applyConnectionIssue_def split: option.split)
  then have "cycle_failed code cycle u = scheduleAutoReconnect (teardownForCycle (activeCycle x) x)"
    using c by (simp add: cycle_failed_def x_def)
  moreover have "stateRef (teardownForCycle (activeCycle x) x) = Offline"
    using teardown_live(2) [of x] teardown_idle [of x] by (cases "idle x") (simp_all add: idle_def)
  ultimately show ?thesis by simp
qed

text \<open>A socket that opens reserves, from the phases the two moves allow.\<close>

lemma socket_opened_state:
  "falls v (socket_opened i v)
   \<or> stateRef (socket_opened i v) = Reserved \<and> stateRef v \<in> {Offline, Online, Reserved}"
proof -
  let ?s = "viewerSockets v ! i"
  have sent: "stateRef w = stateRef u \<and> activeCycle w = activeCycle u"
    if "sendSignaling ty sid d u = (r, w)" for ty sid d r u w
    using that by (auto simp: sendSignaling_def Let_def update_viewer_socket_def split: if_splits)
  have online: "stateRef v \<in> {Offline, Online, Reserved} \<and> stateRef w = Online \<and> activeCycle w = activeCycle v"
    if "moveTo Online v = Inr w" for w
    using moveTo_state [OF that] that
    by (cases "stateRef v") (auto simp: canTransitionConnectionState_def moveTo_def split: sum.splits)
  have failed: "falls v (cycle_failed code (vs_cycle ?s) u)" if "activeCycle u = vs_cycle ?s" for code u
    using cycle_failed_offline [of "vs_cycle ?s" u code] that by (simp add: falls_def)
  show ?thesis
  proof (cases "vs_cycle ?s = activeCycle v \<and> \<not> vs_resume ?s")
    case False
    have "falls v w" if "sendSignaling ty sid d v = (r, w)" for ty sid d r w
      using sent [OF that] by (simp add: falls_def)
    moreover have "falls v (cycle_failed code (vs_cycle ?s) w)"
      if "sendSignaling ty sid d v = (r, w)" "vs_cycle ?s = activeCycle v" for ty sid d r w code
      using sent [OF that(1)] that(2) failed by simp
    ultimately show ?thesis
      using False by (auto simp: socket_opened_def Let_def falls_same split: prod.split sum.split)
  next
    case True
    have reserve: "falls v x \<or> stateRef x = Reserved \<and> stateRef v \<in> {Offline, Online, Reserved}"
      if "moveTo Online v = Inr v1" "sendSignaling ty sid d v1 = (r, v2)"
        "x = (case r of Inl _ \<Rightarrow> cycle_failed ''SIGNALING_HANDSHAKE_FAILED'' (vs_cycle ?s) v2
           | Inr _ \<Rightarrow> (case moveTo Reserved v2 of Inr v3 \<Rightarrow> v3
                | Inl _ \<Rightarrow> cycle_failed ''SIGNALING_HANDSHAKE_FAILED'' (vs_cycle ?s) v2))"
      for v1 ty sid d r v2 x
      using online [OF that(1)] sent [OF that(2)] True failed [of v2] that(3)
      by (auto split: sum.splits dest: moveTo_state)
    show ?thesis
    proof (cases "moveTo Online v")
      case (Inl e)
      then show ?thesis using True by (simp add: socket_opened_def Let_def)
    next
      case (Inr v1)
      obtain r v2 where r: "sendSignaling ''session.request'' (cc_sessionId (vs_config ?s)) (session_request ?s) v1 = (r, v2)"
        by force
      show ?thesis using reserve [OF Inr r refl] True Inr r by (simp add: socket_opened_def Let_def)
    qed
  qed
qed

text \<open>An acceptance negotiates, from a reservation.\<close>

definition negotiates :: "viewer \<Rightarrow> viewer \<Rightarrow> bool" where
  "negotiates v w \<longleftrightarrow> falls v w \<or> stateRef v = Reserved \<and> stateRef w = Negotiating"

lemma session_accepted_state: "negotiates v (snd (session_accepted pf m cycle rc v))"
proof -
  have create: "stateRef (snd (createPeerConnection pf cycle u)) = stateRef u" for u
    by (simp add: createPeerConnection_def Let_def split: option.split)
  have move: "stateRef w = Negotiating \<and> (stateRef u = Reserved \<or> stateRef u = Negotiating)"
    if "moveTo Negotiating u = Inr w" for u w
    using moveTo_state [OF that] by (cases "stateRef u") (simp_all add: canTransitionConnectionState_def)
  define g where "g = (payload_of m ''permission'' = Some (JStr (lit ''control'')))"
  define v2 where "v2 = (case as_profile (as_string (payload_of m ''videoProfile'')) of
      Some p \<Rightarrow> v\<lparr>grantedControlRef := g, controlGranted := g, controlPolicyEnabled := g,
        controlLocked := False, videoProfile := p\<rparr>
    | None \<Rightarrow> v\<lparr>grantedControlRef := g, controlGranted := g, controlPolicyEnabled := g, controlLocked := False\<rparr>)"
  have v2: "stateRef v2 = stateRef v" by (simp add: v2_def split: option.split)
  have moved: "negotiates v (snd (createPeerConnection pf cycle w))" if "moveTo Negotiating v2 = Inr w" for w
    using move [OF that] create [of w] v2 by (auto simp: negotiates_def falls_def)
  have "session_accepted pf m cycle rc v =
      (case rc of
         Some c \<Rightarrow>
           (False, if canPreservePeerDuringSignalingRecovery v2
                   then cancelSignalingRecovery (v2\<lparr>configRef := Some c\<rparr>) else v2)
       | None \<Rightarrow>
           (case moveTo Negotiating v2 of
              Inl _ \<Rightarrow> (True, v2)
            | Inr v3 \<Rightarrow> createPeerConnection pf cycle v3))"
    unfolding session_accepted_def Let_def v2_def g_def by (simp split: option.split)
  then show ?thesis
    using v2 moved by (auto simp: negotiates_def falls_same split: option.split sum.split)
qed

lemma handleSignalingMessage_state: "negotiates v (snd (handleSignalingMessage pf now m cycle rc v))"
  using session_accepted_state
  by (simp add: handleSignalingMessage_def Let_def negotiates_def falling falls_same
      falls_schedule falls_teardown_from)

lemma socket_message_state: "negotiates v (socket_message pf now i text v)"
proof -
  have "negotiates v (case handleSignalingMessage pf now m cycle rc u of
      (False, v2) \<Rightarrow> v2 | (True, v2) \<Rightarrow> cycle_failed code cyc v2)"
    if "stateRef u = stateRef v" for m cycle rc code cyc u
  proof -
    obtain b w where h: "handleSignalingMessage pf now m cycle rc u = (b, w)" by force
    have w: "negotiates v w"
      using handleSignalingMessage_state [of u pf now m cycle rc] h that by (simp add: negotiates_def falls_def)
    moreover have "negotiates v (cycle_failed code cyc w)"
      using w falls_ends(1) [of w code cyc] by (auto simp: negotiates_def falls_def)
    ultimately show ?thesis using h by (simp split: bool.split)
  qed
  then show ?thesis
    by (simp add: socket_message_def Let_def negotiates_def falls_same split: option.split)
qed

section \<open>The refinement\<close>

lemma negotiates_step: "negotiates v w \<Longrightarrow> phase_step (phase_of v) (phase_of w)"
  by (auto simp: negotiates_def falls_step) (simp add: phase_of_def accepted)

lemma set_phase_of [simp]:
  "phase_of (set_control i r v) = phase_of v" "phase_of (set_image i r v) = phase_of v"
  "phase_of (set_file i r v) = phase_of v" "phase_of (set_peer i st v) = phase_of v"
  "phase_of (set_socket i r v) = phase_of v"
  by (simp_all add: phase_of_def set_control_def set_image_def set_file_def set_peer_def set_socket_def
      update_peer_def update_viewer_socket_def)

lemmas core_falls = neutral [THEN falls_core]

lemma falls_after_set:
  "falls v (control_closed i (set_control i r v))" "falls v (peer_state_changed i (set_peer i st v))"
  "falls v (socket_closed i (set_socket i r v))" "falls v (image_channel_opened i (set_image i r v))"
  "falls v (image_channel_closed i (set_image i r v))" "falls v (file_channel_opened i (set_file i r v))"
  "falls v (file_channel_closed i (set_file i r v))"
  by (rule falls_from [rotated], rule falling core_falls, simp)+

lemma falls_kept [falling]: "falls v (connectInternal pf profile isAuto v)" "falls v (unmount v)"
  by (simp_all add: falls_same)

lemma viewer_step_phase:
  assumes "viewer_step pf digest now e v = Some w" "resting (stateRef v)"
  shows "phase_step (phase_of v) (phase_of w)"
proof (cases e)
  case (SocketOpened i)
  then have w: "w = socket_opened i (set_socket i ChOpen v)" using assms(1) by (simp add: occurs_def split: if_splits)
  show ?thesis
    using socket_opened_state [of "set_socket i ChOpen v" i] assms(2) falls_step [of v w]
    by (auto simp: w falls_def resting_def phase_of_def intro: phase_step.intros)
next
  case (SocketText i message)
  then show ?thesis
    using assms(1) negotiates_step [OF socket_message_state] by (auto simp: occurs_def split: if_splits)
next
  case (ControlOpened i)
  then show ?thesis
    using assms(1) control_opened_step [of "set_control i ChOpen v" pf now i]
    by (auto simp: occurs_def split: if_splits)
next
  case (TrackArrived i)
  then show ?thesis
    using assms(1) track_arrived_step by (auto simp: occurs_def split: if_splits)
qed (use assms(1) in \<open>auto simp: occurs_def
       intro!: falls_step intro: falling core_falls falls_after_set split: if_splits\<close>)

lemma reachable_resting:
  assumes "reachable_viewer pf digest v" shows "resting (stateRef v)"
proof -
  obtain production c es where run: "viewer_run pf digest es (new_viewer production c) = Some v"
    using assms by (auto simp: reachable_viewer_def)
  show ?thesis
  proof (rule run_invariant [where P = "\<lambda>v. resting (stateRef v)", OF run])
    show "resting (stateRef (new_viewer production c))" by (simp add: new_viewer_def resting_def)
    show "resting (stateRef b)" if "resting (stateRef a)" "viewer_step pf digest now e a = Some b" for now e a b
      using phase_step_resting [OF viewer_step_phase [OF that(2,1)]] that(1) by (simp add: phase_of_def)
  qed
qed

end
