(* ===== verification/RemoteControl.thy ===== *)
theory RemoteControl
  imports RemoteRuns
begin

text \<open>
  What is written on the control channel. A frame is background traffic (heartbeat, receiver
  report) or input; the log of a peer's control channel grows by background frames only,
  except when the session may inject: \<open>ControlActive\<close>, granted, over its own open channel.
\<close>

definition control_log :: "viewer_peer \<Rightarrow> channel_frame list" where
  "control_log p = dc_sent (vp_control p)"

fun frame_event :: "channel_frame \<Rightarrow> jstring option" where
  "frame_event (TextFrame m) = as_string (jget m ''event'')"
| "frame_event (BinaryFrame bs) = None"

definition background :: "channel_frame \<Rightarrow> bool" where
  "background f \<longleftrightarrow> frame_event f = Some (lit ''session.ping'')
     \<or> frame_event f = Some (lit ''video.receiver-report'')"

definition may_inject :: "viewer \<Rightarrow> nat \<Rightarrow> bool" where
  "may_inject v i \<longleftrightarrow> stateRef v = ControlActive \<and> grantedControlRef v \<and> controlChannel v = Some i
     \<and> dc_ready (vp_control (viewerPeers v ! i)) = ChOpen"

abbreviation logs :: "viewer \<Rightarrow> channel_frame list list" where
  "logs v \<equiv> map control_log (viewerPeers v)"

definition grows :: "(channel_frame \<Rightarrow> bool) \<Rightarrow> channel_frame list list \<Rightarrow> channel_frame list list \<Rightarrow> bool" where
  "grows P ls ms \<longleftrightarrow> length ls \<le> length ms
     \<and> (\<forall>i < length ls. \<exists>fs. ms ! i = ls ! i @ fs \<and> list_all P fs)"

lemma grows_refl [simp]: "grows P ls ls"
  by (auto simp: grows_def intro!: exI [of _ "[]"])

lemma grows_trans: "grows P a b \<Longrightarrow> grows P b c \<Longrightarrow> grows P a c"
  unfolding grows_def
  by (auto, metis append.assoc list_all_append order_less_le_trans)

lemma grows_append: "grows P ls (ls @ ms)"
  by (auto simp: grows_def nth_append intro!: exI [of _ "[]"])

lemma grows_update: "list_all P fs \<Longrightarrow> grows P ls (ls[i := ls ! i @ fs])"
  by (simp add: grows_def) (metis append_Nil2 list.pred_inject(1) nth_list_update_eq nth_list_update_neq)

section \<open>Operations that write nothing there\<close>

lemma log_fields [simp]:
  "control_log (p\<lparr>vp_file := f\<rparr>) = control_log p" "control_log (p\<lparr>vp_image := g\<rparr>) = control_log p"
  "control_log (p\<lparr>vp_offering := b\<rparr>) = control_log p" "control_log (p\<lparr>vp_state := st\<rparr>) = control_log p"
  by (simp_all add: control_log_def)

lemma logs_update_peer:
  "control_log (f (viewerPeers v ! i)) = control_log (viewerPeers v ! i) \<Longrightarrow> logs (update_peer i f v) = logs v"
  by (simp add: update_peer_def map_update)

lemma logs_closes: "list_all2 peer_closes ps qs \<Longrightarrow> map control_log qs = map control_log ps"
  by (induction rule: list_all2_induct) (auto simp: peer_closes_def control_log_def)

lemma logs_sendSignaling [simp]: "logs (snd (sendSignaling ty sid d v)) = logs v"
  by (simp add: sendSignaling_def Let_def update_viewer_socket_def)

lemma logs_teardown [simp]: "logs (teardownForCycle cycle v) = logs v"
proof (cases "cycle = activeCycle v \<and> \<not> idle v")
  case True
  then show ?thesis using logs_closes [OF teardown_live(15)] by blast
next
  case False
  then show ?thesis using teardown_stale teardown_idle by metis
qed

lemma logs_small [simp]:
  "logs (scheduleAutoReconnect v) = logs v" "logs (scheduleSignalingRecovery cycle v) = logs v"
  "logs (applyConnectionIssue code r v) = logs v" "logs (clearVideoProfileTimer v) = logs v"
  "logs (clearConnectionEstablishmentTimer v) = logs v" "logs (clearVideoProfileStabilizing v) = logs v"
  "logs (stopPing v) = logs v" "logs (stopVideoStats b v) = logs v" "logs (cancelAutoReconnect v) = logs v"
  "logs (cancelSignalingRecovery v) = logs v" "logs (updateActiveState v) = logs v"
  "logs (update_viewer_socket i f v) = logs v"
  by (simp_all add: scheduleAutoReconnect_def scheduleSignalingRecovery_def applyConnectionIssue_def
      clearVideoProfileTimer_def clearConnectionEstablishmentTimer_def clearVideoProfileStabilizing_def
      stopPing_def stopVideoStats_def Let_def cancelAutoReconnect_def cancelSignalingRecovery_def
      active_step_legal update_viewer_socket_def split: option.split)

lemma logs_moveTo: "moveTo s v = Inr w \<Longrightarrow> logs w = logs v"
  by (auto simp: moveTo_def split: sum.splits)

lemma logs_ends [simp]:
  "logs (cycle_failed code cycle v) = logs v" "logs (recoverControlChannel ch cycle v) = logs v"
  "logs (disconnect v) = logs v" "logs (unmount v) = logs v"
  using logs_closes [OF release_objects(1)]
  by (simp_all add: cycle_failed_def recoverControlChannel_def disconnect_def unmount_def Let_def)

lemma logs_startConnection: "startConnection pf profile c cycle r v = Some w \<Longrightarrow> logs w = logs v"
  by (auto simp: startConnection_def split: if_splits)

lemma logs_connect [simp]: "logs (connectInternal pf profile isAuto v) = logs v"
  unfolding connectInternal_def Let_def
  by (simp add: logs_startConnection split: option.split)

lemma logs_tickets [simp]:
  "logs (connect_ticket pf cycle isAuto profile answer v) = logs v"
  "logs (recovery_ticket pf cycle profile answer v) = logs v"
  "logs (ticket_answered pf k answer v) = logs v"
  "logs (signaling_recovery_fired pf profile cycle v) = logs v"
  "logs (auto_reconnect_fired pf profile v) = logs v" "logs (establishment_timeout cycle v) = logs v"
proof -
  show connect: "logs (connect_ticket pf cycle isAuto profile answer v) = logs v"
    for cycle isAuto profile v
    by (simp add: connect_ticket_def Let_def logs_startConnection split: option.split)
  show recovery: "logs (recovery_ticket pf cycle profile answer v) = logs v" for cycle profile v
    by (simp add: recovery_ticket_def Let_def logs_startConnection split: option.split)
  show "logs (ticket_answered pf k answer v) = logs v"
    by (simp add: ticket_answered_def Let_def connect recovery split: ticket_request.split)
  show "logs (signaling_recovery_fired pf profile cycle v) = logs v"
    by (simp add: signaling_recovery_fired_def Let_def logs_startConnection split: option.split)
  show "logs (auto_reconnect_fired pf profile v) = logs v"
    by (simp add: auto_reconnect_fired_def Let_def)
  show "logs (establishment_timeout cycle v) = logs v"
    by (simp add: establishment_timeout_def Let_def)
qed

text \<open>Transfers and the peer's other channels.\<close>

lemma logs_sends [simp]:
  "logs (snd (sendFileMessage pf now e d v)) = logs v"
  "logs (snd (sendImageClipboardMessage pf now e d v)) = logs v"
  by (simp_all add: sendFileMessage_def sendImageClipboardMessage_def send_image_frame_def
      send_file_frame_def Let_def update_peer_def map_update split: option.split)

lemma logs_frames [simp]:
  "logs (send_file_frame i frame v) = logs v" "logs (send_image_frame i frame v) = logs v"
  "logs (update_upload i f v) = logs v"
  by (simp_all add: send_image_frame_def send_file_frame_def update_peer_def map_update update_upload_def)

lemma logs_pair [simp]:
  "sendFileMessage pf now e d v = (b, w) \<Longrightarrow> logs w = logs v"
  "sendImageClipboardMessage pf now e d v = (b, w) \<Longrightarrow> logs w = logs v"
  using logs_sends by (metis snd_conv)+

lemmas show_defs = show_download_def show_transfer_def set_phase_def forget_upload_def
  fail_upload_def settle_image_def reject_current_image_def triggerBrowserDownload_def Let_def

lemma logs_helpers [simp]:
  "logs (show_download c n q st v) = logs v" "logs (show_transfer i c q ts v) = logs v"
  "logs (set_phase i ph v) = logs v" "logs (forget_upload i v) = logs v" "logs (fail_upload i code v) = logs v"
  "logs (settle_image i b oc v) = logs v" "logs (reject_current_image i cd v) = logs v"
  "logs (triggerBrowserDownload n bs v) = logs v"
  by (simp_all add: show_defs)

lemma logs_transfers [simp]:
  "logs (upload_read pf digest now data i v) = logs v" "logs (upload_progress i v) = logs v"
  "logs (upload_error i code v) = logs v" "logs (upload_streamed pf now how i v) = logs v"
  "logs (upload_unread i code v) = logs v" "logs (upload_chunk i v) = logs v"
  "logs (upload_timeout i v) = logs v" "logs (sendFile random name m v) = logs v"
  "logs (handleDownloadChunk chunk v) = logs v" "logs (finishDownload dl sha v) = logs v"
  "logs (download_verified digest k v) = logs v" "logs (requestFileList pf now v) = logs v"
  "logs (downloadFile pf now random name v) = logs v" "logs (clearFileTransfer v) = logs v"
  "logs (clearFileDownload v) = logs v" "logs (dismissClipboardEntry k v) = logs v"
  "logs (dismissClipboardImageEntry k v) = logs v"
  by (simp_all add: upload_read_def upload_progress_def upload_error_def upload_streamed_def
      upload_unread_def upload_chunk_def upload_timeout_def sendFile_def handleDownloadChunk_def finishDownload_def download_verified_def
      requestFileList_def downloadFile_def clearFileTransfer_def clearFileDownload_def
      dismissClipboardEntry_def dismissClipboardImageEntry_def Let_def
      split: option.split prod.split bool.split stream_end.split)

lemma logs_images [simp]:
  "logs (handleImageClipboardMessage m v) = logs v" "logs (handleImageClipboardChunk chunk v) = logs v"
  "logs (image_verified digest now k v) = logs v" "logs (image_prepared pf digest now data random v) = logs v"
  "logs (image_streamed pf now i how v) = logs v" "logs (image_timeout i v) = logs v"
  "logs (image_chunk i ch offset v) = logs v"
  by (simp_all add: handleImageClipboardMessage_def finishIncomingClipboardImage_def
      handleImageClipboardChunk_def image_verified_def image_prepared_def image_streamed_def
      image_timeout_def image_chunk_def Let_def split: option.split prod.split bool.split stream_end.split)

lemma logs_file_events [simp]:
  "logs (download_event m dl v) = logs v" "logs (upload_event m v) = logs v"
  by (simp_all add: download_event_def upload_event_def upload_accepted_def upload_done_def
      split: option.split)

lemma logs_file_message [simp]: "logs (handleFileMessage m v) = logs v"
  by (simp add: handleFileMessage_def split: option.split)

lemma logs_channels [simp]:
  "logs (image_channel_message pf i data v) = logs v" "logs (image_channel_opened i v) = logs v"
  "logs (image_channel_closed i v) = logs v" "logs (file_channel_message pf i data v) = logs v"
  "logs (file_channel_opened i v) = logs v" "logs (file_channel_closed i v) = logs v"
  by (simp_all add: image_channel_message_def image_channel_opened_def image_channel_closed_def
      file_channel_message_def file_channel_opened_def file_channel_closed_def Let_def
      split: option.split channel_data.split)

lemma logs_set [simp]:
  "logs (set_control i r v) = logs v" "logs (set_image i r v) = logs v" "logs (set_file i r v) = logs v"
  "logs (set_peer i st v) = logs v" "logs (set_socket i r v) = logs v"
  by (simp_all add: set_control_def set_image_def set_file_def set_peer_def set_socket_def
      logs_update_peer control_log_def)

lemma logs_peer_events [simp]:
  "logs (control_message pf now i text v) = logs v" "logs (control_closed i v) = logs v"
  "logs (peer_state_changed i v) = logs v" "logs (track_arrived i v) = logs v"
  "logs (offer_ready i sdp v) = logs v"
proof -
  show "logs (control_message pf now i text v) = logs v"
    by (simp add: control_message_def Let_def split: option.split)
  show "logs (control_closed i v) = logs v" by (simp add: control_closed_def Let_def)
  show "logs (peer_state_changed i v) = logs v"
    by (simp add: peer_state_changed_def Let_def split: peer_state.split)
  show "logs (track_arrived i v) = logs v"
    by (simp add: track_arrived_def startVideoStats_def Let_def)
  have offer: "logs (update_peer i (\<lambda>p. p\<lparr>vp_offering := False\<rparr>) v) = logs v"
    by (simp add: logs_update_peer)
  have "logs w = logs v"
    if "sendSignaling ty sid d (update_peer i (\<lambda>p. p\<lparr>vp_offering := False\<rparr>) v) = (r, w)" for ty sid d r w
    using logs_sendSignaling offer that by (metis snd_conv)
  then show "logs (offer_ready i sdp v) = logs v"
    by (simp add: offer_ready_def Let_def offer split: option.split prod.split sum.split)
qed

lemma logs_socket_events [simp]:
  "logs (socket_error i v) = logs v" "logs (socket_closed i v) = logs v" "logs (socket_opened i v) = logs v"
proof -
  show "logs (socket_error i v) = logs v" by (simp add: socket_error_def Let_def)
  show "logs (socket_closed i v) = logs v" by (simp add: socket_closed_def Let_def)
  have send: "logs w = logs u" if "sendSignaling ty sid d u = (r, w)" for ty sid d u r w
    using logs_sendSignaling that by (metis snd_conv)
  show "logs (socket_opened i v) = logs v"
    by (auto simp: socket_opened_def Let_def logs_moveTo dest!: send logs_moveTo
        split: sum.split prod.split if_splits)
qed

section \<open>Operations that write\<close>

lemma logs_send_control:
  "send_control throws i k m v = Some w \<Longrightarrow> logs w = (logs v)[i := logs v ! i @ [TextFrame m]]"
  by (cases "i < length (viewerPeers v)")
    (auto simp: send_control_def update_peer_def map_update control_log_def list_update_beyond split: if_splits)

text \<open>The one writer of input: at most one frame, and only when the session may inject.\<close>

definition injects :: "viewer \<Rightarrow> channel_frame list list \<Rightarrow> bool" where
  "injects v ls \<longleftrightarrow> (\<exists>i m. may_inject v i \<and> ls = (logs v)[i := logs v ! i @ [TextFrame m]])"

lemma emitControl_logs:
  "logs (emitControl pf now e d v) = logs v \<or> injects v (logs (emitControl pf now e d v))"
proof (cases "stateRef v \<noteq> ControlActive \<or> \<not> grantedControlRef v \<or> configRef v = None
    \<or> controlChannel v = None \<or> control_ready v \<noteq> Some ChOpen")
  case True
  then show ?thesis by (auto simp: emitControl_def split: option.split)
next
  case False
  then obtain c i where ci: "configRef v = Some c" "controlChannel v = Some i" by auto
  define v1 where "v1 = v\<lparr>controlSequence := controlSequence v + 1\<rparr>"
  define m where "m = control_json e (cc_sessionId c) (controlSequence v1) now d"
  have eq: "emitControl pf now e d v =
      (case send_control (pf_throws pf) i (controlSequence v1) m v1 of
         Some v2 \<Rightarrow> v2 | None \<Rightarrow> recoverControlChannel i (activeCycle v1) v1)"
    unfolding emitControl_def Let_def v1_def m_def using False ci by simp
  have "may_inject v i"
    using False ci by (auto simp: may_inject_def control_ready_def)
  moreover have "logs w = (logs v)[i := logs v ! i @ [TextFrame m]]"
    if "send_control (pf_throws pf) i (controlSequence v1) m v1 = Some w" for w
    using logs_send_control [OF that] by (simp add: v1_def)
  ultimately show ?thesis
    unfolding eq injects_def by (auto simp: v1_def split: option.split)
qed

lemma perform_logs: "logs (perform pf now e v) = logs v \<or> injects v (logs (perform pf now e v))"
  using emitControl_logs
  by (cases e) (simp_all add: sendKey_def sendPointerButton_def sendPointerMove_def
      sendPointerWheel_def releaseRemoteInput_def)

lemma background_ping: "background (TextFrame (control_json ''session.ping'' sid n now d))"
  by (simp add: background_def control_json_def)

lemma background_report: "background (TextFrame (control_json ''video.receiver-report'' sid n now d))"
  by (simp add: background_def control_json_def)

lemma grows_send:
  "send_control throws i k m v = Some w \<Longrightarrow> background (TextFrame m) \<Longrightarrow> grows background (logs v) (logs w)"
  using logs_send_control by (metis grows_update list.pred_inject)

lemma sendPing_logs: "grows background (logs v) (logs (sendPing pf now i cycle c v))"
proof -
  have "grows background (logs v) (logs w)"
    if "send_control throws i k (control_json ''session.ping'' sid k now d)
          (v\<lparr>controlSequence := k, missedControlPongs := n\<rparr>) = Some w" for throws k sid d n w
    using grows_send [OF that background_ping] by simp
  then show ?thesis by (simp add: sendPing_def Let_def split: option.split)
qed

lemma control_opened_logs: "grows background (logs v) (logs (control_opened pf now i v))"
proof -
  have "grows background (logs u) (logs (sendPing pf now i cycle c (u\<lparr>missedControlPongs := 0\<rparr>)))" for u cycle c
    using sendPing_logs [of "u\<lparr>missedControlPongs := 0\<rparr>"] by simp
  then have "grows background (logs u) (logs (startControlPing pf now i cycle u))" for u cycle
    by (simp add: startControlPing_def split: option.split)
  then have "grows background (logs (updateActiveState (v\<lparr>channelOpenRef := True\<rparr>)))
      (logs (startControlPing pf now i cycle (updateActiveState (v\<lparr>channelOpenRef := True\<rparr>))))" for cycle
    by blast
  then show ?thesis by (simp add: control_opened_def Let_def)
qed

lemma sampleVideoStats_logs: "grows background (logs v) (logs (sampleVideoStats pf now i cycle inbound ice v))"
proof -
  have "grows background (logs u) (logs w)"
    if "send_control throws ch k (control_json ''video.receiver-report'' sid k now d)
          (u\<lparr>controlSequence := k\<rparr>) = Some w" for throws ch k sid d u w
    using grows_send [OF that background_report] by simp
  then have report: "grows background (logs u) (logs (sendReceiverReport pf now ch tel rt u))" for u ch tel rt
    by (simp add: sendReceiverReport_def Let_def split: option.split)
  have shown: "logs (finishVideoProfileStabilizingIfDecoded tel (u\<lparr>videoTelemetry := tel, connectionRoute := r\<rparr>)) = logs u" for u tel r
    by (simp add: finishVideoProfileStabilizingIfDecoded_def split: option.split)
  have "grows background (logs v) (logs (sendReceiverReport pf now ch tel rt
      (finishVideoProfileStabilizingIfDecoded tel (v\<lparr>videoTelemetry := tel, connectionRoute := r\<rparr>))))" for ch tel rt r
    using report shown by metis
  then show ?thesis
    by (simp add: sampleVideoStats_def Let_def shown split: option.split)
qed

lemma session_accepted_logs: "grows background (logs v) (logs (snd (session_accepted pf m cycle rc v)))"
proof -
  have create: "grows background (logs u) (logs (snd (createPeerConnection pf cycle u)))" for u
    by (simp add: createPeerConnection_def Let_def grows_append split: option.split)
  have "grows background (logs u) (logs (snd (createPeerConnection pf cycle w)))"
    if "moveTo Negotiating u = Inr w" for u w
    using create [of w] logs_moveTo [OF that] by simp
  note moved = this
  define g where "g = (payload_of m ''permission'' = Some (JStr (lit ''control'')))"
  define v1 where "v1 = v\<lparr>grantedControlRef := g, controlGranted := g,
      controlPolicyEnabled := g, controlLocked := False\<rparr>"
  define v2 where "v2 = (case as_profile (as_string (payload_of m ''videoProfile'')) of
      Some p \<Rightarrow> v1\<lparr>videoProfile := p\<rparr> | None \<Rightarrow> v1)"
  have v2: "logs v2 = logs v" by (simp add: v2_def v1_def split: option.split)
  have moved2: "grows background (logs v) (logs (snd (createPeerConnection pf cycle w)))"
    if "moveTo Negotiating v2 = Inr w" for w
    using moved [OF that] v2 by simp
  have "session_accepted pf m cycle rc v =
      (case rc of
         Some c \<Rightarrow>
           (False, if canPreservePeerDuringSignalingRecovery v2
                   then cancelSignalingRecovery (v2\<lparr>configRef := Some c\<rparr>) else v2)
       | None \<Rightarrow>
           (case moveTo Negotiating v2 of
              Inl _ \<Rightarrow> (True, v2)
            | Inr v3 \<Rightarrow> createPeerConnection pf cycle v3))"
    by (simp only: session_accepted_def Let_def v1_def v2_def g_def)
  then show ?thesis using v2 moved2 by (simp split: option.split sum.split)
qed

text \<open>A revoked or locked policy releases what is held while the grant is still there.\<close>

lemma session_policy_logs:
  "logs (session_policy pf now m v) = logs v \<or> injects v (logs (session_policy pf now m v))"
proof -
  have "injects (v\<lparr>controlPolicyEnabled := a, controlLocked := b\<rparr>) ls \<longleftrightarrow> injects v ls" for a b ls
    by (simp add: injects_def may_inject_def)
  then show ?thesis
    using emitControl_logs [of pf now "''control.release-all''" "JObj []"
        "v\<lparr>controlPolicyEnabled := _, controlLocked := _\<rparr>"]
    by (simp add: session_policy_def Let_def releaseRemoteInput_def)
qed

definition logs_step :: "viewer \<Rightarrow> viewer \<Rightarrow> bool" where
  "logs_step v w \<longleftrightarrow> grows background (logs v) (logs w) \<or> injects v (logs w)"

lemma logs_step_same: "logs w = logs v \<Longrightarrow> logs_step v w"
  by (simp add: logs_step_def)

lemma handleSignalingMessage_logs: "logs_step v (snd (handleSignalingMessage pf now m cycle rc v))"
proof -
  have accept: "logs_step v (snd (session_accepted pf m cycle rc v))"
    using session_accepted_logs by (simp add: logs_step_def)
  have policy: "logs_step v (session_policy pf now m v)"
    using session_policy_logs [of pf now m v] by (auto simp: logs_step_def)
  have issue: "logs (server_issue m cycle v) = logs v" "logs (session_configured m v) = logs v"
    by (simp_all add: server_issue_def session_configured_def Let_def split: option.split)
  show ?thesis
    by (simp add: handleSignalingMessage_def Let_def accept policy issue logs_step_same)
qed

lemma socket_message_logs: "logs_step v (socket_message pf now i text v)"
proof -
  have same: "injects (update_viewer_socket i f v) ls \<longleftrightarrow> injects v ls" for f ls
    by (simp add: injects_def may_inject_def update_viewer_socket_def)
  have "logs_step v (case handleSignalingMessage pf now m cycle rc (update_viewer_socket i f v) of
      (False, v2) \<Rightarrow> v2 | (True, v2) \<Rightarrow> cycle_failed code c v2)" for m cycle rc f code c
  proof -
    obtain b w where h: "handleSignalingMessage pf now m cycle rc (update_viewer_socket i f v) = (b, w)"
      by force
    then have "logs_step v w"
      using handleSignalingMessage_logs [of "update_viewer_socket i f v" pf now m cycle rc] same
      by (simp add: logs_step_def)
    then show ?thesis using h by (simp add: logs_step_def split: bool.split)
  qed
  then show ?thesis
    by (simp add: socket_message_def Let_def logs_step_same split: option.split)
qed

text \<open>Every step of the hook.\<close>

lemma user_logs:
  "logs_step v (perform pf now e v)" "logs_step v (setRemoteClipboard pf now text v)"
  "logs_step v (changeVideoProfile profile v)"
proof -
  have emit: "logs_step v (emitControl pf now ev d v)" for ev d
    using emitControl_logs [of pf now ev d v] by (auto simp: logs_step_def)
  show "logs_step v (perform pf now e v)"
    using perform_logs [of pf now e v] by (auto simp: logs_step_def)
  show "logs_step v (setRemoteClipboard pf now text v)"
    by (simp add: setRemoteClipboard_def emit logs_step_same)
  show "logs_step v (changeVideoProfile profile v)"
    by (simp add: changeVideoProfile_def Let_def logs_step_same split: option.split)
qed

lemma background_logs:
  "logs_step v (sendPing pf now i cycle c v)" "logs_step v (sampleVideoStats pf now i cycle inbound ice v)"
  "logs_step v (control_opened pf now i (set_control i ChOpen v))"
  using sendPing_logs sampleVideoStats_logs control_opened_logs [where v = "set_control i ChOpen v"]
  by (simp_all add: logs_step_def)

lemma viewer_step_logs:
  "viewer_step pf digest now e v = Some w \<Longrightarrow> logs_step v w"
  by (cases e)
    (auto simp: occurs_def user_logs background_logs socket_message_logs profile_timeout_def
      stabilize_timeout_def intro: logs_step_same split: if_splits)

end
