(* ===== verification/RemoteSafety.thy ===== *)
theory RemoteSafety
  imports RemoteInvariants RemoteControl
begin

text \<open>
  What the session hook guarantees over time: nothing reconnects a user who disconnected
  (\<open>quiet\<close> is the state a disconnect leaves and every step but a new connect keeps), and a
  silent control channel is noticed after eight unanswered pings.
\<close>

section \<open>After a disconnect\<close>

text \<open>Offline by the user's choice, with nothing under way that could bring the session back.\<close>

definition quiet :: "viewer \<Rightarrow> bool" where
  "quiet v \<longleftrightarrow> viewer_inv v \<and> userDisconnected v \<and> stateRef v = Offline \<and> webSocket v = None
     \<and> attempts v = 0"

text \<open>No further try to reach the server: no new socket, no new ticket request.\<close>

definition no_more_tries :: "viewer \<Rightarrow> viewer \<Rightarrow> bool" where
  "no_more_tries v w \<longleftrightarrow> length (viewerSockets w) = length (viewerSockets v)
     \<and> length (ticketRequests w) \<le> length (ticketRequests v)"

definition stays_quiet :: "viewer \<Rightarrow> viewer \<Rightarrow> bool" where
  "stays_quiet v w \<longleftrightarrow> quiet w \<and> no_more_tries v w"

lemma quiet_facts:
  assumes "quiet v"
  shows "peerConnection v = None" "controlChannel v = None" "\<not> autoReconnectTimer v"
    "connectionState v = Offline" "signalingRecoveryTimer v = None"
    "i < length (viewerPeers v) \<Longrightarrow> vp_cycle (viewerPeers v ! i) \<noteq> activeCycle v"
    "i < length (viewerSockets v) \<Longrightarrow> vs_ready (viewerSockets v ! i) \<noteq> ChClosed \<Longrightarrow>
       vs_cycle (viewerSockets v ! i) \<noteq> activeCycle v"
    "k < length (ticketRequests v) \<Longrightarrow> ticket_cycle (ticketRequests v ! k) \<noteq> activeCycle v"
    "\<not> canPreservePeerDuringSignalingRecovery v"
proof -
  have inv: "refs_ok v" "attempts_ok v" "flags_ok v" and none: "attempts v = 0"
    and v: "stateRef v = Offline" "userDisconnected v"
    using assms by (simp_all add: quiet_def viewer_inv_def)
  show peer: "peerConnection v = None" using inv(1) v(1) by (auto simp: refs_ok_def)
  show "controlChannel v = None" using inv(1) peer by (simp add: refs_ok_def)
  show "\<not> autoReconnectTimer v" "connectionState v = Offline"
    using inv(3) v by (simp_all add: flags_ok_def)
  show "signalingRecoveryTimer v = None" using inv(2) peer by (auto simp: attempts_ok_def)
  show "vp_cycle (viewerPeers v ! i) \<noteq> activeCycle v" if "i < length (viewerPeers v)"
    using inv(1) peer nth_mem [OF that] unfolding refs_ok_def by (metis image_eqI)
  show "vs_cycle (viewerSockets v ! i) \<noteq> activeCycle v"
    if "i < length (viewerSockets v)" "vs_ready (viewerSockets v ! i) \<noteq> ChClosed"
    using attempts_none(2) [OF none] that by auto
  show "ticket_cycle (ticketRequests v ! k) \<noteq> activeCycle v" if "k < length (ticketRequests v)"
    using attempts_none(3) [OF none] that by auto
  show "\<not> canPreservePeerDuringSignalingRecovery v"
    using canPreserve_peer peer by blast
qed

lemma stays_quiet_refl [simp]: "quiet v \<Longrightarrow> stays_quiet v v"
  by (simp add: stays_quiet_def no_more_tries_def)

lemma stays_quiet_trans: "stays_quiet u v \<Longrightarrow> stays_quiet v w \<Longrightarrow> stays_quiet u w"
  by (simp add: stays_quiet_def no_more_tries_def)

lemma quiet_same_core:
  assumes q: "quiet v" and s: "same_core v w" shows "stays_quiet v w"
proof -
  have "viewer_inv w" using q s viewer_inv_core unfolding quiet_def by blast
  moreover have "attempts w = attempts v" using s by (rule same_core_attempts)
  moreover have "length (viewerSockets w) = length (viewerSockets v)"
    using s by (auto simp: same_core_def objects_def dest: map_eq_imp_length_eq)
  ultimately show ?thesis
    using q s by (simp add: stays_quiet_def quiet_def no_more_tries_def same_core_def objects_def flags_def)
qed

lemma quiet_schedule: "quiet v \<Longrightarrow> scheduleAutoReconnect v = v"
  by (simp add: quiet_def scheduleAutoReconnect_def)

text \<open>A teardown of the active cycle, if it does anything, starts a cycle nothing belongs to.\<close>

lemma quiet_teardown:
  assumes inv: "viewer_inv v" and user: "userDisconnected v" and live: "\<not> idle v"
  shows "quiet (teardownForCycle (activeCycle v) v)" "no_more_tries v (teardownForCycle (activeCycle v) v)"
proof -
  note t = teardown_live [OF live]
  let ?w = "teardownForCycle (activeCycle v) v"
  have w: "viewer_inv ?w" using inv by (rule inv_teardown)
  have len: "length (viewerSockets ?w) = length (viewerSockets v)"
    using t(16) by (simp add: list_all2_lengthD)
  have cyc: "\<forall>c \<in> set (map vs_cycle (viewerSockets ?w)). c < activeCycle ?w"
    using sockets_cycles [OF t(16)] t(4) inv by (auto simp: inv_defs less_Suc_eq_le)
  have "attempts ?w = 0"
    using cyc t(1,4,8) inv by (auto simp: attempts_def released_def filter_empty_conv inv_defs)
  then show "quiet ?w" using w t(1,2,5) user by (simp add: quiet_def released_def)
  show "no_more_tries v ?w" using len t(8) by (simp add: no_more_tries_def)
qed

lemma quiet_cycle_failed: "quiet v \<Longrightarrow> stays_quiet v (cycle_failed code cycle v)"
proof -
  assume q: "quiet v"
  let ?u = "applyConnectionIssue (lit code) None v"
  have u: "stays_quiet v ?u" using q neutral_applyConnectionIssue by (rule quiet_same_core)
  have td: "stays_quiet ?u (teardownForCycle cycle ?u)"
  proof (cases "cycle = activeCycle ?u \<and> \<not> idle ?u")
    case True
    then show ?thesis
      using quiet_teardown [of ?u] u by (simp add: stays_quiet_def quiet_def)
  next
    case False
    then have "teardownForCycle cycle ?u = ?u" using teardown_stale teardown_idle by metis
    then show ?thesis using u by (simp add: stays_quiet_def no_more_tries_def)
  qed
  have "stays_quiet v (teardownForCycle cycle ?u)" using u td by (rule stays_quiet_trans)
  moreover from this have "scheduleAutoReconnect (teardownForCycle cycle ?u) = teardownForCycle cycle ?u"
    by (intro quiet_schedule) (simp add: stays_quiet_def)
  ultimately show ?thesis using q unfolding cycle_failed_def by (metis stays_quiet_refl)
qed

lemma quiet_recover: "quiet v \<Longrightarrow> recoverControlChannel i cycle v = v"
  by (simp add: recoverControlChannel_def quiet_def)

lemma quiet_stale_teardown: "cycle \<noteq> activeCycle v \<Longrightarrow> quiet v \<Longrightarrow> scheduleAutoReconnect (teardownForCycle cycle v) = v"
  by (simp add: teardown_stale quiet_schedule)

lemma quiet_senders:
  assumes q: "quiet v"
  shows "perform pf now e v = v" "stays_quiet v (setRemoteClipboard pf now text v)"
proof -
  have off: "emitControl pf now ev d v = v" for ev d
    using q by (simp add: emitControl_def quiet_def)
  show "perform pf now e v = v"
    by (cases e) (simp_all add: sender_defs off)
  show "stays_quiet v (setRemoteClipboard pf now text v)"
    using q by (simp add: setRemoteClipboard_def off)
qed

lemma quiet_disconnect:
  assumes q: "quiet v" shows "stays_quiet v (disconnect v)"
proof -
  define u where "u = cancelAutoReconnect (v\<lparr>userDisconnected := True, autoReconnectAttempts := 0\<rparr>)"
  have "same_core v u"
    using q quiet_facts(3) [OF q] by (simp add: u_def core_defs quiet_def cancelAutoReconnect_def)
  then have u: "stays_quiet v u" using q by (rule quiet_same_core [rotated])
  then have qu: "quiet u" by (simp add: stays_quiet_def)
  have "stays_quiet u (teardownForCycle (activeCycle u) u)"
  proof (cases "idle u")
    case True
    then show ?thesis using qu by (simp add: teardown_idle)
  next
    case False
    then show ?thesis using qu quiet_teardown [of u] by (simp add: stays_quiet_def quiet_def)
  qed
  then show ?thesis using stays_quiet_trans [OF u] by (simp add: disconnect_def u_def Let_def)
qed

lemma quiet_unmount:
  assumes q: "quiet v" shows "stays_quiet v (unmount v)"
proof -
  define n where "n = v\<lparr>userDisconnected := True, activeCycle := activeCycle v + 1\<rparr>"
  define w where "w = releaseResources n"
  have n: "activeCycle n = activeCycle v + 1" "viewerSockets n = viewerSockets v"
      "ticketRequests n = ticketRequests v" "stateRef n = Offline" "userDisconnected n"
    using q by (simp_all add: n_def quiet_def)
  have w: "activeCycle w = activeCycle v + 1" "ticketRequests w = ticketRequests v"
      "stateRef w = Offline" "userDisconnected w"
    by (simp_all add: w_def n)
  have "viewer_inv w" using q inv_unmount [of v] by (simp add: quiet_def unmount_def w_def n_def)
  moreover have cyc: "\<forall>s \<in> set (viewerSockets v). vs_cycle s < activeCycle w"
      "\<forall>t \<in> set (ticketRequests v). ticket_cycle t < activeCycle w"
    using q w(1) by (auto simp: quiet_def inv_defs less_Suc_eq_le)
  have socks: "list_all2 socket_ends (viewerSockets v) (viewerSockets w)"
    unfolding w_def using release_objects(2) [of n] socket_closes_ends list.rel_mono_strong n(2) by metis
  have rel: "released w" unfolding w_def by (rule released_releaseResources)
  have "\<forall>s \<in> set (viewerSockets w). vs_cycle s < activeCycle w"
    using cyc(1) ball_map_cong [OF sockets_cycles [OF socks], of "\<lambda>n. n < activeCycle w"] by simp
  then have "attempts w = 0"
    using cyc(2) rel w(2) by (auto simp: attempts_def filter_empty_conv released_def)
  ultimately have "quiet w" using rel w by (simp add: quiet_def released_def)
  then show ?thesis
    using socks w(2) by (simp add: stays_quiet_def no_more_tries_def unmount_def w_def n_def list_all2_lengthD)
qed

lemma quiet_tickets:
  assumes q: "quiet v" and k: "k < length (ticketRequests v)"
  shows "stays_quiet v (ticket_answered pf k answer v)"
proof -
  let ?w = "v\<lparr>ticketRequests := take k (ticketRequests v) @ drop (Suc k) (ticketRequests v)\<rparr>"
  have stale: "ticket_cycle (ticketRequests v ! k) \<noteq> activeCycle v" by (rule quiet_facts(8) [OF q k])
  have "viewer_inv ?w" using inv_drop_ticket(1) [OF _ k] q by (simp add: quiet_def)
  moreover have "attempts ?w = 0"
    using q by (auto simp: quiet_def attempts_def filter_empty_conv dest: in_set_takeD in_set_dropD)
  ultimately have w: "stays_quiet v ?w"
    using q k by (simp add: stays_quiet_def quiet_def no_more_tries_def)
  have flags: "same_core ?w (?w\<lparr>isConnecting := False\<rparr>)" "same_core ?w (?w\<lparr>signalingRecoveryInFlight := False\<rparr>)"
    by (simp_all add: core_defs)
  have flag: "stays_quiet v (?w\<lparr>isConnecting := False\<rparr>)" "stays_quiet v (?w\<lparr>signalingRecoveryInFlight := False\<rparr>)"
    using stays_quiet_trans [OF w] quiet_same_core flags w unfolding stays_quiet_def [of v] by blast+
  show ?thesis
  proof (cases "ticketRequests v ! k")
    case (ConnectTicket cycle isAuto profile)
    then show ?thesis
      using flag stale by (simp add: ticket_answered_def connect_ticket_def Let_def split: option.split)
  next
    case (RecoveryTicket cycle profile)
    then show ?thesis
      using flag stale by (simp add: ticket_answered_def recovery_ticket_def scheduleSignalingRecovery_def
          Let_def split: option.split)
  qed
qed

text \<open>The sockets and peers that are left are of cycles that are over.\<close>

lemma quiet_set_socket:
  assumes q: "quiet v" and i: "i < length (viewerSockets v)" "vs_ready (viewerSockets v ! i) \<noteq> ChClosed"
  shows "stays_quiet v (set_socket i r v)" "vs_cycle (viewerSockets (set_socket i r v) ! i) \<noteq> activeCycle (set_socket i r v)"
proof -
  have stale: "vs_cycle (viewerSockets v ! i) \<noteq> activeCycle v" by (rule quiet_facts(7) [OF q i])
  then show "vs_cycle (viewerSockets (set_socket i r v) ! i) \<noteq> activeCycle (set_socket i r v)"
    using i by (simp add: set_socket_def update_viewer_socket_def)
  let ?w = "set_socket i r v"
  have none: "webSocket v = None" "attempts v = 0" using q by (simp_all add: quiet_def)
  have ss: "viewerSockets ?w = (viewerSockets v)[i := (viewerSockets v ! i)\<lparr>vs_ready := r\<rparr>]"
      "activeCycle ?w = activeCycle v" "ticketRequests ?w = ticketRequests v"
      "signalingRecoveryTimer ?w = signalingRecoveryTimer v" "viewerPeers ?w = viewerPeers v"
      "webSocket ?w = None" and peer: "peerConnection ?w = peerConnection v"
    using none by (simp_all add: set_socket_def update_viewer_socket_def)
  have closed: "vs_ready s = ChClosed" if "s \<in> set (viewerSockets ?w)" "vs_cycle s = activeCycle v" for s
    using that attempts_none(2) [OF none(2)] stale
    by (auto simp: ss dest!: set_update_subset_insert [THEN subsetD])
  have att: "attempts ?w = 0"
    using none(2) closed by (auto simp: attempts_def ss filter_empty_conv)
  have parts: "refs_ok v" "cycles_ok v" "attempts_ok v" "flags_ok v" "counters_ok v"
    using q by (simp_all add: quiet_def viewer_inv_def)
  have "refs_ok ?w" using parts(1) by (simp add: refs_ok_def set_socket_def update_viewer_socket_def)
  moreover have "cycles_ok ?w"
    using parts(2) i unfolding cycles_ok_def ss by (auto dest!: set_update_subset_insert [THEN subsetD])
  moreover have "attempts_ok ?w"
    using parts(3) att closed nth_mem [of _ "viewerSockets ?w"] peer
    unfolding attempts_ok_def ss(2,4) by auto
  moreover have "flags_ok ?w" "counters_ok ?w"
    using parts(4,5) by (simp_all add: flags_ok_def counters_ok_def set_socket_def update_viewer_socket_def)
  ultimately have "viewer_inv ?w" by (simp add: viewer_inv_def)
  then show "stays_quiet v ?w"
    using q att by (simp add: stays_quiet_def quiet_def no_more_tries_def set_socket_def update_viewer_socket_def)
qed

lemma quiet_socket_events:
  assumes q: "quiet v" and i: "i < length (viewerSockets v)" "vs_ready (viewerSockets v ! i) \<noteq> ChClosed"
  shows "stays_quiet v (socket_opened i (set_socket i ChOpen v))"
    "stays_quiet v (socket_message pf now i text v)" "stays_quiet v (socket_error i v)"
    "stays_quiet v (socket_closed i (set_socket i ChClosed v))"
proof -
  have stale: "vs_cycle (viewerSockets v ! i) \<noteq> activeCycle v" by (rule quiet_facts(7) [OF q i])
  define w where "w r = set_socket i r v" for r
  have w: "stays_quiet v (w r)" "vs_cycle (viewerSockets (w r) ! i) \<noteq> activeCycle (w r)" for r
    unfolding w_def by (rule quiet_set_socket [OF q i])+
  then have qw: "quiet (w r)" "webSocket (w r) = None" for r by (simp_all add: stays_quiet_def quiet_def)
  have "socket_view (close_viewer_socket (viewerSockets (w ChOpen) ! i)) = socket_view (viewerSockets (w ChOpen) ! i)"
    using i by (simp add: w_def set_socket_def update_viewer_socket_def socket_view_def close_ready_def)
  then have "stays_quiet (w ChOpen) (update_viewer_socket i close_viewer_socket (w ChOpen))"
    using quiet_same_core [OF qw(1) same_core_update_socket] by blast
  then show "stays_quiet v (socket_opened i (set_socket i ChOpen v))"
    using stays_quiet_trans [OF w(1)] w(2) by (simp add: socket_opened_def Let_def w_def [symmetric])
  show "stays_quiet v (socket_message pf now i text v)" "stays_quiet v (socket_error i v)"
    using q stale by (simp_all add: socket_message_def socket_error_def Let_def)
  show "stays_quiet v (socket_closed i (set_socket i ChClosed v))"
    using w qw quiet_schedule [OF qw(1)] by (simp add: socket_closed_def Let_def w_def [symmetric])
qed

lemma quiet_peer_events:
  assumes q: "quiet v" and i: "i < length (viewerPeers v)"
  shows "stays_quiet v (control_opened pf now i (set_control i ChOpen v))"
    "stays_quiet v (control_closed i (set_control i ChClosed v))"
    "stays_quiet v (track_arrived i v)" "stays_quiet v (peer_state_changed i (set_peer i st v))"
    "stays_quiet v (offer_ready i sdp v)" "stays_quiet v (sendPing pf now i (vp_cycle (viewerPeers v ! i)) c v)"
    "stays_quiet v (set_image i r v)" "stays_quiet v (set_file i r v)"
proof -
  have stale: "vp_cycle (viewerPeers v ! i) \<noteq> activeCycle v" by (rule quiet_facts(6) [OF q i])
  have same: "stays_quiet v (set_control i r v)" "stays_quiet v (set_peer i st v)"
      "stays_quiet v (set_image i r v)" "stays_quiet v (set_file i r v)" for r st
    using quiet_same_core [OF q same_core_update_peer]
    by (simp_all add: set_control_def set_image_def set_file_def set_peer_def)
  show "stays_quiet v (set_image i r v)" "stays_quiet v (set_file i r v)" by (rule same)+
  have cyc: "vp_cycle (viewerPeers (set_control i r v) ! i) = vp_cycle (viewerPeers v ! i)"
      "activeCycle (set_control i r v) = activeCycle v" for r
    using i by (simp_all add: set_control_def update_peer_def)
  show "stays_quiet v (control_opened pf now i (set_control i ChOpen v))"
    "stays_quiet v (control_closed i (set_control i ChClosed v))"
    using same stale cyc by (simp_all add: control_opened_def control_closed_def Let_def)
  show "stays_quiet v (track_arrived i v)" using q stale by (simp add: track_arrived_def Let_def)
  define u where "u = set_peer i st v"
  have u: "stays_quiet v u" "vp_cycle (viewerPeers u ! i) \<noteq> activeCycle u"
    using same(2) stale i by (simp_all add: u_def set_peer_def update_peer_def)
  then have qu: "quiet u" by (simp add: stays_quiet_def)
  have zero: "same_core u (u\<lparr>autoReconnectAttempts := 0\<rparr>)" by (simp add: core_defs)
  have connected: "stays_quiet u (let v1 = u\<lparr>autoReconnectAttempts := 0\<rparr>
      in if trackReadyRef v1 then clearConnectionEstablishmentTimer v1 else v1)"
    using quiet_same_core [OF qu zero] quiet_same_core [OF qu same_core_trans [OF zero neutral_timers(2)]]
    by (simp add: Let_def)
  have issue: "stays_quiet u (applyConnectionIssue code r u)" for code r
    by (rule quiet_same_core [OF qu neutral_applyConnectionIssue])
  have "activeCycle (applyConnectionIssue code r u) = activeCycle u" for code r
    by (simp add: applyConnectionIssue_def split: option.split)
  then have failed: "stays_quiet u (scheduleAutoReconnect (teardownForCycle (vp_cycle (viewerPeers u ! i)) (applyConnectionIssue code r u)))" for code r
    using quiet_stale_teardown [of "vp_cycle (viewerPeers u ! i)" "applyConnectionIssue code r u"] issue u(2)
    by (simp add: stays_quiet_def)
  have "stays_quiet u (peer_state_changed i u)"
    using connected failed qu by (simp add: peer_state_changed_def split: peer_state.split)
  then show "stays_quiet v (peer_state_changed i (set_peer i st v))"
    using stays_quiet_trans [OF u(1)] by (simp add: u_def)
  define o' where "o' = update_peer i (\<lambda>p. p\<lparr>vp_offering := False\<rparr>) v"
  have o: "stays_quiet v o'" unfolding o'_def by (rule quiet_same_core [OF q same_core_update_peer]) simp
  then have qo: "quiet o'" by (simp add: stays_quiet_def)
  have sent: "stays_quiet v w" if "sendSignaling ty sid d o' = (b, w)" for ty sid d b w
    using stays_quiet_trans [OF o quiet_same_core [OF qo neutral_sendSignaling [of o' ty sid d]]] that by simp
  have fail: "stays_quiet v (cycle_failed code cyc w)" if "stays_quiet v w" for code cyc w
    by (rule stays_quiet_trans [OF that quiet_cycle_failed]) (use that in \<open>simp add: stays_quiet_def\<close>)
  show "stays_quiet v (offer_ready i sdp v)"
    using sent fail o unfolding offer_ready_def Let_def o'_def [symmetric]
    by (auto split: option.split prod.split sum.split)
  show "stays_quiet v (sendPing pf now i (vp_cycle (viewerPeers v ! i)) c v)"
  proof (cases "controlChannelNeedsRecovery (dc_ready (vp_control (viewerPeers v ! i))) (missedControlPongs v)")
    case True
    then show ?thesis using q by (simp add: sendPing_def quiet_recover)
  next
    case False
    then have "missedControlPongs v < 8"
      by (simp add: controlChannelNeedsRecovery_def CONTROL_MAX_MISSED_PONGS_def)
    note core = same_core_counter(2) [OF this]
    have one: "stays_quiet v (v\<lparr>controlSequence := n, missedControlPongs := missedControlPongs v + 1\<rparr>)" for n
      by (rule quiet_same_core [OF q core])
    have two: "stays_quiet v w" if "send_control th j k m
        (v\<lparr>controlSequence := n, missedControlPongs := missedControlPongs v + 1\<rparr>) = Some w" for th j k m n w
      by (rule quiet_same_core [OF q same_core_trans [OF core neutral_send_control [OF that]]])
    have "recoverControlChannel j cyc (v\<lparr>controlSequence := n, missedControlPongs := missedControlPongs v + 1\<rparr>)
        = v\<lparr>controlSequence := n, missedControlPongs := missedControlPongs v + 1\<rparr>" for j cyc n
      using one by (intro quiet_recover) (simp add: stays_quiet_def)
    then show ?thesis
      using False one two by (auto simp: sendPing_def Let_def split: option.split)
  qed
qed

lemma quiet_step:
  assumes q: "quiet v" and step: "viewer_step pf digest now e v = Some w" and user: "\<And>p. e \<noteq> Connect p"
  shows "stays_quiet v w"
proof -
  note f = quiet_facts [OF q]
  have timeout: "stays_quiet v (establishment_timeout c v)" for c
  proof -
    have "same_core v (v\<lparr>connectionEstablishmentTimer := None\<rparr>)" by (simp add: core_defs)
    then show ?thesis
      using q quiet_same_core [OF q] by (simp add: establishment_timeout_def Let_def quiet_def)
  qed
  have after: "stays_quiet v w" if "stays_quiet v u" "same_core u w" for u w
    by (rule stays_quiet_trans [OF that(1) quiet_same_core [OF _ that(2)]])
      (use that(1) in \<open>simp add: stays_quiet_def\<close>)
  have channels: "stays_quiet v (image_channel_opened i (set_image i ChOpen v))"
      "stays_quiet v (image_channel_closed i (set_image i ChClosed v))"
      "stays_quiet v (file_channel_opened i (set_file i ChOpen v))"
      "stays_quiet v (file_channel_closed i (set_file i ChClosed v))"
    if "i < length (viewerPeers v)" for i
    by (rule after [OF quiet_peer_events(7) [OF q that]] after [OF quiet_peer_events(8) [OF q that]],
        rule neutral)+
  show ?thesis
    using step user f(1-5) stays_quiet_refl [OF q]
    by (cases e)
      (auto simp: occurs_def socket_at_def q quiet_senders quiet_disconnect quiet_unmount quiet_tickets
        quiet_socket_events quiet_peer_events quiet_cycle_failed timeout channels
        split: if_splits intro: quiet_same_core [OF q] neutral)
qed

text \<open>
  A disconnect is final unless a ticket of the active cycle is awaited that the hook no longer
  counts as a connection under way.
\<close>

lemma disconnect_quiet:
  assumes inv: "viewer_inv v"
    and tickets: "idle v \<Longrightarrow> \<forall>t \<in> set (ticketRequests v). ticket_cycle t \<noteq> activeCycle v"
  shows "quiet (disconnect v)"
proof -
  define u where "u = cancelAutoReconnect (v\<lparr>userDisconnected := True, autoReconnectAttempts := 0\<rparr>)"
  have "connection_ok u"
    by (rule connection_ok_same [of v])
      (use inv in \<open>simp_all add: viewer_inv_parts u_def cancelAutoReconnect_def objects_def\<close>)
  then have u: "viewer_inv u" "userDisconnected u" "idle u \<longleftrightarrow> idle v"
    using inv by (simp_all add: viewer_inv_parts flags_ok_def counters_ok_def u_def cancelAutoReconnect_def idle_def)
  have d: "disconnect v = teardownForCycle (activeCycle u) u" by (simp add: disconnect_def u_def Let_def)
  show ?thesis
  proof (cases "idle v")
    case True
    have parts: "refs_ok v" "attempts_ok v" using inv by (simp_all add: viewer_inv_def)
    have "signalingRecoveryTimer v = None" "webSocket v = None"
      using parts True by (auto simp: attempts_ok_def idle_def)
    moreover from this parts(2) have "vs_ready s = ChClosed" if "s \<in> set (viewerSockets v)" "vs_cycle s = activeCycle v" for s
      using that by (auto simp: attempts_ok_def in_set_conv_nth)
    ultimately have "attempts v = 0"
      using tickets [OF True] by (auto simp: attempts_def filter_empty_conv)
    then have "attempts u = 0" by (simp add: u_def cancelAutoReconnect_def attempts_def)
    then show ?thesis
      using u True by (simp add: d quiet_def teardown_idle) (simp add: idle_def u_def cancelAutoReconnect_def)
  next
    case False
    then show ?thesis using quiet_teardown(1) [OF u(1,2)] u(3) by (simp add: d)
  qed
qed

lemma quiet_run:
  assumes "quiet v" "viewer_run pf digest es v = Some w" "\<And>now p. (now, Connect p) \<notin> set es"
  shows "stays_quiet v w"
proof -
  have step: "stays_quiet v b" if "(now, e) \<in> set es" "stays_quiet v a" "viewer_step pf digest now e a = Some b" for now e a b
  proof -
    have "quiet a" using that(2) by (simp add: stays_quiet_def)
    then have "stays_quiet a b" using quiet_step [OF _ that(3)] that(1) assms(3) by blast
    then show ?thesis by (rule stays_quiet_trans [OF that(2)])
  qed
  show ?thesis
    by (rule run_invariant [where P = "stays_quiet v", OF assms(2)]) (use step assms(1) in auto)
qed

section \<open>A silent control channel\<close>

definition never_throws :: "platform \<Rightarrow> bool" where
  "never_throws pf \<longleftrightarrow> (\<forall>n. \<not> pf_throws pf n)"

text \<open>A ping over an open channel with fewer than eight unanswered ones.\<close>

lemma ping_once:
  fixes v :: viewer and now :: int and cycle :: nat and c :: connection_config
  assumes "\<not> pf_throws pf (controlSequence v + 1)" "i < length (viewerPeers v)"
    and "dc_ready (vp_control (viewerPeers v ! i)) = ChOpen" "missedControlPongs v < 8"
  defines "w \<equiv> sendPing pf now i cycle c v"
  shows "missedControlPongs w = missedControlPongs v + 1" "stateRef w = stateRef v"
    "activeCycle w = activeCycle v" "controlChannel w = controlChannel v"
    "userDisconnected w = userDisconnected v" "autoReconnectTimer w = autoReconnectTimer v"
    "autoReconnectAttempts w = autoReconnectAttempts v"
    "length (viewerPeers w) = length (viewerPeers v)"
    "dc_ready (vp_control (viewerPeers w ! i)) = ChOpen"
    "\<exists>f. background f \<and> control_log (viewerPeers w ! i) = control_log (viewerPeers v ! i) @ [f]"
proof -
  let ?m = "control_json ''session.ping'' (cc_sessionId c) (controlSequence v + 1) now (JObj [])"
  have w: "w = update_peer i (\<lambda>p. p\<lparr>vp_control := (vp_control p)\<lparr>dc_sent := dc_sent (vp_control p) @ [TextFrame ?m]\<rparr>\<rparr>)
      (v\<lparr>controlSequence := controlSequence v + 1, missedControlPongs := missedControlPongs v + 1\<rparr>)"
    using assms(1-4)
    by (simp add: w_def sendPing_def controlChannelNeedsRecovery_def CONTROL_MAX_MISSED_PONGS_def
        send_control_def Let_def)
  show "missedControlPongs w = missedControlPongs v + 1" "stateRef w = stateRef v"
    "activeCycle w = activeCycle v" "controlChannel w = controlChannel v"
    "userDisconnected w = userDisconnected v" "autoReconnectTimer w = autoReconnectTimer v"
    "autoReconnectAttempts w = autoReconnectAttempts v"
    "length (viewerPeers w) = length (viewerPeers v)"
    "dc_ready (vp_control (viewerPeers w ! i)) = ChOpen"
    using assms(2,3) by (simp_all add: w update_peer_def)
  show "\<exists>f. background f \<and> control_log (viewerPeers w ! i) = control_log (viewerPeers v ! i) @ [f]"
    using assms(2) background_ping [of "cc_sessionId c" "controlSequence v + 1" now "JObj []"]
    by (auto simp: w update_peer_def control_log_def)
qed

text \<open>\<open>n\<close> ticks of the heartbeat.\<close>

definition ping_ticks :: "platform \<Rightarrow> int \<Rightarrow> nat \<Rightarrow> nat \<Rightarrow> connection_config \<Rightarrow> nat \<Rightarrow> viewer \<Rightarrow> viewer" where
  "ping_ticks pf now i cycle c n v = ((sendPing pf now i cycle c) ^^ n) v"

lemma ping_ticks_alive:
  fixes v :: viewer and now :: int and cycle :: nat and c :: connection_config
  assumes "never_throws pf" "i < length (viewerPeers v)"
    and "dc_ready (vp_control (viewerPeers v ! i)) = ChOpen" "missedControlPongs v = 0" "n \<le> 8"
  defines "w \<equiv> ping_ticks pf now i cycle c n v"
  shows "missedControlPongs w = n \<and> stateRef w = stateRef v \<and> activeCycle w = activeCycle v
    \<and> controlChannel w = controlChannel v \<and> userDisconnected w = userDisconnected v
    \<and> autoReconnectTimer w = autoReconnectTimer v \<and> autoReconnectAttempts w = autoReconnectAttempts v
    \<and> length (viewerPeers w) = length (viewerPeers v) \<and> dc_ready (vp_control (viewerPeers w ! i)) = ChOpen
    \<and> length (control_log (viewerPeers w ! i)) = length (control_log (viewerPeers v ! i)) + n"
  using assms(5) unfolding w_def
proof (induction n)
  case 0
  then show ?case using assms(3,4) by (simp add: ping_ticks_def)
next
  case (Suc n)
  define u where "u = ping_ticks pf now i cycle c n v"
  have u: "missedControlPongs u = n" "length (viewerPeers u) = length (viewerPeers v)"
      "dc_ready (vp_control (viewerPeers u ! i)) = ChOpen" "n < 8"
    using Suc by (simp_all add: u_def)
  have "ping_ticks pf now i cycle c (Suc n) v = sendPing pf now i cycle c u"
    by (simp add: ping_ticks_def u_def)
  moreover note ping_once [of pf u i now cycle c]
  ultimately show ?case
    using Suc assms(1,2) u by (auto simp: never_throws_def u_def [symmetric])
qed

text \<open>The ninth tick without a pong tears the session down and schedules a reconnect.\<close>

lemma ping_ticks_dead:
  fixes v :: viewer and now :: int and c :: connection_config
  assumes "never_throws pf" "i < length (viewerPeers v)"
    and "dc_ready (vp_control (viewerPeers v ! i)) = ChOpen" "missedControlPongs v = 0"
    and "controlChannel v = Some i" "stateRef v \<noteq> Offline" "\<not> userDisconnected v"
    and "\<not> autoReconnectTimer v" "autoReconnectAttempts v < AUTO_RECONNECT_MAX_ATTEMPTS"
  defines "w \<equiv> ping_ticks pf now i (activeCycle v) c 9 v"
  shows "stateRef w = Offline" "controlChannel w = None" "webSocket w = None" "autoReconnectTimer w"
    "activeCycle w = activeCycle v + 1"
proof -
  define u where "u = ping_ticks pf now i (activeCycle v) c 8 v"
  have u: "missedControlPongs u = 8" "stateRef u = stateRef v" "activeCycle u = activeCycle v"
      "controlChannel u = controlChannel v" "userDisconnected u = userDisconnected v"
      "autoReconnectAttempts u = autoReconnectAttempts v"
    using ping_ticks_alive [OF assms(1-4), of 8 now "activeCycle v" c] by (simp_all add: u_def)
  have "w = sendPing pf now i (activeCycle v) c u"
    by (simp add: w_def u_def ping_ticks_def eval_nat_numeral)
  also have "\<dots> = recoverControlChannel i (activeCycle v) u"
    using u(1) by (simp add: sendPing_def controlChannelNeedsRecovery_def CONTROL_MAX_MISSED_PONGS_def)
  finally have w: "w = recoverControlChannel i (activeCycle v) u" .
  define x where "x = (stopPing (u\<lparr>channelOpenRef := False\<rparr>))\<lparr>roundTripTimeMs := None\<rparr>"
  have x: "stateRef x = stateRef v" "activeCycle x = activeCycle v"
      "userDisconnected x = userDisconnected v" "autoReconnectAttempts x = autoReconnectAttempts v"
    using u by (simp_all add: x_def stopPing_def)
  have w2: "w = scheduleAutoReconnect (teardownForCycle (activeCycle x) x)"
    using u assms(5,7) x by (simp add: w recoverControlChannel_def x_def [symmetric])
  have live: "\<not> idle x" using x(1) assms(6) by (simp add: idle_def)
  note t = teardown_live [OF live]
  show "stateRef w = Offline" "controlChannel w = None" "webSocket w = None" "autoReconnectTimer w"
    "activeCycle w = activeCycle v + 1"
    using t(1-6) x assms(7,9) by (simp_all add: w2 scheduleAutoReconnect_def released_def)
qed

end
