(* ===== verification/RateLimit.thy ===== *)
theory RateLimit
  imports Prelude
begin

text \<open>
  The sliding-window evaluator of \<open>packages/protocol/src/rateLimit.ts\<close>. A JavaScript number
  of milliseconds is a rational. The lemmas state what the window guarantees over a run of
  events: \<open>rate_run\<close> feeds each decision's list to the next, as the session room does.
\<close>

record rate_policy =
  maxEvents :: nat
  windowMs :: rat

record rate_decision =
  allowed :: bool
  timestamps :: "rat list"

definition evaluateRateLimit :: "rat list \<Rightarrow> rat \<Rightarrow> rate_policy \<Rightarrow> rate_decision" where
  "evaluateRateLimit previous now policy =
     (let cutoff = now - windowMs policy;
          retained = filter (\<lambda>timestamp. timestamp > cutoff) previous
      in if length retained \<ge> maxEvents policy
         then \<lparr>allowed = False, timestamps = retained\<rparr>
         else \<lparr>allowed = True, timestamps = retained @ [now]\<rparr>)"

lemma rate_length: "length (timestamps (evaluateRateLimit ts now p)) \<le> maxEvents p \<or>
    length (timestamps (evaluateRateLimit ts now p)) \<le> length ts"
  by (auto simp: evaluateRateLimit_def Let_def)

lemma rate_length_bound:
  "length ts \<le> maxEvents p \<Longrightarrow> length (timestamps (evaluateRateLimit ts now p)) \<le> maxEvents p"
  using rate_length [of ts now p] by linarith

lemma rate_sorted:
  "sorted ts \<Longrightarrow> \<forall>t \<in> set ts. t \<le> now \<Longrightarrow> sorted (timestamps (evaluateRateLimit ts now p))"
  by (auto simp: evaluateRateLimit_def Let_def sorted_append sorted_wrt_filter)

lemma rate_recent:
  "0 < windowMs p \<Longrightarrow>
   \<forall>t \<in> set (timestamps (evaluateRateLimit ts now p)). now - windowMs p < t"
  by (auto simp: evaluateRateLimit_def Let_def)

lemma rate_members:
  "set (timestamps (evaluateRateLimit ts now p)) \<subseteq> insert now (set ts)"
  by (auto simp: evaluateRateLimit_def Let_def)

text \<open>After a window without accepted events, an event is accepted.\<close>

lemma rate_recovers:
  "0 < maxEvents p \<Longrightarrow> \<forall>t \<in> set ts. t \<le> now - windowMs p \<Longrightarrow>
   evaluateRateLimit ts now p = \<lparr>allowed = True, timestamps = [now]\<rparr>"
proof -
  assume "0 < maxEvents p" "\<forall>t \<in> set ts. t \<le> now - windowMs p"
  moreover from this have "filter (\<lambda>t. t > now - windowMs p) ts = []"
    by (auto simp: filter_empty_conv)
  ultimately show ?thesis by (simp add: evaluateRateLimit_def Let_def)
qed

section \<open>Runs of events\<close>

definition rate_step :: "rate_policy \<Rightarrow> rat list \<times> rat list \<Rightarrow> rat \<Rightarrow> rat list \<times> rat list" where
  "rate_step p st now =
     (let d = evaluateRateLimit (fst st) now p
      in (timestamps d, if allowed d then snd st @ [now] else snd st))"

definition rate_run :: "rate_policy \<Rightarrow> rat list \<Rightarrow> rat list \<times> rat list" where
  "rate_run p nows = foldl (rate_step p) ([], []) nows"

definition in_window :: "rat \<Rightarrow> rate_policy \<Rightarrow> rat list \<Rightarrow> nat" where
  "in_window t p ts = length (filter (\<lambda>a. t - windowMs p < a \<and> a \<le> t) ts)"

lemma rate_run_snoc: "rate_run p (nows @ [now]) = rate_step p (rate_run p nows) now"
  by (simp add: rate_run_def)

lemma accepted_subset: "set (snd (rate_run p nows)) \<subseteq> set nows"
  by (induction nows rule: rev_induct)
    (auto simp: rate_run_def rate_step_def Let_def split: if_splits)

lemma filter_later:
  "c \<le> (d :: rat) \<Longrightarrow> filter (\<lambda>a. a > d) (filter (\<lambda>a. a > c) xs) = filter (\<lambda>a. a > d) xs"
  by (induction xs) auto

lemma kept_accepted:
  assumes "sorted nows" "\<forall>n \<in> set nows. n \<le> t"
  shows "filter (\<lambda>a. a > t - windowMs p) (fst (rate_run p nows)) =
         filter (\<lambda>a. a > t - windowMs p) (snd (rate_run p nows))"
  using assms
proof (induction nows arbitrary: t rule: rev_induct)
  case (snoc now nows)
  then have le: "now \<le> t" and "filter (\<lambda>a. a > t - windowMs p) (fst (rate_run p nows)) =
      filter (\<lambda>a. a > t - windowMs p) (snd (rate_run p nows))"
    by (auto simp: sorted_append)
  moreover have "filter (\<lambda>a. a > t - windowMs p) (filter (\<lambda>a. a > now - windowMs p) xs) =
      filter (\<lambda>a. a > t - windowMs p) xs" for xs
    using le by (intro filter_later) simp
  ultimately show ?case
    by (simp add: rate_run_snoc rate_step_def evaluateRateLimit_def Let_def)
qed (simp add: rate_run_def)

lemma length_filter_weaken:
  "(\<And>x. P x \<Longrightarrow> Q x) \<Longrightarrow> length (filter P xs) \<le> length (filter Q xs)"
  by (induction xs) (auto intro: le_SucI)

lemma window_bound:
  assumes "sorted nows"
  shows "in_window t p (snd (rate_run p nows)) \<le> maxEvents p"
  using assms
proof (induction nows arbitrary: t rule: rev_induct)
  case (snoc now nows)
  let ?acc = "snd (rate_run p nows)"
  have sorted: "sorted nows" and le: "\<forall>n \<in> set nows. n \<le> now"
    using snoc.prems by (auto simp: sorted_append)
  have IH: "in_window t p ?acc \<le> maxEvents p"
    using snoc.IH sorted .
  show ?case
  proof (cases "allowed (evaluateRateLimit (fst (rate_run p nows)) now p) \<and> now \<le> t")
    case False
    then show ?thesis
      using IH by (auto simp: rate_run_snoc rate_step_def Let_def in_window_def)
  next
    case True
    then have "length (filter (\<lambda>a. a > now - windowMs p) ?acc) < maxEvents p"
      using kept_accepted [OF sorted le]
      by (auto simp: evaluateRateLimit_def Let_def split: if_splits)
    moreover have "in_window t p ?acc \<le> length (filter (\<lambda>a. a > now - windowMs p) ?acc)"
      unfolding in_window_def using True
      by (intro length_filter_weaken) auto
    ultimately show ?thesis
      using True by (simp add: rate_run_snoc rate_step_def Let_def in_window_def)
  qed
qed (simp add: rate_run_def in_window_def)

end
