(* ===== verification/SessionRoom.thy ===== *)
theory SessionRoom
  imports Tickets Messages RateLimit Http
begin

text \<open>
  The Durable Object \<open>SessionRoom\<close> (\<open>apps/signaling/src/sessionRoom.ts\<close>): the single meeting
  point of a device's agent and its viewer. The state is the list of accepted sockets (a
  socket's identity is its position), the in-memory window of \<open>session.request\<close> times and
  the storage alarm. What the Workers runtime decides (a socket's state after accepting and
  after \<open>close\<close>, when \<open>send\<close> throws, in which states messages arrive) and the schema validator are the record \<open>runtime\<close>; the
  locale \<open>session_runtime\<close> holds what the code relies on. \<open>Date.now()\<close> is an argument.
\<close>

section \<open>Sockets and the runtime\<close>

datatype ready_state = WsConnecting | WsOpen | WsClosing | WsClosed

record socket =
  tags :: "role list"
  readyState :: ready_state
  attachmentData :: "json option"
  sentFrames :: "jstring list"
  closedWith :: "(nat \<times> jstring) option"

record room =
  sockets :: "socket list"
  sessionRequestTimestamps :: "rat list"
  alarmAt :: "rat option"

record runtime =
  ajv_of :: "schema \<Rightarrow> json \<Rightarrow> bool"
  accepted :: ready_state
  after_close :: "ready_state \<Rightarrow> ready_state"
  sendable :: "ready_state \<Rightarrow> bool"
  delivers :: "ready_state \<Rightarrow> bool"

definition live_state :: "ready_state \<Rightarrow> bool" where
  "live_state s \<longleftrightarrow> s = WsOpen \<or> s = WsConnecting"

locale session_runtime = json_schema_validator "ajv_of rt" for rt :: runtime +
  assumes accepted_live: "live_state (accepted rt)"
    and closed_not_live: "\<not> live_state (after_close rt s)"
    and open_sendable: "sendable rt WsOpen"
    and open_delivers: "delivers rt WsOpen"

definition standard_runtime :: runtime where
  "standard_runtime =
     \<lparr>ajv_of = schema_accepts, accepted = WsOpen,
      after_close = (\<lambda>s. if s = WsClosed then WsClosed else WsClosing),
      sendable = (\<lambda>s. s = WsOpen), delivers = (\<lambda>s. s = WsOpen)\<rparr>"

interpretation standard: session_runtime standard_runtime
proof (intro session_runtime.intro session_runtime_axioms.intro)
  show "json_schema_validator (ajv_of standard_runtime)"
    by (simp add: standard_runtime_def reference.json_schema_validator_axioms)
qed (auto simp: standard_runtime_def live_state_def)

definition MAX_SIGNALING_MESSAGE_BYTES :: nat where
  "MAX_SIGNALING_MESSAGE_BYTES = 256 * 1024"

definition AGENT_HEARTBEAT_TIMEOUT_MS :: rat where
  "AGENT_HEARTBEAT_TIMEOUT_MS = 30000"

definition CLOSE_POLICY_VIOLATION :: nat where
  "CLOSE_POLICY_VIOLATION = 1008"

definition CLOSE_INTERNAL_ERROR :: nat where
  "CLOSE_INTERNAL_ERROR = 1011"

definition SESSION_REQUEST_RATE_LIMIT :: rate_policy where
  "SESSION_REQUEST_RATE_LIMIT = \<lparr>maxEvents = 5, windowMs = 10000\<rparr>"

definition VIEWER_MESSAGE_TYPES :: "string list" where
  "VIEWER_MESSAGE_TYPES =
     [''session.request'', ''session.close'', ''session.configure'', ''webrtc.ice'', ''webrtc.offer'']"

definition AGENT_MESSAGE_TYPES :: "string list" where
  "AGENT_MESSAGE_TYPES =
     [''agent.heartbeat'', ''agent.offline'', ''agent.online'', ''session.accept'',
      ''session.close'', ''session.configured'', ''session.policy'', ''session.reject'',
      ''webrtc.answer'', ''webrtc.ice'']"

definition update_socket :: "nat \<Rightarrow> (socket \<Rightarrow> socket) \<Rightarrow> room \<Rightarrow> room" where
  "update_socket i f r = r\<lparr>sockets := (sockets r)[i := f (sockets r ! i)]\<rparr>"

datatype room_error = SendFailed

text \<open>\<open>webSocket.send(frame)\<close>: it throws in the states the runtime says.\<close>

definition send :: "runtime \<Rightarrow> nat \<Rightarrow> jstring \<Rightarrow> room \<Rightarrow> (room_error + unit) \<times> room" where
  "send rt i frame r =
     (if sendable rt (readyState (sockets r ! i))
      then (Inr (), update_socket i (\<lambda>s. s\<lparr>sentFrames := sentFrames s @ [frame]\<rparr>) r)
      else (Inl SendFailed, r))"

definition close_socket :: "runtime \<Rightarrow> nat \<Rightarrow> nat \<Rightarrow> string \<Rightarrow> room \<Rightarrow> room" where
  "close_socket rt i code reason r =
     update_socket i (\<lambda>s. s\<lparr>readyState := after_close rt (readyState s),
       closedWith := (case closedWith s of None \<Rightarrow> Some (code, lit reason) | Some c \<Rightarrow> Some c)\<rparr>) r"

definition serializeAttachment :: "nat \<Rightarrow> json \<Rightarrow> room \<Rightarrow> room" where
  "serializeAttachment i v r = update_socket i (\<lambda>s. s\<lparr>attachmentData := Some v\<rparr>) r"

text \<open>\<open>ctx.acceptWebSocket(server, tags)\<close>; the new socket is the last one.\<close>

definition acceptWebSocket :: "runtime \<Rightarrow> role list \<Rightarrow> room \<Rightarrow> room" where
  "acceptWebSocket rt ts r =
     r\<lparr>sockets := sockets r @ [\<lparr>tags = ts, readyState = accepted rt, attachmentData = None,
       sentFrames = [], closedWith = None\<rparr>]\<rparr>"

definition getWebSockets :: "role \<Rightarrow> room \<Rightarrow> nat list" where
  "getWebSockets role r = filter (\<lambda>i. role \<in> set (tags (sockets r ! i))) [0..<length (sockets r)]"

section \<open>Attachments and error messages\<close>

record socket_attachment =
  at_connectedAt :: rat
  at_deviceId :: jstring
  at_lastSeenAt :: rat
  at_role :: role
  at_sessionId :: jstring
  at_subject :: jstring

fun as_number :: "json option \<Rightarrow> rat option" where
  "as_number (Some (JNum q)) = Some q"
| "as_number _ = None"

fun as_role :: "jstring option \<Rightarrow> role option" where
  "as_role (Some s) =
     (if s = lit ''agent'' then Some Agent else if s = lit ''viewer'' then Some Viewer else None)"
| "as_role None = None"

definition attachment_json :: "socket_attachment \<Rightarrow> json" where
  "attachment_json a = JObj
     [(lit ''connectedAt'', JNum (at_connectedAt a)), (lit ''deviceId'', JStr (at_deviceId a)),
      (lit ''lastSeenAt'', JNum (at_lastSeenAt a)), (lit ''role'', JStr (lit (role_text (at_role a)))),
      (lit ''sessionId'', JStr (at_sessionId a)), (lit ''subject'', JStr (at_subject a))]"

definition deserializeAttachment :: "json option \<Rightarrow> socket_attachment option" where
  "deserializeAttachment attachment =
     (case attachment of
        None \<Rightarrow> None
      | Some value \<Rightarrow>
          (case (as_number (jget value ''connectedAt''), as_string (jget value ''deviceId''),
                 as_number (jget value ''lastSeenAt''), as_role (as_string (jget value ''role'')),
                 as_string (jget value ''sessionId''), as_string (jget value ''subject'')) of
             (Some c, Some d, Some l, Some ro, Some s, Some u) \<Rightarrow>
               Some \<lparr>at_connectedAt = c, at_deviceId = d, at_lastSeenAt = l, at_role = ro,
                     at_sessionId = s, at_subject = u\<rparr>
           | _ \<Rightarrow> None))"

definition createErrorMessage :: "socket_attachment \<Rightarrow> string \<Rightarrow> bool \<Rightarrow> json" where
  "createErrorMessage a code retryable = JObj
     [(lit ''payload'', JObj [(lit ''code'', JStr (lit code)), (lit ''retryable'', JBool retryable)]),
      (lit ''sequence'', JNum 0), (lit ''sessionId'', JStr (at_sessionId a)),
      (lit ''type'', JStr (lit ''error'')), (lit ''version'', JNum 1)]"

text \<open>\<open>JSON.stringify(createErrorMessage(...))\<close>; the text is always defined (below).\<close>

definition error_frame :: "socket_attachment \<Rightarrow> string \<Rightarrow> bool \<Rightarrow> jstring" where
  "error_frame a code retryable =
     (case json_text (createErrorMessage a code retryable) of Some t \<Rightarrow> t | None \<Rightarrow> [])"

lemma deserialize_attachment_json [simp]:
  "deserializeAttachment (Some (attachment_json a)) = Some a"
  by (cases "at_role a") (simp_all add: deserializeAttachment_def attachment_json_def)

section \<open>Handlers\<close>

text \<open>
  A handler returns the room it leaves behind together with its result, or \<open>SendFailed\<close>
  where a \<open>send\<close> threw out of it. Header names are lower case; \<open>headers\<close> is
  \<open>request.headers.get\<close>.
\<close>



datatype room_response =
    Refused nat string
  | Upgraded nat

definition findSocket :: "role \<Rightarrow> room \<Rightarrow> nat option" where
  "findSocket role r = find (\<lambda>i. readyState (sockets r ! i) = WsOpen) (getWebSockets role r)"

definition hasRole :: "role \<Rightarrow> room \<Rightarrow> bool" where
  "hasRole role r =
     list_ex (\<lambda>i. readyState (sockets r ! i) = WsOpen \<or> readyState (sockets r ! i) = WsConnecting)
       (getWebSockets role r)"

definition isAllowedMessageType :: "role \<Rightarrow> jstring \<Rightarrow> bool" where
  "isAllowedMessageType role type =
     (if role = Agent then type \<in> lit ` set AGENT_MESSAGE_TYPES
      else type \<in> lit ` set VIEWER_MESSAGE_TYPES)"

definition rejectMessage ::
  "runtime \<Rightarrow> nat \<Rightarrow> socket_attachment \<Rightarrow> string \<Rightarrow> room \<Rightarrow> (room_error + unit) \<times> room" where
  "rejectMessage rt i attachment code r =
     (case send rt i (error_frame attachment code False) r of
        (Inl e, r1) \<Rightarrow> (Inl e, r1)
      | (Inr _, r1) \<Rightarrow> (Inr (), close_socket rt i CLOSE_POLICY_VIOLATION code r1))"

definition scheduleHeartbeatDeadline :: "rat \<Rightarrow> room \<Rightarrow> room" where
  "scheduleHeartbeatDeadline lastSeen r = r\<lparr>alarmAt := Some (lastSeen + AGENT_HEARTBEAT_TIMEOUT_MS)\<rparr>"

definition readAttachmentHeaders :: "rat \<Rightarrow> headers \<Rightarrow> socket_attachment option" where
  "readAttachmentHeaders now hs =
     (case (hs ''x-mirror-device-id'', as_role (hs ''x-mirror-role''),
            hs ''x-mirror-session-id'', hs ''x-mirror-subject'') of
        (Some d, Some ro, Some s, Some u) \<Rightarrow>
          if d = [] \<or> s = [] \<or> u = [] then None
          else Some \<lparr>at_connectedAt = now, at_deviceId = d, at_lastSeenAt = now, at_role = ro,
                     at_sessionId = s, at_subject = u\<rparr>
      | _ \<Rightarrow> None)"

definition evict_one :: "runtime \<Rightarrow> nat \<Rightarrow> room \<Rightarrow> room" where
  "evict_one rt i r =
     (if readyState (sockets r ! i) \<noteq> WsOpen \<and> readyState (sockets r ! i) \<noteq> WsConnecting then r
      else
        (let r1 = (case deserializeAttachment (attachmentData (sockets r ! i)) of
                     Some a \<Rightarrow> snd (send rt i (error_frame a ''SESSION_REPLACED'' True) r)
                   | None \<Rightarrow> r)
         in close_socket rt i CLOSE_POLICY_VIOLATION ''SESSION_REPLACED'' r1))"

definition evictViewers :: "runtime \<Rightarrow> room \<Rightarrow> room" where
  "evictViewers rt r = fold (evict_one rt) (getWebSockets Viewer r) r"

definition acceptRejectedViewer ::
  "runtime \<Rightarrow> socket_attachment \<Rightarrow> string \<Rightarrow> room \<Rightarrow> (room_error + room_response) \<times> room" where
  "acceptRejectedViewer rt attachment code r =
     (let server = length (sockets r);
          r1 = serializeAttachment server (attachment_json attachment) (acceptWebSocket rt [] r)
      in case send rt server (error_frame attachment code False) r1 of
           (Inl e, r2) \<Rightarrow> (Inl e, r2)
         | (Inr _, r2) \<Rightarrow>
             (Inr (Upgraded server), close_socket rt server CLOSE_POLICY_VIOLATION code r2))"

definition join_room :: "runtime \<Rightarrow> socket_attachment \<Rightarrow> room \<Rightarrow> (room_error + room_response) \<times> room" where
  "join_room rt attachment r =
     (let server = length (sockets r);
          r1 = serializeAttachment server (attachment_json attachment)
                 (acceptWebSocket rt [at_role attachment] r);
          r2 = (if at_role attachment = Agent
                then scheduleHeartbeatDeadline (at_lastSeenAt attachment) r1 else r1)
      in (Inr (Upgraded server), r2))"

definition fetch :: "runtime \<Rightarrow> rat \<Rightarrow> headers \<Rightarrow> room \<Rightarrow> (room_error + room_response) \<times> room" where
  "fetch rt now hs r =
     (if map_option ascii_lower (hs ''upgrade'') \<noteq> Some (lit ''websocket'')
      then (Inr (Refused 426 ''UPGRADE_REQUIRED''), r)
      else
        (case readAttachmentHeaders now hs of
           None \<Rightarrow> (Inr (Refused 400 ''INVALID_ROOM_CONTEXT''), r)
         | Some attachment \<Rightarrow>
             if at_role attachment = Agent then
               (if hasRole Agent r then (Inr (Refused 409 ''AGENT_ALREADY_ONLINE''), r)
                else join_room rt attachment r)
             else
               (let r1 = (if hasRole Viewer r then evictViewers rt r else r)
                in if \<not> hasRole Agent r1 then acceptRejectedViewer rt attachment ''AGENT_OFFLINE'' r1
                   else join_room rt attachment r1)))"

datatype message_data = Binary "byte list" | Text jstring

definition other_role :: "role \<Rightarrow> role" where
  "other_role role = (if role = Agent then Viewer else Agent)"

definition relay ::
  "runtime \<Rightarrow> nat \<Rightarrow> socket_attachment \<Rightarrow> json \<Rightarrow> jstring \<Rightarrow> room \<Rightarrow> (room_error + unit) \<times> room" where
  "relay rt i attachment message messageData r =
     (case findSocket (other_role (at_role attachment)) r of
        None \<Rightarrow>
          if js_starts_with (lit ''agent.'') (message_type message) then (Inr (), r)
          else send rt i (error_frame attachment ''PEER_OFFLINE'' False) r
      | Some peer \<Rightarrow> send rt peer messageData r)"

definition webSocketMessage ::
  "runtime \<Rightarrow> rat \<Rightarrow> nat \<Rightarrow> message_data \<Rightarrow> room \<Rightarrow> (room_error + unit) \<times> room" where
  "webSocketMessage rt now i data r =
     (case deserializeAttachment (attachmentData (sockets r ! i)) of
        None \<Rightarrow> (Inr (), close_socket rt i CLOSE_INTERNAL_ERROR ''Missing connection state'' r)
      | Some attachment \<Rightarrow>
          (case data of
             Binary _ \<Rightarrow> rejectMessage rt i attachment ''BINARY_MESSAGE_REJECTED'' r
           | Text messageData \<Rightarrow>
               if length (text_encode messageData) > MAX_SIGNALING_MESSAGE_BYTES
               then rejectMessage rt i attachment ''MESSAGE_TOO_LARGE'' r
               else
                 (case json_parse messageData of
                    None \<Rightarrow> rejectMessage rt i attachment ''INVALID_JSON'' r
                  | Some candidate \<Rightarrow>
                      (case validateSignalingMessage (ajv_of rt) candidate of
                         None \<Rightarrow> rejectMessage rt i attachment ''INVALID_MESSAGE'' r
                       | Some message \<Rightarrow>
                           (let sessionIdRejected =
                                  (at_role attachment = Viewer \<and>
                                   message_sessionId message \<noteq> at_sessionId attachment)
                            in if sessionIdRejected \<or>
                                  \<not> isAllowedMessageType (at_role attachment) (message_type message)
                               then rejectMessage rt i attachment ''MESSAGE_NOT_ALLOWED'' r
                               else
                                 (let attachment1 = attachment\<lparr>at_lastSeenAt := now\<rparr>;
                                      r1 = serializeAttachment i (attachment_json attachment1) r
                                  in if message_type message = lit ''agent.heartbeat''
                                     then (Inr (), scheduleHeartbeatDeadline now r1)
                                     else if message_type message = lit ''session.request''
                                     then
                                       (let decision = evaluateRateLimit
                                              (sessionRequestTimestamps r1) now
                                              SESSION_REQUEST_RATE_LIMIT;
                                            r2 = r1\<lparr>sessionRequestTimestamps := timestamps decision\<rparr>
                                        in if \<not> allowed decision
                                           then rejectMessage rt i attachment1 ''RATE_LIMITED'' r2
                                           else relay rt i attachment1 message messageData r2)
                                     else relay rt i attachment1 message messageData r1))))))"

definition webSocketClose :: "nat \<Rightarrow> nat \<Rightarrow> jstring \<Rightarrow> room \<Rightarrow> room" where
  "webSocketClose i code reason r = r"

definition webSocketError :: "runtime \<Rightarrow> nat \<Rightarrow> room \<Rightarrow> room" where
  "webSocketError rt i r = close_socket rt i CLOSE_INTERNAL_ERROR ''WebSocket error'' r"

definition alarm :: "runtime \<Rightarrow> rat \<Rightarrow> room \<Rightarrow> room" where
  "alarm rt now r =
     (case findSocket Agent r of
        None \<Rightarrow> r
      | Some agent \<Rightarrow>
          (case deserializeAttachment (attachmentData (sockets r ! agent)) of
             None \<Rightarrow> close_socket rt agent CLOSE_INTERNAL_ERROR ''Missing connection state'' r
           | Some attachment \<Rightarrow>
               (let elapsed = now - at_lastSeenAt attachment
                in if elapsed \<ge> AGENT_HEARTBEAT_TIMEOUT_MS
                   then close_socket rt agent 1012 ''Agent heartbeat timeout'' r
                   else scheduleHeartbeatDeadline (at_lastSeenAt attachment) r)))"

section \<open>Runs of the room\<close>

text \<open>
  What the runtime does between handlers: a socket opens or closes, the alarm is taken when
  it fires (possibly early), and hibernation drops the in-memory window. A run is a sequence
  of events at nondecreasing times.
\<close>

datatype event =
    Fetch headers
  | Message nat message_data
  | PeerClosed nat nat jstring
  | SocketError nat
  | AlarmFired
  | Opened nat
  | ClientClosing nat
  | Hibernated

definition set_ready :: "nat \<Rightarrow> ready_state \<Rightarrow> room \<Rightarrow> room" where
  "set_ready i s r = update_socket i (\<lambda>k. k\<lparr>readyState := s\<rparr>) r"

inductive room_step :: "runtime \<Rightarrow> rat \<Rightarrow> event \<Rightarrow> room \<Rightarrow> room \<Rightarrow> bool" for rt now where
  step_fetch: "room_step rt now (Fetch hs) r (snd (fetch rt now hs r))"
| step_message: "i < length (sockets r) \<Longrightarrow> delivers rt (readyState (sockets r ! i)) \<Longrightarrow>
    room_step rt now (Message i data) r (snd (webSocketMessage rt now i data r))"
| step_closed: "i < length (sockets r) \<Longrightarrow>
    room_step rt now (PeerClosed i code reason) r (webSocketClose i code reason (set_ready i WsClosed r))"
| step_error: "i < length (sockets r) \<Longrightarrow>
    room_step rt now (SocketError i) r (webSocketError rt i r)"
| step_alarm: "alarmAt r \<noteq> None \<Longrightarrow>
    room_step rt now AlarmFired r (alarm rt now (r\<lparr>alarmAt := None\<rparr>))"
| step_opened: "i < length (sockets r) \<Longrightarrow> readyState (sockets r ! i) = WsConnecting \<Longrightarrow>
    room_step rt now (Opened i) r (set_ready i WsOpen r)"
| step_closing: "i < length (sockets r) \<Longrightarrow> live_state (readyState (sockets r ! i)) \<Longrightarrow>
    room_step rt now (ClientClosing i) r (set_ready i WsClosing r)"
| step_hibernated: "room_step rt now Hibernated r (r\<lparr>sessionRequestTimestamps := []\<rparr>)"

definition empty_room :: room where
  "empty_room = \<lparr>sockets = [], sessionRequestTimestamps = [], alarmAt = None\<rparr>"

inductive reachable :: "runtime \<Rightarrow> rat \<Rightarrow> room \<Rightarrow> bool" for rt where
  reach_empty: "reachable rt t empty_room"
| reach_step: "reachable rt t r \<Longrightarrow> t \<le> now \<Longrightarrow> room_step rt now ev r r' \<Longrightarrow> reachable rt now r'"

inductive_cases room_stepE: "room_step rt now ev r r'"

end
