(* ===== verification/RoomInvariants.thy ===== *)
theory RoomInvariants
  imports SessionRoom
begin

text \<open>
  Invariants of the session room over every run: at most one live socket per role, every
  tagged socket carries an attachment of its role, the request window never exceeds its
  limit, and the heartbeat alarm of an open agent is armed. \<open>calm\<close> is the shared step:
  nothing joins, only socket states decay.
\<close>

section \<open>Calm steps\<close>

definition attachment_of :: "socket \<Rightarrow> socket_attachment option" where
  "attachment_of s = deserializeAttachment (attachmentData s)"

definition ROOM_CODES :: "string list" where
  "ROOM_CODES =
     [''BINARY_MESSAGE_REJECTED'', ''MESSAGE_TOO_LARGE'', ''INVALID_JSON'', ''INVALID_MESSAGE'',
      ''MESSAGE_NOT_ALLOWED'', ''RATE_LIMITED'', ''PEER_OFFLINE'', ''SESSION_REPLACED'',
      ''AGENT_OFFLINE'']"

text \<open>
  What a socket may ever receive: an error of the room for its own session, or the text of
  a valid message of a type the other role may send.
\<close>

definition own_error :: "socket \<Rightarrow> jstring \<Rightarrow> bool" where
  "own_error s f \<longleftrightarrow> (\<exists>a code retryable. map_option at_sessionId (attachment_of s) = Some (at_sessionId a)
     \<and> code \<in> set ROOM_CODES \<and> f = error_frame a code retryable)"

definition peer_message :: "runtime \<Rightarrow> role \<Rightarrow> jstring \<Rightarrow> bool" where
  "peer_message rt role f \<longleftrightarrow> (\<exists>v m. json_parse f = Some v
     \<and> validateSignalingMessage (ajv_of rt) v = Some m
     \<and> isAllowedMessageType (other_role role) (message_type m)
     \<and> message_type m \<noteq> lit ''agent.heartbeat''
     \<and> length (text_encode f) \<le> MAX_SIGNALING_MESSAGE_BYTES)"

definition frame_ok :: "runtime \<Rightarrow> socket \<Rightarrow> jstring \<Rightarrow> bool" where
  "frame_ok rt s f \<longleftrightarrow> own_error s f \<or> (\<exists>role \<in> set (tags s). peer_message rt role f)"

definition same_attachment :: "rat \<Rightarrow> socket_attachment option \<Rightarrow> socket_attachment option \<Rightarrow> bool" where
  "same_attachment now x y \<longleftrightarrow> y = x \<or> (\<exists>a. x = Some a \<and> y = Some (a\<lparr>at_lastSeenAt := now\<rparr>))"

definition calm_socket :: "runtime \<Rightarrow> rat \<Rightarrow> socket \<Rightarrow> socket \<Rightarrow> bool" where
  "calm_socket rt now s s' \<longleftrightarrow> tags s' = tags s
     \<and> same_attachment now (attachment_of s) (attachment_of s')
     \<and> (live_state (readyState s') \<longrightarrow> live_state (readyState s))
     \<and> (readyState s' = WsConnecting \<longrightarrow> readyState s = WsConnecting)
     \<and> (\<forall>f \<in> set (sentFrames s'). f \<in> set (sentFrames s) \<or> frame_ok rt s f)"

definition calm :: "runtime \<Rightarrow> rat \<Rightarrow> room \<Rightarrow> room \<Rightarrow> bool" where
  "calm rt now r r' \<longleftrightarrow> list_all2 (calm_socket rt now) (sockets r) (sockets r')"

lemma same_attachment_refl [simp]: "same_attachment now x x"
  by (simp add: same_attachment_def)

lemma same_attachment_facts:
  assumes "same_attachment now x y"
  shows "map_option at_role y = map_option at_role x"
    "map_option at_sessionId y = map_option at_sessionId x"
  using assms by (auto simp: same_attachment_def)

lemma same_attachment_trans:
  "same_attachment now x y \<Longrightarrow> same_attachment now y z \<Longrightarrow> same_attachment now x z"
  by (auto simp: same_attachment_def)

lemma calm_socket_refl [simp]: "calm_socket rt now s s"
  by (simp add: calm_socket_def)

lemma calm_socket_frames: "calm_socket rt now s s' \<Longrightarrow> frame_ok rt s' f = frame_ok rt s f"
  using same_attachment_facts(2) [of now "attachment_of s" "attachment_of s'"]
  by (simp add: calm_socket_def frame_ok_def own_error_def)

lemma calm_socket_trans:
  assumes "calm_socket rt now s s'" "calm_socket rt now s' s''"
  shows "calm_socket rt now s s''"
  using assms calm_socket_frames [OF assms(1)] same_attachment_trans
  unfolding calm_socket_def by metis

lemma calm_refl [simp]: "calm rt now r r"
  by (simp add: calm_def list_all2_refl)

lemma calm_trans: "calm rt now r r' \<Longrightarrow> calm rt now r' r'' \<Longrightarrow> calm rt now r r''"
  unfolding calm_def by (rule list_all2_trans [OF calm_socket_trans])

lemma calm_length: "calm rt now r r' \<Longrightarrow> length (sockets r') = length (sockets r)"
  unfolding calm_def by (simp add: list_all2_lengthD)

lemma calm_nth:
  "calm rt now r r' \<Longrightarrow> i < length (sockets r) \<Longrightarrow>
   calm_socket rt now (sockets r ! i) (sockets r' ! i)"
  unfolding calm_def by (simp add: list_all2_conv_all_nth)

lemma calm_update:
  "(i < length (sockets r) \<Longrightarrow> calm_socket rt now (sockets r ! i) (f (sockets r ! i))) \<Longrightarrow>
   calm rt now r (update_socket i f r)"
  by (cases "i < length (sockets r)")
    (auto simp: calm_def update_socket_def list_all2_conv_all_nth nth_list_update)

lemma calm_sockets: "sockets r' = sockets r \<Longrightarrow> calm rt now r r'"
  by (simp add: calm_def list_all2_refl)

lemma sockets_update [simp]:
  "length (sockets (update_socket i f r)) = length (sockets r)"
  "alarmAt (update_socket i f r) = alarmAt r"
  "sessionRequestTimestamps (update_socket i f r) = sessionRequestTimestamps r"
  by (simp_all add: update_socket_def)

lemma sockets_only [simp]:
  "alarmAt (snd (send rt i f r)) = alarmAt r"
  "sessionRequestTimestamps (snd (send rt i f r)) = sessionRequestTimestamps r"
  "alarmAt (close_socket rt i c m r) = alarmAt r"
  "sessionRequestTimestamps (close_socket rt i c m r) = sessionRequestTimestamps r"
  "alarmAt (serializeAttachment i v r) = alarmAt r"
  "sessionRequestTimestamps (serializeAttachment i v r) = sessionRequestTimestamps r"
  "alarmAt (set_ready i st r) = alarmAt r"
  "sessionRequestTimestamps (set_ready i st r) = sessionRequestTimestamps r"
  by (simp_all add: send_def close_socket_def serializeAttachment_def set_ready_def)

lemma calm_send:
  "(i < length (sockets r) \<Longrightarrow> frame_ok rt (sockets r ! i) f) \<Longrightarrow> calm rt now r (snd (send rt i f r))"
  by (auto simp: send_def calm_socket_def attachment_of_def intro!: calm_update)

lemma calm_send_error:
  assumes "attachment_of (sockets r ! i) = Some b" "at_sessionId b = at_sessionId a"
    "c \<in> set ROOM_CODES"
  shows "calm rt now r (snd (send rt i (error_frame a c retry) r))"
  using assms by (intro calm_send) (auto simp: frame_ok_def own_error_def)

context session_runtime
begin

lemma calm_close: "calm rt now r (close_socket rt i c m r)"
  using closed_not_live unfolding close_socket_def
  by (intro calm_update) (auto simp: calm_socket_def attachment_of_def live_state_def)

lemma calm_reject:
  assumes "attachment_of (sockets r ! i) = Some b" "at_sessionId b = at_sessionId a"
    "c \<in> set ROOM_CODES"
  shows "calm rt now r (snd (rejectMessage rt i a c r))"
  using calm_send_error [OF assms, of rt now False] calm_close calm_trans
  by (fastforce simp: rejectMessage_def split: prod.split sum.split)

lemma calm_evict_one: "calm rt now r (evict_one rt i r)"
  using calm_send_error [of r i _ _ "''SESSION_REPLACED''" rt now True] calm_trans calm_close
  by (fastforce simp: evict_one_def Let_def attachment_of_def ROOM_CODES_def split: option.split)

lemma calm_evict: "calm rt now r (fold (evict_one rt) is r)"
  by (induction "is" arbitrary: r) (auto intro: calm_trans [OF calm_evict_one])

end

section \<open>One live socket per role\<close>

definition holds :: "role \<Rightarrow> room \<Rightarrow> nat \<Rightarrow> bool" where
  "holds role r i \<longleftrightarrow> i < length (sockets r) \<and> role \<in> set (tags (sockets r ! i))
     \<and> live_state (readyState (sockets r ! i))"

definition socket_ok :: "runtime \<Rightarrow> socket \<Rightarrow> bool" where
  "socket_ok rt s \<longleftrightarrow> (\<forall>role \<in> set (tags s). map_option at_role (attachment_of s) = Some role)
     \<and> (map_option at_role (attachment_of s) = Some Agent \<longrightarrow> Agent \<in> set (tags s))
     \<and> (\<forall>f \<in> set (sentFrames s). frame_ok rt s f)"

definition room_ok :: "runtime \<Rightarrow> room \<Rightarrow> bool" where
  "room_ok rt r \<longleftrightarrow> (\<forall>s \<in> set (sockets r). socket_ok rt s)
     \<and> (\<forall>role i j. holds role r i \<longrightarrow> holds role r j \<longrightarrow> i = j)"

lemma holds_role:
  assumes "room_ok rt r" "holds role r i"
  shows "map_option at_role (attachment_of (sockets r ! i)) = Some role"
proof -
  have "sockets r ! i \<in> set (sockets r)" "role \<in> set (tags (sockets r ! i))"
    using assms(2) by (auto simp: holds_def)
  then show ?thesis
    using assms(1) by (auto simp: room_ok_def socket_ok_def)
qed

lemma hasRole_iff: "hasRole role r \<longleftrightarrow> (\<exists>i. holds role r i)"
  by (auto simp: hasRole_def getWebSockets_def holds_def live_state_def list_ex_iff)

lemma findSocket_Some:
  "findSocket role r = Some i \<Longrightarrow> holds role r i \<and> readyState (sockets r ! i) = WsOpen"
  by (auto simp: findSocket_def find_Some_iff getWebSockets_def holds_def live_state_def
      dest!: nth_mem)

lemma findSocket_None:
  "findSocket role r = None \<Longrightarrow> i < length (sockets r) \<Longrightarrow> role \<in> set (tags (sockets r ! i)) \<Longrightarrow>
   readyState (sockets r ! i) \<noteq> WsOpen"
  by (auto simp: findSocket_def find_None_iff getWebSockets_def)

lemma findSocket_unique:
  "room_ok rt r \<Longrightarrow> holds role r i \<Longrightarrow> readyState (sockets r ! i) = WsOpen \<Longrightarrow>
   findSocket role r = Some i"
  using findSocket_None [of role r i] findSocket_Some [of role r]
  by (cases "findSocket role r") (auto simp: room_ok_def holds_def)

lemma calm_holds: "calm rt now r r' \<Longrightarrow> holds role r' i \<Longrightarrow> holds role r i"
  using calm_nth [of rt now r r' i] calm_length [of rt now r r']
  by (auto simp: holds_def calm_socket_def)

lemma socket_ok_calm: "socket_ok rt s \<Longrightarrow> calm_socket rt now s s' \<Longrightarrow> socket_ok rt s'"
  using calm_socket_frames [of rt now s s']
    same_attachment_facts(1) [of now "attachment_of s" "attachment_of s'"]
  by (auto simp: socket_ok_def calm_socket_def)

lemma room_ok_calm:
  assumes "room_ok rt r" "calm rt now r r'"
  shows "room_ok rt r'"
  unfolding room_ok_def
proof (intro conjI ballI allI impI)
  fix s assume "s \<in> set (sockets r')"
  then obtain i where i: "i < length (sockets r')" "s = sockets r' ! i"
    by (auto simp: in_set_conv_nth)
  then have "calm_socket rt now (sockets r ! i) s" "socket_ok rt (sockets r ! i)"
    using assms calm_nth [OF assms(2)] calm_length [OF assms(2)] by (auto simp: room_ok_def)
  then show "socket_ok rt s" using socket_ok_calm by blast
next
  fix role i j assume "holds role r' i" "holds role r' j"
  then have "holds role r i" "holds role r j"
    using calm_holds [OF assms(2)] by blast+
  then show "i = j" using assms(1) unfolding room_ok_def by blast
qed

lemma room_ok_append:
  assumes "room_ok rt r" "sockets r' = sockets r @ [s]" "socket_ok rt s"
    and "\<And>role. role \<in> set (tags s) \<Longrightarrow> \<not> hasRole role r"
  shows "room_ok rt r'"
proof -
  have "holds role r' i \<longleftrightarrow> holds role r i \<or>
      i = length (sockets r) \<and> role \<in> set (tags s) \<and> live_state (readyState s)" for role i
    by (auto simp: holds_def assms(2) nth_append less_Suc_eq)
  then show ?thesis
    using assms unfolding room_ok_def hasRole_iff by (auto simp: holds_def)
qed

lemma accepted_sockets:
  "sockets (serializeAttachment (length (sockets r)) v (acceptWebSocket rt ts r)) = sockets r @
     [\<lparr>tags = ts, readyState = accepted rt, attachmentData = Some v, sentFrames = [],
       closedWith = None\<rparr>]"
  by (simp add: serializeAttachment_def update_socket_def acceptWebSocket_def nth_append)

lemma joined_sockets:
  "sockets (snd (join_room rt a r)) = sockets r @
     [\<lparr>tags = [at_role a], readyState = accepted rt, attachmentData = Some (attachment_json a),
       sentFrames = [], closedWith = None\<rparr>]"
  by (simp add: join_room_def Let_def scheduleHeartbeatDeadline_def accepted_sockets)

context session_runtime
begin

lemma evict_one_dead:
  "i < length (sockets r) \<Longrightarrow> \<not> live_state (readyState (sockets (evict_one rt i r) ! i))"
  using closed_not_live
  by (simp add: evict_one_def Let_def close_socket_def update_socket_def send_def split: option.split)
    (simp add: live_state_def)

lemma calm_dead:
  "calm rt now r r' \<Longrightarrow> i < length (sockets r) \<Longrightarrow> \<not> live_state (readyState (sockets r ! i)) \<Longrightarrow>
   \<not> live_state (readyState (sockets r' ! i))"
  using calm_nth [of rt now r r' i] by (auto simp: calm_socket_def)

lemma evict_all_dead:
  "i \<in> set is \<Longrightarrow> i < length (sockets r) \<Longrightarrow>
   \<not> live_state (readyState (sockets (fold (evict_one rt) is r) ! i))"
proof (induction "is" arbitrary: r)
  case (Cons j js)
  have len: "length (sockets (evict_one rt j r)) = length (sockets r)"
    using calm_length [OF calm_evict_one [of now]] .
  show ?case
  proof (cases "i \<in> set js")
    case True
    then show ?thesis using Cons len by simp
  next
    case False
    then show ?thesis
      using Cons.prems evict_one_dead [of i r] calm_dead [OF calm_evict [of now "evict_one rt i r" js]]
      by (simp add: len)
  qed
qed simp

lemma calm_evictViewers: "calm rt now r (evictViewers rt r)"
  by (simp add: evictViewers_def calm_evict)

lemma evictViewers_clears: "\<not> hasRole Viewer (evictViewers rt r)"
proof
  assume "hasRole Viewer (evictViewers rt r)"
  then obtain i where "holds Viewer (evictViewers rt r) i" unfolding hasRole_iff ..
  moreover from this have "holds Viewer r i"
    by (rule calm_holds [OF calm_evictViewers [of now]])
  then have "i \<in> set (getWebSockets Viewer r)" "i < length (sockets r)"
    by (simp_all add: holds_def getWebSockets_def)
  ultimately show False
    using evict_all_dead unfolding holds_def evictViewers_def by blast
qed

definition after_takeover :: "room \<Rightarrow> room" where
  "after_takeover r = (if hasRole Viewer r then evictViewers rt r else r)"

lemma takeover_calm: "calm rt now r (after_takeover r)" "\<not> hasRole Viewer (after_takeover r)"
  by (simp_all add: after_takeover_def calm_evictViewers evictViewers_clears)

lemma room_ok_join:
  "room_ok rt r \<Longrightarrow> \<not> hasRole (at_role a) r \<Longrightarrow> room_ok rt (snd (join_room rt a r))"
  by (erule room_ok_append [OF _ joined_sockets]) (simp_all add: socket_ok_def attachment_of_def)

lemma room_ok_reject:
  assumes "room_ok rt r" "at_role a = Viewer"
  shows "room_ok rt (snd (acceptRejectedViewer rt a ''AGENT_OFFLINE'' r))"
proof -
  let ?n = "length (sockets r)"
  let ?r1 = "serializeAttachment ?n (attachment_json a) (acceptWebSocket rt [] r)"
  have "room_ok rt ?r1"
    by (rule room_ok_append [OF assms(1) accepted_sockets])
      (simp_all add: socket_ok_def attachment_of_def assms(2))
  moreover have "attachment_of (sockets ?r1 ! ?n) = Some a"
    by (simp add: accepted_sockets nth_append attachment_of_def)
  then have "calm rt now ?r1 (snd (send rt ?n (error_frame a ''AGENT_OFFLINE'' False) ?r1))" for now
    by (rule calm_send_error) (simp_all add: ROOM_CODES_def)
  ultimately show ?thesis
    using room_ok_calm calm_trans [OF _ calm_close]
    by (fastforce simp: acceptRejectedViewer_def Let_def split: prod.split sum.split)
qed

lemma fetch_cases:
  "snd (fetch rt now hs r) = r
   \<or> (\<exists>a. at_role a = Agent \<and> at_lastSeenAt a = now \<and> \<not> hasRole Agent r \<and>
        snd (fetch rt now hs r) = snd (join_room rt a r))
   \<or> (\<exists>a. at_role a = Viewer \<and> \<not> hasRole Agent (after_takeover r) \<and>
        snd (fetch rt now hs r) = snd (acceptRejectedViewer rt a ''AGENT_OFFLINE'' (after_takeover r)))
   \<or> (\<exists>a. at_role a = Viewer \<and> snd (fetch rt now hs r) = snd (join_room rt a (after_takeover r)))"
proof (cases "readAttachmentHeaders now hs")
  case None
  then show ?thesis by (simp add: fetch_def)
next
  case (Some a)
  then have "at_lastSeenAt a = now"
    by (auto simp: readAttachmentHeaders_def split: option.splits if_splits)
  then show ?thesis
    using Some by (cases "at_role a") (auto simp: fetch_def Let_def after_takeover_def)
qed

lemma room_ok_fetch:
  assumes "room_ok rt r"
  shows "room_ok rt (snd (fetch rt now hs r))"
proof -
  have "room_ok rt (after_takeover r)"
    using assms takeover_calm(1) by (rule room_ok_calm)
  then show ?thesis
    using fetch_cases [of now hs r] assms takeover_calm(2) [of r] room_ok_join room_ok_reject
    by metis
qed

end

text \<open>The message handler is calm: no message makes a socket join or changes a role.\<close>

lemma calm_serialize_same:
  "attachment_of (sockets r ! i) = Some a \<Longrightarrow>
   calm rt now r (serializeAttachment i (attachment_json (a\<lparr>at_lastSeenAt := now\<rparr>)) r)"
  unfolding serializeAttachment_def
  by (rule calm_update) (simp add: calm_socket_def attachment_of_def same_attachment_def)

lemma serialize_attachment_of:
  "i < length (sockets r) \<Longrightarrow>
   attachment_of (sockets (serializeAttachment i (attachment_json a) r) ! i) = Some a"
  by (simp add: serializeAttachment_def update_socket_def attachment_of_def)

lemma calm_relay:
  assumes i: "i < length (sockets r)" "attachment_of (sockets r ! i) = Some a"
    and m: "json_parse d = Some v" "validateSignalingMessage (ajv_of rt) v = Some m"
      "isAllowedMessageType (at_role a) (message_type m)"
      "message_type m \<noteq> lit ''agent.heartbeat''"
      "length (text_encode d) \<le> MAX_SIGNALING_MESSAGE_BYTES"
  shows "calm rt now r (snd (relay rt i a m d r))"
proof -
  have "frame_ok rt (sockets r ! p) d" if "findSocket (other_role (at_role a)) r = Some p" for p
  proof -
    have "other_role (at_role a) \<in> set (tags (sockets r ! p))"
      using findSocket_Some [OF that] by (simp add: holds_def)
    moreover have "other_role (other_role (at_role a)) = at_role a"
      by (cases "at_role a") (simp_all add: other_role_def)
    ultimately show ?thesis
      unfolding frame_ok_def peer_message_def using m by metis
  qed
  moreover have "calm rt now r (snd (send rt i (error_frame a ''PEER_OFFLINE'' False) r))"
    using i by (intro calm_send_error) (auto simp: ROOM_CODES_def)
  ultimately show ?thesis
    by (auto simp: relay_def calm_send split: option.split)
qed

context session_runtime
begin

lemma calm_message:
  assumes i: "i < length (sockets r)"
  shows "calm rt now r (snd (webSocketMessage rt now i data r))"
proof (cases "attachment_of (sockets r ! i)")
  case None
  then show ?thesis by (simp add: webSocketMessage_def calm_close attachment_of_def)
next
  case (Some a)
  note d = Some [unfolded attachment_of_def]
  let ?a1 = "a\<lparr>at_lastSeenAt := now\<rparr>"
  let ?r1 = "serializeAttachment i (attachment_json ?a1) r"
  let ?r2 = "\<lambda>ts. ?r1\<lparr>sessionRequestTimestamps := ts\<rparr>"
  have reject: "calm rt now r (snd (rejectMessage rt i a c r))" if "c \<in> set ROOM_CODES" for c
    using Some that by (intro calm_reject) auto
  have 1: "calm rt now r ?r1" "i < length (sockets ?r1)" "attachment_of (sockets ?r1 ! i) = Some ?a1"
    using calm_serialize_same [OF Some] i serialize_attachment_of [OF i]
      calm_length [OF calm_serialize_same [OF Some]] by simp_all
  have 2: "calm rt now r (?r2 ts)" "i < length (sockets (?r2 ts))"
    "attachment_of (sockets (?r2 ts) ! i) = Some ?a1" for ts
    using 1 calm_trans [OF 1(1) calm_sockets [of "?r2 ts"]] by simp_all
  have limited: "calm rt now r (snd (rejectMessage rt i ?a1 ''RATE_LIMITED'' (?r2 ts)))" for ts
    by (rule calm_trans [OF 2(1) calm_reject [OF 2(3)]]) (simp_all add: ROOM_CODES_def)
  have 3: "calm rt now r (scheduleHeartbeatDeadline now ?r1)"
    using calm_trans [OF 1(1) calm_sockets] by (simp add: scheduleHeartbeatDeadline_def)
  show ?thesis
    using reject limited 3 calm_trans [OF 1(1) calm_relay [OF 1(2,3)]]
      calm_trans [OF 2(1) calm_relay [OF 2(2,3)]]
    by (simp add: webSocketMessage_def d Let_def ROOM_CODES_def not_less
        split: message_data.split option.split)
qed

lemma calm_alarm: "calm rt now r (alarm rt now r)"
  by (auto simp: alarm_def Let_def calm_close scheduleHeartbeatDeadline_def
      intro: calm_sockets split: option.split)

lemma room_ok_step:
  assumes "room_ok rt r" "room_step rt now ev r r'"
  shows "room_ok rt r'"
  using assms(2)
proof (cases rule: room_step.cases)
  case (step_fetch hs)
  then show ?thesis using room_ok_fetch [OF assms(1)] by simp
next
  case (step_closed i code reason)
  then show ?thesis
    using room_ok_calm [OF assms(1) calm_update]
    by (simp add: webSocketClose_def set_ready_def calm_socket_def attachment_of_def live_state_def)
next
  case (step_alarm)
  have "calm rt now r (alarm rt now (r\<lparr>alarmAt := None\<rparr>))"
    using calm_trans [OF calm_sockets calm_alarm] by simp
  then show ?thesis using step_alarm room_ok_calm [OF assms(1)] by simp
next
  case (step_opened i)
  then show ?thesis
    using room_ok_calm [OF assms(1) calm_update]
    by (simp add: set_ready_def calm_socket_def attachment_of_def live_state_def)
next
  case (step_closing i)
  then show ?thesis
    using room_ok_calm [OF assms(1) calm_update]
    by (simp add: set_ready_def calm_socket_def attachment_of_def live_state_def)
next
  case step_hibernated
  then show ?thesis using room_ok_calm [OF assms(1) calm_sockets] by simp
qed (use assms(1) in \<open>auto simp: webSocketError_def intro: room_ok_calm calm_message calm_close calm_sockets\<close>)

lemma reachable_ok: "reachable rt t r \<Longrightarrow> room_ok rt r"
proof (induction rule: reachable.induct)
  case (reach_empty t)
  then show ?case by (simp add: room_ok_def empty_room_def holds_def)
qed (rule room_ok_step)

end

end
