(* ===== verification/RoomTimers.thy ===== *)
theory RoomTimers
  imports RoomInvariants
begin

text \<open>
  The room's two timers: the heartbeat watchdog of an open agent (its alarm is always armed,
  no later than its deadline) and the window of \<open>session.request\<close> times.
\<close>

section \<open>The watchdog\<close>

definition none_connecting :: "room \<Rightarrow> bool" where
  "none_connecting r \<longleftrightarrow> (\<forall>s \<in> set (sockets r). readyState s \<noteq> WsConnecting)"

definition watch_ok :: "rat \<Rightarrow> room \<Rightarrow> bool" where
  "watch_ok t r \<longleftrightarrow> none_connecting r
     \<and> (\<forall>i. holds Agent r i \<longrightarrow> (\<exists>a d. attachment_of (sockets r ! i) = Some a
          \<and> at_lastSeenAt a \<le> t \<and> alarmAt r = Some d
          \<and> d \<le> at_lastSeenAt a + AGENT_HEARTBEAT_TIMEOUT_MS))"

lemma none_connecting_calm:
  assumes "none_connecting r" "calm rt now r r'"
  shows "none_connecting r'"
  unfolding none_connecting_def
proof
  fix s assume "s \<in> set (sockets r')"
  then obtain i where i: "i < length (sockets r')" "s = sockets r' ! i"
    by (auto simp: in_set_conv_nth)
  then have "calm_socket rt now (sockets r ! i) s" "sockets r ! i \<in> set (sockets r)"
    using calm_nth [OF assms(2)] calm_length [OF assms(2)] by simp_all
  then show "readyState s \<noteq> WsConnecting"
    using assms(1) by (auto simp: none_connecting_def calm_socket_def)
qed

lemma watch_ok_calm:
  assumes watch: "watch_ok t r" and calm: "calm rt now r r'" and "t \<le> now"
    and "alarmAt r' = alarmAt r"
  shows "watch_ok now r'"
  unfolding watch_ok_def
proof (intro conjI allI impI)
  show "none_connecting r'"
    using none_connecting_calm [OF _ calm] watch by (simp add: watch_ok_def)
next
  fix i assume "holds Agent r' i"
  then have h: "holds Agent r i" using calm by (rule calm_holds [rotated])
  then obtain a d where a: "attachment_of (sockets r ! i) = Some a" "at_lastSeenAt a \<le> t"
    "alarmAt r = Some d" "d \<le> at_lastSeenAt a + AGENT_HEARTBEAT_TIMEOUT_MS"
    using watch unfolding watch_ok_def by blast
  have "same_attachment now (Some a) (attachment_of (sockets r' ! i))"
    using calm_nth [OF calm, of i] h a(1) by (simp add: holds_def calm_socket_def)
  then show "\<exists>a d. attachment_of (sockets r' ! i) = Some a \<and> at_lastSeenAt a \<le> now
      \<and> alarmAt r' = Some d \<and> d \<le> at_lastSeenAt a + AGENT_HEARTBEAT_TIMEOUT_MS"
    using a assms(3,4) by (auto simp: same_attachment_def)
qed

lemma watch_ok_append:
  assumes "watch_ok t r" "sockets r' = sockets r @ [s]" "alarmAt r' = alarmAt r"
    "readyState s \<noteq> WsConnecting" "Agent \<notin> set (tags s)"
  shows "watch_ok t r'"
proof -
  have "holds Agent r' i \<Longrightarrow> holds Agent r i \<and> sockets r' ! i = sockets r ! i" for i
    using assms(5) by (auto simp: holds_def assms(2) nth_append less_Suc_eq split: if_splits)
  then show ?thesis
    using assms unfolding watch_ok_def by (auto simp: none_connecting_def assms(2))
qed

lemma alarm_evict [simp]: "alarmAt (fold (evict_one rt) is r) = alarmAt r"
proof (induction "is" arbitrary: r)
  case (Cons i js)
  have "alarmAt (evict_one rt i r) = alarmAt r"
    by (simp add: evict_one_def Let_def split: option.split)
  with Cons show ?case by simp
qed simp

text \<open>Only a heartbeat moves the alarm.\<close>

lemma alarm_relay [simp]: "alarmAt (snd (relay rt i a m d r)) = alarmAt r"
  by (simp add: relay_def split: option.split)

lemma alarm_reject [simp]: "alarmAt (snd (rejectMessage rt i a c r)) = alarmAt r"
  by (simp add: rejectMessage_def send_def close_socket_def)

lemma message_alarm:
  "alarmAt (snd (webSocketMessage rt now i data r)) = alarmAt r
   \<or> (\<exists>a. attachment_of (sockets r ! i) = Some a \<and> at_role a = Agent \<and>
       snd (webSocketMessage rt now i data r) = scheduleHeartbeatDeadline now
         (serializeAttachment i (attachment_json (a\<lparr>at_lastSeenAt := now\<rparr>)) r))"
proof (cases "attachment_of (sockets r ! i)")
  case None
  then show ?thesis by (simp add: webSocketMessage_def attachment_of_def)
next
  case (Some a)
  have viewer: "\<not> isAllowedMessageType Viewer (lit ''agent.heartbeat'')"
    by (simp add: isAllowedMessageType_def VIEWER_MESSAGE_TYPES_def)
  show ?thesis
    using Some viewer
    by (cases "at_role a")
      (auto simp: webSocketMessage_def attachment_of_def Let_def
        split: message_data.split option.split)
qed

lemma alarm_join:
  "alarmAt (snd (join_room rt a r)) =
   (if at_role a = Agent then Some (at_lastSeenAt a + AGENT_HEARTBEAT_TIMEOUT_MS) else alarmAt r)"
  by (simp add: join_room_def Let_def scheduleHeartbeatDeadline_def acceptWebSocket_def)

context session_runtime
begin

lemma watch_ok_join:
  assumes "watch_ok t r" "t \<le> now" "accepted rt = WsOpen"
    and "at_role a = Viewer \<or> at_lastSeenAt a = now \<and> \<not> hasRole Agent r"
  shows "watch_ok now (snd (join_room rt a r))"
proof (cases "at_role a")
  case Viewer
  have "watch_ok t (snd (join_room rt a r))"
    by (rule watch_ok_append [OF assms(1) joined_sockets]) (simp_all add: Viewer assms(3) alarm_join)
  then show ?thesis
    using watch_ok_calm [OF _ calm_refl assms(2) refl] by blast
next
  case Agent
  then have "\<not> holds Agent r i" for i
    using assms(4) by (auto simp: hasRole_iff)
  then have "holds Agent (snd (join_room rt a r)) i \<Longrightarrow> i = length (sockets r)" for i
    by (auto simp: holds_def joined_sockets nth_append less_Suc_eq split: if_splits)
  then show ?thesis
    using assms Agent unfolding watch_ok_def
    by (auto simp: none_connecting_def joined_sockets nth_append alarm_join attachment_of_def)
qed

lemma watch_ok_reject:
  assumes "watch_ok t r" "t \<le> now" "accepted rt = WsOpen"
  shows "watch_ok now (snd (acceptRejectedViewer rt a ''AGENT_OFFLINE'' r))"
proof -
  let ?n = "length (sockets r)"
  let ?r1 = "serializeAttachment ?n (attachment_json a) (acceptWebSocket rt [] r)"
  have 1: "watch_ok t ?r1"
    by (rule watch_ok_append [OF assms(1) accepted_sockets])
      (simp_all add: assms(3) acceptWebSocket_def)
  have at: "attachment_of (sockets ?r1 ! ?n) = Some a"
    by (simp add: accepted_sockets nth_append attachment_of_def)
  have 2: "calm rt now ?r1 (snd (send rt ?n (error_frame a ''AGENT_OFFLINE'' False) ?r1))"
    using at by (rule calm_send_error) (simp_all add: ROOM_CODES_def)
  have "watch_ok now (snd (send rt ?n (error_frame a ''AGENT_OFFLINE'' False) ?r1))"
    by (rule watch_ok_calm [OF 1 2 assms(2)]) simp
  moreover have "watch_ok now (close_socket rt ?n c m
      (snd (send rt ?n (error_frame a ''AGENT_OFFLINE'' False) ?r1)))" for c m
    by (rule watch_ok_calm [OF 1 calm_trans [OF 2 calm_close] assms(2)]) simp
  ultimately show ?thesis
    by (fastforce simp: acceptRejectedViewer_def Let_def split: prod.split sum.split)
qed

lemma watch_ok_fetch:
  assumes "watch_ok t r" "t \<le> now" "accepted rt = WsOpen"
  shows "watch_ok now (snd (fetch rt now hs r))"
proof -
  have idle: "watch_ok now r"
    by (rule watch_ok_calm [OF assms(1) calm_refl assms(2) refl])
  have taken: "watch_ok t (after_takeover r)"
    using assms(1) watch_ok_calm [OF assms(1) calm_evictViewers order_refl]
    by (simp add: after_takeover_def evictViewers_def)
  show ?thesis
    using fetch_cases [of now hs r] idle watch_ok_join [OF assms] watch_ok_join [OF taken assms(2,3)]
      watch_ok_reject [OF taken assms(2,3)]
    by auto
qed

lemma watch_ok_message:
  assumes "watch_ok t r" "t \<le> now" "room_ok rt r" "i < length (sockets r)"
    and "readyState (sockets r ! i) = WsOpen"
  shows "watch_ok now (snd (webSocketMessage rt now i data r))"
  using message_alarm [of rt now i data r]
proof
  assume "alarmAt (snd (webSocketMessage rt now i data r)) = alarmAt r"
  then show ?thesis by (rule watch_ok_calm [OF assms(1) calm_message [OF assms(4)] assms(2)])
next
  let ?r' = "snd (webSocketMessage rt now i data r)"
  assume "\<exists>a. attachment_of (sockets r ! i) = Some a \<and> at_role a = Agent \<and>
    ?r' = scheduleHeartbeatDeadline now
      (serializeAttachment i (attachment_json (a\<lparr>at_lastSeenAt := now\<rparr>)) r)"
  then obtain a where a: "attachment_of (sockets r ! i) = Some a" "at_role a = Agent"
    and r': "?r' = scheduleHeartbeatDeadline now
      (serializeAttachment i (attachment_json (a\<lparr>at_lastSeenAt := now\<rparr>)) r)" by blast
  have "socket_ok rt (sockets r ! i)"
    using assms(3,4) by (simp add: room_ok_def)
  then have hi: "holds Agent r i"
    using a assms(4,5) by (simp add: holds_def socket_ok_def live_state_def)
  have only: "holds Agent ?r' j \<Longrightarrow> j = i" for j
    using calm_holds [OF calm_message [OF assms(4)]] hi assms(3) unfolding room_ok_def by blast
  have "none_connecting ?r'"
    using none_connecting_calm [OF _ calm_message [OF assms(4)]] assms(1) by (simp add: watch_ok_def)
  moreover have "attachment_of (sockets ?r' ! i) = Some (a\<lparr>at_lastSeenAt := now\<rparr>)"
    using serialize_attachment_of [OF assms(4)] by (simp add: r' scheduleHeartbeatDeadline_def)
  moreover have "alarmAt ?r' = Some (now + AGENT_HEARTBEAT_TIMEOUT_MS)"
    by (simp add: r' scheduleHeartbeatDeadline_def)
  ultimately show ?thesis
    unfolding watch_ok_def by (auto dest!: only)
qed

lemma watch_ok_no_agent:
  "none_connecting r \<Longrightarrow> (\<And>i. \<not> holds Agent r i) \<Longrightarrow> watch_ok now r"
  by (simp add: watch_ok_def)

lemma holds_open:
  "watch_ok t r \<Longrightarrow> holds role r i \<Longrightarrow> readyState (sockets r ! i) = WsOpen"
  by (auto simp: watch_ok_def none_connecting_def holds_def live_state_def)

lemma alarm_closes:
  assumes "attachment_of (sockets r ! i) = Some a" "findSocket Agent r = Some i"
    and "at_lastSeenAt a + AGENT_HEARTBEAT_TIMEOUT_MS \<le> now"
  shows "alarm rt now r = close_socket rt i 1012 ''Agent heartbeat timeout'' r"
  using assms by (simp add: alarm_def attachment_of_def)

lemma close_not_holds: "\<not> holds role (close_socket rt i c m r) i"
  using closed_not_live by (auto simp: holds_def close_socket_def update_socket_def)

lemma alarm_evicts:
  assumes "room_ok rt r" "watch_ok t r" "holds Agent r i" "attachment_of (sockets r ! i) = Some a"
    and "at_lastSeenAt a + AGENT_HEARTBEAT_TIMEOUT_MS \<le> now"
  shows "\<not> hasRole Agent (alarm rt now (r\<lparr>alarmAt := None\<rparr>))"
proof -
  let ?r0 = "r\<lparr>alarmAt := None\<rparr>"
  let ?c = "close_socket rt i 1012 ''Agent heartbeat timeout'' ?r0"
  have "room_ok rt ?r0" using room_ok_calm [OF assms(1) calm_sockets] by simp
  then have "findSocket Agent ?r0 = Some i"
    using findSocket_unique [of rt ?r0 Agent i] holds_open [OF assms(2,3)] assms(3)
    by (simp add: holds_def)
  then have "alarm rt now ?r0 = ?c"
    using alarm_closes [of ?r0 i a now] assms(4,5) by simp
  moreover have "calm rt now r ?c"
    by (rule calm_trans [OF calm_sockets calm_close]) simp
  then have "\<not> holds Agent ?c j" for j
    using calm_holds [of rt now r ?c Agent j] close_not_holds assms(1,3)
    unfolding room_ok_def by blast
  ultimately show ?thesis by (simp add: hasRole_iff)
qed

lemma watch_ok_alarm:
  assumes "watch_ok t r" "t \<le> now" "room_ok rt r"
  shows "watch_ok now (alarm rt now (r\<lparr>alarmAt := None\<rparr>))"
proof -
  let ?r0 = "r\<lparr>alarmAt := None\<rparr>"
  have holds0: "holds role ?r0 i \<longleftrightarrow> holds role r i" for role i by (simp add: holds_def)
  have ok0: "room_ok rt ?r0" using room_ok_calm [OF assms(3) calm_sockets] by simp
  show ?thesis
  proof (cases "findSocket Agent ?r0")
    case None
    then have "\<not> holds Agent r i" for i
      using findSocket_None [OF None, of i] holds_open [OF assms(1), of Agent i]
      by (auto simp: holds_def)
    then show ?thesis
      using watch_ok_no_agent [of ?r0] assms(1)
      by (simp add: alarm_def None watch_ok_def none_connecting_def holds0)
  next
    case (Some i)
    then have hi: "holds Agent r i" using findSocket_Some [of Agent ?r0 i] holds0 by blast
    then obtain a where a: "attachment_of (sockets r ! i) = Some a" "at_lastSeenAt a \<le> t"
      using assms(1) unfolding watch_ok_def by blast
    have only: "holds Agent r j \<Longrightarrow> j = i" for j
      using hi assms(3) unfolding room_ok_def by blast
    show ?thesis
    proof (cases "at_lastSeenAt a + AGENT_HEARTBEAT_TIMEOUT_MS \<le> now")
      case True
      let ?c = "close_socket rt i 1012 ''Agent heartbeat timeout'' ?r0"
      have "calm rt now r ?c"
        by (rule calm_trans [OF calm_sockets calm_close]) simp
      then have "\<not> holds Agent ?c j" "none_connecting ?c" for j
        using calm_holds [of rt now r ?c Agent j] only [of j] close_not_holds
          none_connecting_calm [of r rt now ?c] assms(1)
        by (auto simp: watch_ok_def)
      then have "watch_ok now ?c" by (rule watch_ok_no_agent [rotated])
      then show ?thesis using alarm_closes [of ?r0 i a now] a True Some by simp
    next
      case False
      then have "alarm rt now ?r0 = r\<lparr>alarmAt := Some (at_lastSeenAt a + AGENT_HEARTBEAT_TIMEOUT_MS)\<rparr>"
        using a Some by (simp add: alarm_def attachment_of_def scheduleHeartbeatDeadline_def)
      then show ?thesis
        using assms(1,2) a unfolding watch_ok_def none_connecting_def
        by (auto simp: holds0 [unfolded holds_def] holds_def dest!: only [unfolded holds_def])
    qed
  qed
qed

lemma watch_ok_step:
  assumes "watch_ok t r" "t \<le> now" "room_ok rt r" "room_step rt now ev r r'"
    and "accepted rt = WsOpen" "\<And>s. delivers rt s \<Longrightarrow> s = WsOpen"
  shows "watch_ok now r'"
  using assms(4)
proof (cases rule: room_step.cases)
  case (step_fetch hs)
  then show ?thesis using watch_ok_fetch [OF assms(1,2,5)] by simp
next
  case (step_message i data)
  then show ?thesis using watch_ok_message [OF assms(1-3)] assms(6) by blast
next
  case step_alarm
  then show ?thesis using watch_ok_alarm [OF assms(1-3)] by simp
next
  case (step_error i)
  then show ?thesis
    using watch_ok_calm [OF assms(1) calm_close assms(2)] by (simp add: webSocketError_def)
next
  case step_hibernated
  then show ?thesis using watch_ok_calm [OF assms(1) calm_sockets assms(2)] by simp
next
  case (step_opened i)
  then show ?thesis using assms(1) by (auto simp: watch_ok_def none_connecting_def)
next
  case (step_closed i code reason)
  have "calm rt now r r'"
    unfolding step_closed webSocketClose_def set_ready_def
    by (rule calm_update) (simp add: calm_socket_def attachment_of_def live_state_def)
  then show ?thesis
    by (rule watch_ok_calm [OF assms(1) _ assms(2)]) (simp add: step_closed webSocketClose_def)
next
  case (step_closing i)
  have "calm rt now r r'"
    unfolding step_closing set_ready_def
    by (rule calm_update) (use step_closing in \<open>simp add: calm_socket_def attachment_of_def live_state_def\<close>)
  then show ?thesis
    by (rule watch_ok_calm [OF assms(1) _ assms(2)]) (simp add: step_closing)
qed

lemma reachable_watch:
  assumes "reachable rt t r" "accepted rt = WsOpen" "\<And>s. delivers rt s \<Longrightarrow> s = WsOpen"
  shows "watch_ok t r"
  using assms(1)
proof (induction rule: reachable.induct)
  case (reach_empty t)
  then show ?case by (simp add: watch_ok_def none_connecting_def empty_room_def holds_def)
next
  case (reach_step t r now ev r')
  then show ?case using watch_ok_step [OF _ _ reachable_ok _ assms(2,3)] by blast
qed

end

end
