(* ===== verification/RoomSafety.thy ===== *)
theory RoomSafety
  imports RoomTimers
begin

text \<open>
  What single handlers of the session room do: a takeover closes the old viewer and touches
  nothing else, a message reaches at most the peer and only when it passed every guard, the
  request window is bounded, and the room's own error messages are valid messages.
\<close>

section \<open>Eviction, socket by socket\<close>

definition evict_socket :: "runtime \<Rightarrow> socket \<Rightarrow> socket" where
  "evict_socket rt s =
     (if \<not> live_state (readyState s) then s
      else s\<lparr>readyState := after_close rt (readyState s),
             sentFrames := sentFrames s @
               (case attachment_of s of
                  Some a \<Rightarrow> if sendable rt (readyState s)
                            then [error_frame a ''SESSION_REPLACED'' True] else []
                | None \<Rightarrow> []),
             closedWith := (case closedWith s of
                  None \<Rightarrow> Some (CLOSE_POLICY_VIOLATION, lit ''SESSION_REPLACED'')
                | Some c \<Rightarrow> Some c)\<rparr>)"

lemma evict_one_socket:
  "j < length (sockets r) \<Longrightarrow>
   sockets (evict_one rt i r) ! j = (if j = i then evict_socket rt (sockets r ! i) else sockets r ! j)"
  by (auto simp: evict_one_def evict_socket_def live_state_def Let_def close_socket_def send_def
      update_socket_def attachment_of_def nth_list_update split: option.split)

lemma evict_one_length [simp]: "length (sockets (evict_one rt i r)) = length (sockets r)"
  by (simp add: evict_one_def Let_def close_socket_def send_def split: option.split)

lemma evict_fold_length [simp]: "length (sockets (fold (evict_one rt) is r)) = length (sockets r)"
  by (induction "is" arbitrary: r) simp_all

lemma evict_fold_socket:
  "distinct is \<Longrightarrow> j < length (sockets r) \<Longrightarrow>
   sockets (fold (evict_one rt) is r) ! j =
   (if j \<in> set is then evict_socket rt (sockets r ! j) else sockets r ! j)"
  by (induction "is" arbitrary: r) (auto simp: evict_one_socket)

lemma evictViewers_socket:
  "j < length (sockets r) \<Longrightarrow>
   sockets (evictViewers rt r) ! j =
   (if Viewer \<in> set (tags (sockets r ! j)) then evict_socket rt (sockets r ! j) else sockets r ! j)"
  unfolding evictViewers_def by (subst evict_fold_socket) (auto simp: getWebSockets_def)

lemma evict_socket_dead: "\<not> live_state (readyState s) \<Longrightarrow> evict_socket rt s = s"
  by (simp add: evict_socket_def)

text \<open>The room a viewer's arrival finds: every viewer socket evicted (dead ones unchanged).\<close>

lemma hasRole_evict_id:
  assumes "\<not> hasRole Viewer r"
  shows "sockets (evictViewers rt r) = sockets r"
proof (rule nth_equalityI)
  show "length (sockets (evictViewers rt r)) = length (sockets r)"
    by (simp add: evictViewers_def)
next
  fix j assume "j < length (sockets (evictViewers rt r))"
  then have j: "j < length (sockets r)" by (simp add: evictViewers_def)
  then have "Viewer \<in> set (tags (sockets r ! j)) \<Longrightarrow> \<not> live_state (readyState (sockets r ! j))"
    using assms by (auto simp: hasRole_iff holds_def)
  then show "sockets (evictViewers rt r) ! j = sockets r ! j"
    using j by (simp add: evictViewers_socket evict_socket_dead)
qed

lemma one_role:
  assumes "room_ok rt r" "i < length (sockets r)" "Agent \<in> set (tags (sockets r ! i))"
  shows "Viewer \<notin> set (tags (sockets r ! i))"
proof -
  have "socket_ok rt (sockets r ! i)" using assms by (simp add: room_ok_def)
  then show ?thesis
    using assms(3) unfolding socket_ok_def by (metis option.inject role.distinct(1))
qed

context session_runtime
begin

lemma takeover_socket:
  assumes "j < length (sockets r)"
  shows "sockets (after_takeover r) ! j =
    (if Viewer \<in> set (tags (sockets r ! j)) then evict_socket rt (sockets r ! j) else sockets r ! j)"
proof (cases "hasRole Viewer r")
  case False
  then show ?thesis
    using evictViewers_socket [OF assms, of rt] hasRole_evict_id [OF False, of rt]
    by (simp add: after_takeover_def)
qed (simp add: after_takeover_def evictViewers_socket assms)

lemma takeover_length [simp]: "length (sockets (after_takeover r)) = length (sockets r)"
  by (simp add: after_takeover_def evictViewers_def)

lemma takeover_agent:
  assumes "room_ok rt r"
  shows "holds Agent (after_takeover r) i \<longleftrightarrow> holds Agent r i"
proof
  assume "holds Agent r i"
  then show "holds Agent (after_takeover r) i"
    using one_role [OF assms, of i] takeover_socket [of i r] by (simp add: holds_def)
qed (rule calm_holds [OF takeover_calm(1)])

lemma viewer_fetch:
  assumes "map_option ascii_lower (hs ''upgrade'') = Some (lit ''websocket'')"
    and "readAttachmentHeaders now hs = Some a" "at_role a = Viewer"
  shows "fetch rt now hs r =
    (if \<not> hasRole Agent (after_takeover r)
     then acceptRejectedViewer rt a ''AGENT_OFFLINE'' (after_takeover r)
     else join_room rt a (after_takeover r))"
  using assms by (simp add: fetch_def after_takeover_def Let_def)

lemma takeover_joins:
  assumes "room_ok rt r" "hasRole Agent r"
    and "map_option ascii_lower (hs ''upgrade'') = Some (lit ''websocket'')"
    and "readAttachmentHeaders now hs = Some a" "at_role a = Viewer"
  shows "fst (fetch rt now hs r) = Inr (Upgraded (length (sockets r)))"
    "holds Viewer (snd (fetch rt now hs r)) i \<longleftrightarrow> i = length (sockets r)"
    "j < length (sockets r) \<Longrightarrow> sockets (snd (fetch rt now hs r)) ! j =
       (if Viewer \<in> set (tags (sockets r ! j)) then evict_socket rt (sockets r ! j)
        else sockets r ! j)"
proof -
  have "hasRole Agent (after_takeover r)"
    using assms(2) takeover_agent [OF assms(1)] by (auto simp: hasRole_iff)
  then have f: "fetch rt now hs r = join_room rt a (after_takeover r)"
    using viewer_fetch [OF assms(3-5)] by simp
  show "fst (fetch rt now hs r) = Inr (Upgraded (length (sockets r)))"
    by (simp add: f join_room_def Let_def)
  show "holds Viewer (snd (fetch rt now hs r)) i \<longleftrightarrow> i = length (sockets r)"
    using takeover_calm(2) [of r] accepted_live
    by (auto simp: f holds_def joined_sockets nth_append hasRole_iff less_Suc_eq assms(5))
  show "sockets (snd (fetch rt now hs r)) ! j =
       (if Viewer \<in> set (tags (sockets r ! j)) then evict_socket rt (sockets r ! j)
        else sockets r ! j)" if "j < length (sockets r)"
    using that takeover_socket [OF that] by (simp add: f joined_sockets nth_append)
qed

lemma rejected_absent:
  assumes "\<not> hasRole role r"
  shows "\<not> hasRole role (snd (acceptRejectedViewer rt a ''AGENT_OFFLINE'' r))"
proof -
  let ?n = "length (sockets r)"
  let ?r1 = "serializeAttachment ?n (attachment_json a) (acceptWebSocket rt [] r)"
  let ?r2 = "snd (acceptRejectedViewer rt a ''AGENT_OFFLINE'' r)"
  have none: "\<not> holds role ?r1 i" for i
    using assms by (auto simp: holds_def accepted_sockets nth_append hasRole_iff less_Suc_eq)
  have "attachment_of (sockets ?r1 ! ?n) = Some a"
    by (simp add: accepted_sockets nth_append attachment_of_def)
  then have "calm rt 0 ?r1 (snd (send rt ?n (error_frame a ''AGENT_OFFLINE'' False) ?r1))"
    by (rule calm_send_error) (simp_all add: ROOM_CODES_def)
  then have "calm rt 0 ?r1 ?r2"
    using calm_trans [OF _ calm_close]
    by (fastforce simp: acceptRejectedViewer_def Let_def split: prod.split sum.split)
  then show ?thesis
    using calm_holds none unfolding hasRole_iff by blast
qed

text \<open>
  A viewer arriving while the agent is away: it is turned down, and the viewer that was
  there is gone as well.
\<close>

lemma rejected_displaces:
  assumes "room_ok rt r" "\<not> hasRole Agent r"
    and "map_option ascii_lower (hs ''upgrade'') = Some (lit ''websocket'')"
    and "readAttachmentHeaders now hs = Some a" "at_role a = Viewer"
  shows "\<not> hasRole Viewer (snd (fetch rt now hs r))"
    "snd (fetch rt now hs r) = snd (acceptRejectedViewer rt a ''AGENT_OFFLINE'' (after_takeover r))"
proof -
  have "\<not> hasRole Agent (after_takeover r)"
    using assms(2) takeover_agent [OF assms(1)] by (auto simp: hasRole_iff)
  then show f: "snd (fetch rt now hs r) =
      snd (acceptRejectedViewer rt a ''AGENT_OFFLINE'' (after_takeover r))"
    using viewer_fetch [OF assms(3-5)] by simp
  show "\<not> hasRole Viewer (snd (fetch rt now hs r))"
    unfolding f by (rule rejected_absent [OF takeover_calm(2)])
qed

lemma rejected_no_agent:
  assumes "room_ok rt r" "\<not> hasRole Agent r"
    and "map_option ascii_lower (hs ''upgrade'') = Some (lit ''websocket'')"
    and "readAttachmentHeaders now hs = Some a" "at_role a = Viewer"
  shows "\<not> hasRole Agent (snd (fetch rt now hs r))"
proof -
  have "\<not> hasRole Agent (after_takeover r)"
    using assms(2) takeover_agent [OF assms(1)] by (auto simp: hasRole_iff)
  then show ?thesis
    unfolding rejected_displaces(2) [OF assms] by (rule rejected_absent)
qed

end

section \<open>What a message reaches\<close>

lemma update_other: "j \<noteq> i \<Longrightarrow> sockets (update_socket i f r) ! j = sockets r ! j"
  by (simp add: update_socket_def)

lemma send_other: "j \<noteq> i \<Longrightarrow> sockets (snd (send rt i f r)) ! j = sockets r ! j"
  by (simp add: send_def update_other)

lemma reject_other: "j \<noteq> i \<Longrightarrow> sockets (snd (rejectMessage rt i a c r)) ! j = sockets r ! j"
  by (simp add: rejectMessage_def send_def close_socket_def update_other)

lemma serialize_other: "j \<noteq> i \<Longrightarrow> sockets (serializeAttachment i v r) ! j = sockets r ! j"
  by (simp add: serializeAttachment_def update_other)

lemma findSocket_cong:
  assumes "length (sockets r') = length (sockets r)"
    and "\<And>j. j < length (sockets r) \<Longrightarrow> tags (sockets r' ! j) = tags (sockets r ! j)
      \<and> readyState (sockets r' ! j) = readyState (sockets r ! j)"
  shows "findSocket role r' = findSocket role r"
proof -
  have ws: "getWebSockets role r' = getWebSockets role r"
    using assms unfolding getWebSockets_def by (intro filter_cong) auto
  have "j < length (sockets r)" if "j \<in> set (getWebSockets role r)" for j
    using that by (simp add: getWebSockets_def)
  then show ?thesis
    unfolding findSocket_def ws using assms(2) by (intro find_cong) auto
qed

lemma findSocket_serialize [simp]:
  "findSocket role (serializeAttachment i v r) = findSocket role r"
proof (rule findSocket_cong)
  fix j
  show "tags (sockets (serializeAttachment i v r) ! j) = tags (sockets r ! j) \<and>
      readyState (sockets (serializeAttachment i v r) ! j) = readyState (sockets r ! j)"
    by (cases "i < length (sockets r)")
      (auto simp: serializeAttachment_def update_socket_def nth_list_update list_update_beyond)
qed (simp add: serializeAttachment_def)

lemma findSocket_timestamps [simp]:
  "findSocket role (r\<lparr>sessionRequestTimestamps := ts\<rparr>) = findSocket role r"
  by (rule findSocket_cong) simp_all

lemma relay_reaches:
  assumes "sockets (snd (relay rt i a m d r)) ! j \<noteq> sockets r ! j" "j \<noteq> i"
  shows "findSocket (other_role (at_role a)) r = Some j
    \<and> sockets (snd (relay rt i a m d r)) ! j
      = (sockets r ! j)\<lparr>sentFrames := sentFrames (sockets r ! j) @ [d]\<rparr>"
proof -
  have j: "findSocket (other_role (at_role a)) r = Some j"
  proof (cases "findSocket (other_role (at_role a)) r")
    case None
    then show ?thesis using assms by (simp add: relay_def send_other split: if_splits)
  next
    case (Some p)
    then have "j = p" using assms(1) by (metis relay_def option.case(2) send_other)
    with Some show ?thesis by simp
  qed
  then have "j < length (sockets r)"
    using findSocket_Some holds_def by blast
  then show ?thesis
    using assms(1) j by (auto simp: relay_def send_def update_socket_def split: if_splits)
qed

text \<open>
  The guards a message has passed when it changes a socket other than its sender's.
\<close>

definition relay_guards ::
  "runtime \<Rightarrow> rat \<Rightarrow> room \<Rightarrow> socket_attachment \<Rightarrow> jstring \<Rightarrow> json \<Rightarrow> bool" where
  "relay_guards rt now r a d m \<longleftrightarrow>
     length (text_encode d) \<le> MAX_SIGNALING_MESSAGE_BYTES
     \<and> (\<exists>v. json_parse d = Some v \<and> validateSignalingMessage (ajv_of rt) v = Some m)
     \<and> (at_role a = Viewer \<longrightarrow> message_sessionId m = at_sessionId a)
     \<and> isAllowedMessageType (at_role a) (message_type m)
     \<and> message_type m \<noteq> lit ''agent.heartbeat''
     \<and> (message_type m = lit ''session.request'' \<longrightarrow>
          allowed (evaluateRateLimit (sessionRequestTimestamps r) now SESSION_REQUEST_RATE_LIMIT))"

lemma message_cases:
  fixes rt now i r data
  assumes "attachment_of (sockets r ! i) = Some a"
  defines "r' \<equiv> snd (webSocketMessage rt now i data r)"
    and "a1 \<equiv> a\<lparr>at_lastSeenAt := now\<rparr>"
    and "d \<equiv> evaluateRateLimit (sessionRequestTimestamps r) now SESSION_REQUEST_RATE_LIMIT"
  defines "r1 \<equiv> serializeAttachment i (attachment_json a1) r"
  defines "r2 \<equiv> r1\<lparr>sessionRequestTimestamps := timestamps d\<rparr>"
  shows "(\<exists>c. r' = snd (rejectMessage rt i a c r))
    \<or> r' = snd (rejectMessage rt i a1 ''RATE_LIMITED'' r2)
    \<or> r' = scheduleHeartbeatDeadline now r1
    \<or> (\<exists>t m. data = Text t \<and> relay_guards rt now r a t m \<and>
        (r' = snd (relay rt i a1 m t r1) \<or> r' = snd (relay rt i a1 m t r2)))"
proof -
  note a = assms(1) [unfolded attachment_of_def]
  note u = r'_def webSocketMessage_def a
  show ?thesis
  proof (cases data)
    case (Binary b)
    then show ?thesis by (auto simp: u)
  next
    case (Text t)
    note u = u Text
    show ?thesis
    proof (cases "length (text_encode t) > MAX_SIGNALING_MESSAGE_BYTES \<or> json_parse t = None")
      case True
      then show ?thesis by (auto simp: u)
    next
      case False
      then obtain v where v: "json_parse t = Some v" "\<not> length (text_encode t) > MAX_SIGNALING_MESSAGE_BYTES"
        by auto
      show ?thesis
      proof (cases "validateSignalingMessage (ajv_of rt) v")
        case None
        then show ?thesis by (auto simp: u v)
      next
        case (Some m)
        note u = u v Some
        show ?thesis
        proof (cases "(at_role a = Viewer \<and> message_sessionId m \<noteq> at_sessionId a) \<or>
            \<not> isAllowedMessageType (at_role a) (message_type m)")
          case True
          then show ?thesis by (auto simp: u)
        next
          case False
          have ts: "sessionRequestTimestamps r1 = sessionRequestTimestamps r" by (simp add: r1_def)
          show ?thesis
            using False
            by (cases "at_role a"; cases "message_type m = lit ''agent.heartbeat''";
                cases "message_type m = lit ''session.request''"; cases "allowed d")
              (simp_all add: u not_less [symmetric] relay_guards_def Let_def ts a1_def [symmetric] r1_def [symmetric]
                d_def [symmetric] r2_def [symmetric])
        qed
      qed
    qed
  qed
qed

lemma message_reaches:
  assumes change: "sockets (snd (webSocketMessage rt now i data r)) ! j \<noteq> sockets r ! j"
    and other: "j \<noteq> i"
  shows "\<exists>a d m. attachment_of (sockets r ! i) = Some a \<and> data = Text d
    \<and> relay_guards rt now r a d m \<and> findSocket (other_role (at_role a)) r = Some j
    \<and> sockets (snd (webSocketMessage rt now i data r)) ! j
      = (sockets r ! j)\<lparr>sentFrames := sentFrames (sockets r ! j) @ [d]\<rparr>"
proof (cases "attachment_of (sockets r ! i)")
  case None
  then show ?thesis
    using assms by (simp add: webSocketMessage_def attachment_of_def close_socket_def update_other)
next
  case (Some a)
  note d = Some [unfolded attachment_of_def]
  let ?a1 = "a\<lparr>at_lastSeenAt := now\<rparr>"
  let ?r1 = "serializeAttachment i (attachment_json ?a1) r"
  let ?decision = "evaluateRateLimit (sessionRequestTimestamps r) now SESSION_REQUEST_RATE_LIMIT"
  let ?r2 = "?r1\<lparr>sessionRequestTimestamps := timestamps ?decision\<rparr>"
  have same: "sockets ?r1 ! j = sockets r ! j" "sockets ?r2 ! j = sockets r ! j"
    "sockets (scheduleHeartbeatDeadline now ?r1) ! j = sockets r ! j"
    using other by (simp_all add: serialize_other scheduleHeartbeatDeadline_def)
  have quiet: "sockets (snd (rejectMessage rt i b c q)) ! j = sockets q ! j" for b c q
    using other by (rule reject_other)
  obtain t m where m: "data = Text t" "relay_guards rt now r a t m"
    and r': "snd (webSocketMessage rt now i data r) = snd (relay rt i ?a1 m t ?r1)
      \<or> snd (webSocketMessage rt now i data r) = snd (relay rt i ?a1 m t ?r2)"
    using message_cases [OF Some, of rt now data] change quiet same by metis
  have "findSocket (other_role (at_role a)) r = Some j
    \<and> sockets (snd (webSocketMessage rt now i data r)) ! j
      = (sockets r ! j)\<lparr>sentFrames := sentFrames (sockets r ! j) @ [t]\<rparr>"
    using r' relay_reaches [of rt i ?a1 m t ?r1 j] relay_reaches [of rt i ?a1 m t ?r2 j]
      change other same by auto
  then show ?thesis using Some m by blast
qed

section \<open>The request window\<close>

lemma message_requests:
  "sessionRequestTimestamps (snd (webSocketMessage rt now i data r)) = sessionRequestTimestamps r
   \<or> sessionRequestTimestamps (snd (webSocketMessage rt now i data r)) =
     timestamps (evaluateRateLimit (sessionRequestTimestamps r) now SESSION_REQUEST_RATE_LIMIT)"
proof -
  have send: "sessionRequestTimestamps (snd (relay rt i a m d q)) = sessionRequestTimestamps q"
    "sessionRequestTimestamps (snd (rejectMessage rt i a c q)) = sessionRequestTimestamps q"
    for a m d c q
    by (simp_all add: relay_def rejectMessage_def send_def close_socket_def split: option.split)
  show ?thesis
    by (auto simp: webSocketMessage_def Let_def send scheduleHeartbeatDeadline_def
        split: message_data.split option.split)
qed

lemma requests_evict [simp]:
  "sessionRequestTimestamps (fold (evict_one rt) is r) = sessionRequestTimestamps r"
proof (induction "is" arbitrary: r)
  case (Cons i js)
  have "sessionRequestTimestamps (evict_one rt i r) = sessionRequestTimestamps r"
    by (simp add: evict_one_def Let_def split: option.split)
  with Cons show ?case by simp
qed simp

lemma requests_fetch [simp]:
  "sessionRequestTimestamps (snd (fetch rt now hs r)) = sessionRequestTimestamps r"
  by (simp add: fetch_def Let_def join_room_def acceptRejectedViewer_def scheduleHeartbeatDeadline_def
      acceptWebSocket_def send_def close_socket_def evictViewers_def serializeAttachment_def
      split: option.split)

lemma requests_bounded: "reachable rt t r \<Longrightarrow> length (sessionRequestTimestamps r) \<le> 5"
proof (induction rule: reachable.induct)
  case (reach_empty t)
  then show ?case by (simp add: empty_room_def)
next
  case (reach_step t r now ev r')
  have five: "maxEvents SESSION_REQUEST_RATE_LIMIT = 5"
    by (simp add: SESSION_REQUEST_RATE_LIMIT_def)
  have alarm: "sessionRequestTimestamps (alarm rt now q) = sessionRequestTimestamps q" for q
    by (simp add: alarm_def Let_def scheduleHeartbeatDeadline_def split: option.split)
  show ?case
    using reach_step.hyps(3)
  proof (cases rule: room_step.cases)
    case (step_message i data)
    then show ?thesis
      using message_requests [of rt now i data r] reach_step.IH
        rate_length_bound [of _ SESSION_REQUEST_RATE_LIMIT now, unfolded five] by fastforce
  qed (use reach_step.IH alarm in \<open>simp_all add: webSocketClose_def webSocketError_def\<close>)
qed

section \<open>The room's own messages\<close>

lemma error_text:
  "\<exists>t. json_text (createErrorMessage a c b) = Some t \<and> error_frame a c b = t"
  by (simp add: createErrorMessage_def error_frame_def num_text_def is_integer_def)

lemma error_frame_parses: "json_parse (error_frame a c b) = Some (createErrorMessage a c b)"
proof -
  obtain t where "json_text (createErrorMessage a c b) = Some t" "error_frame a c b = t"
    using error_text by blast
  moreover have "json_wf (createErrorMessage a c b)"
    by (simp add: createErrorMessage_def)
  ultimately show ?thesis using json_parse_text by simp
qed

definition error_code_ok :: "string \<Rightarrow> bool" where
  "error_code_ok c \<longleftrightarrow> string_bounds (Some 1) (Some 64) (Some (rplus (RClass upper_code_class))) (lit c)"

definition code_chars :: string where
  "code_chars = ''ABCDEFGHIJKLMNOPQRSTUVWXYZ_''"

lemma code_chars_class: "list_all (\<lambda>c. in_class upper_code_class (unit_of_char c)) code_chars"
  by (simp add: code_chars_def upper_code_class_def unat_unit_of_char)

lemma error_code_okI:
  assumes "c \<noteq> []" "length c \<le> 64" "set c \<subseteq> set code_chars"
  shows "error_code_ok c"
proof -
  have cls: "list_all (in_class upper_code_class) (lit c)"
    using assms(3) code_chars_class by (auto simp: list_all_iff lit_def)
  then have "list_all (\<lambda>u. unat u < 0xD800) (lit c)"
    by (auto simp: list_all_iff upper_code_class_def)
  then have "ucs2length (lit c) = length c"
    by (simp add: ucs2length_ascii)
  then show ?thesis
    using assms(1,2) cls by (cases c) (simp_all add: error_code_ok_def string_bounds_def)
qed

lemma room_codes_ok: "list_all error_code_ok ROOM_CODES"
  unfolding ROOM_CODES_def list.pred_inject
  by (intro conjI error_code_okI TrueI; simp add: code_chars_def)

context session_runtime
begin

lemma error_message_valid:
  assumes "c \<in> set ROOM_CODES" "opaque_id (at_sessionId a)"
  shows "validateSignalingMessage (ajv_of rt) (createErrorMessage a c b)
    = Some (createErrorMessage a c b)"
proof -
  have c: "error_code_ok c"
    using assms(1) room_codes_ok by (simp add: list_all_iff)
  define p where "p = SObject
    [Required ''code'' (SString (Some 1) (Some 64) (Some (rplus (RClass upper_code_class)))),
     Required ''retryable'' SBoolean]"
  have p: "(''error'', p) \<in> set signaling_payloads"
    by (simp add: signaling_payloads_def p_def)
  have "ajv_of rt p (JObj [(lit ''code'', JStr (lit c)), (lit ''retryable'', JBool b)])"
    using c by (simp add: p_def object_law known_keys_def string_law boolean_law error_code_ok_def)
  then have "ajv_of rt (signaling_envelope ''error'' p) (createErrorMessage a c b)"
    using signaling_envelope_intro [of p _ 0 "at_sessionId a" "''error''"] assms(2)
    by (simp add: createErrorMessage_def MAX_SAFE_INTEGER_def)
  then show ?thesis
    using p by (auto simp: validate_defs signaling_schema)
qed

end

end
