(* ===== verification/RemoteOutcomes.thy ===== *)
theory RemoteOutcomes
  imports RemoteSafety RoomSafety
begin

text \<open>
  What comes out of the session hook: the messages the captured input becomes, the release that
  precedes a revoked grant, and the end of a session the room replaced.
\<close>

section \<open>The input message\<close>

text \<open>An input operation writes nothing, or its message, numbered and stamped.\<close>

lemma emitControl_message:
  fixes v :: viewer and e :: string and d :: json and now :: int
  assumes c: "configRef v = Some c"
  defines "m \<equiv> control_json e (cc_sessionId c) (controlSequence v + 1) now d"
  shows "logs (emitControl pf now e d v) = logs v
    \<or> (\<exists>i. may_inject v i \<and> logs (emitControl pf now e d v) = (logs v)[i := logs v ! i @ [TextFrame m]])"
proof (cases "stateRef v \<noteq> ControlActive \<or> \<not> grantedControlRef v
    \<or> controlChannel v = None \<or> control_ready v \<noteq> Some ChOpen")
  case True
  then show ?thesis by (auto simp: emitControl_def split: option.split)
next
  case False
  then obtain i where i: "controlChannel v = Some i" by auto
  define v1 where "v1 = v\<lparr>controlSequence := controlSequence v + 1\<rparr>"
  have eq: "emitControl pf now e d v =
      (case send_control (pf_throws pf) i (controlSequence v1) m v1 of
         Some v2 \<Rightarrow> v2 | None \<Rightarrow> recoverControlChannel i (activeCycle v1) v1)"
    unfolding emitControl_def Let_def v1_def m_def using False c i by simp
  have "may_inject v i" using False i by (auto simp: may_inject_def control_ready_def)
  moreover have "logs w = (logs v)[i := logs v ! i @ [TextFrame m]]"
    if "send_control (pf_throws pf) i (controlSequence v1) m v1 = Some w" for w
    using logs_send_control [OF that] by (simp add: v1_def)
  ultimately show ?thesis unfolding eq by (auto simp: v1_def split: option.split)
qed

text \<open>With the grant, over an open channel whose \<open>send\<close> works, it does write.\<close>

lemma emitControl_writes:
  fixes v :: viewer and e :: string and d :: json and now :: int
  assumes "may_inject v i" "configRef v = Some c" "\<not> pf_throws pf (controlSequence v + 1)"
    and "i < length (viewerPeers v)"
  defines "w \<equiv> emitControl pf now e d v"
  shows "control_log (viewerPeers w ! i) = control_log (viewerPeers v ! i) @
      [TextFrame (control_json e (cc_sessionId c) (controlSequence v + 1) now d)]"
    "stateRef w = stateRef v" "activeCycle w = activeCycle v" "webSocket w = webSocket v"
  using assms(1-4)
  by (simp_all add: w_def emitControl_def may_inject_def control_ready_def send_control_def Let_def
      update_peer_def control_log_def)

section \<open>Captured input is protocol input\<close>

lemma control_json_valid:
  assumes "(e, ds) \<in> set control_data" "schema_accepts ds d"
    and "int n \<le> MAX_SAFE_INTEGER" "0 \<le> now" "opaque_id sid"
  shows "schema_accepts ControlMessageSchema (control_json e sid n now d)"
proof -
  have "schema_accepts OpaqueIdSchema (JStr sid)"
    using assms(5) by (simp add: reference.opaque_id_schema)
  moreover have "is_integer (of_int (int n))" by (rule is_integer_of_int)
  then have "schema_accepts SequenceSchema (JNum (of_nat n))"
    using assms(3) by (auto simp: SequenceSchema_def simp flip: of_int_le_iff [where 'a = rat])
  moreover have "schema_accepts TimestampSchema (JNum (of_int now))"
    using assms(4) by (simp add: TimestampSchema_def is_integer_of_int)
  ultimately have "schema_accepts (event_envelope e ds) (control_json e sid n now d)"
    using assms(2) by (simp add: event_envelope_def control_json_def known_keys_def PROTOCOL_VERSION_def)
  then show ?thesis using assms(1) by (force simp: ControlMessageSchema_def list_ex_iff)
qed

text \<open>The event and data of an effect that is input.\<close>

fun effect_message :: "effect \<Rightarrow> (string \<times> json) option" where
  "effect_message (SendKey code Down) = Some (''key.down'', JObj [(lit ''code'', JStr code)])"
| "effect_message (SendKey code Up) = Some (''key.up'', JObj [(lit ''code'', JStr code)])"
| "effect_message (SendPointerButton button action) = Some (''pointer.button'',
     JObj [(lit ''action'', JStr (lit (action_text action))), (lit ''button'', JStr (lit (button_text button)))])"
| "effect_message (SendPointerMove x y) = Some (''pointer.move'', JObj [(lit ''x'', JNum x), (lit ''y'', JNum y)])"
| "effect_message (SendPointerWheel dx dy) = Some (''pointer.wheel'',
     JObj [(lit ''deltaX'', JNum (of_int dx)), (lit ''deltaY'', JNum (of_int dy))])"
| "effect_message ReleaseRemoteInput = Some (''control.release-all'', JObj [])"
| "effect_message _ = None"

lemma perform_message:
  "perform pf now e v = (case effect_message e of Some (ev, d) \<Rightarrow> emitControl pf now ev d v | None \<Rightarrow> v)"
  by (cases e rule: effect_message.cases)
    (simp_all add: sendKey_def sendPointerButton_def sendPointerMove_def sendPointerWheel_def
      releaseRemoteInput_def)

lemma captured_code_schema: "c \<in> captured_codes \<Longrightarrow> schema_accepts KeyboardCodeSchema (JStr c)"
  unfolding captured_codes_iff
  by (auto simp: KeyboardCodeSchema_def code_string_bounds SCHEMA_CODES_def)

lemma input_schemas:
  "c \<in> captured_codes \<Longrightarrow> schema_accepts (SObject [Required ''code'' KeyboardCodeSchema]) (JObj [(lit ''code'', JStr c)])"
  "schema_accepts (SObject [Required ''action'' (literals [''down'', ''up'']),
       Required ''button'' (literals [''left'', ''right'', ''middle''])])
     (JObj [(lit ''action'', JStr (lit (action_text a))), (lit ''button'', JStr (lit (button_text b)))])"
  "unit_point x y \<Longrightarrow> schema_accepts (SObject [Required ''x'' (SNumber 0 1), Required ''y'' (SNumber 0 1)])
     (JObj [(lit ''x'', JNum x), (lit ''y'', JNum y)])"
  "\<bar>dx\<bar> \<le> 1200 \<Longrightarrow> \<bar>dy\<bar> \<le> 1200 \<Longrightarrow>
     schema_accepts (SObject [Required ''deltaX'' (SInteger (Some (- 1200)) (Some 1200)),
         Required ''deltaY'' (SInteger (Some (- 1200)) (Some 1200))])
       (JObj [(lit ''deltaX'', JNum (of_int dx)), (lit ''deltaY'', JNum (of_int dy))])"
proof -
  show "c \<in> captured_codes \<Longrightarrow>
      schema_accepts (SObject [Required ''code'' KeyboardCodeSchema]) (JObj [(lit ''code'', JStr c)])"
    by (simp add: known_keys_def captured_code_schema)
  show "schema_accepts (SObject [Required ''action'' (literals [''down'', ''up'']),
       Required ''button'' (literals [''left'', ''right'', ''middle''])])
     (JObj [(lit ''action'', JStr (lit (action_text a))), (lit ''button'', JStr (lit (button_text b)))])"
    by (cases a; cases b) (simp_all add: known_keys_def literals_def)
  show "unit_point x y \<Longrightarrow> schema_accepts (SObject [Required ''x'' (SNumber 0 1), Required ''y'' (SNumber 0 1)])
     (JObj [(lit ''x'', JNum x), (lit ''y'', JNum y)])"
    by (simp add: known_keys_def unit_point_def)
  have wheel: "schema_accepts (SInteger (Some (- 1200)) (Some 1200)) (JNum (of_int n))" if "\<bar>n\<bar> \<le> 1200" for n
  proof -
    have "(- 1200 :: rat) \<le> of_int n" "(of_int n :: rat) \<le> 1200"
      using that of_int_le_iff [of "- 1200" n, where 'a = rat] of_int_le_iff [of n 1200, where 'a = rat]
      by simp_all
    then show ?thesis by (simp add: is_integer_of_int)
  qed
  show "\<bar>dx\<bar> \<le> 1200 \<Longrightarrow> \<bar>dy\<bar> \<le> 1200 \<Longrightarrow>
     schema_accepts (SObject [Required ''deltaX'' (SInteger (Some (- 1200)) (Some 1200)),
         Required ''deltaY'' (SInteger (Some (- 1200)) (Some 1200))])
       (JObj [(lit ''deltaX'', JNum (of_int dx)), (lit ''deltaY'', JNum (of_int dy))])"
    using wheel [of dx] wheel [of dy] by (simp add: known_keys_def)
qed

lemma input_events:
  "(''key.down'', SObject [Required ''code'' KeyboardCodeSchema]) \<in> set control_data"
  "(''key.up'', SObject [Required ''code'' KeyboardCodeSchema]) \<in> set control_data"
  "(''pointer.button'', SObject [Required ''action'' (literals [''down'', ''up'']),
     Required ''button'' (literals [''left'', ''right'', ''middle''])]) \<in> set control_data"
  "(''pointer.move'', SObject [Required ''x'' (SNumber 0 1), Required ''y'' (SNumber 0 1)]) \<in> set control_data"
  "(''pointer.wheel'', SObject [Required ''deltaX'' (SInteger (Some (- 1200)) (Some 1200)),
     Required ''deltaY'' (SInteger (Some (- 1200)) (Some 1200))]) \<in> set control_data"
  "(''control.release-all'', SObject []) \<in> set control_data"
  by (simp_all add: control_data_def)

lemma effect_message_valid:
  assumes "effect_ok e" "effect_message e = Some (ev, d)"
  shows "\<exists>ds. (ev, ds) \<in> set control_data \<and> schema_accepts ds d"
proof (cases e rule: effect_message.cases)
  case (1 code)
  with assms have "ev = ''key.down''" "d = JObj [(lit ''code'', JStr code)]" "code \<in> captured_codes" by auto
  then show ?thesis using input_schemas(1) input_events(1) by blast
next
  case (2 code)
  with assms have "ev = ''key.up''" "d = JObj [(lit ''code'', JStr code)]" "code \<in> captured_codes" by auto
  then show ?thesis using input_schemas(1) input_events(2) by blast
next
  case (3 button action)
  with assms have "ev = ''pointer.button''" "d = JObj [(lit ''action'', JStr (lit (action_text action))),
      (lit ''button'', JStr (lit (button_text button)))]" by auto
  then show ?thesis using input_schemas(2) input_events(3) by blast
next
  case (4 x y)
  with assms have "ev = ''pointer.move''" "d = JObj [(lit ''x'', JNum x), (lit ''y'', JNum y)]" "unit_point x y"
    by auto
  then show ?thesis using input_schemas(3) input_events(4) by blast
next
  case (5 dx dy)
  with assms have "ev = ''pointer.wheel''" "d = JObj [(lit ''deltaX'', JNum (of_int dx)), (lit ''deltaY'', JNum (of_int dy))]"
      "\<bar>dx\<bar> \<le> 1200" "\<bar>dy\<bar> \<le> 1200" by auto
  then show ?thesis using input_schemas(4) input_events(5) by blast
next
  case 6
  with assms have "ev = ''control.release-all''" "d = JObj []" by auto
  moreover have "schema_accepts (SObject []) (JObj [])" by (simp add: known_keys_def)
  ultimately show ?thesis using input_events(6) by blast
qed (use assms in auto)

text \<open>What an effect of a run of the capture writes is a message of the control protocol.\<close>

lemma captured_message_valid:
  assumes run: "captured s" "e \<in> set (effects s)" and c: "configRef v = Some c" "opaque_id (cc_sessionId c)"
    and n: "int (controlSequence v + 1) \<le> MAX_SAFE_INTEGER" "0 \<le> now"
    and i: "i < length (viewerPeers v)"
  shows "\<exists>fs. control_log (viewerPeers (perform pf now e v) ! i) = control_log (viewerPeers v ! i) @ fs
    \<and> (\<forall>f \<in> set fs. \<exists>m. f = TextFrame m \<and> schema_accepts ControlMessageSchema m)"
proof -
  let ?w = "perform pf now e v"
  have ok: "effect_ok e" using captured_effects [OF run(1)] run(2) by (auto simp: effects_ok_def list_all_iff)
  have same: ?thesis if "logs ?w = logs v"
  proof -
    have "control_log (viewerPeers ?w ! i) = control_log (viewerPeers v ! i)"
      using arg_cong [OF that, of "\<lambda>ls. ls ! i"] arg_cong [OF that, of length] i by simp
    then show ?thesis by (intro exI [of _ "[]"]) simp
  qed
  show ?thesis
  proof (cases "effect_message e")
    case None
    then show ?thesis by (intro same) (simp add: perform_message)
  next
    case (Some p)
    obtain ev d where p: "effect_message e = Some (ev, d)" using Some by (cases p) auto
    obtain ds where ds: "(ev, ds) \<in> set control_data" "schema_accepts ds d"
      using effect_message_valid [OF ok p] by blast
    let ?m = "control_json ev (cc_sessionId c) (controlSequence v + 1) now d"
    have valid: "schema_accepts ControlMessageSchema ?m" by (rule control_json_valid [OF ds n c(2)])
    have w: "?w = emitControl pf now ev d v" by (simp add: perform_message p)
    consider "logs ?w = logs v" | k where "logs ?w = (logs v)[k := logs v ! k @ [TextFrame ?m]]"
      using emitControl_message [OF c(1), of pf now ev d] unfolding w by blast
    then show ?thesis
    proof cases
      case 1
      then show ?thesis by (rule same)
    next
      case (2 k)
      have "control_log (viewerPeers ?w ! i) = (logs v)[k := logs v ! k @ [TextFrame ?m]] ! i"
        using arg_cong [OF 2, of "\<lambda>ls. ls ! i"] arg_cong [OF 2, of length] i by simp
      also have "\<dots> = control_log (viewerPeers v ! i) @ (if k = i then [TextFrame ?m] else [])"
        using i by (simp add: nth_list_update)
      finally show ?thesis using valid by (intro exI [of _ "if k = i then [TextFrame ?m] else []"]) simp
    qed
  qed
qed

section \<open>A revoked policy\<close>

definition revokes :: "json \<Rightarrow> bool" where
  "revokes m \<longleftrightarrow> payload_of m ''controlEnabled'' \<noteq> Some (JBool True)
     \<or> payload_of m ''controlGranted'' \<noteq> Some (JBool True) \<or> payload_of m ''locked'' = Some (JBool True)"

lemma session_policy_release:
  assumes "may_inject v i" "configRef v = Some c" "\<not> pf_throws pf (controlSequence v + 1)"
    and "i < length (viewerPeers v)" "revokes m"
  shows "control_log (viewerPeers (session_policy pf now m v) ! i) = control_log (viewerPeers v ! i) @
      [TextFrame (control_json ''control.release-all'' (cc_sessionId c) (controlSequence v + 1) now (JObj []))]"
proof -
  define u where "u = v\<lparr>controlPolicyEnabled := (payload_of m ''controlEnabled'' = Some (JBool True)),
      controlLocked := (payload_of m ''locked'' = Some (JBool True))\<rparr>"
  have u: "may_inject u i" "configRef u = Some c" "\<not> pf_throws pf (controlSequence u + 1)"
      "i < length (viewerPeers u)"
    using assms(1-4) by (simp_all add: u_def may_inject_def)
  have "session_policy pf now m v = (releaseRemoteInput pf now u)\<lparr>grantedControlRef := False, controlGranted := False\<rparr>"
    using assms(5) by (simp add: session_policy_def u_def revokes_def Let_def)
  then show ?thesis
    using emitControl_writes(1) [OF u] by (simp add: releaseRemoteInput_def) (simp add: u_def)
qed

section \<open>A replaced session\<close>

text \<open>The room's errors, as a validator that meets the schema contract reads them.\<close>

lemma room_error_valid:
  assumes "json_schema_validator ajv" "code \<in> set ROOM_CODES" "opaque_id (at_sessionId a)"
  shows "validateSignalingMessage ajv (createErrorMessage a code retryable)
    = Some (createErrorMessage a code retryable)"
  using standard.error_message_valid [OF assms(2,3), of retryable] validator_unique [OF assms(1)]
  by (simp add: standard_runtime_def)

lemma room_error_read [simp]:
  "message_type (createErrorMessage a code retryable) = lit ''error''"
  "payload_of (createErrorMessage a code retryable) ''code'' = Some (JStr (lit code))"
  "payload_of (createErrorMessage a code retryable) ''retryable'' = Some (JBool retryable)"
  by (simp_all add: createErrorMessage_def message_type_def payload_of_def string_of_def)

lemma applyConnectionIssue_keeps [simp]:
  "stateRef (applyConnectionIssue code r v) = stateRef v"
  "activeCycle (applyConnectionIssue code r v) = activeCycle v"
  "webSocket (applyConnectionIssue code r v) = webSocket v"
  "viewerSockets (applyConnectionIssue code r v) = viewerSockets v"
  "userDisconnected (applyConnectionIssue code r v) = userDisconnected v"
  "idle (applyConnectionIssue code r v) = idle v"
  by (simp_all add: applyConnectionIssue_def idle_def split: option.split)

text \<open>An error of the room other than \<open>PEER_OFFLINE\<close> ends the session it is sent to.\<close>

lemma room_error_ends:
  fixes v :: viewer and a :: socket_attachment and code :: string and retryable :: bool and now :: int
  assumes ajv: "json_schema_validator (pf_ajv pf)"
    and code: "code \<in> set ROOM_CODES" "code \<noteq> ''PEER_OFFLINE''" "code \<noteq> ''AGENT_OFFLINE''"
    and a: "opaque_id (at_sessionId a)"
    and i: "webSocket v = Some i" "i < length (viewerSockets v)" "vs_cycle (viewerSockets v ! i) = activeCycle v"
  defines "w \<equiv> socket_message pf now i (error_frame a code retryable) v"
  shows "stateRef w = Offline" "released w" "activeCycle w = activeCycle v + 1"
    "length (viewerSockets w) = length (viewerSockets v)"
    "vs_cycle (viewerSockets w ! i) = activeCycle v"
    "vs_suppressAutoReconnect (viewerSockets w ! i) = (code = ''SESSION_REPLACED'')"
    "userDisconnected w = userDisconnected v" "autoReconnectAttempts w = autoReconnectAttempts v"
proof -
  define m where "m = createErrorMessage a code retryable"
  have heard: "json_parse (error_frame a code retryable) = Some m" "validateSignalingMessage (pf_ajv pf) m = Some m"
    using error_frame_parses room_error_valid [OF ajv code(1) a] by (simp_all add: m_def)
  define x where "x = applyConnectionIssue (lit code) (Some retryable) (update_viewer_socket i (mark_issue m) v)"
  have x: "activeCycle x = activeCycle v" "\<not> idle x" "userDisconnected x = userDisconnected v"
      "autoReconnectAttempts x = autoReconnectAttempts v"
      "viewerSockets x = (viewerSockets v)[i := mark_issue m (viewerSockets v ! i)]"
    using i(1) by (simp_all add: x_def update_viewer_socket_def idle_def)
      (simp add: applyConnectionIssue_def split: option.split)
  have w: "w = teardownForCycle (activeCycle x) x"
    using heard code(2,3) i(3) unfolding w_def
    by (simp add: socket_message_def handleSignalingMessage_def server_issue_def m_def string_of_def
        Let_def x_def update_viewer_socket_def)
  note t = teardown_live [OF x(2)]
  show "stateRef w = Offline" "released w" "activeCycle w = activeCycle v + 1"
    "userDisconnected w = userDisconnected v" "autoReconnectAttempts w = autoReconnectAttempts v"
    using t x by (simp_all add: w)
  show len: "length (viewerSockets w) = length (viewerSockets v)"
    using list_all2_lengthD [OF t(16)] x(5) by (simp add: w)
  have "socket_ends (viewerSockets x ! i) (viewerSockets w ! i)"
    using list_all2_nthD [OF t(16), of i] i(2) x(5) by (simp add: w)
  then show "vs_cycle (viewerSockets w ! i) = activeCycle v"
    "vs_suppressAutoReconnect (viewerSockets w ! i) = (code = ''SESSION_REPLACED'')"
    using i(2,3) by (simp_all add: x(5) socket_ends_def mark_issue_def m_def)
qed

text \<open>The close of a socket whose cycle is over and that was told it is replaced changes no more.\<close>

lemma replaced_close_silent:
  assumes "vs_suppressAutoReconnect (viewerSockets w ! i)" "vs_cycle (viewerSockets w ! i) \<noteq> activeCycle w"
    and "i < length (viewerSockets w)" "webSocket w = None"
  shows "socket_closed i (set_socket i ChClosed w) = set_socket i ChClosed w"
  using assms by (simp add: socket_closed_def set_socket_def update_viewer_socket_def Let_def)

end
