(* ===== verification/RemoteObservers.thy ===== *)
theory RemoteObservers
  imports RemoteControl
begin

text \<open>
  What most steps of the session hook leave alone. The contract \<open>viewer_observer\<close> is of a view of
  the state that reads only the saved files, the downloads being verified and the image
  uploads, and that neither a rejected upload nor a new pending one changes. Every operation
  but the end of a download and the host's answer about an image keeps such a view.
\<close>

section \<open>What a release does to the image uploads\<close>

lemma release_keeps_images [simp]:
  "imageUploads (release_socket v) = imageUploads v" "imageUploads (release_peer v) = imageUploads v"
  "imageUploads (release_file_channel v) = imageUploads v" "imageUploads (release_download v) = imageUploads v"
  "imageUploads (release_upload v) = imageUploads v" "imageUploads (release_image_channel v) = imageUploads v"
proof -
  show "imageUploads (release_socket v) = imageUploads v"
    by (simp add: release_socket_def update_viewer_socket_def split: option.split)
  show "imageUploads (release_peer v) = imageUploads v"
    by (simp add: release_peer_def update_peer_def split: option.split)
  show "imageUploads (release_file_channel v) = imageUploads v"
    by (simp add: release_file_channel_def update_peer_def split: option.split)
  show "imageUploads (release_download v) = imageUploads v"
    by (simp add: release_download_def split: option.split)
  show "imageUploads (release_upload v) = imageUploads v"
    using release_upload_shape [of v] by force
  show "imageUploads (release_image_channel v) = imageUploads v"
    by (simp add: release_image_channel_def update_peer_def split: option.split)
qed

lemma release_images: "imageUploads (releaseResources v) = imageUploads (release_image_upload v)"
proof -
  define u where "u = release_control_channel (release_timers v)"
  have u: "imageUploads u = imageUploads v" "clipboardImageUpload u = clipboardImageUpload v"
    using release_control_channel_shape [of "release_timers v"] by (auto simp: u_def release_timer_defs)
  have "imageUploads (releaseResources v) = imageUploads (release_image_upload u)"
    by (simp add: releaseResources_def u_def)
  then show ?thesis
    using u by (simp add: release_image_upload_def settle_image_def split: option.split)
qed

section \<open>The contract\<close>

text \<open>The end of a download, a frame of the file channel, and a text of the image channel.\<close>

fun answers_transfer :: "viewer_event \<Rightarrow> bool" where
  "answers_transfer (FileData i data) = True"
| "answers_transfer (DownloadVerified k) = True"
| "answers_transfer (ImageData i (TextData text)) = True"
| "answers_transfer e = False"

locale viewer_observer =
  fixes obs :: "viewer \<Rightarrow> 'a"
  assumes depends: "savedFiles w = savedFiles v \<Longrightarrow> verifyingDownloads w = verifyingDownloads v
      \<Longrightarrow> imageUploads w = imageUploads v \<Longrightarrow> obs w = obs v"
    and rejecting: "obs (settle_image i cancel (ImageRejected code) v) = obs v"
    and adding: "iu_outcome u = ImagePending \<Longrightarrow> obs (v\<lparr>imageUploads := imageUploads v @ [u]\<rparr>) = obs v"

context viewer_observer
begin

lemma obs_same [simp]:
  "savedFiles w = savedFiles v \<Longrightarrow> verifyingDownloads w = verifyingDownloads v
    \<Longrightarrow> imageUploads w = imageUploads v \<Longrightarrow> (obs w = obs v) \<longleftrightarrow> True"
  by (rule eqTrueI, rule depends)

lemma obs_release_image: "obs (release_image_upload v) = obs v"
proof (cases "clipboardImageUpload v")
  case None
  then show ?thesis by (simp only: release_image_upload_def option.case)
next
  case (Some i)
  let ?w = "settle_image i True (ImageRejected (lit ''DISCONNECTED'')) v"
  have eq: "release_image_upload v = ?w\<lparr>clipboardImageUpload := None\<rparr>"
    by (simp only: release_image_upload_def Some option.case)
  have "obs (u\<lparr>clipboardImageUpload := None\<rparr>) = obs u" for u
    by (rule depends) simp_all
  then show ?thesis by (simp only: eq rejecting)
qed

lemma obs_release: "obs (releaseResources v) = obs v"
proof -
  obtain us where shape: "release_image_upload v = v\<lparr>imageUploads := us, clipboardImageUpload := None\<rparr>"
    using release_image_upload_shape by blast
  have "obs (releaseResources v) = obs (release_image_upload v)"
  proof (rule depends)
    show "savedFiles (releaseResources v) = savedFiles (release_image_upload v)"
      "verifyingDownloads (releaseResources v) = verifyingDownloads (release_image_upload v)"
      by (simp_all only: release_keeps shape) simp_all
  qed (rule release_images)
  then show ?thesis by (simp only: obs_release_image)
qed

lemma obs_send [simp]: "obs (snd (sendSignaling ty sid d v)) = obs v"
  by (simp add: sendSignaling_def Let_def update_viewer_socket_def)

lemma obs_teardown [simp]: "obs (teardownForCycle cycle v) = obs v"
proof -
  have offline: "obs (finishOffline u) = obs u" for u
    by (simp add: offline_legal)
  have move: "obs (move_or_stay s u) = obs u" for s u
    by (simp add: move_or_stay_def moveTo_def split: sum.split)
  show ?thesis
    by (simp add: teardownForCycle_def Let_def offline obs_release [THEN trans] move obs_send [THEN trans] split: option.split)
qed

lemma obs_send_control: "send_control throws i n m v = Some w \<Longrightarrow> obs w = obs v"
  by (auto simp: send_control_def update_peer_def split: if_splits)

lemma obs_moveTo: "moveTo s v = Inr w \<Longrightarrow> obs w = obs v"
  by (auto simp: moveTo_def split: sum.splits)

lemma obs_small [simp]:
  "obs (scheduleAutoReconnect v) = obs v" "obs (scheduleSignalingRecovery cycle v) = obs v"
  "obs (applyConnectionIssue code r v) = obs v" "obs (clearVideoProfileTimer v) = obs v"
  "obs (clearConnectionEstablishmentTimer v) = obs v" "obs (clearVideoProfileStabilizing v) = obs v"
  "obs (stopPing v) = obs v" "obs (stopVideoStats b v) = obs v" "obs (cancelAutoReconnect v) = obs v"
  "obs (cancelSignalingRecovery v) = obs v" "obs (updateActiveState v) = obs v"
  "obs (update_viewer_socket i f v) = obs v" "obs (update_peer i g v) = obs v"
  by (simp_all add: scheduleAutoReconnect_def scheduleSignalingRecovery_def applyConnectionIssue_def
      clearVideoProfileTimer_def clearConnectionEstablishmentTimer_def clearVideoProfileStabilizing_def
      stopPing_def stopVideoStats_def Let_def cancelAutoReconnect_def cancelSignalingRecovery_def
      active_step_legal update_viewer_socket_def update_peer_def split: option.split)

lemma obs_ends [simp]:
  "obs (cycle_failed code cycle v) = obs v" "obs (disconnect v) = obs v" "obs (unmount v) = obs v"
  by (simp_all add: cycle_failed_def disconnect_def unmount_def obs_release [THEN trans] Let_def)

lemma obs_recover [simp]: "obs (recoverControlChannel ch cycle v) = obs v"
proof -
  have "obs ((stopPing (v\<lparr>channelOpenRef := False\<rparr>))\<lparr>roundTripTimeMs := None\<rparr>) = obs v"
    by (simp add: stopPing_def)
  then show ?thesis by (simp add: recoverControlChannel_def)
qed

lemma obs_emit [simp]: "obs (emitControl pf now e d v) = obs v"
proof -
  have "obs w = obs v" if "send_control th i n m (v\<lparr>controlSequence := k\<rparr>) = Some w" for th i n m k w
    using obs_send_control [OF that] by simp
  then show ?thesis by (simp add: emitControl_def Let_def split: option.split)
qed

lemma obs_user [simp]:
  "obs (perform pf now e v) = obs v" "obs (setRemoteClipboard pf now text v) = obs v"
  by (cases e; simp add: sendKey_def sendPointerButton_def sendPointerMove_def sendPointerWheel_def
      releaseRemoteInput_def) (simp add: setRemoteClipboard_def)

lemma obs_startConnection: "startConnection pf profile c cycle r v = Some w \<Longrightarrow> obs w = obs v"
  by (auto simp: startConnection_def split: if_splits)

lemma obs_connect [simp]: "obs (connectInternal pf profile isAuto v) = obs v"
proof -
  have "obs w = obs v" if "startConnection pf profile c cycle r u = Some w" "obs u = obs v" for c cycle r u w
    using obs_startConnection that by metis
  then show ?thesis
    unfolding connectInternal_def Let_def by (simp add: cancelAutoReconnect_def
      clearConnectionEstablishmentTimer_def split: option.split)
qed

lemma obs_tickets [simp]:
  "obs (connect_ticket pf cycle isAuto profile answer v) = obs v"
  "obs (recovery_ticket pf cycle profile answer v) = obs v"
  "obs (ticket_answered pf k answer v) = obs v"
  "obs (signaling_recovery_fired pf profile cycle v) = obs v"
  "obs (auto_reconnect_fired pf profile v) = obs v" "obs (establishment_timeout cycle v) = obs v"
proof -
  note start = obs_startConnection [THEN trans]
  show connect: "obs (connect_ticket pf cycle isAuto profile answer v) = obs v"
    for cycle isAuto profile v
    by (simp add: connect_ticket_def Let_def start split: option.split)
  show recovery: "obs (recovery_ticket pf cycle profile answer v) = obs v" for cycle profile v
    by (simp add: recovery_ticket_def Let_def start split: option.split)
  show "obs (ticket_answered pf k answer v) = obs v"
    by (simp add: ticket_answered_def Let_def connect recovery split: ticket_request.split)
  show "obs (signaling_recovery_fired pf profile cycle v) = obs v"
    by (simp add: signaling_recovery_fired_def Let_def start split: option.split)
  show "obs (auto_reconnect_fired pf profile v) = obs v"
    by (simp add: auto_reconnect_fired_def Let_def)
  show "obs (establishment_timeout cycle v) = obs v"
    by (simp add: establishment_timeout_def Let_def)
qed

lemma obs_sends [simp]:
  "sendFileMessage pf now e d v = (b, w) \<Longrightarrow> obs w = obs v"
  "sendImageClipboardMessage pf now e d v = (b, w) \<Longrightarrow> obs w = obs v"
  by (auto simp: sendFileMessage_def sendImageClipboardMessage_def send_image_frame_def
      send_file_frame_def Let_def update_peer_def split: option.splits if_splits)

lemma obs_helpers [simp]:
  "obs (show_download c n q st v) = obs v" "obs (show_transfer i c q ts v) = obs v"
  "obs (set_phase i ph v) = obs v" "obs (forget_upload i v) = obs v" "obs (fail_upload i code v) = obs v"
  "obs (update_upload i f v) = obs v" "obs (send_file_frame i frame v) = obs v"
  "obs (send_image_frame i frame v) = obs v"
  by (simp_all add: show_download_def show_transfer_def set_phase_def forget_upload_def fail_upload_def
      update_upload_def send_file_frame_def send_image_frame_def Let_def)

lemma obs_reject [simp]: "obs (reject_current_image i code v) = obs v"
  using rejecting [THEN trans] by (simp add: reject_current_image_def)

lemma obs_transfers [simp]:
  "obs (upload_read pf digest now data i v) = obs v" "obs (upload_progress i v) = obs v"
  "obs (upload_error i code v) = obs v" "obs (upload_streamed pf now how i v) = obs v"
  "obs (upload_unread i code v) = obs v" "obs (upload_chunk i v) = obs v"
  "obs (upload_timeout i v) = obs v" "obs (sendFile random name m v) = obs v"
  "obs (handleDownloadChunk chunk v) = obs v" "obs (requestFileList pf now v) = obs v"
  "obs (downloadFile pf now random name v) = obs v" "obs (clearFileTransfer v) = obs v"
  "obs (clearFileDownload v) = obs v" "obs (dismissClipboardEntry k v) = obs v"
  "obs (dismissClipboardImageEntry k v) = obs v"
proof -
  note send = obs_sends [THEN trans] and snd = obs_sends(1) [OF surjective_pairing, THEN trans]
  show "obs (upload_read pf digest now data i v) = obs v" "obs (upload_streamed pf now how i v) = obs v"
    "obs (upload_error i code v) = obs v" "obs (upload_unread i code v) = obs v"
    by (simp_all add: upload_read_def upload_streamed_def upload_error_def upload_unread_def send Let_def
        split: prod.split bool.split stream_end.split)
  show "obs (requestFileList pf now v) = obs v" "obs (downloadFile pf now random name v) = obs v"
    by (simp_all add: requestFileList_def downloadFile_def snd Let_def)
  show progress: "obs (upload_progress i v) = obs v" for v
    by (simp add: upload_progress_def Let_def)
  show "obs (upload_chunk i v) = obs v"
    by (simp add: upload_chunk_def progress Let_def)
  show "obs (upload_timeout i v) = obs v"
    "obs (sendFile random name m v) = obs v" "obs (handleDownloadChunk chunk v) = obs v"
    "obs (clearFileTransfer v) = obs v" "obs (clearFileDownload v) = obs v"
    "obs (dismissClipboardEntry k v) = obs v" "obs (dismissClipboardImageEntry k v) = obs v"
    by (simp_all add: upload_timeout_def sendFile_def handleDownloadChunk_def
        clearFileTransfer_def clearFileDownload_def dismissClipboardEntry_def
        dismissClipboardImageEntry_def Let_def split: option.split)
qed

lemma obs_images [simp]:
  "obs (handleImageClipboardChunk chunk v) = obs v" "obs (image_verified digest now k v) = obs v"
  "obs (image_streamed pf now i how v) = obs v" "obs (image_timeout i v) = obs v"
  "obs (image_chunk i ch offset v) = obs v"
proof -
  note send = obs_sends [THEN trans]
  show "obs (handleImageClipboardChunk chunk v) = obs v" "obs (image_verified digest now k v) = obs v"
    "obs (image_timeout i v) = obs v"
    by (simp_all add: handleImageClipboardChunk_def image_verified_def image_timeout_def Let_def split: option.split)
  show "obs (image_chunk i ch offset v) = obs v" by (simp add: image_chunk_def)
  show "obs (image_streamed pf now i how v) = obs v"
    by (simp add: image_streamed_def send Let_def split: prod.split bool.split stream_end.split)
qed

lemma obs_image_prepared [simp]: "obs (image_prepared pf digest now data random v) = obs v"
proof -
  note send = obs_sends [THEN trans]
  have "obs (v\<lparr>imageUploads := imageUploads v @ [u], clipboardImageUpload := k\<rparr>) = obs v"
    if "iu_outcome u = ImagePending" for u k
    by (rule trans [OF depends adding [OF that, of v]]) simp_all
  then show ?thesis
    by (simp add: image_prepared_def send Let_def split: prod.split bool.split)
qed

lemma obs_upload_event [simp]: "obs (upload_event m v) = obs v"
  by (simp add: upload_event_def upload_accepted_def upload_done_def split: option.split)

lemma obs_channels [simp]:
  "\<forall>text. data \<noteq> TextData text \<Longrightarrow> obs (image_channel_message pf i data v) = obs v"
  "obs (image_channel_opened i v) = obs v" "obs (image_channel_closed i v) = obs v"
  "obs (file_channel_opened i v) = obs v" "obs (file_channel_closed i v) = obs v"
  by (simp_all add: image_channel_message_def image_channel_opened_def image_channel_closed_def
      file_channel_opened_def file_channel_closed_def Let_def split: option.split channel_data.split)

lemma obs_set [simp]:
  "obs (set_control i r v) = obs v" "obs (set_image i r v) = obs v" "obs (set_file i r v) = obs v"
  "obs (set_peer i st v) = obs v" "obs (set_socket i r v) = obs v"
  by (simp_all add: set_control_def set_image_def set_file_def set_peer_def set_socket_def)

text \<open>Updates of a step's result rather than of its state.\<close>

lemma obs_fields [simp]:
  "obs (v\<lparr>pingTimer := x1\<rparr>) = obs v" "obs (v\<lparr>previousVideoStats := x2\<rparr>) = obs v"
  "obs (v\<lparr>videoProfileTimer := x3\<rparr>) = obs v"
  "obs (v\<lparr>grantedControlRef := x4, controlGranted := x5\<rparr>) = obs v"
  by simp_all

lemma obs_heartbeat [simp]:
  "obs (sendPing pf now i cycle c v) = obs v" "obs (startControlPing pf now i cycle v) = obs v"
  "obs (control_opened pf now i v) = obs v" "obs (control_closed i v) = obs v"
proof -
  note send = obs_send_control [THEN trans]
  show ping: "obs (sendPing pf now i cycle c v) = obs v" for i cycle c v
    by (simp add: sendPing_def Let_def send split: option.split)
  show start: "obs (startControlPing pf now i cycle v) = obs v" for i cycle v
    using ping [THEN trans] by (simp add: startControlPing_def split: option.split)
  show "obs (control_opened pf now i v) = obs v"
    using start [THEN trans] by (simp add: control_opened_def Let_def)
  show "obs (control_closed i v) = obs v"
    by (simp add: control_closed_def Let_def)
qed

lemma obs_peer_events [simp]:
  "obs (control_message pf now i text v) = obs v" "obs (peer_state_changed i v) = obs v"
  "obs (track_arrived i v) = obs v" "obs (offer_ready i sdp v) = obs v"
  "obs (changeVideoProfile profile v) = obs v"
proof -
  show "obs (control_message pf now i text v) = obs v"
    by (simp add: control_message_def Let_def split: option.split)
  show "obs (peer_state_changed i v) = obs v"
    by (simp add: peer_state_changed_def Let_def split: peer_state.split)
  show "obs (track_arrived i v) = obs v"
    by (simp add: track_arrived_def startVideoStats_def stopVideoStats_def Let_def)
  have sent: "obs w = obs v" if "sendSignaling ty sid d u = (r, w)" "obs u = obs v" for ty sid d r u w
    using obs_send [of ty sid d u] that by simp
  show "obs (offer_ready i sdp v) = obs v"
    by (simp add: offer_ready_def Let_def sent split: option.split prod.split sum.split)
  have "obs (snd (sendSignaling ty sid d u)) = obs v" if "obs u = obs v" for ty sid d u
    using that by simp
  then show "obs (changeVideoProfile profile v) = obs v"
    by (simp add: changeVideoProfile_def Let_def split: option.split)
qed

lemma obs_stats [simp]: "obs (sampleVideoStats pf now i cycle inbound ice v) = obs v"
proof -
  note send = obs_send_control [THEN trans]
  have report: "obs (sendReceiverReport pf now ch tel rt u) = obs u" for ch tel rt u
    by (simp add: sendReceiverReport_def Let_def send split: option.split)
  have "obs (finishVideoProfileStabilizingIfDecoded tel u) = obs u" for tel u
    by (simp add: finishVideoProfileStabilizingIfDecoded_def split: option.split)
  then show ?thesis
    by (simp add: sampleVideoStats_def Let_def report split: option.split)
qed

lemma obs_socket_events [simp]:
  "obs (socket_error i v) = obs v" "obs (socket_closed i v) = obs v" "obs (socket_opened i v) = obs v"
proof -
  show "obs (socket_error i v) = obs v" by (simp add: socket_error_def Let_def)
  show "obs (socket_closed i v) = obs v" by (simp add: socket_closed_def Let_def)
  have send: "obs w = obs u" if "sendSignaling ty sid d u = (r, w)" for ty sid d u r w
    using obs_send that by (metis snd_conv)
  show "obs (socket_opened i v) = obs v"
    by (auto simp: socket_opened_def Let_def obs_moveTo dest!: send obs_moveTo
        split: sum.split prod.split if_splits)
qed

lemma obs_signaling [simp]: "obs (snd (handleSignalingMessage pf now m cycle rc v)) = obs v"
proof -
  have create: "obs (snd (createPeerConnection pf cycle u)) = obs u" for u
    by (simp add: createPeerConnection_def Let_def split: option.split)
  note moved = create [THEN trans, OF obs_moveTo [THEN trans]]
  have "obs (snd (session_accepted pf m cycle rc v)) = obs v"
    by (simp add: session_accepted_def Let_def moved cancelSignalingRecovery_def
        split: option.split sum.split)
  moreover have "obs (session_policy pf now m v) = obs v"
    by (simp add: session_policy_def Let_def releaseRemoteInput_def)
  moreover have "obs (server_issue m cycle v) = obs v" "obs (session_configured m v) = obs v"
    by (simp_all add: server_issue_def session_configured_def clearVideoProfileStabilizing_def
        clearVideoProfileTimer_def Let_def split: option.split)
  ultimately show ?thesis by (simp add: handleSignalingMessage_def Let_def)
qed

lemma obs_socket_message [simp]: "obs (socket_message pf now i text v) = obs v"
proof -
  have "obs (case handleSignalingMessage pf now m cycle rc u of
      (False, v2) \<Rightarrow> v2 | (True, v2) \<Rightarrow> cycle_failed code c v2) = obs u" for m cycle rc code c u
    using obs_signaling [of pf now m cycle rc u]
    by (cases "handleSignalingMessage pf now m cycle rc u") (simp split: bool.split)
  then show ?thesis by (simp add: socket_message_def Let_def split: option.split)
qed

text \<open>Every step but the ones that answer a transfer.\<close>

lemma obs_step:
  assumes "viewer_step pf digest now e v = Some w" "\<not> answers_transfer e"
  shows "obs w = obs v"
proof (cases e)
  case (ImageData i data)
  then show ?thesis using assms by (cases data) (auto simp: occurs_def split: if_splits)
qed (use assms in \<open>auto simp: occurs_def profile_timeout_def stabilize_timeout_def split: if_splits\<close>)

end

end
