(* ===== verification/RemoteDownloads.thy ===== *)
theory RemoteDownloads
  imports RemoteObservers
begin

text \<open>
  What a download saves. The chunks that arrive are kept in order; a download whose announced
  end comes early or late, or whose digest differs, saves nothing; and no step of the hook but
  the end of a verified download adds to the saved files.
\<close>

definition kept :: "viewer \<Rightarrow> (jstring \<times> byte list) list \<times> (file_download \<times> jstring) list" where
  "kept v = (savedFiles v, verifyingDownloads v)"

lemma kept_same [simp]:
  "savedFiles w = savedFiles v \<Longrightarrow> verifyingDownloads w = verifyingDownloads v \<Longrightarrow> (kept w = kept v) \<longleftrightarrow> True"
  by (simp add: kept_def)

lemma keptD: "kept w = kept v \<Longrightarrow> savedFiles w = savedFiles v \<and> verifyingDownloads w = verifyingDownloads v"
  by (simp add: kept_def)

section \<open>One download\<close>

definition receive_chunks :: "byte list list \<Rightarrow> viewer \<Rightarrow> viewer" where
  "receive_chunks = fold handleDownloadChunk"

lemma chunk_received:
  assumes "fileDownload v = Some d"
  shows "\<exists>d'. fileDownload (handleDownloadChunk c v) = Some d' \<and> fd_chunks d' = fd_chunks d @ [c]
      \<and> fd_name d' = fd_name d \<and> fd_size d' = fd_size d \<and> fd_transferId d' = fd_transferId d
      \<and> fd_received d' = fd_received d + length c"
    "kept (handleDownloadChunk c v) = kept v"
  using assms by (auto simp: handleDownloadChunk_def show_download_def Let_def)

lemma chunks_received:
  assumes "fileDownload v = Some d"
  shows "\<exists>d'. fileDownload (receive_chunks cs v) = Some d' \<and> fd_chunks d' = fd_chunks d @ cs
      \<and> fd_name d' = fd_name d \<and> fd_size d' = fd_size d \<and> fd_transferId d' = fd_transferId d
      \<and> fd_received d' = fd_received d + sum_list (map length cs)
      \<and> kept (receive_chunks cs v) = kept v"
  using assms
proof (induction cs arbitrary: v d)
  case Nil
  then show ?case by (simp add: receive_chunks_def)
next
  case (Cons c cs)
  obtain d1 where d1: "fileDownload (handleDownloadChunk c v) = Some d1" "fd_chunks d1 = fd_chunks d @ [c]"
      "fd_name d1 = fd_name d" "fd_size d1 = fd_size d" "fd_transferId d1 = fd_transferId d"
      "fd_received d1 = fd_received d + length c"
    using chunk_received(1) [OF Cons.prems] by blast
  show ?case
    using Cons.IH [OF d1(1)] d1 chunk_received(2) [OF Cons.prems, of c] by (auto simp: receive_chunks_def)
qed

lemma show_download_kept [simp]:
  "savedFiles (show_download code name q st v) = savedFiles v"
  "verifyingDownloads (show_download code name q st v) = verifyingDownloads v"
  "fileDownload (show_download code name q st v) = fileDownload v"
  "fileDownloadState (show_download code name q st v) =
     Some \<lparr>ds_errorCode = code, ds_fileName = name, ds_progress = q, ds_status = st\<rparr>"
  by (simp_all add: show_download_def)

definition whole_download :: "file_download \<times> jstring \<Rightarrow> bool" where
  "whole_download d \<longleftrightarrow> length (concat (fd_chunks (fst d))) = fd_size (fst d)"

lemma finishDownload_short:
  assumes "length (concat (fd_chunks d)) \<noteq> fd_size d"
  shows "kept (finishDownload d sha v) = kept v" "fileDownload (finishDownload d sha v) = None"
    "fileDownloadState (finishDownload d sha v) = Some \<lparr>ds_errorCode = Some (lit ''SIZE_MISMATCH''),
       ds_fileName = fd_name d, ds_progress = 0, ds_status = DownloadError\<rparr>"
  using assms by (simp_all add: finishDownload_def Let_def length_concat)

lemma finishDownload_whole:
  assumes "length (concat (fd_chunks d)) = fd_size d"
  shows "savedFiles (finishDownload d sha v) = savedFiles v"
    "verifyingDownloads (finishDownload d sha v) = verifyingDownloads v @ [(d, sha)]"
    "fileDownload (finishDownload d sha v) = None"
  using assms by (simp_all add: finishDownload_def Let_def length_concat)

lemma verified_saves:
  assumes "verifyingDownloads v ! k = (d, sha)" "sha256Hex digest (concat (fd_chunks d)) = sha"
  shows "savedFiles (download_verified digest k v) = savedFiles v @ [(fd_name d, concat (fd_chunks d))]"
    "fileDownloadState (download_verified digest k v) = Some \<lparr>ds_errorCode = None,
       ds_fileName = fd_name d, ds_progress = 1, ds_status = DownloadDone\<rparr>"
  using assms
  by (simp_all add: download_verified_def Let_def triggerBrowserDownload_def)

lemma mismatch_saves_nothing:
  assumes "verifyingDownloads v ! k = (d, sha)" "sha256Hex digest (concat (fd_chunks d)) \<noteq> sha"
  shows "savedFiles (download_verified digest k v) = savedFiles v"
    "fileDownloadState (download_verified digest k v) = Some \<lparr>ds_errorCode = Some (lit ''DIGEST_MISMATCH''),
       ds_fileName = fd_name d, ds_progress = 0, ds_status = DownloadError\<rparr>"
  using assms by (simp_all add: download_verified_def Let_def)

lemma verified_rest:
  "verifyingDownloads (download_verified digest k v) =
     take k (verifyingDownloads v) @ drop (Suc k) (verifyingDownloads v)"
  by (simp add: download_verified_def Let_def triggerBrowserDownload_def show_download_def split: prod.split)

text \<open>The whole of a download: the offer's size, the chunks, the end, the digest.\<close>

definition download_end ::
  "(byte list \<Rightarrow> byte list) \<Rightarrow> jstring \<Rightarrow> byte list list \<Rightarrow> viewer \<Rightarrow> viewer" where
  "download_end digest sha cs v =
     (let v1 = receive_chunks cs v;
          v2 = (case fileDownload v1 of Some d \<Rightarrow> finishDownload d sha v1 | None \<Rightarrow> v1)
      in if length (verifyingDownloads v2) = length (verifyingDownloads v) then v2
         else download_verified digest (length (verifyingDownloads v)) v2)"

lemma download_end_cases:
  fixes v :: viewer and digest :: "byte list \<Rightarrow> byte list" and sha :: jstring
    and cs :: "byte list list"
  assumes "fileDownload v = Some d" "fd_chunks d = []"
  defines "w \<equiv> download_end digest sha cs v"
  shows "fd_size d = length (concat cs) \<Longrightarrow> sha256Hex digest (concat cs) = sha \<Longrightarrow>
      savedFiles w = savedFiles v @ [(fd_name d, concat cs)]
      \<and> map_option ds_status (fileDownloadState w) = Some DownloadDone"
    "fd_size d \<noteq> length (concat cs) \<or> sha256Hex digest (concat cs) \<noteq> sha \<Longrightarrow>
      savedFiles w = savedFiles v \<and> map_option ds_status (fileDownloadState w) = Some DownloadError"
    "verifyingDownloads w = verifyingDownloads v"
proof -
  define v1 where "v1 = receive_chunks cs v"
  obtain d' where d': "fileDownload v1 = Some d'" "fd_chunks d' = cs" "fd_name d' = fd_name d"
      "fd_size d' = fd_size d" "savedFiles v1 = savedFiles v" "verifyingDownloads v1 = verifyingDownloads v"
    using chunks_received [OF assms(1), of cs] assms(2) by (auto simp: v1_def dest: keptD)
  define v2 where "v2 = finishDownload d' sha v1"
  have w: "w = (if length (verifyingDownloads v2) = length (verifyingDownloads v) then v2
      else download_verified digest (length (verifyingDownloads v)) v2)"
    unfolding w_def download_end_def Let_def v1_def [symmetric] by (simp add: d'(1) v2_def)
  have short: "w = v2" "savedFiles v2 = savedFiles v" "verifyingDownloads v2 = verifyingDownloads v" "map_option ds_status (fileDownloadState v2) = Some DownloadError"
    if "fd_size d \<noteq> length (concat cs)"
    using that d' finishDownload_short [of d' sha v1] by (auto simp: w v2_def dest: keptD)
  have whole: "w = download_verified digest (length (verifyingDownloads v)) v2" "savedFiles v2 = savedFiles v"
      "verifyingDownloads v2 = verifyingDownloads v @ [(d', sha)]" if "fd_size d = length (concat cs)"
    using that d' finishDownload_whole [of d' sha v1] by (simp_all add: w v2_def)
  have nth: "verifyingDownloads v2 ! length (verifyingDownloads v) = (d', sha)" if "fd_size d = length (concat cs)"
    using whole(3) [OF that] by simp
  show "savedFiles w = savedFiles v @ [(fd_name d, concat cs)]
      \<and> map_option ds_status (fileDownloadState w) = Some DownloadDone"
    if "fd_size d = length (concat cs)" "sha256Hex digest (concat cs) = sha"
    using whole [OF that(1)] verified_saves [OF nth, OF that(1), of digest] that(2) d' by simp
  show "savedFiles w = savedFiles v \<and> map_option ds_status (fileDownloadState w) = Some DownloadError"
    if "fd_size d \<noteq> length (concat cs) \<or> sha256Hex digest (concat cs) \<noteq> sha"
  proof (cases "fd_size d = length (concat cs)")
    case True
    then show ?thesis
      using whole [OF True] mismatch_saves_nothing [OF nth, OF True, of digest] that d' by simp
  next
    case False
    then show ?thesis using short by simp
  qed
  show "verifyingDownloads w = verifyingDownloads v"
    using short whole by (cases "fd_size d = length (concat cs)") (simp_all add: verified_rest)
qed

section \<open>The steps that save\<close>

interpretation saved: viewer_observer kept
  by unfold_locales (simp_all add: settle_image_def)

text \<open>A download ends: it is set to be verified if it is whole.\<close>

lemma finishDownload_awaits:
  "savedFiles (finishDownload d sha v) = savedFiles v
   \<and> (\<exists>ds. verifyingDownloads (finishDownload d sha v) = verifyingDownloads v @ ds \<and> list_all whole_download ds)"
proof (cases "length (concat (fd_chunks d)) = fd_size d")
  case True
  then show ?thesis
    using finishDownload_whole [OF True] by (intro conjI exI [of _ "[(d, sha)]"]) (simp_all add: whole_download_def)
next
  case False
  then show ?thesis using keptD [OF finishDownload_short(1) [OF False]] by (intro conjI exI [of _ "[]"]) simp_all
qed

definition awaits_whole :: "viewer \<Rightarrow> viewer \<Rightarrow> bool" where
  "awaits_whole v w \<longleftrightarrow> savedFiles w = savedFiles v
     \<and> (\<exists>ds. verifyingDownloads w = verifyingDownloads v @ ds \<and> list_all whole_download ds)"

lemma awaits_kept: "kept w = kept v \<Longrightarrow> awaits_whole v w"
  by (auto simp: awaits_whole_def dest: keptD intro!: exI [of _ "[]"])

lemma file_message_awaits: "awaits_whole v (file_channel_message pf i data v)"
proof -
  have event: "awaits_whole v (download_event m d v)" for m d
    using finishDownload_awaits [of d "text_data m ''sha256''" v]
    by (simp add: download_event_def awaits_kept) (simp add: awaits_whole_def)
  have "awaits_whole v (handleFileMessage m v)" for m
    by (simp add: handleFileMessage_def event awaits_kept split: option.split)
  then show ?thesis
    by (simp add: file_channel_message_def awaits_kept split: option.split channel_data.split)
qed

definition save_step :: "(byte list \<Rightarrow> byte list) \<Rightarrow> viewer \<Rightarrow> viewer \<Rightarrow> bool" where
  "save_step digest v w \<longleftrightarrow> awaits_whole v w
     \<or> (\<exists>k < length (verifyingDownloads v). w = download_verified digest k v)"

lemma image_text_kept: "kept (image_channel_message pf i data v) = kept v"
proof -
  have "kept (handleImageClipboardMessage m v) = kept v" for m
    by (simp add: handleImageClipboardMessage_def finishIncomingClipboardImage_def settle_image_def
        Let_def split: option.split)
  then show ?thesis by (cases data) (simp_all add: image_channel_message_def split: option.split)
qed

lemma viewer_step_saves:
  assumes "viewer_step pf digest now e v = Some w" shows "save_step digest v w"
proof (cases "answers_transfer e")
  case False
  then show ?thesis using saved.obs_step [OF assms] awaits_kept by (auto simp: save_step_def)
next
  case answers: True
  show ?thesis
  proof (cases e)
    case (FileData i data)
    then show ?thesis using assms file_message_awaits by (auto simp: occurs_def save_step_def split: if_splits)
  next
    case (DownloadVerified k)
    then show ?thesis using assms by (auto simp: occurs_def save_step_def split: if_splits)
  next
    case (ImageData i data)
    then show ?thesis
      using assms awaits_kept [OF image_text_kept] by (auto simp: occurs_def save_step_def split: if_splits)
  qed (use answers in simp_all)
qed

text \<open>So in every reachable state what is being verified is whole.\<close>

lemma reachable_whole:
  assumes "reachable_viewer pf digest v" shows "list_all whole_download (verifyingDownloads v)"
proof -
  obtain production c es where run: "viewer_run pf digest es (new_viewer production c) = Some v"
    using assms by (auto simp: reachable_viewer_def)
  show ?thesis
  proof (rule run_invariant [where P = "\<lambda>v. list_all whole_download (verifyingDownloads v)", OF run])
    show "list_all whole_download (verifyingDownloads (new_viewer production c))" by (simp add: new_viewer_def)
    fix now e a b
    assume inv: "list_all whole_download (verifyingDownloads a)" and step: "viewer_step pf digest now e a = Some b"
    show "list_all whole_download (verifyingDownloads b)"
      using viewer_step_saves [OF step] inv
      by (auto simp: save_step_def awaits_whole_def verified_rest list_all_iff
          dest!: in_set_takeD in_set_dropD)
  qed
qed

lemma step_saves_whole:
  assumes "reachable_viewer pf digest v" "viewer_step pf digest now e v = Some w"
  shows "savedFiles w = savedFiles v
    \<or> (\<exists>d sha. (d, sha) \<in> set (verifyingDownloads v)
        \<and> savedFiles w = savedFiles v @ [(fd_name d, concat (fd_chunks d))]
        \<and> length (concat (fd_chunks d)) = fd_size d \<and> sha256Hex digest (concat (fd_chunks d)) = sha)"
proof -
  consider "awaits_whole v w" | k where "k < length (verifyingDownloads v)" "w = download_verified digest k v"
    using viewer_step_saves [OF assms(2)] by (auto simp: save_step_def)
  then show ?thesis
  proof cases
    case 1
    then show ?thesis by (simp add: awaits_whole_def)
  next
    case (2 k)
    obtain d sha where d: "verifyingDownloads v ! k = (d, sha)" by force
    have mem: "(d, sha) \<in> set (verifyingDownloads v)" using nth_mem [OF 2(1)] d by simp
    then have "length (concat (fd_chunks d)) = fd_size d"
      using reachable_whole [OF assms(1)] by (auto simp: list_all_iff whole_download_def)
    then show ?thesis
      using mem verified_saves(1) [OF d] mismatch_saves_nothing(1) [OF d]
      by (cases "sha256Hex digest (concat (fd_chunks d)) = sha") (auto simp: 2(2))
  qed
qed

end
