(* ===== verification/DeviceToken.thy ===== *)
theory DeviceToken
  imports Tickets
begin

text \<open>
  The home PC's device token (\<open>apps/signaling/src/deviceToken.ts\<close>), the third of the signed
  tokens: its own issuer, the role \<open>agent\<close>, a lifetime of at most 400 days.
\<close>

definition DEVICE_TOKEN_ISSUER :: string where
  "DEVICE_TOKEN_ISSUER = ''my-mirror-device-v1''"

definition MAX_DEVICE_TOKEN_LIFETIME_SECONDS :: int where
  "MAX_DEVICE_TOKEN_LIFETIME_SECONDS = 400 * 24 * 60 * 60"

definition DEFAULT_DEVICE_TOKEN_LIFETIME_SECONDS :: int where
  "DEFAULT_DEVICE_TOKEN_LIFETIME_SECONDS = 90 * 24 * 60 * 60"

definition isDeviceTokenPayload :: "json \<Rightarrow> bool" where
  "isDeviceTokenPayload v \<longleftrightarrow>
     has_exactly [''deviceId'', ''exp'', ''iat'', ''iss'', ''nonce'', ''role'', ''sessionId'', ''sub''] v
     \<and> string_prop v ''deviceId'' opaque_id
     \<and> integer_prop v ''exp''
     \<and> integer_prop v ''iat''
     \<and> jget v ''iss'' = Some (JStr (lit DEVICE_TOKEN_ISSUER))
     \<and> string_prop v ''nonce'' opaque_id
     \<and> jget v ''role'' = Some (JStr (lit ''agent''))
     \<and> string_prop v ''sessionId'' opaque_id
     \<and> string_prop v ''sub'' subject_ok"

record device_options =
  do_deviceId :: jstring
  do_lifetimeSeconds :: "int option"
  do_nonce :: jstring
  do_nowSeconds :: "int option"
  do_secret :: jstring
  do_sessionId :: jstring
  do_sub :: jstring

definition devicePayload :: "device_options \<Rightarrow> int \<Rightarrow> int \<Rightarrow> (jstring \<times> json) list" where
  "devicePayload options now lifetime =
     [(lit ''deviceId'', JStr (do_deviceId options)),
      (lit ''exp'', JNum (of_int (now + lifetime))),
      (lit ''iat'', JNum (of_int now)),
      (lit ''iss'', JStr (lit DEVICE_TOKEN_ISSUER)),
      (lit ''nonce'', JStr (do_nonce options)),
      (lit ''role'', JStr (lit ''agent'')),
      (lit ''sessionId'', JStr (do_sessionId options)),
      (lit ''sub'', JStr (do_sub options))]"

definition createDeviceToken :: "mac \<Rightarrow> int \<Rightarrow> device_options \<Rightarrow> token_error + jstring" where
  "createDeviceToken mac dateNow options =
     (let nowSeconds = now_seconds (do_nowSeconds options) dateNow;
          lifetimeSeconds = (case do_lifetimeSeconds options of
            Some l \<Rightarrow> l | None \<Rightarrow> DEFAULT_DEVICE_TOKEN_LIFETIME_SECONDS)
      in if lifetimeSeconds < 1 \<or> lifetimeSeconds > MAX_DEVICE_TOKEN_LIFETIME_SECONDS
         then Inl LifetimeOutOfRange
         else if do_sub options = [] \<or> length (do_sub options) > 320 then Inl SubjectRequired
         else seal_token mac (do_secret options)
                (JObj (devicePayload options nowSeconds lifetimeSeconds)))"

definition verifyDeviceToken ::
  "mac \<Rightarrow> int \<Rightarrow> int option \<Rightarrow> jstring \<Rightarrow> jstring \<Rightarrow> json option" where
  "verifyDeviceToken mac dateNow nowSeconds secret token =
     (case open_token mac secret token of
        None \<Rightarrow> None
      | Some payload \<Rightarrow>
          if \<not> isDeviceTokenPayload payload then None
          else if \<not> time_valid MAX_DEVICE_TOKEN_LIFETIME_SECONDS
                     (now_seconds nowSeconds dateNow) payload
          then None else Some payload)"

interpretation device_token: ticket_kind isDeviceTokenPayload
    DEVICE_TOKEN_ISSUER MAX_DEVICE_TOKEN_LIFETIME_SECONDS
    "\<lambda>mac now. verifyDeviceToken mac 0 (Some now)"
  by unfold_locales
    (auto simp: verifyDeviceToken_def now_seconds_def isDeviceTokenPayload_def
      split: option.splits if_splits)

section \<open>Lemmas on device tokens\<close>

lemma created_device_token:
  assumes "createDeviceToken mac dateNow options = Inr t"
  obtains l where "1 \<le> l" "l \<le> MAX_DEVICE_TOKEN_LIFETIME_SECONDS" "subject_ok (do_sub options)"
    "l = (case do_lifetimeSeconds options of
            Some l \<Rightarrow> l | None \<Rightarrow> DEFAULT_DEVICE_TOKEN_LIFETIME_SECONDS)"
    "seal_token mac (do_secret options)
       (JObj (devicePayload options (now_seconds (do_nowSeconds options) dateNow) l)) = Inr t"
  using assms
  by (auto simp: createDeviceToken_def Let_def subject_ok_def split: if_splits option.splits)

lemma devicePayload_admitted:
  assumes "opaque_id (do_deviceId options)" "opaque_id (do_nonce options)"
    "opaque_id (do_sessionId options)" "subject_ok (do_sub options)"
  shows "isDeviceTokenPayload (JObj (devicePayload options now l))"
  using assms
  by (simp add: isDeviceTokenPayload_def payload_defs devicePayload_def)

lemma devicePayload_wf: "json_wf (JObj (devicePayload options now l))"
  by (simp add: devicePayload_def)

lemma devicePayload_times:
  "time_valid m clock (JObj (devicePayload options now l)) \<longleftrightarrow>
   now \<le> clock + 30 \<and> clock < now + l \<and> l \<le> m"
  by (auto simp: time_valid_def devicePayload_def)

lemma device_clock:
  "verifyDeviceToken mac d ns secret t =
   verifyDeviceToken mac 0 (Some (now_seconds ns d)) secret t"
  by (simp add: verifyDeviceToken_def split: option.split)

end
