(* ===== verification/Worker.thy ===== *)
theory Worker
  imports SessionRoom DeviceToken Http
begin

text \<open>
  The signaling Worker: routing (\<open>apps/signaling/src/index.ts\<close>), the development and the
  production upgrade (\<open>index.ts\<close>, \<open>productionWebSocket.ts\<close>) and TURN credentials
  (\<open>turnCredentials.ts\<close>). A device's room is the Durable Object of its name, so the
  namespace is a function from device ids to rooms. The TURN service is the parameter
  \<open>turn_api\<close>: the body of an answer with an OK status, \<open>None\<close> otherwise.
\<close>

record environment =
  BUILD_VERSION :: "jstring option"
  DEV_TICKET_SECRET :: "jstring option"
  SESSION_TICKET_SECRET :: "jstring option"
  DEVICE_AUTH_SECRET :: "jstring option"
  VIEWER_ORIGIN :: "jstring option"
  TURN_KEY_ID :: "jstring option"
  TURN_API_TOKEN :: "jstring option"

type_synonym rooms = "jstring \<Rightarrow> room"

datatype worker_reply =
    JsonReply json_response
  | RoomReply room_response
  | WorkerThrew

record room_context =
  rc_deviceId :: jstring
  rc_role :: role
  rc_sessionId :: jstring
  rc_subject :: jstring

definition LOCAL_HOSTNAMES :: "string list" where
  "LOCAL_HOSTNAMES = [''127.0.0.1'', ''localhost'', ''[::1]'']"

definition LOCAL_VIEWER_ORIGINS :: "string list" where
  "LOCAL_VIEWER_ORIGINS = [''http://127.0.0.1:5173'', ''http://localhost:5173'']"

definition isWebSocketUpgrade :: "http_request \<Rightarrow> bool" where
  "isWebSocketUpgrade request \<longleftrightarrow>
     map_option ascii_lower (hr_headers request ''upgrade'') = Some (lit ''websocket'')"

definition room_headers :: "room_context \<Rightarrow> headers \<Rightarrow> headers option" where
  "room_headers context hs =
     Option.bind (header_set ''x-mirror-device-id'' (rc_deviceId context) hs) (\<lambda>h1.
     Option.bind (header_set ''x-mirror-role'' (lit (role_text (rc_role context))) h1) (\<lambda>h2.
     Option.bind (header_set ''x-mirror-session-id'' (rc_sessionId context) h2) (\<lambda>h3.
     header_set ''x-mirror-subject'' (rc_subject context) h3)))"

definition forwardToRoom ::
  "runtime \<Rightarrow> rat \<Rightarrow> http_request \<Rightarrow> room_context \<Rightarrow> rooms \<Rightarrow> worker_reply \<times> rooms" where
  "forwardToRoom rt now request context rooms =
     (case room_headers context (hr_headers request) of
        None \<Rightarrow> (WorkerThrew, rooms)
      | Some hs \<Rightarrow>
          (case fetch rt now hs (rooms (rc_deviceId context)) of
             (Inl _, r) \<Rightarrow> (WorkerThrew, rooms(rc_deviceId context := r))
           | (Inr reply, r) \<Rightarrow> (RoomReply reply, rooms(rc_deviceId context := r))))"

definition text_field :: "json \<Rightarrow> string \<Rightarrow> jstring" where
  "text_field v k = string_of (jget v k)"

definition payload_context :: "role \<Rightarrow> json \<Rightarrow> room_context" where
  "payload_context role payload =
     \<lparr>rc_deviceId = text_field payload ''deviceId'', rc_role = role,
      rc_sessionId = text_field payload ''sessionId'', rc_subject = text_field payload ''sub''\<rparr>"

definition payload_role :: "json \<Rightarrow> role" where
  "payload_role payload = (if text_field payload ''role'' = lit ''viewer'' then Viewer else Agent)"

text \<open>
  \<open>now\<close> is \<open>Date.now()\<close> in milliseconds: the tickets are checked against it and the room
  stamps it.
\<close>

definition handleDevWebSocketUpgrade ::
  "runtime \<Rightarrow> mac \<Rightarrow> int \<Rightarrow> environment \<Rightarrow> http_request \<Rightarrow> rooms \<Rightarrow> worker_reply \<times> rooms" where
  "handleDevWebSocketUpgrade rt mac now environment request rooms =
     (case (DEV_TICKET_SECRET environment, search_param request ''ticket'') of
        (Some secret, Some ticket) \<Rightarrow>
          if secret = [] \<or> ticket = [] then (JsonReply (jsonError ''UNAUTHORIZED'' 401), rooms)
          else
            (case verifyDevelopmentTicket mac now None None secret ticket of
               None \<Rightarrow> (JsonReply (jsonError ''UNAUTHORIZED'' 401), rooms)
             | Some payload \<Rightarrow>
                 let origin = hr_headers request ''origin'' in
                 if payload_role payload = Viewer \<and>
                    (\<not> truthy origin \<or> the origin \<notin> lit ` set LOCAL_VIEWER_ORIGINS)
                 then (JsonReply (jsonError ''ORIGIN_REJECTED'' 403), rooms)
                 else if payload_role payload \<noteq> Viewer \<and> origin \<noteq> None
                 then (JsonReply (jsonError ''ORIGIN_REJECTED'' 403), rooms)
                 else forwardToRoom rt (of_int now) request
                        (payload_context (payload_role payload) payload) rooms)
      | _ \<Rightarrow> (JsonReply (jsonError ''UNAUTHORIZED'' 401), rooms))"

section \<open>The production upgrade\<close>

record production_config =
  pc_ticketSecret :: "jstring option"
  pc_deviceAuthSecret :: "jstring option"
  pc_viewerOrigin :: "jstring option"

definition handleViewerUpgrade ::
  "(room_context \<Rightarrow> rooms \<Rightarrow> worker_reply \<times> rooms) \<Rightarrow> mac \<Rightarrow> int \<Rightarrow> http_request \<Rightarrow>
   production_config \<Rightarrow> jstring \<Rightarrow> rooms \<Rightarrow> worker_reply \<times> rooms" where
  "handleViewerUpgrade forward mac now request config origin rooms =
     (if \<not> truthy (pc_ticketSecret config)
      then (JsonReply (jsonError ''PRODUCTION_AUTH_NOT_CONFIGURED'' 501), rooms)
      else if truthy (pc_viewerOrigin config) \<and> Some origin \<noteq> pc_viewerOrigin config
      then (JsonReply (jsonError ''ORIGIN_REJECTED'' 403), rooms)
      else if \<not> truthy (search_param request ''ticket'')
      then (JsonReply (jsonError ''UNAUTHORIZED'' 401), rooms)
      else
        (case verifySessionTicket mac now None (the (pc_ticketSecret config))
                (the (search_param request ''ticket'')) of
           None \<Rightarrow> (JsonReply (jsonError ''UNAUTHORIZED'' 401), rooms)
         | Some payload \<Rightarrow> forward (payload_context Viewer payload) rooms))"

definition handleAgentUpgrade ::
  "(room_context \<Rightarrow> rooms \<Rightarrow> worker_reply \<times> rooms) \<Rightarrow> mac \<Rightarrow> int \<Rightarrow> http_request \<Rightarrow>
   production_config \<Rightarrow> rooms \<Rightarrow> worker_reply \<times> rooms" where
  "handleAgentUpgrade forward mac now request config rooms =
     (if \<not> truthy (pc_deviceAuthSecret config)
      then (JsonReply (jsonError ''PRODUCTION_AUTH_NOT_CONFIGURED'' 501), rooms)
      else if \<not> truthy (search_param request ''ticket'')
      then (JsonReply (jsonError ''UNAUTHORIZED'' 401), rooms)
      else
        (case verifyDeviceToken mac now None (the (pc_deviceAuthSecret config))
                (the (search_param request ''ticket'')) of
           None \<Rightarrow> (JsonReply (jsonError ''UNAUTHORIZED'' 401), rooms)
         | Some payload \<Rightarrow> forward (payload_context Agent payload) rooms))"

definition handleProductionWebSocketUpgrade ::
  "(room_context \<Rightarrow> rooms \<Rightarrow> worker_reply \<times> rooms) \<Rightarrow> mac \<Rightarrow> int \<Rightarrow> http_request \<Rightarrow>
   production_config \<Rightarrow> rooms \<Rightarrow> worker_reply \<times> rooms" where
  "handleProductionWebSocketUpgrade forward mac now request config rooms =
     (case hr_headers request ''origin'' of
        None \<Rightarrow> handleAgentUpgrade forward mac now request config rooms
      | Some origin \<Rightarrow> handleViewerUpgrade forward mac now request config origin rooms)"

definition handleWebSocketUpgrade ::
  "runtime \<Rightarrow> mac \<Rightarrow> int \<Rightarrow> environment \<Rightarrow> http_request \<Rightarrow> rooms \<Rightarrow> worker_reply \<times> rooms" where
  "handleWebSocketUpgrade rt mac now environment request rooms =
     (if hr_hostname request \<in> lit ` set LOCAL_HOSTNAMES
      then handleDevWebSocketUpgrade rt mac now environment request rooms
      else handleProductionWebSocketUpgrade (forwardToRoom rt (of_int now) request) mac now request
             \<lparr>pc_ticketSecret = map_option js_trim (SESSION_TICKET_SECRET environment),
              pc_deviceAuthSecret = map_option js_trim (DEVICE_AUTH_SECRET environment),
              pc_viewerOrigin = map_option js_trim (VIEWER_ORIGIN environment)\<rparr> rooms)"

section \<open>TURN credentials\<close>

record turn_config =
  tc_keyId :: "jstring option"
  tc_apiToken :: "jstring option"
  tc_ticketSecret :: "jstring option"
  tc_deviceAuthSecret :: "jstring option"
  tc_viewerOrigin :: "jstring option"

type_synonym turn_api = "jstring \<Rightarrow> jstring \<Rightarrow> json option"

definition generateIceServers :: "turn_api \<Rightarrow> turn_config \<Rightarrow> json list option" where
  "generateIceServers api config =
     (if \<not> truthy (tc_keyId config) \<or> \<not> truthy (tc_apiToken config) then None
      else
        (case api (the (tc_keyId config)) (the (tc_apiToken config)) of
           None \<Rightarrow> None
         | Some data \<Rightarrow>
             (case jget data ''iceServers'' of
                Some servers \<Rightarrow> if json_truthy servers then Some [servers] else None
              | None \<Rightarrow> None)))"

definition isAuthenticatedPeer :: "mac \<Rightarrow> int \<Rightarrow> jstring \<Rightarrow> turn_config \<Rightarrow> bool" where
  "isAuthenticatedPeer mac now ticket config \<longleftrightarrow>
     (truthy (tc_ticketSecret config) \<and>
        verifySessionTicket mac now None (the (tc_ticketSecret config)) ticket \<noteq> None)
     \<or> (truthy (tc_deviceAuthSecret config) \<and>
        verifyDeviceToken mac now None (the (tc_deviceAuthSecret config)) ticket \<noteq> None)"

definition handleTurnRequest ::
  "turn_api \<Rightarrow> mac \<Rightarrow> int \<Rightarrow> http_request \<Rightarrow> turn_config \<Rightarrow> json_response" where
  "handleTurnRequest api mac now request config =
     (let hs = (''access-control-allow-origin'',
                (case tc_viewerOrigin config of Some origin \<Rightarrow> origin | None \<Rightarrow> lit ''*'')) # JSON_HEADERS;
          ticket = search_param request ''ticket''
      in if \<not> truthy ticket \<or> \<not> isAuthenticatedPeer mac now (the ticket) config
         then \<lparr>resp_status = 401, resp_body = JObj [(lit ''code'', JStr (lit ''UNAUTHORIZED''))],
               response_headers = hs\<rparr>
         else
           (let iceServers = (case generateIceServers api config of Some l \<Rightarrow> l | None \<Rightarrow> [])
            in \<lparr>resp_status = 200, resp_body = JObj [(lit ''iceServers'', JArr iceServers)],
                response_headers = hs\<rparr>))"

section \<open>Routing\<close>

definition worker_fetch ::
  "runtime \<Rightarrow> turn_api \<Rightarrow> mac \<Rightarrow> int \<Rightarrow> environment \<Rightarrow> http_request \<Rightarrow> rooms \<Rightarrow> worker_reply \<times> rooms" where
  "worker_fetch rt api mac now environment request rooms =
     (if hr_method request = lit ''GET'' \<and> hr_pathname request = lit ''/health'' then
        (JsonReply \<lparr>resp_status = 200,
           resp_body = JObj
             [(lit ''service'', JStr (lit ''my-mirror-signaling'')), (lit ''status'', JStr (lit ''ok'')),
              (lit ''version'', JStr (case BUILD_VERSION environment of
                 Some v \<Rightarrow> v | None \<Rightarrow> lit ''development''))],
           response_headers = JSON_HEADERS\<rparr>, rooms)
      else if hr_method request = lit ''GET'' \<and> hr_pathname request = lit ''/turn'' then
        (JsonReply (handleTurnRequest api mac now request
           \<lparr>tc_keyId = map_option js_trim (TURN_KEY_ID environment),
            tc_apiToken = map_option js_trim (TURN_API_TOKEN environment),
            tc_ticketSecret = map_option js_trim (SESSION_TICKET_SECRET environment),
            tc_deviceAuthSecret = map_option js_trim (DEVICE_AUTH_SECRET environment),
            tc_viewerOrigin = map_option js_trim (VIEWER_ORIGIN environment)\<rparr>), rooms)
      else if hr_method request = lit ''GET'' \<and> hr_pathname request = lit ''/ws'' \<and>
              isWebSocketUpgrade request
      then handleWebSocketUpgrade rt mac now environment request rooms
      else (JsonReply (jsonError ''NOT_FOUND'' 404), rooms))"

section \<open>Who gets to a room\<close>

text \<open>Only the room of the context's device changes when a request is forwarded.\<close>

lemma forward_other_room:
  "d \<noteq> rc_deviceId context \<Longrightarrow> snd (forwardToRoom rt now request context rooms) d = rooms d"
  by (simp add: forwardToRoom_def split: option.split prod.split sum.split)

lemma room_headers_attachment:
  assumes "room_headers context hs = Some hs'" "readAttachmentHeaders now hs' = Some a"
  shows "at_role a = rc_role context \<and> header_value (rc_deviceId context) = Some (at_deviceId a)
    \<and> header_value (rc_sessionId context) = Some (at_sessionId a)
    \<and> header_value (rc_subject context) = Some (at_subject a)"
  using assms
  by (cases "rc_role context")
    (auto simp: room_headers_def header_set_def readAttachmentHeaders_def bind_eq_Some_conv
      split: option.splits if_splits)

text \<open>What authorises a request to touch the room of device \<open>d\<close> on a production host.\<close>

definition authorised_viewer ::
  "mac \<Rightarrow> int \<Rightarrow> environment \<Rightarrow> http_request \<Rightarrow> jstring \<Rightarrow> json \<Rightarrow> bool" where
  "authorised_viewer mac now environment request d payload \<longleftrightarrow>
     (\<exists>secret ticket origin. SESSION_TICKET_SECRET environment = Some secret
       \<and> search_param request ''ticket'' = Some ticket
       \<and> hr_headers request ''origin'' = Some origin
       \<and> (truthy (map_option js_trim (VIEWER_ORIGIN environment)) \<longrightarrow>
            map_option js_trim (VIEWER_ORIGIN environment) = Some origin)
       \<and> verifySessionTicket mac now None (js_trim secret) ticket = Some payload
       \<and> text_field payload ''deviceId'' = d)"

definition authorised_agent ::
  "mac \<Rightarrow> int \<Rightarrow> environment \<Rightarrow> http_request \<Rightarrow> jstring \<Rightarrow> json \<Rightarrow> bool" where
  "authorised_agent mac now environment request d payload \<longleftrightarrow>
     (\<exists>secret token. DEVICE_AUTH_SECRET environment = Some secret
       \<and> search_param request ''ticket'' = Some token
       \<and> hr_headers request ''origin'' = None
       \<and> verifyDeviceToken mac now None (js_trim secret) token = Some payload
       \<and> text_field payload ''deviceId'' = d)"

lemma viewer_upgrade_cases:
  "snd (handleViewerUpgrade forward mac now request config origin rooms) = rooms \<or>
   (\<exists>secret ticket payload. pc_ticketSecret config = Some secret
     \<and> search_param request ''ticket'' = Some ticket
     \<and> (truthy (pc_viewerOrigin config) \<longrightarrow> pc_viewerOrigin config = Some origin)
     \<and> verifySessionTicket mac now None secret ticket = Some payload
     \<and> handleViewerUpgrade forward mac now request config origin rooms
       = forward (payload_context Viewer payload) rooms)"
  by (cases "pc_ticketSecret config"; cases "search_param request ''ticket''")
    (simp_all add: handleViewerUpgrade_def split: option.split)

lemma agent_upgrade_cases:
  "snd (handleAgentUpgrade forward mac now request config rooms) = rooms \<or>
   (\<exists>secret token payload. pc_deviceAuthSecret config = Some secret
     \<and> search_param request ''ticket'' = Some token
     \<and> verifyDeviceToken mac now None secret token = Some payload
     \<and> handleAgentUpgrade forward mac now request config rooms
       = forward (payload_context Agent payload) rooms)"
  by (cases "pc_deviceAuthSecret config"; cases "search_param request ''ticket''")
    (simp_all add: handleAgentUpgrade_def split: option.split)

lemma forwarded_device:
  "snd (forwardToRoom rt now request (payload_context role payload) rooms) d \<noteq> rooms d \<Longrightarrow>
   text_field payload ''deviceId'' = d"
  using forward_other_room [of d "payload_context role payload"] by (auto simp: payload_context_def)

lemma production_upgrade_authorised:
  assumes local: "hr_hostname request \<notin> lit ` set LOCAL_HOSTNAMES"
    and change: "snd (handleWebSocketUpgrade rt mac now environment request rooms) d \<noteq> rooms d"
  shows "\<exists>payload role.
    (role = Viewer \<and> authorised_viewer mac now environment request d payload
     \<or> role = Agent \<and> authorised_agent mac now environment request d payload)
    \<and> handleWebSocketUpgrade rt mac now environment request rooms
      = forwardToRoom rt (of_int now) request (payload_context role payload) rooms"
proof -
  let ?forward = "forwardToRoom rt (of_int now) request"
  let ?config = "\<lparr>pc_ticketSecret = map_option js_trim (SESSION_TICKET_SECRET environment),
    pc_deviceAuthSecret = map_option js_trim (DEVICE_AUTH_SECRET environment),
    pc_viewerOrigin = map_option js_trim (VIEWER_ORIGIN environment)\<rparr>"
  have h: "handleWebSocketUpgrade rt mac now environment request rooms
      = handleProductionWebSocketUpgrade ?forward mac now request ?config rooms"
    using local by (simp add: handleWebSocketUpgrade_def)
  show ?thesis
  proof (cases "hr_headers request ''origin''")
    case None
    then have h': "handleWebSocketUpgrade rt mac now environment request rooms
        = handleAgentUpgrade ?forward mac now request ?config rooms"
      by (simp add: h handleProductionWebSocketUpgrade_def)
    have ne: "snd (handleAgentUpgrade ?forward mac now request ?config rooms) \<noteq> rooms"
      using change h' by auto
    obtain secret' token payload where c: "pc_deviceAuthSecret ?config = Some secret'"
      "search_param request ''ticket'' = Some token"
      "verifyDeviceToken mac now None secret' token = Some payload"
      "handleAgentUpgrade ?forward mac now request ?config rooms
        = ?forward (payload_context Agent payload) rooms"
      using agent_upgrade_cases [of ?forward mac now request ?config rooms] ne by blast
    obtain secret where secret: "DEVICE_AUTH_SECRET environment = Some secret" "secret' = js_trim secret"
      using c(1) by auto
    have "text_field payload ''deviceId'' = d"
      using change unfolding h' c(4) by (rule forwarded_device)
    then have "authorised_agent mac now environment request d payload"
      unfolding authorised_agent_def using secret c(2,3) None by simp
    then show ?thesis using h' c(4) by metis
  next
    case (Some origin)
    then have h': "handleWebSocketUpgrade rt mac now environment request rooms
        = handleViewerUpgrade ?forward mac now request ?config origin rooms"
      by (simp add: h handleProductionWebSocketUpgrade_def)
    have ne: "snd (handleViewerUpgrade ?forward mac now request ?config origin rooms) \<noteq> rooms"
      using change h' by auto
    obtain secret' ticket payload where c: "pc_ticketSecret ?config = Some secret'"
      "search_param request ''ticket'' = Some ticket"
      "truthy (pc_viewerOrigin ?config) \<longrightarrow> pc_viewerOrigin ?config = Some origin"
      "verifySessionTicket mac now None secret' ticket = Some payload"
      "handleViewerUpgrade ?forward mac now request ?config origin rooms
        = ?forward (payload_context Viewer payload) rooms"
      using viewer_upgrade_cases [of ?forward mac now request ?config origin rooms] ne by blast
    obtain secret where secret: "SESSION_TICKET_SECRET environment = Some secret" "secret' = js_trim secret"
      using c(1) by auto
    have "text_field payload ''deviceId'' = d"
      using change unfolding h' c(5) by (rule forwarded_device)
    then have "authorised_viewer mac now environment request d payload"
      unfolding authorised_viewer_def using secret c(2,3,4) Some by simp
    then show ?thesis using h' c(5) by metis
  qed
qed

text \<open>Over the whole Worker: only \<open>GET /ws\<close> with an upgrade header touches a room.\<close>

lemma worker_room_change:
  "snd (worker_fetch rt api mac now environment request rooms) \<noteq> rooms \<Longrightarrow>
   hr_pathname request = lit ''/ws'' \<and> isWebSocketUpgrade request \<and>
   worker_fetch rt api mac now environment request rooms
     = handleWebSocketUpgrade rt mac now environment request rooms"
  by (simp add: worker_fetch_def split: if_splits)

text \<open>A viewer with a valid ticket is forwarded.\<close>

lemma viewer_upgrade_accepts:
  assumes "hr_hostname request \<notin> lit ` set LOCAL_HOSTNAMES"
    and "hr_headers request ''origin'' = Some origin"
    and "truthy (map_option js_trim (VIEWER_ORIGIN environment)) \<Longrightarrow>
      map_option js_trim (VIEWER_ORIGIN environment) = Some origin"
    and "map_option js_trim (SESSION_TICKET_SECRET environment) = Some secret" "secret \<noteq> []"
    and "search_param request ''ticket'' = Some ticket" "ticket \<noteq> []"
    and "verifySessionTicket mac now None secret ticket = Some payload"
  shows "handleWebSocketUpgrade rt mac now environment request rooms
    = forwardToRoom rt (of_int now) request (payload_context Viewer payload) rooms"
proof -
  have "\<not> (truthy (map_option js_trim (VIEWER_ORIGIN environment)) \<and>
      Some origin \<noteq> map_option js_trim (VIEWER_ORIGIN environment))"
    using assms(3) by auto
  moreover obtain s where "SESSION_TICKET_SECRET environment = Some s" "js_trim s = secret"
    using assms(4) by auto
  ultimately show ?thesis
    using assms(1,2,5-8)
    by (auto simp add: handleWebSocketUpgrade_def handleProductionWebSocketUpgrade_def handleViewerUpgrade_def)
qed

lemma agent_upgrade_accepts:
  assumes "hr_hostname request \<notin> lit ` set LOCAL_HOSTNAMES"
    and "hr_headers request ''origin'' = None"
    and "map_option js_trim (DEVICE_AUTH_SECRET environment) = Some secret" "secret \<noteq> []"
    and "search_param request ''ticket'' = Some token" "token \<noteq> []"
    and "verifyDeviceToken mac now None secret token = Some payload"
  shows "handleWebSocketUpgrade rt mac now environment request rooms
    = forwardToRoom rt (of_int now) request (payload_context Agent payload) rooms"
proof -
  obtain s where "DEVICE_AUTH_SECRET environment = Some s" "js_trim s = secret"
    using assms(3) by auto
  then show ?thesis
    using assms(1,2,4-7)
    by (simp add: handleWebSocketUpgrade_def handleProductionWebSocketUpgrade_def handleAgentUpgrade_def)
qed

lemma routed_upgrade:
  assumes "hr_method request = lit ''GET''" "hr_pathname request = lit ''/ws''"
    and "isWebSocketUpgrade request"
  shows "worker_fetch rt api mac now environment request rooms
    = handleWebSocketUpgrade rt mac now environment request rooms"
  using assms by (simp add: worker_fetch_def)

lemma session_payload_context:
  "payload_context Viewer (JObj (sessionPayload options now l)) =
     \<lparr>rc_deviceId = so_deviceId options, rc_role = Viewer, rc_sessionId = so_sessionId options,
      rc_subject = so_sub options\<rparr>"
  by (simp add: payload_context_def text_field_def string_of_def sessionPayload_def)

lemma opened_not_empty: "open_token mac secret t = Some v \<Longrightarrow> t \<noteq> [] \<and> secret \<noteq> []"
  by (auto elim!: open_token_Some)

lemma verified_not_empty:
  "verifySessionTicket mac d n secret t = Some v \<Longrightarrow> t \<noteq> [] \<and> secret \<noteq> []"
  by (rule opened_not_empty [of mac _ _ v])
    (auto simp: verifySessionTicket_def split: option.splits if_splits)

lemma verified_device_not_empty:
  "verifyDeviceToken mac d n secret t = Some v \<Longrightarrow> t \<noteq> [] \<and> secret \<noteq> []"
  by (rule opened_not_empty [of mac _ _ v])
    (auto simp: verifyDeviceToken_def split: option.splits if_splits)

end
