(* ===== verification/AccessTicket.thy ===== *)
theory AccessTicket
  imports Tickets Http
begin

text \<open>
  The Pages Function that mints session tickets (\<open>apps/viewer/functions/session/ticket.ts\<close>)
  and the Cloudflare Access check in front of it (\<open>functions/_lib/accessAuth.ts\<close>). The
  \<open>jose\<close> package is the record \<open>jose\<close>: the key set of an issuer (\<open>None\<close> when the
  address does not parse), \<open>jwtVerify\<close> (\<open>None\<close> when it rejects) and \<open>decodeJwt\<close>. Random
  bytes are arguments. The resolver is the one \<open>createAccessKeySet\<close> makes; \<open>TicketService\<close> adds
  the cache of \<open>keySetFor\<close>.
\<close>

section \<open>The Access assertion\<close>

record 'k jose =
  remote_keys :: "jstring \<Rightarrow> 'k option"
  jwt_verify :: "'k \<Rightarrow> jstring \<Rightarrow> jstring \<Rightarrow> jstring \<Rightarrow> json option"
  decode_jwt :: "jstring \<Rightarrow> json option"

record access_config =
  ac_issuer :: jstring
  ac_audience :: jstring
  ac_allowedSubjects :: "jstring list"

record access_identity =
  id_subject :: jstring
  id_email :: jstring

text \<open>\<open>part.slice(0, i)\<close> and \<open>part.slice(i + 1)\<close> at the first \<open>=\<close>.\<close>

fun cookie_value :: "jstring list \<Rightarrow> jstring option" where
  "cookie_value [] = None"
| "cookie_value (part # parts) =
     (if 61 \<notin> set part then cookie_value parts
      else if js_trim (takeWhile (\<lambda>u. u \<noteq> 61) part) = lit ''CF_Authorization''
      then (let v = js_trim (tl (dropWhile (\<lambda>u. u \<noteq> 61) part))
            in if v = [] then None else Some v)
      else cookie_value parts)"

definition readAccessToken :: "http_request \<Rightarrow> jstring option" where
  "readAccessToken request =
     (let header = hr_headers request ''cf-access-jwt-assertion'';
          cookie = hr_headers request ''cookie''
      in if truthy header then header
         else if \<not> truthy cookie then None
         else cookie_value (js_split 59 (the cookie)))"

definition account_allowed :: "jstring list \<Rightarrow> jstring \<Rightarrow> jstring \<Rightarrow> bool" where
  "account_allowed allowed email subject \<longleftrightarrow>
     list_ex (\<lambda>i. i \<in> set allowed) (filter (\<lambda>i. i \<noteq> []) [email, subject])"

definition verifyAccessJwt ::
  "'k jose \<Rightarrow> jstring \<Rightarrow> access_config \<Rightarrow> 'k \<Rightarrow> access_identity option" where
  "verifyAccessJwt j token config keySet =
     (case jwt_verify j keySet token (ac_audience config) (ac_issuer config) of
        None \<Rightarrow> None
      | Some payload \<Rightarrow>
          (let subject = string_of (jget payload ''sub'');
               email = string_of (jget payload ''email'')
           in if subject = [] then None
              else if ac_allowedSubjects config \<noteq> [] \<and>
                      \<not> account_allowed (ac_allowedSubjects config) email subject
              then None
              else Some \<lparr>id_subject = subject, id_email = email\<rparr>))"

section \<open>Configuration and request parameters\<close>

record ticket_env =
  ACCESS_ISSUER :: "jstring option"
  ACCESS_AUD :: "jstring option"
  ACCESS_ALLOWED_EMAILS :: "jstring option"
  ENV_TICKET_SECRET :: "jstring option"
  MIRROR_DEVICE_ID :: "jstring option"

record auth_config =
  au_issuer :: jstring
  au_audience :: jstring
  au_allowedEmails :: "jstring list"
  au_ticketSecret :: jstring
  au_deviceId :: jstring

definition opaqueId :: "string \<Rightarrow> byte list \<Rightarrow> jstring" where
  "opaqueId prefix bytes = lit prefix @ 95 # encodeBase64Url bytes"

definition normalizeIssuer :: "jstring \<Rightarrow> jstring" where
  "normalizeIssuer raw =
     (let trimmed = rev (dropWhile (\<lambda>u. u = 47) (rev (js_trim raw)))
      in if js_starts_with (lit ''http://'') trimmed \<or> js_starts_with (lit ''https://'') trimmed
         then trimmed else lit ''https://'' @ trimmed)"

definition readConfig :: "ticket_env \<Rightarrow> auth_config option" where
  "readConfig env =
     (let issuer = map_option js_trim (ACCESS_ISSUER env);
          audience = map_option js_trim (ACCESS_AUD env);
          ticketSecret = map_option js_trim (ENV_TICKET_SECRET env);
          deviceId = map_option js_trim (MIRROR_DEVICE_ID env);
          emails = (case ACCESS_ALLOWED_EMAILS env of Some e \<Rightarrow> e | None \<Rightarrow> [])
      in if \<not> truthy issuer \<or> \<not> truthy audience \<or> \<not> truthy ticketSecret \<or> \<not> truthy deviceId
         then None
         else Some
           \<lparr>au_issuer = normalizeIssuer (the issuer), au_audience = the audience,
            au_allowedEmails = filter (\<lambda>e. e \<noteq> []) (map js_trim (js_split 44 emails)),
            au_ticketSecret = the ticketSecret, au_deviceId = the deviceId\<rparr>)"

definition readPermission :: "http_request \<Rightarrow> permission" where
  "readPermission request =
     (if search_param request ''permission'' = Some (lit ''control'') then Control else View)"

datatype resume_request = NoResume | InvalidResume | Resume jstring

definition session_pattern :: "jstring \<Rightarrow> bool" where
  "session_pattern s \<longleftrightarrow> js_starts_with (lit ''session_'') s \<and> length s > 8
     \<and> list_all is_id_unit (drop 8 s)"

definition readResumeSessionId :: "http_request \<Rightarrow> resume_request" where
  "readResumeSessionId request =
     (case search_param request ''resumeSessionId'' of
        None \<Rightarrow> NoResume
      | Some requested \<Rightarrow>
          if length requested < 16 \<or> length requested > 128 \<or> \<not> session_pattern requested
          then InvalidResume else Resume requested)"

definition diagnoseDenial :: "'k jose \<Rightarrow> int \<Rightarrow> jstring \<Rightarrow> auth_config \<Rightarrow> string" where
  "diagnoseDenial j now token config =
     (case decode_jwt j token of
        None \<Rightarrow> ''undecodable_token''
      | Some claims \<Rightarrow>
          (let audiences = (case jget claims ''aud'' of
                 Some (JArr vs) \<Rightarrow> map Some vs | other \<Rightarrow> [other]);
               email = string_of (jget claims ''email'');
               subject = string_of (jget claims ''sub'')
           in if jget claims ''iss'' \<noteq> Some (JStr (au_issuer config)) then ''issuer_mismatch''
              else if Some (JStr (au_audience config)) \<notin> set audiences then ''audience_mismatch''
              else if (case jget claims ''exp'' of
                         Some (JNum q) \<Rightarrow> q * 1000 \<le> of_int now | _ \<Rightarrow> False) then ''expired''
              else if au_allowedEmails config \<noteq> [] \<and>
                      \<not> account_allowed (au_allowedEmails config) email subject
              then ''account_not_allowed''
              else ''signature_or_jwks''))"

section \<open>The request handler\<close>

datatype ticket_error = KeySetThrew | TicketThrew token_error

definition handleSessionTicketRequest ::
  "'k jose \<Rightarrow> mac \<Rightarrow> int \<Rightarrow> byte list \<Rightarrow> byte list \<Rightarrow> http_request \<Rightarrow> ticket_env \<Rightarrow>
   ticket_error + json_response" where
  "handleSessionTicketRequest j mac now sessionBytes nonceBytes request env =
     (case readConfig env of
        None \<Rightarrow> Inr (jsonError ''PRODUCTION_AUTH_NOT_CONFIGURED'' 501)
      | Some config \<Rightarrow>
          (case readAccessToken request of
             None \<Rightarrow> Inr (jsonError ''ACCESS_ASSERTION_MISSING'' 401)
           | Some token \<Rightarrow>
               (case remote_keys j (au_issuer config) of
                  None \<Rightarrow> Inl KeySetThrew
                | Some keySet \<Rightarrow>
                    (case verifyAccessJwt j token
                            \<lparr>ac_issuer = au_issuer config, ac_audience = au_audience config,
                             ac_allowedSubjects = au_allowedEmails config\<rparr> keySet of
                       None \<Rightarrow>
                         Inr \<lparr>resp_status = 403,
                              resp_body = JObj [(lit ''code'', JStr (lit ''ACCESS_DENIED'')),
                                (lit ''reason'', JStr (lit (diagnoseDenial j now token config)))],
                              response_headers = JSON_HEADERS\<rparr>
                     | Some identity \<Rightarrow>
                         (let resume = readResumeSessionId request
                          in if resume = InvalidResume
                             then Inr (jsonError ''INVALID_RESUME_SESSION_ID'' 400)
                             else
                               (let sessionId = (case resume of
                                      Resume s \<Rightarrow> s | _ \<Rightarrow> opaqueId ''session'' sessionBytes);
                                    permission = readPermission request
                                in case createSessionTicket mac now
                                       \<lparr>so_deviceId = au_deviceId config, so_lifetimeSeconds = None,
                                        so_nonce = opaqueId ''nonce'' nonceBytes, so_nowSeconds = None,
                                        so_permission = permission, so_secret = au_ticketSecret config,
                                        so_sessionId = sessionId,
                                        so_sub = (if id_email identity \<noteq> [] then id_email identity
                                                  else id_subject identity)\<rparr> of
                                     Inl e \<Rightarrow> Inl (TicketThrew e)
                                   | Inr ticket \<Rightarrow>
                                       Inr \<lparr>resp_status = 200,
                                            resp_body = JObj
                                              [(lit ''deviceId'', JStr (au_deviceId config)),
                                               (lit ''permission'', JStr (lit (permission_text permission))),
                                               (lit ''sessionId'', JStr sessionId),
                                               (lit ''ticket'', JStr ticket)],
                                            response_headers = JSON_HEADERS\<rparr>))))))"

definition onRequestGet ::
  "'k jose \<Rightarrow> mac \<Rightarrow> int \<Rightarrow> byte list \<Rightarrow> byte list \<Rightarrow> http_request \<Rightarrow> ticket_env \<Rightarrow> json_response" where
  "onRequestGet j mac now sessionBytes nonceBytes request env =
     (case handleSessionTicketRequest j mac now sessionBytes nonceBytes request env of
        Inl _ \<Rightarrow> jsonError ''TICKET_ISSUER_ERROR'' 500
      | Inr response \<Rightarrow> response)"

section \<open>Lemmas\<close>

lemma is_id_unit_95: "is_id_unit 95"
  by (simp add: is_id_unit_def)

lemma opaqueId_opaque:
  assumes "length bytes = 18" "prefix = ''session'' \<or> prefix = ''nonce''"
  shows "opaque_id (opaqueId prefix bytes)"
proof -
  have "list_all is_id_unit (lit ''session'')" "list_all is_id_unit (lit ''nonce'')"
    by code_simp+
  then have "\<forall>u \<in> set (lit prefix). is_id_unit u"
    using assms(2) by (auto simp: list_all_iff)
  moreover have "length (encodeBase64Url bytes) = 24"
    using assms(1) by (simp add: length_encodeBase64Url)
  ultimately show ?thesis
    using assms(2) encodeBase64Url_units [of _ bytes] is_id_unit_95
    by (auto simp: opaque_id_def opaqueId_def)
qed

lemma session_literal_units: "list_all is_id_unit (lit ''session_'')"
  by code_simp

lemma resume_opaque:
  assumes "readResumeSessionId request = Resume s"
  shows "opaque_id s"
proof -
  have s: "16 \<le> length s" "length s \<le> 128" "session_pattern s"
    using assms by (auto simp: readResumeSessionId_def split: option.splits if_splits)
  then have "take 8 s = lit ''session_''" "list_all is_id_unit (drop 8 s)"
    by (simp_all add: session_pattern_def js_starts_with_def eval_nat_numeral)
  then have "list_all is_id_unit (take 8 s @ drop 8 s)"
    using session_literal_units by (simp only: list_all_append simp_thms)
  then have "list_all is_id_unit s" by simp
  then show ?thesis
    using s(1,2) by (simp add: opaque_id_def list_all_iff)
qed

section \<open>What an issued ticket rests on\<close>

definition ticket_options_of ::
  "auth_config \<Rightarrow> access_identity \<Rightarrow> byte list \<Rightarrow> permission \<Rightarrow> jstring \<Rightarrow> session_options" where
  "ticket_options_of config identity nonceBytes permission sessionId =
     \<lparr>so_deviceId = au_deviceId config, so_lifetimeSeconds = None,
      so_nonce = opaqueId ''nonce'' nonceBytes, so_nowSeconds = None,
      so_permission = permission, so_secret = au_ticketSecret config,
      so_sessionId = sessionId,
      so_sub = (if id_email identity \<noteq> [] then id_email identity else id_subject identity)\<rparr>"

definition access_of :: "auth_config \<Rightarrow> access_config" where
  "access_of config =
     \<lparr>ac_issuer = au_issuer config, ac_audience = au_audience config,
      ac_allowedSubjects = au_allowedEmails config\<rparr>"

definition session_of :: "http_request \<Rightarrow> byte list \<Rightarrow> jstring" where
  "session_of request sessionBytes =
     (case readResumeSessionId request of Resume s \<Rightarrow> s | _ \<Rightarrow> opaqueId ''session'' sessionBytes)"

lemma jsonError_status [simp]: "resp_status (jsonError c n) = n"
  by (simp add: jsonError_def)

lemma issued_cases:
  assumes "resp_status (onRequestGet j mac now sessionBytes nonceBytes request env) = 200"
  obtains config token keySet identity ticket where
    "readConfig env = Some config" "readAccessToken request = Some token"
    "remote_keys j (au_issuer config) = Some keySet"
    "verifyAccessJwt j token (access_of config) keySet = Some identity"
    "readResumeSessionId request \<noteq> InvalidResume"
    "createSessionTicket mac now (ticket_options_of config identity nonceBytes
       (readPermission request) (session_of request sessionBytes)) = Inr ticket"
    "resp_body (onRequestGet j mac now sessionBytes nonceBytes request env) = JObj
       [(lit ''deviceId'', JStr (au_deviceId config)),
        (lit ''permission'', JStr (lit (permission_text (readPermission request)))),
        (lit ''sessionId'', JStr (session_of request sessionBytes)),
        (lit ''ticket'', JStr ticket)]"
  using assms
  by (auto simp: onRequestGet_def handleSessionTicketRequest_def Let_def ticket_options_of_def
      access_of_def session_of_def split: option.splits sum.splits if_splits)

lemma access_identity_facts:
  assumes "verifyAccessJwt j token config keySet = Some identity"
  shows "\<exists>payload. jwt_verify j keySet token (ac_audience config) (ac_issuer config) = Some payload
    \<and> id_subject identity = string_of (jget payload ''sub'') \<and> id_subject identity \<noteq> []
    \<and> id_email identity = string_of (jget payload ''email'')
    \<and> (ac_allowedSubjects config \<noteq> [] \<longrightarrow>
         id_subject identity \<in> set (ac_allowedSubjects config)
         \<or> id_email identity \<in> set (ac_allowedSubjects config))"
  using assms
  by (auto simp: verifyAccessJwt_def Let_def account_allowed_def split: option.splits if_splits)

lemma session_of_opaque:
  assumes "length sessionBytes = 18" "readResumeSessionId request \<noteq> InvalidResume"
  shows "opaque_id (session_of request sessionBytes)"
  using assms resume_opaque opaqueId_opaque [of sessionBytes "''session''"]
  by (cases "readResumeSessionId request") (auto simp: session_of_def)

text \<open>The members of the answer and of the configuration that the other service reads.\<close>

lemma issued_ticket_field:
  "body = JObj [(lit ''deviceId'', d), (lit ''permission'', p), (lit ''sessionId'', s),
     (lit ''ticket'', JStr t)] \<Longrightarrow> as_string (jget body ''ticket'') = Some t"
  by simp

lemma readConfig_values:
  assumes "readConfig env = Some config"
  shows "map_option js_trim (MIRROR_DEVICE_ID env) = Some (au_deviceId config)"
    "map_option js_trim (ENV_TICKET_SECRET env) = Some (au_ticketSecret config)"
  using assms
  by (cases "MIRROR_DEVICE_ID env"; cases "ENV_TICKET_SECRET env";
      auto simp: readConfig_def Let_def split: if_splits)+

end
