(* ===== verification/Samples.thy ===== *)
theory Samples
  imports RoomSafety Worker AccessTicket
begin

text \<open>
  Concrete values on which the properties are instantiated: identifiers, a secret, a MAC,
  the options of the three tokens, and a room that an agent and a viewer have joined.
\<close>

section \<open>Identifiers and tokens\<close>

definition sample_mac :: mac where
  "sample_mac key message = [1, 2, 3]"

definition sample_device :: jstring where
  "sample_device = lit ''device-sample-01''"

definition sample_session :: jstring where
  "sample_session = lit ''session_sample-1''"

definition sample_nonce :: jstring where
  "sample_nonce = lit ''nonce-sample-001''"

definition sample_subject :: jstring where
  "sample_subject = lit ''owner''"

definition sample_secret :: jstring where
  "sample_secret = replicate 32 97"

lemma sample_ids: "opaque_id sample_device" "opaque_id sample_session" "opaque_id sample_nonce"
  by (simp_all add: sample_device_def sample_session_def sample_nonce_def opaque_id_def lit_def
      unit_class_defs word_le_nat_alt unat_unit_of_char word_unat_eq_iff)

lemma sample_mac_output: "sample_mac k m \<noteq> []"
  by (simp add: sample_mac_def)

lemma sample_subject_ok: "subject_ok sample_subject"
  by (simp add: sample_subject_def subject_ok_def)

lemma sample_secret_length: "length sample_secret = 32"
  by (simp add: sample_secret_def)

definition sample_ticket_options :: ticket_options where
  "sample_ticket_options =
     \<lparr>to_deviceId = sample_device, to_lifetimeSeconds = None, to_nowSeconds = Some 1000,
      to_nonce = sample_nonce, to_role = Viewer, to_secret = sample_secret,
      to_sessionId = sample_session\<rparr>"

definition sample_session_options :: session_options where
  "sample_session_options =
     \<lparr>so_deviceId = sample_device, so_lifetimeSeconds = None, so_nonce = sample_nonce,
      so_nowSeconds = Some 1000, so_permission = Control, so_secret = sample_secret,
      so_sessionId = sample_session, so_sub = sample_subject\<rparr>"

definition sample_device_options :: device_options where
  "sample_device_options =
     \<lparr>do_deviceId = sample_device, do_lifetimeSeconds = None, do_nonce = sample_nonce,
      do_nowSeconds = Some 1000, do_secret = sample_secret, do_sessionId = sample_session,
      do_sub = sample_subject\<rparr>"

lemma sample_option_fields [simp]:
  "so_deviceId sample_session_options = sample_device"
  "so_nonce sample_session_options = sample_nonce"
  "so_sessionId sample_session_options = sample_session"
  "so_secret sample_session_options = sample_secret"
  "so_nowSeconds sample_session_options = Some 1000"
  "so_lifetimeSeconds sample_session_options = None"
  "do_deviceId sample_device_options = sample_device"
  "do_nonce sample_device_options = sample_nonce"
  "do_sessionId sample_device_options = sample_session"
  "do_secret sample_device_options = sample_secret"
  "do_nowSeconds sample_device_options = Some 1000"
  "do_lifetimeSeconds sample_device_options = None"
  "to_deviceId sample_ticket_options = sample_device"
  "to_nonce sample_ticket_options = sample_nonce"
  "to_sessionId sample_ticket_options = sample_session"
  "to_secret sample_ticket_options = sample_secret"
  "to_nowSeconds sample_ticket_options = Some 1000"
  "to_lifetimeSeconds sample_ticket_options = None"
  "to_role sample_ticket_options = Viewer"
  by (simp_all add: sample_session_options_def sample_device_options_def sample_ticket_options_def)

lemma num_text_int: "\<bar>i\<bar> < 10 ^ 21 \<Longrightarrow> num_text (of_int i) = Some (int_text i)"
proof -
  assume "\<bar>i\<bar> < 10 ^ 21"
  then have "of_int \<bar>i\<bar> < (of_int (10 ^ 21) :: rat)" by (simp only: of_int_less_iff)
  then show ?thesis by (simp add: num_text_def)
qed

lemma sample_payload_texts:
  "\<exists>t. json_text (JObj (developmentPayload sample_ticket_options 1000 300)) = Some t"
  "\<exists>t. json_text (JObj (sessionPayload sample_session_options 1000 300)) = Some t"
  "\<exists>t. json_text (JObj (devicePayload sample_device_options 1000 7776000)) = Some t"
  by (simp_all add: developmentPayload_def sessionPayload_def devicePayload_def num_text_def
      is_integer_def)

lemma sample_tokens:
  "\<exists>t. createDevelopmentTicket sample_mac 0 sample_ticket_options = Inr t"
  "\<exists>t. createSessionTicket sample_mac 0 sample_session_options = Inr t"
  "\<exists>t. createDeviceToken sample_mac 0 sample_device_options = Inr t"
  using sample_payload_texts sample_subject_ok
  by (simp_all add: createDevelopmentTicket_def createSessionTicket_def createDeviceToken_def
      Let_def now_seconds_def MAX_TICKET_LIFETIME_SECONDS_def MAX_SESSION_TICKET_LIFETIME_SECONDS_def
      MAX_DEVICE_TOKEN_LIFETIME_SECONDS_def DEFAULT_DEVICE_TOKEN_LIFETIME_SECONDS_def
      sample_ticket_options_def sample_session_options_def sample_device_options_def subject_ok_def
      seal_token_Inr sample_secret_length)

text \<open>The sample tokens verify at second 1200.\<close>

lemma sample_session_verifies:
  assumes "createSessionTicket sample_mac 0 sample_session_options = Inr t"
  shows "verifySessionTicket sample_mac 0 (Some 1200) sample_secret t
    = Some (JObj (sessionPayload sample_session_options 1000 300))"
proof -
  obtain l where l: "subject_ok sample_subject" "l = 300"
    "seal_token sample_mac sample_secret (JObj (sessionPayload sample_session_options 1000 l)) = Inr t"
    using created_session_ticket [OF assms]
    by (auto simp: sample_session_options_def now_seconds_def)
  then show ?thesis
    using session_ticket.verify_sealed [OF l(3) sessionPayload_wf sample_mac_output
        sessionPayload_admitted, of 1200] sample_ids
    by (simp add: sessionPayload_times MAX_SESSION_TICKET_LIFETIME_SECONDS_def sample_session_options_def)
qed

lemma sample_device_verifies:
  assumes "createDeviceToken sample_mac 0 sample_device_options = Inr t"
  shows "verifyDeviceToken sample_mac 0 (Some 1200) sample_secret t
    = Some (JObj (devicePayload sample_device_options 1000 7776000))"
proof -
  obtain l where l: "l = 7776000"
    "seal_token sample_mac sample_secret (JObj (devicePayload sample_device_options 1000 l)) = Inr t"
    using created_device_token [OF assms]
    by (auto simp: sample_device_options_def now_seconds_def DEFAULT_DEVICE_TOKEN_LIFETIME_SECONDS_def)
  then show ?thesis
    using device_token.verify_sealed [OF l(2) devicePayload_wf sample_mac_output
        devicePayload_admitted, of 1200] sample_ids sample_subject_ok
    by (simp add: devicePayload_times MAX_DEVICE_TOKEN_LIFETIME_SECONDS_def sample_device_options_def)
qed

section \<open>A room with an agent and a viewer\<close>

definition sample_headers :: "role \<Rightarrow> headers" where
  "sample_headers role = map_of
     [(''upgrade'', lit ''websocket''), (''x-mirror-device-id'', sample_device),
      (''x-mirror-role'', lit (role_text role)), (''x-mirror-session-id'', sample_session),
      (''x-mirror-subject'', sample_subject)]"

definition sample_attachment :: "role \<Rightarrow> rat \<Rightarrow> socket_attachment" where
  "sample_attachment role now =
     \<lparr>at_connectedAt = now, at_deviceId = sample_device, at_lastSeenAt = now, at_role = role,
      at_sessionId = sample_session, at_subject = sample_subject\<rparr>"

lemma as_role_text [simp]: "as_role (Some (lit (role_text role))) = Some role"
  by (cases role) simp_all

lemma sample_read: "readAttachmentHeaders now (sample_headers role) = Some (sample_attachment role now)"
  by (simp add: readAttachmentHeaders_def sample_headers_def sample_attachment_def del: as_role.simps)
    (simp add: sample_device_def sample_session_def sample_subject_def)

lemma lower_websocket: "ascii_lower (lit ''websocket'') = lit ''websocket''"
  by (simp add: ascii_lower_def lit_def is_upper_unit_def word_le_nat_alt unat_unit_of_char)

lemma sample_upgrade: "map_option ascii_lower (sample_headers role ''upgrade'') = Some (lit ''websocket'')"
  by (simp add: sample_headers_def lower_websocket)

definition agent_room :: room where
  "agent_room = snd (fetch standard_runtime 1 (sample_headers Agent) empty_room)"

definition full_room :: room where
  "full_room = snd (fetch standard_runtime 2 (sample_headers Viewer) agent_room)"

definition sample_socket :: "role \<Rightarrow> rat \<Rightarrow> socket" where
  "sample_socket role now =
     \<lparr>tags = [role], readyState = WsOpen,
      attachmentData = Some (attachment_json (sample_attachment role now)),
      sentFrames = [], closedWith = None\<rparr>"

lemma sample_role [simp]: "at_role (sample_attachment role now) = role"
  by (simp add: sample_attachment_def)

lemma standard_accepted [simp]: "accepted standard_runtime = WsOpen"
  by (simp add: standard_runtime_def)

lemma agent_room_eq:
  "agent_room = snd (join_room standard_runtime (sample_attachment Agent 1) empty_room)"
  using sample_upgrade [of Agent]
  by (simp add: agent_room_def fetch_def sample_read hasRole_iff holds_def empty_room_def)

lemma agent_room_sockets: "sockets agent_room = [sample_socket Agent 1]"
  by (simp add: agent_room_eq joined_sockets empty_room_def sample_socket_def)

lemma full_room_eq:
  "full_room = snd (join_room standard_runtime (sample_attachment Viewer 2) agent_room)"
proof -
  have "\<not> hasRole Viewer agent_room" "hasRole Agent agent_room"
    by (auto simp: hasRole_iff holds_def agent_room_sockets sample_socket_def live_state_def)
  then show ?thesis
    using sample_upgrade [of Viewer] by (simp add: full_room_def fetch_def sample_read)
qed

lemma full_room_sockets: "sockets full_room = [sample_socket Agent 1, sample_socket Viewer 2]"
  by (simp add: full_room_eq joined_sockets agent_room_sockets sample_socket_def)

lemma full_room_reachable: "reachable standard_runtime 2 full_room"
proof -
  have "reachable standard_runtime 1 agent_room"
    unfolding agent_room_def by (rule reach_step [OF reach_empty [of _ 0] _ step_fetch]) simp
  then show ?thesis
    unfolding full_room_def by (rule reach_step [OF _ _ step_fetch]) simp
qed

lemma full_room_ok: "room_ok standard_runtime full_room"
  using standard.reachable_ok [OF full_room_reachable] .

lemma full_room_holds: "holds Agent full_room 0" "holds Viewer full_room 1"
  by (simp_all add: holds_def full_room_sockets sample_socket_def live_state_def)

lemma full_room_has: "hasRole Agent full_room" "hasRole Viewer full_room"
  unfolding hasRole_iff using full_room_holds by blast+

text \<open>The agent's watchdog has fired: its socket is closed, the viewer's is still open.\<close>

definition silent_room :: room where
  "silent_room = alarm standard_runtime 40000 (full_room\<lparr>alarmAt := None\<rparr>)"

lemma full_room_alarm: "alarmAt full_room = Some 30001"
  by (simp add: full_room_eq agent_room_eq alarm_join sample_attachment_def AGENT_HEARTBEAT_TIMEOUT_MS_def)

lemma silent_room_reachable: "reachable standard_runtime 40000 silent_room"
  unfolding silent_room_def
  by (rule reach_step [OF full_room_reachable _ step_alarm]) (simp_all add: full_room_alarm)

lemma silent_room_roles: "\<not> hasRole Agent silent_room" "holds Viewer silent_room 1"
proof -
  let ?r = "full_room\<lparr>alarmAt := None\<rparr>"
  have f: "findSocket Agent ?r = Some 0"
    by (simp add: findSocket_def getWebSockets_def full_room_sockets sample_socket_def upt_rec)
  have "silent_room = close_socket standard_runtime 0 1012 ''Agent heartbeat timeout'' ?r"
    unfolding silent_room_def
    by (rule standard.alarm_closes [OF _ f, of "sample_attachment Agent 1"])
      (simp_all add: full_room_sockets sample_socket_def attachment_of_def sample_attachment_def
        AGENT_HEARTBEAT_TIMEOUT_MS_def)
  then have "sockets silent_room
      = sockets (close_socket standard_runtime 0 1012 ''Agent heartbeat timeout'' ?r)"
    by (rule arg_cong)
  also have "\<dots> = [sample_socket Agent 1\<lparr>readyState := WsClosing,
      closedWith := Some (1012, lit ''Agent heartbeat timeout'')\<rparr>, sample_socket Viewer 2]"
    by (simp add: close_socket_def update_socket_def full_room_sockets sample_socket_def
        standard_runtime_def)
  finally show "\<not> hasRole Agent silent_room" "holds Viewer silent_room 1"
    by (auto simp: hasRole_iff holds_def sample_socket_def live_state_def nth_Cons split: nat.splits)
qed

section \<open>Production requests\<close>

definition sample_env :: environment where
  "sample_env =
     \<lparr>BUILD_VERSION = None, DEV_TICKET_SECRET = None, SESSION_TICKET_SECRET = Some sample_secret,
      DEVICE_AUTH_SECRET = Some sample_secret, VIEWER_ORIGIN = None, TURN_KEY_ID = None,
      TURN_API_TOKEN = None\<rparr>"

definition sample_upgrade_request :: "jstring option \<Rightarrow> jstring \<Rightarrow> http_request" where
  "sample_upgrade_request origin ticket =
     \<lparr>hr_method = lit ''GET'', hr_hostname = lit ''signal.example.com'',
      hr_pathname = lit ''/ws'', hr_query = [(lit ''ticket'', ticket)],
      hr_headers = (\<lambda>n. if n = ''upgrade'' then Some (lit ''websocket'')
        else if n = ''origin'' then origin else None)\<rparr>"

lemma trim_secret: "js_trim sample_secret = sample_secret"
proof -
  have d: "dropWhile js_space (replicate 32 97) = replicate 32 97"
    by (rule dropWhile_eq_self_iff [THEN iffD2]) (simp add: js_space_def)
  show ?thesis unfolding sample_secret_def js_trim_def rev_replicate d ..
qed

lemma sample_request_facts:
  "hr_hostname (sample_upgrade_request origin t) \<notin> lit ` set LOCAL_HOSTNAMES"
  "hr_headers (sample_upgrade_request origin t) ''origin'' = origin"
  "search_param (sample_upgrade_request origin t) ''ticket'' = Some t"
  "isWebSocketUpgrade (sample_upgrade_request origin t)"
  "hr_method (sample_upgrade_request origin t) = lit ''GET''"
  "hr_pathname (sample_upgrade_request origin t) = lit ''/ws''"
  by (auto simp: sample_upgrade_request_def search_param_def isWebSocketUpgrade_def lower_websocket
      LOCAL_HOSTNAMES_def)

lemma sample_env_secret:
  "map_option js_trim (SESSION_TICKET_SECRET sample_env) = Some sample_secret"
  "map_option js_trim (DEVICE_AUTH_SECRET sample_env) = Some sample_secret"
  "VIEWER_ORIGIN sample_env = None"
  by (simp_all add: sample_env_def trim_secret)

text \<open>The sample ticket takes a viewer into the room of its device.\<close>

definition sample_context :: room_context where
  "sample_context =
     \<lparr>rc_deviceId = sample_device, rc_role = Viewer, rc_sessionId = sample_session,
      rc_subject = sample_subject\<rparr>"

lemma sample_subject_header: "header_value sample_subject = Some sample_subject"
  by (simp add: sample_subject_def header_value_def Let_def http_strip_def http_space_def lit_def
      unat_unit_of_char word_unat_eq_iff)

lemma sample_room_headers:
  "\<exists>hs'. room_headers sample_context hs = Some hs'
     \<and> readAttachmentHeaders now hs' = Some (sample_attachment Viewer now)
     \<and> hs' ''upgrade'' = hs ''upgrade''"
  by (simp add: room_headers_def sample_context_def header_set_def header_value_opaque sample_ids
      sample_subject_header readAttachmentHeaders_def sample_attachment_def)
    (simp add: sample_device_def sample_session_def sample_subject_def)

lemma sample_worker_join:
  assumes "createSessionTicket sample_mac 0 sample_session_options = Inr t"
  defines "request \<equiv> sample_upgrade_request (Some (lit ''https://viewer.example.com'')) t"
  shows "verifySessionTicket sample_mac 1200000 None sample_secret t
      = Some (JObj (sessionPayload sample_session_options 1000 300))"
    "snd (worker_fetch standard_runtime api sample_mac 1200000 sample_env request (\<lambda>_. agent_room))
       sample_device = snd (join_room standard_runtime (sample_attachment Viewer 1200000) agent_room)"
proof -
  show v: "verifySessionTicket sample_mac 1200000 None sample_secret t
      = Some (JObj (sessionPayload sample_session_options 1000 300))"
    using sample_session_verifies [OF assms(1)]
    by (subst session_clock) (simp add: now_seconds_def)
  have so: "so_sub sample_session_options = sample_subject"
    by (simp add: sample_session_options_def)
  have up: "hr_headers request ''upgrade'' = Some (lit ''websocket'')"
    by (simp add: request_def sample_upgrade_request_def)
  have no: "\<not> hasRole Viewer agent_room" "hasRole Agent agent_room"
    by (auto simp: hasRole_iff holds_def agent_room_sockets sample_socket_def live_state_def)
  have "worker_fetch standard_runtime api sample_mac 1200000 sample_env request (\<lambda>_. agent_room)
      = forwardToRoom standard_runtime 1200000 request sample_context (\<lambda>_. agent_room)"
    unfolding request_def
    by (subst routed_upgrade, (rule sample_request_facts)+,
        subst viewer_upgrade_accepts [OF sample_request_facts(1,2) _ sample_env_secret(1) _
          sample_request_facts(3) _ v])
      (use verified_not_empty [OF v] in \<open>simp_all add: sample_env_secret(3) session_payload_context
        sample_context_def so\<close>)
  then show "snd (worker_fetch standard_runtime api sample_mac 1200000 sample_env request
      (\<lambda>_. agent_room)) sample_device
      = snd (join_room standard_runtime (sample_attachment Viewer 1200000) agent_room)"
    using sample_room_headers [of "hr_headers request" 1200000] up no
    by (auto simp: forwardToRoom_def fetch_def lower_websocket sample_context_def
        split: prod.split sum.split)
qed

section \<open>A message\<close>

text \<open>The viewer of the sample room closes its session.\<close>

definition sample_close :: json where
  "sample_close = JObj
     [(lit ''payload'', JObj [(lit ''reason'', JStr (lit ''USER_REQUEST''))]),
      (lit ''sequence'', JNum 0), (lit ''sessionId'', JStr sample_session),
      (lit ''type'', JStr (lit ''session.close'')), (lit ''version'', JNum 1)]"

definition sample_close_text :: jstring where
  "sample_close_text = (case json_text sample_close of Some t \<Rightarrow> t | None \<Rightarrow> [])"

lemma close_text: "json_text sample_close = Some sample_close_text"
  by (simp add: sample_close_text_def sample_close_def num_text_def is_integer_def)

lemma close_parses: "json_parse sample_close_text = Some sample_close"
  by (rule json_parse_text [OF close_text]) (simp add: sample_close_def)

lemma close_valid:
  "validateSignalingMessage schema_accepts sample_close = Some sample_close"
proof -
  let ?p = "SObject [Required ''reason''
    (literals [''USER_REQUEST'', ''AGENT_STOPPED'', ''TIMEOUT'', ''WINDOWS_LOCKED''])]"
  have p: "(''session.close'', ?p) \<in> set signaling_payloads"
    by (simp add: signaling_payloads_def)
  have "schema_accepts ?p (JObj [(lit ''reason'', JStr (lit ''USER_REQUEST''))])"
    by (simp add: known_keys_def literals_def)
  then have "schema_accepts (signaling_envelope ''session.close'' ?p) sample_close"
    using reference.signaling_envelope_intro [of ?p _ 0 sample_session "''session.close''"]
    by (simp add: sample_close_def sample_ids MAX_SAFE_INTEGER_def)
  then show ?thesis
    using p reference.signaling_schema by (auto simp: validate_defs)
qed

lemma length_escape: "length (json_escape s) \<le> 6 * length s"
  by (induction s rule: json_escape.induct) (auto simp: escape_unit_def unicode_escape_def)

lemma length_quote: "length (quote_text s) \<le> 6 * length s + 2"
  using length_escape [of s] by (simp add: quote_text_def)

lemma length_scalars: "length (scalars_of s) \<le> length s"
  by (induction s rule: scalars_of.induct) auto

lemma length_encode: "length (text_encode s) \<le> 4 * length s"
proof -
  have "length (utf8_bytes c) \<le> 4" for c by (simp add: utf8_bytes_def)
  then have "length (concat (map utf8_bytes cs)) \<le> 4 * length cs" for cs
    by (induction cs) (auto simp: add_mono)
  then show ?thesis
    using length_scalars [of s] unfolding text_encode_def by (meson le_trans mult_le_mono2)
qed

lemma close_size: "length (text_encode sample_close_text) \<le> MAX_SIGNALING_MESSAGE_BYTES"
proof -
  have q: "length (quote_text (lit s)) \<le> 6 * length s + 2" for s
    using length_quote [of "lit s"] by simp
  have "length (quote_text sample_session) \<le> 98"
    using length_quote [of sample_session] by (simp add: sample_session_def)
  moreover have "length sample_close_text \<le> 200 + length (quote_text sample_session)
      + length (quote_text (lit ''payload'')) + length (quote_text (lit ''reason''))
      + length (quote_text (lit ''USER_REQUEST'')) + length (quote_text (lit ''sequence''))
      + length (quote_text (lit ''sessionId'')) + length (quote_text (lit ''type''))
      + length (quote_text (lit ''session.close'')) + length (quote_text (lit ''version''))"
    by (simp add: sample_close_text_def sample_close_def num_text_def is_integer_def int_text_def
        nat_text.simps)
  ultimately have "length sample_close_text \<le> 1000"
    using q [of "''payload''"] q [of "''reason''"] q [of "''USER_REQUEST''"]
      q [of "''sequence''"] q [of "''sessionId''"] q [of "''type''"] q [of "''session.close''"]
      q [of "''version''"]
    by simp
  then show ?thesis
    using length_encode [of sample_close_text] by (simp add: MAX_SIGNALING_MESSAGE_BYTES_def)
qed

lemma close_fields:
  "message_type sample_close = lit ''session.close''"
  "message_sessionId sample_close = sample_session"
  by (simp_all add: message_type_def message_sessionId_def string_of_def sample_close_def)

definition closing_room :: room where
  "closing_room = snd (webSocketMessage standard_runtime 3 1 (Text sample_close_text) full_room)"

lemma closing_room_sockets:
  "sockets closing_room = [sample_socket Agent 1\<lparr>sentFrames := [sample_close_text]\<rparr>,
     sample_socket Viewer 2\<lparr>attachmentData :=
       Some (attachment_json ((sample_attachment Viewer 2)\<lparr>at_lastSeenAt := 3\<rparr>))\<rparr>]"
proof -
  have at: "deserializeAttachment (attachmentData (sockets full_room ! Suc 0))
      = Some (sample_attachment Viewer 2)"
    by (simp add: full_room_sockets sample_socket_def)
  have f: "findSocket Agent full_room = Some 0"
    by (rule findSocket_unique [OF full_room_ok full_room_holds(1)])
      (simp add: full_room_sockets sample_socket_def)
  have ajv: "ajv_of standard_runtime = schema_accepts" "sendable standard_runtime WsOpen"
    by (simp_all add: standard_runtime_def)
  have allowed: "isAllowedMessageType Viewer (lit ''session.close'')"
    by (simp add: isAllowedMessageType_def VIEWER_MESSAGE_TYPES_def)
  have sid: "at_sessionId (sample_attachment Viewer 2) = sample_session"
    by (simp add: sample_attachment_def)
  let ?r1 = "serializeAttachment (Suc 0) (attachment_json ((sample_attachment Viewer 2)\<lparr>at_lastSeenAt := 3\<rparr>)) full_room"
  have s1: "sockets ?r1 = [sample_socket Agent 1, sample_socket Viewer 2\<lparr>attachmentData :=
       Some (attachment_json ((sample_attachment Viewer 2)\<lparr>at_lastSeenAt := 3\<rparr>))\<rparr>]"
    by (simp add: serializeAttachment_def update_socket_def full_room_sockets)
  have "closing_room = snd (send standard_runtime 0 sample_close_text ?r1)"
    using close_size
    by (simp add: closing_room_def webSocketMessage_def at close_parses ajv close_valid close_fields
        allowed sid Let_def relay_def other_role_def f)
  then have "sockets closing_room = sockets (snd (send standard_runtime 0 sample_close_text ?r1))"
    by (rule arg_cong)
  also have "\<dots> = [sample_socket Agent 1\<lparr>sentFrames := [sample_close_text]\<rparr>, sample_socket Viewer 2\<lparr>attachmentData :=
       Some (attachment_json ((sample_attachment Viewer 2)\<lparr>at_lastSeenAt := 3\<rparr>))\<rparr>]"
    by (simp add: send_def update_socket_def s1 sample_socket_def ajv)
  finally show ?thesis .
qed

lemma closing_room_reachable: "reachable standard_runtime 3 closing_room"
  unfolding closing_room_def
  by (rule reach_step [OF full_room_reachable _ step_message])
    (simp_all add: full_room_sockets sample_socket_def standard_runtime_def)

section \<open>A ticket request\<close>

text \<open>An Access service that vouches for one account, and the request that it lets through.\<close>

definition sample_jose :: "unit jose" where
  "sample_jose =
     \<lparr>remote_keys = (\<lambda>issuer. Some ()),
      jwt_verify = (\<lambda>keySet token audience issuer. Some (JObj
        [(lit ''email'', JStr (lit ''owner@example.com'')), (lit ''sub'', JStr (lit ''account-1''))])),
      decode_jwt = (\<lambda>token. None)\<rparr>"

definition sample_ticket_env :: ticket_env where
  "sample_ticket_env =
     \<lparr>ACCESS_ISSUER = Some (lit ''https://team.example.com/''), ACCESS_AUD = Some (lit ''aud-1''),
      ACCESS_ALLOWED_EMAILS = Some (lit ''owner@example.com''),
      ENV_TICKET_SECRET = Some sample_secret, MIRROR_DEVICE_ID = Some sample_device\<rparr>"

definition sample_ticket_request :: http_request where
  "sample_ticket_request =
     \<lparr>hr_method = lit ''GET'', hr_hostname = lit ''viewer.example.com'',
      hr_pathname = lit ''/session/ticket'', hr_query = [(lit ''permission'', lit ''control'')],
      hr_headers = (\<lambda>n. if n = ''cf-access-jwt-assertion'' then Some (lit ''assertion'') else None)\<rparr>"

definition sample_auth_config :: auth_config where
  "sample_auth_config =
     \<lparr>au_issuer = lit ''https://team.example.com'', au_audience = lit ''aud-1'',
      au_allowedEmails = [lit ''owner@example.com''], au_ticketSecret = sample_secret,
      au_deviceId = sample_device\<rparr>"

lemma sample_device_trim: "js_trim sample_device = sample_device"
  unfolding sample_device_def by code_simp

lemma sample_ticket_env_secret:
  "map_option js_trim (ENV_TICKET_SECRET sample_ticket_env) = Some sample_secret"
  "map_option js_trim (MIRROR_DEVICE_ID sample_ticket_env) = Some sample_device"
  by (simp_all add: sample_ticket_env_def trim_secret sample_device_trim)

lemma sample_trims:
  "js_trim (lit ''aud-1'') = lit ''aud-1''"
  "js_trim (lit ''https://team.example.com/'') = lit ''https://team.example.com/''"
  "normalizeIssuer (lit ''https://team.example.com/'') = lit ''https://team.example.com''"
  "filter (\<lambda>e. e \<noteq> []) (map js_trim (js_split 44 (lit ''owner@example.com''))) = [lit ''owner@example.com'']"
  by code_simp+

lemma sample_readConfig: "readConfig sample_ticket_env = Some sample_auth_config"
proof -
  have ne: "lit ''aud-1'' \<noteq> []" "lit ''https://team.example.com/'' \<noteq> []" "sample_device \<noteq> []"
    "sample_secret \<noteq> []"
    by (simp_all add: lit_Cons sample_device_def sample_secret_def)
  show ?thesis
    using ne by (simp add: readConfig_def sample_ticket_env_def sample_auth_config_def sample_trims trim_secret sample_device_trim)
qed

definition sample_bytes :: "byte list" where
  "sample_bytes = replicate 18 7"

definition sample_identity :: access_identity where
  "sample_identity = \<lparr>id_subject = lit ''account-1'', id_email = lit ''owner@example.com''\<rparr>"

lemma sample_access:
  "readAccessToken sample_ticket_request = Some (lit ''assertion'')"
  "remote_keys sample_jose (au_issuer sample_auth_config) = Some ()"
  "verifyAccessJwt sample_jose (lit ''assertion'') (access_of sample_auth_config) () = Some sample_identity"
  by (simp_all add: readAccessToken_def sample_ticket_request_def verifyAccessJwt_def sample_jose_def access_of_def
      sample_auth_config_def account_allowed_def string_of_def sample_identity_def lit_Cons)

lemma sample_account: "id_email sample_identity \<noteq> []" "header_value (id_email sample_identity) = Some (lit ''owner@example.com'')"
  by (simp add: sample_identity_def lit_Cons) (simp add: sample_identity_def; code_simp)

lemma sample_ticket_reply:
  "resp_status (onRequestGet sample_jose sample_mac 1000000 sample_bytes sample_bytes
     sample_ticket_request sample_ticket_env) = 200"
proof -
  have r: "readResumeSessionId sample_ticket_request = NoResume"
    by (simp add: readResumeSessionId_def sample_ticket_request_def search_param_def)
  let ?o = "ticket_options_of sample_auth_config sample_identity sample_bytes (readPermission sample_ticket_request)
    (opaqueId ''session'' sample_bytes)"
  have "\<exists>t. json_text (JObj (sessionPayload ?o 1000 300)) = Some t"
    by (simp add: sessionPayload_def num_text_def is_integer_def)
  then have "\<exists>t. createSessionTicket sample_mac 1000000 ?o = Inr t"
    by (simp add: createSessionTicket_def Let_def now_seconds_def ticket_options_of_def
        sample_auth_config_def MAX_SESSION_TICKET_LIFETIME_SECONDS_def seal_token_Inr
        sample_secret_length sample_identity_def lit_Cons)
  then show ?thesis
    using sample_access r
    by (auto simp: onRequestGet_def handleSessionTicketRequest_def sample_readConfig Let_def
        ticket_options_of_def access_of_def)
qed

end
