(* ===== verification/ViewerSamples.thy ===== *)
theory ViewerSamples
  imports RemotePhases RemoteOutcomes RemoteDownloads Samples
begin

text \<open>
  A concrete run of the session hook on which its properties are instantiated: a development
  viewer connects, is accepted with control, and its peer connection comes up.
\<close>

section \<open>Platform, configuration, messages\<close>

definition sample_platform :: platform where
  "sample_platform = \<lparr>pf_ajv = schema_accepts, pf_throws = (\<lambda>n. False), pf_socket = (\<lambda>c. True),
     pf_peer = (\<lambda>c. True), pf_sendError = []\<rparr>"

lemma sample_platform_fields [simp]:
  "pf_ajv sample_platform = schema_accepts" "\<not> pf_throws sample_platform n"
  "pf_socket sample_platform c" "pf_peer sample_platform c"
  by (simp_all add: sample_platform_def)

definition sample_config :: connection_config where
  "sample_config = \<lparr>cc_deviceId = sample_device, cc_sessionId = sample_session, cc_ticket = [],
     cc_webSocketUrl = [], cc_iceServers = None\<rparr>"

definition sample_accept :: json where
  "sample_accept = JObj
     [(lit ''payload'', JObj [(lit ''expiresAt'', JNum 0), (lit ''permission'', JStr (lit ''control''))]),
      (lit ''sequence'', JNum 0), (lit ''sessionId'', JStr sample_session),
      (lit ''type'', JStr (lit ''session.accept'')), (lit ''version'', JNum 1)]"

definition sample_accept_text :: jstring where
  "sample_accept_text = (case json_text sample_accept of Some t \<Rightarrow> t | None \<Rightarrow> [])"

lemma accept_text: "json_text sample_accept = Some sample_accept_text"
  by (simp add: sample_accept_text_def sample_accept_def num_text_def is_integer_def)

lemma accept_parses: "json_parse sample_accept_text = Some sample_accept"
  by (rule json_parse_text [OF accept_text]) (simp add: sample_accept_def)

lemma accept_valid: "validateSignalingMessage schema_accepts sample_accept = Some sample_accept"
proof -
  let ?p = "SObject [Required ''expiresAt'' (SInteger (Some 0) None), Required ''permission'' PermissionSchema,
         Optional ''videoProfile'' VideoProfileSchema]"
  have p: "(''session.accept'', ?p) \<in> set signaling_payloads"
    by (simp add: signaling_payloads_def)
  have "schema_accepts ?p (JObj [(lit ''expiresAt'', JNum 0), (lit ''permission'', JStr (lit ''control''))])"
    by (simp add: known_keys_def literals_def PermissionSchema_def is_integer_def)
  then have "schema_accepts (signaling_envelope ''session.accept'' ?p) sample_accept"
    using reference.signaling_envelope_intro [of ?p _ 0 sample_session "''session.accept''"]
    by (simp add: sample_accept_def sample_ids MAX_SAFE_INTEGER_def)
  then show ?thesis
    using p reference.signaling_schema by (auto simp: validate_defs)
qed

lemma accept_read:
  "message_type sample_accept = lit ''session.accept''"
  "payload_of sample_accept ''permission'' = Some (JStr (lit ''control''))"
  "payload_of sample_accept ''videoProfile'' = None"
  by (simp_all add: sample_accept_def message_type_def payload_of_def string_of_def)

section \<open>The run\<close>

definition sample_socket_of :: "json list \<Rightarrow> channel_state \<Rightarrow> viewer_socket" where
  "sample_socket_of sent r = \<lparr>vs_ready = r, vs_sent = sent, vs_cycle = 1, vs_config = sample_config,
     vs_resume = False, vs_profile = BalancedProfile, vs_receivedServerIssue = False,
     vs_suppressAutoReconnect = False\<rparr>"

abbreviation sample_first :: viewer where
  "sample_first \<equiv> new_viewer False (Some sample_config)"

definition connecting_viewer :: viewer where
  "connecting_viewer = sample_first\<lparr>activeCycle := 1, connectionEstablishmentTimer := Some 1,
     viewerSockets := [sample_socket_of [] ChConnecting], webSocket := Some 0\<rparr>"

lemma connecting_step:
  "viewer_step sample_platform digest now (Connect BalancedProfile) sample_first = Some connecting_viewer"
  by (simp add: connectInternal_def startConnection_def connecting_viewer_def new_viewer_def
      cancelAutoReconnect_def sample_socket_of_def Let_def)

definition sample_sent :: "json list" where
  "sample_sent = [signaling_json ''session.request'' sample_session 1
     (session_request (sample_socket_of [] ChOpen))]"

definition reserved_viewer :: viewer where
  "reserved_viewer = connecting_viewer\<lparr>stateRef := Reserved, connectionState := Reserved,
     signalingSequence := 1, viewerSockets := [sample_socket_of sample_sent ChOpen]\<rparr>"

lemma not_all_positive: "\<not> All ((<) (0 :: nat))"
  by blast

lemma reserved_step:
  "viewer_step sample_platform digest now (SocketOpened 0) connecting_viewer = Some reserved_viewer"
  by (simp add: socket_at_def occurs_def connecting_viewer_def reserved_viewer_def new_viewer_def
      socket_opened_def set_socket_def update_viewer_socket_def sample_socket_of_def moveTo_def
      transitionConnectionState_def canTransitionConnectionState_def sendSignaling_def socket_ready_def
      sample_sent_def sample_config_def session_request_def Let_def not_all_positive)

definition sample_peer :: "channel_frame list \<Rightarrow> channel_state \<Rightarrow> viewer_peer" where
  "sample_peer sent r = \<lparr>vp_state = PeerNew, vp_cycle = 1, vp_config = sample_config,
     vp_control = \<lparr>dc_ready = r, dc_sent = sent\<rparr>, vp_image = new_channel, vp_file = new_channel,
     vp_offering = True\<rparr>"

definition negotiating_viewer :: viewer where
  "negotiating_viewer = reserved_viewer\<lparr>stateRef := Negotiating, connectionState := Negotiating,
     grantedControlRef := True, controlGranted := True, controlPolicyEnabled := True,
     viewerPeers := [sample_peer [] ChConnecting], peerConnection := Some 0, controlChannel := Some 0,
     imageClipboardChannel := Some 0, fileChannel := Some 0\<rparr>"

lemma sample_socket_fields [simp]:
  "vs_ready (sample_socket_of sent r) = r" "vs_cycle (sample_socket_of sent r) = 1"
  "vs_resume (sample_socket_of sent r) = False" "vs_config (sample_socket_of sent r) = sample_config"
  "vs_sent (sample_socket_of sent r) = sent"
  "vs_suppressAutoReconnect (sample_socket_of sent r) = False"
  by (simp_all add: sample_socket_of_def)

lemma negotiating_step:
  "viewer_step sample_platform digest now (SocketText 0 sample_accept_text) reserved_viewer
     = Some negotiating_viewer"
proof -
  have "mark_issue sample_accept s = s" for s by (simp add: mark_issue_def accept_read)
  then have same: "update_viewer_socket 0 (mark_issue sample_accept) reserved_viewer = reserved_viewer"
    by (simp add: update_viewer_socket_def reserved_viewer_def)
  have "handleSignalingMessage sample_platform now sample_accept 1 None reserved_viewer = (False, negotiating_viewer)"
    by (simp add: handleSignalingMessage_def session_accepted_def accept_read moveTo_def
        transitionConnectionState_def canTransitionConnectionState_def createPeerConnection_def
        negotiating_viewer_def reserved_viewer_def connecting_viewer_def new_viewer_def sample_peer_def
        new_channel_def Let_def)
  moreover have "viewerSockets reserved_viewer ! 0 = sample_socket_of sample_sent ChOpen"
      "activeCycle reserved_viewer = 1" "socket_at reserved_viewer 0 = Some ChOpen"
    by (simp_all add: reserved_viewer_def connecting_viewer_def socket_at_def)
  ultimately show ?thesis
    by (simp add: occurs_def socket_message_def accept_parses accept_valid same accept_read Let_def)
qed

definition sample_ping :: channel_frame where
  "sample_ping = TextFrame (control_json ''session.ping'' sample_session 1 0 (JObj []))"

definition open_viewer :: viewer where
  "open_viewer = negotiating_viewer\<lparr>channelOpenRef := True, missedControlPongs := 1, controlSequence := 1,
     viewerPeers := [sample_peer [sample_ping] ChOpen], pingTimer := Some (0, 1, sample_config)\<rparr>"

lemma open_step:
  "viewer_step sample_platform digest 0 (ControlOpened 0) negotiating_viewer = Some open_viewer"
  by (simp add: occurs_def open_viewer_def negotiating_viewer_def reserved_viewer_def
      connecting_viewer_def new_viewer_def sample_peer_def control_opened_def set_control_def
      update_peer_def active_step_legal deriveActiveState_def startControlPing_def sendPing_def
      controlChannelNeedsRecovery_def CONTROL_MAX_MISSED_PONGS_def send_control_def sample_config_def
      sample_ping_def Let_def)

definition active_viewer :: viewer where
  "active_viewer = open_viewer\<lparr>stateRef := ControlActive, connectionState := ControlActive,
     mediaStream := True, trackReadyRef := True, videoStatsTimer := Some (0, 1)\<rparr>"

lemma active_step:
  "viewer_step sample_platform digest 0 (TrackArrived 0) open_viewer = Some active_viewer"
  by (simp add: occurs_def active_viewer_def open_viewer_def negotiating_viewer_def reserved_viewer_def
      connecting_viewer_def new_viewer_def sample_peer_def track_arrived_def startVideoStats_def
      stopVideoStats_def active_step_legal deriveActiveState_def ACTIVE_STATE_ORDER_def
      state_order_defs Let_def)

definition sample_events :: "(int \<times> viewer_event) list" where
  "sample_events = [(0, Connect BalancedProfile), (0, SocketOpened 0), (0, SocketText 0 sample_accept_text),
     (0, ControlOpened 0), (0, TrackArrived 0)]"

lemma sample_run: "viewer_run sample_platform digest sample_events sample_first = Some active_viewer"
  by (simp add: sample_events_def connecting_step reserved_step negotiating_step open_step active_step
      del: viewer_step.simps)

lemma active_reachable: "reachable_viewer sample_platform digest active_viewer"
  unfolding reachable_viewer_def using sample_run by blast

lemma sample_peer_fields [simp]:
  "dc_ready (vp_control (sample_peer sent r)) = r" "dc_sent (vp_control (sample_peer sent r)) = sent"
  "vp_cycle (sample_peer sent r) = 1" "control_log (sample_peer sent r) = sent"
  by (simp_all add: sample_peer_def control_log_def)

lemma active_fields:
  "stateRef active_viewer = ControlActive" "grantedControlRef active_viewer" "activeCycle active_viewer = 1"
  "configRef active_viewer = Some sample_config" "controlChannel active_viewer = Some 0"
  "peerConnection active_viewer = Some 0" "webSocket active_viewer = Some 0"
  "viewerPeers active_viewer = [sample_peer [sample_ping] ChOpen]"
  "viewerSockets active_viewer = [sample_socket_of sample_sent ChOpen]"
  "controlSequence active_viewer = 1" "\<not> userDisconnected active_viewer"
  "\<not> autoReconnectTimer active_viewer" "autoReconnectAttempts active_viewer = 0"
  "missedControlPongs active_viewer = 1" "savedFiles active_viewer = []" "verifyingDownloads active_viewer = []"
  "ticketRequests active_viewer = []"
  by (simp_all add: active_viewer_def open_viewer_def negotiating_viewer_def reserved_viewer_def
      connecting_viewer_def new_viewer_def)

lemma active_injects: "may_inject active_viewer 0"
  by (simp add: may_inject_def active_fields)

end
