(* ===== verification/ViewerProperties.thy ===== *)
theory ViewerProperties
  imports ViewerSamples
begin

text \<open>
  The properties of the viewer: of the session hook over every run, of what it sends, of what
  it saves, and of the input capture that feeds it.
\<close>

section \<open>The session\<close>

text \<open>
  C4. In every state the session hook reaches: the state and the grant it renders are those it
  works with; a peer connection belongs to the active cycle, has its three channels, and exists
  only while negotiating or active; of the active cycle there is at most one attempt to reach
  the server (\<open>attempts\<close>: its unanswered ticket requests, its sockets not yet closed, its armed
  recovery timer); the timer of the automatic reconnect is not set while the user is marked as
  having disconnected; and the reconnect, back-off and heartbeat counters stay in their bounds.
  Nothing is said here of requests of earlier cycles, nor that a request still unanswered at a
  disconnect opens no session: \<open>disconnect_undone\<close> below shows one that does.
\<close>

theorem session_invariant:
  assumes "reachable_viewer pf digest v"
  shows "connectionState v = stateRef v \<and> controlGranted v = grantedControlRef v
    \<and> (\<forall>i. peerConnection v = Some i \<longrightarrow>
         i < length (viewerPeers v) \<and> vp_cycle (viewerPeers v ! i) = activeCycle v
         \<and> stateRef v \<in> {Negotiating, ViewActive, ControlActive}
         \<and> controlChannel v = Some i \<and> fileChannel v = Some i \<and> imageClipboardChannel v = Some i)
    \<and> attempts v \<le> 1 \<and> (userDisconnected v \<longrightarrow> \<not> autoReconnectTimer v)
    \<and> autoReconnectAttempts v \<le> AUTO_RECONNECT_MAX_ATTEMPTS
    \<and> SIGNALING_RECOVERY_INITIAL_DELAY_MS \<le> signalingRecoveryDelay v
    \<and> signalingRecoveryDelay v \<le> SIGNALING_RECOVERY_MAX_DELAY_MS
    \<and> missedControlPongs v \<le> CONTROL_MAX_MISSED_PONGS"
  using reachable_viewer_inv [OF assms]
  by (simp add: inv_defs AUTO_RECONNECT_MAX_ATTEMPTS_def CONTROL_MAX_MISSED_PONGS_def recovery_defs)

theorem session_invariant_witness:
  "connectionState active_viewer = ControlActive \<and> attempts active_viewer \<le> 1
   \<and> vp_cycle (viewerPeers active_viewer ! 0) = activeCycle active_viewer \<and> peerConnection active_viewer = Some 0"
  using session_invariant [OF active_reachable [of "\<lambda>b. b"]] by (simp add: active_fields)

text \<open>
  C5. The hook refines the machine of phases: each of its steps keeps the phase, loses it to
  \<open>Offline\<close>, reserves, negotiates after a reservation, or becomes active after negotiating,
  with the video track there and, for control, the channel open too; it never rests between.
\<close>

theorem session_refines_phases:
  assumes "reachable_viewer pf digest v" "viewer_step pf digest now e v = Some w"
  shows "phase_step (phase_of v) (phase_of w) \<and> resting (stateRef w)"
proof -
  have "resting (stateRef v)" by (rule reachable_resting [OF assms(1)])
  note viewer_step_phase [OF assms(2) this]
  moreover from phase_step_resting [OF this] \<open>resting (stateRef v)\<close> have "resting (stateRef w)"
    by (simp add: phase_of_def)
  ultimately show ?thesis by simp
qed

theorem session_refines_phases_witness:
  "phase_step (Negotiating, True, False) (ControlActive, True, True)"
proof -
  have "viewer_run sample_platform (\<lambda>b. b) (butlast sample_events) sample_first = Some open_viewer"
    by (simp add: sample_events_def connecting_step reserved_step negotiating_step open_step del: viewer_step.simps)
  then have "reachable_viewer sample_platform (\<lambda>b. b) open_viewer"
    unfolding reachable_viewer_def by blast
  from session_refines_phases [OF this active_step] show ?thesis
    by (simp add: phase_of_def active_viewer_def open_viewer_def negotiating_viewer_def reserved_viewer_def
        connecting_viewer_def new_viewer_def)
qed

text \<open>
  C6. Whatever happens in one step, a peer's control channel is written background traffic
  (pings and receiver reports) only, unless the session was \<open>ControlActive\<close>, granted, and the
  channel its own open one, in which case at most one message is written.
\<close>

theorem input_needs_the_grant:
  assumes "viewer_step pf digest now e v = Some w" "i < length (viewerPeers v)"
  shows "\<exists>fs. control_log (viewerPeers w ! i) = control_log (viewerPeers v ! i) @ fs
    \<and> (list_all background fs \<or>
        length fs = 1 \<and> stateRef v = ControlActive \<and> grantedControlRef v \<and> controlChannel v = Some i
        \<and> dc_ready (vp_control (viewerPeers v ! i)) = ChOpen)"
proof -
  have len: "length (viewerPeers v) \<le> length (viewerPeers w)"
    using viewer_step_logs [OF assms(1)]
    by (auto simp: logs_step_def grows_def injects_def dest: arg_cong [of _ _ length])
  have w: "control_log (viewerPeers w ! i) = logs w ! i" "control_log (viewerPeers v ! i) = logs v ! i"
    using assms(2) len by simp_all
  consider "grows background (logs v) (logs w)"
    | k m where "may_inject v k" "logs w = (logs v)[k := logs v ! k @ [TextFrame m]]"
    using viewer_step_logs [OF assms(1)] by (auto simp: logs_step_def injects_def)
  then show ?thesis
  proof cases
    case 1
    then show ?thesis using assms(2) unfolding w grows_def by fastforce
  next
    case (2 k m)
    then show ?thesis
      using assms(2) unfolding w
      by (cases "k = i") (auto simp: may_inject_def nth_list_update intro!: exI [of _ "[]"])
  qed
qed

theorem input_needs_the_grant_witness:
  "\<exists>fs. control_log (viewerPeers (sendKey sample_platform 0 (lit ''KeyA'') ''down'' active_viewer) ! 0)
      = [sample_ping] @ fs \<and> (list_all background fs \<or> length fs = 1)"
  using input_needs_the_grant [of sample_platform "\<lambda>b. b" 0 "UserEffect (SendKey (lit ''KeyA'') Down)" active_viewer _ 0]
  by (fastforce simp: active_fields)

text \<open>
  C20. A teardown of the active cycle that is not idle releases everything: no object, timer,
  transfer or grant is held, the state is \<open>Offline\<close>, the cycle is over, and the peer connection
  and the socket that were held are closed. A second teardown then does nothing.
\<close>

theorem teardown_releases:
  assumes "\<not> idle v" "w = teardownForCycle (activeCycle v) v"
  shows "released w \<and> stateRef w = Offline \<and> activeCycle w = activeCycle v + 1
    \<and> (\<forall>i. peerConnection v = Some i \<longrightarrow> i < length (viewerPeers v) \<longrightarrow>
         vp_state (viewerPeers w ! i) = PeerClosedState)
    \<and> (\<forall>i. webSocket v = Some i \<longrightarrow> i < length (viewerSockets v) \<longrightarrow>
         vs_ready (viewerSockets w ! i) \<in> {ChClosing, ChClosed})
    \<and> (\<forall>cycle. teardownForCycle cycle w = w)"
proof -
  note t = teardown_live [OF assms(1), folded assms(2)]
  have "idle w" using t(1,2) by (simp add: idle_def released_def)
  then have "teardownForCycle cycle w = w" for cycle by (rule teardown_idle)
  then show ?thesis using t(1,2,4,17,18) by blast
qed

theorem teardown_releases_witness:
  "released (teardownForCycle 1 active_viewer) \<and> stateRef (teardownForCycle 1 active_viewer) = Offline
   \<and> vp_state (viewerPeers (teardownForCycle 1 active_viewer) ! 0) = PeerClosedState
   \<and> vs_ready (viewerSockets (teardownForCycle 1 active_viewer) ! 0) \<in> {ChClosing, ChClosed}"
proof -
  have "\<not> idle active_viewer" by (simp add: idle_def active_fields)
  from teardown_releases [OF this refl] show ?thesis by (simp add: active_fields)
qed

text \<open>
  A disconnect is final. Once the user disconnected, no run without a new \<open>connect\<close> opens
  a socket or asks for a ticket, and the session stays offline with nothing scheduled; unless
  the hook was idle while a ticket of the active cycle was still awaited.
\<close>

theorem disconnect_is_final:
  assumes "reachable_viewer pf digest v"
    and "idle v \<Longrightarrow> \<forall>t \<in> set (ticketRequests v). ticket_cycle t \<noteq> activeCycle v"
    and "viewer_run pf digest es (disconnect v) = Some w" "\<And>now p. (now, Connect p) \<notin> set es"
  shows "stateRef w = Offline \<and> connectionState w = Offline \<and> userDisconnected w \<and> webSocket w = None
    \<and> peerConnection w = None \<and> \<not> autoReconnectTimer w \<and> signalingRecoveryTimer w = None
    \<and> length (viewerSockets w) = length (viewerSockets (disconnect v))
    \<and> length (ticketRequests w) \<le> length (ticketRequests (disconnect v))"
proof -
  have "quiet (disconnect v)" using reachable_viewer_inv [OF assms(1)] assms(2) by (rule disconnect_quiet)
  then have "stays_quiet (disconnect v) w" using quiet_run assms(3,4) by blast
  then have w: "quiet w" "no_more_tries (disconnect v) w" by (simp_all add: stays_quiet_def)
  show ?thesis using w quiet_facts(1,3,4,5) [OF w(1)] by (simp add: quiet_def no_more_tries_def)
qed

lemma disconnected_peers: "length (viewerPeers (disconnect active_viewer)) = 1"
proof -
  define u where "u = cancelAutoReconnect (active_viewer\<lparr>userDisconnected := True, autoReconnectAttempts := 0\<rparr>)"
  have "\<not> idle u" "length (viewerPeers u) = 1"
    by (simp_all add: u_def cancelAutoReconnect_def idle_def active_fields)
  then show ?thesis
    using list_all2_lengthD [OF teardown_live(15) [of u]] by (simp add: disconnect_def u_def Let_def)
qed

theorem disconnect_is_final_witness:
  "\<exists>w. viewer_run sample_platform (\<lambda>b. b) [(0, ControlClosed 0)] (disconnect active_viewer) = Some w
     \<and> stateRef w = Offline \<and> \<not> autoReconnectTimer w"
proof -
  obtain w where w: "viewer_run sample_platform (\<lambda>b. b) [(0, ControlClosed 0)] (disconnect active_viewer) = Some w"
    using disconnected_peers by (simp add: occurs_def)
  have "idle active_viewer \<Longrightarrow> \<forall>t \<in> set (ticketRequests active_viewer). ticket_cycle t \<noteq> activeCycle active_viewer"
    by (simp add: active_fields)
  from disconnect_is_final [OF active_reachable this w] w show ?thesis by simp
qed

text \<open>
  The exception of the last property happens. The run that shows it goes through states that
  have nothing open, described by their cycle, ticket requests, sockets and next number.
\<close>

definition resting_at :: "nat \<Rightarrow> ticket_request list \<Rightarrow> nat \<Rightarrow> nat \<Rightarrow> viewer \<Rightarrow> bool" where
  "resting_at c ts j n v \<longleftrightarrow> stateRef v = Offline \<and> webSocket v = None
     \<and> peerConnection v = None \<and> isProduction v \<and> activeCycle v = c \<and> ticketRequests v = ts
     \<and> length (viewerSockets v) = j \<and> signalingSequence v = n"

lemma resting_connect:
  assumes "resting_at c ts j n v" "\<not> isConnecting v"
  shows "resting_at (c + 1) (ts @ [ConnectTicket (c + 1) False p]) j n (connectInternal pf p False v)
    \<and> isConnecting (connectInternal pf p False v)"
  using assms by (simp add: resting_at_def connectInternal_def cancelAutoReconnect_def Let_def)

lemma resting_disconnect_fetching:
  assumes "resting_at c ts j n v" "isConnecting v"
  shows "resting_at (c + 1) ts j n (disconnect v) \<and> \<not> isConnecting (disconnect v)"
proof -
  define x where "x = cancelAutoReconnect (v\<lparr>userDisconnected := True, autoReconnectAttempts := 0\<rparr>)"
  define y where "y = x\<lparr>activeCycle := activeCycle x + 1\<rparr>"
  have x: "stateRef x = Offline" "webSocket x = None" "isConnecting x"
    using assms by (simp_all add: x_def resting_at_def cancelAutoReconnect_def)
  have "disconnect v = teardownForCycle (activeCycle x) x" by (simp add: disconnect_def x_def Let_def)
  also have "\<dots> = releaseResources y"
    using x by (cases "configRef x") (simp_all add: teardownForCycle_def y_def socket_ready_def offline_legal Let_def)
  finally have d: "disconnect v = releaseResources y" .
  have y: "resting_at (c + 1) ts j n y"
    using assms(1) by (simp add: y_def x_def resting_at_def cancelAutoReconnect_def)
  have n: "signalingSequence (releaseResources y) = signalingSequence y"
    by (rule releaseResources_shape [of y]) simp
  have "length (viewerSockets (releaseResources y)) = j"
    using list_all2_lengthD [OF release_objects(2) [of y]] y by (simp add: resting_at_def)
  then show ?thesis
    using n y released_releaseResources [of y] by (simp add: d resting_at_def released_def)
qed

lemma resting_stale_ticket:
  assumes "resting_at c (ts @ ConnectTicket c' False p # us) j n v" "c' \<noteq> c"
  shows "resting_at c (ts @ us) j n (ticket_answered pf (length ts) (Some fetched) v)
    \<and> \<not> isConnecting (ticket_answered pf (length ts) (Some fetched) v)"
  using assms by (simp add: resting_at_def ticket_answered_def connect_ticket_def Let_def)

lemma resting_disconnect_idle:
  assumes "resting_at c ts j n v" "\<not> isConnecting v"
  shows "resting_at c ts j n (disconnect v) \<and> userDisconnected (disconnect v)"
  using assms by (simp add: resting_at_def disconnect_def teardownForCycle_def cancelAutoReconnect_def Let_def)

lemma resting_ticket:
  assumes "resting_at c (ts @ [ConnectTicket c False p]) j n v" "pf_socket pf fetched"
  defines "w \<equiv> ticket_answered pf (length ts) (Some fetched) v"
  shows "stateRef w = Offline \<and> webSocket w = Some j \<and> activeCycle w = c \<and> signalingSequence w = n
    \<and> userDisconnected w = userDisconnected v
    \<and> viewerSockets w = viewerSockets v @ [\<lparr>vs_ready = ChConnecting, vs_sent = [], vs_cycle = c, vs_config = fetched,
         vs_resume = False, vs_profile = p, vs_receivedServerIssue = False, vs_suppressAutoReconnect = False\<rparr>]"
  using assms
  by (simp add: resting_at_def w_def ticket_answered_def connect_ticket_def startConnection_def Let_def)

lemma first_socket_requests:
  assumes "stateRef w = Offline" "webSocket w = Some j" "j < length (viewerSockets w)"
    and "vs_cycle (viewerSockets w ! j) = activeCycle w" "\<not> vs_resume (viewerSockets w ! j)"
  defines "s \<equiv> viewerSockets w ! j" and "x \<equiv> socket_opened j (set_socket j ChOpen w)"
  shows "stateRef x = Reserved \<and> webSocket x = Some j \<and> userDisconnected x = userDisconnected w
    \<and> vs_ready (viewerSockets x ! j) = ChOpen
    \<and> vs_sent (viewerSockets x ! j) = vs_sent s @
        [signaling_json ''session.request'' (cc_sessionId (vs_config s)) (signalingSequence w + 1)
           (JObj [(lit ''deviceId'', JStr (cc_deviceId (vs_config s))), (lit ''permission'', JStr (lit ''control'')),
                  (lit ''videoProfile'', JStr (lit (profile_text (vs_profile s))))])]"
  using assms(1-5)
  by (simp add: s_def x_def socket_opened_def set_socket_def update_viewer_socket_def moveTo_def
      transitionConnectionState_def canTransitionConnectionState_def sendSignaling_def socket_ready_def
      session_request_def Let_def)

text \<open>
  C16. A disconnect can be undone. In production, from any state with nothing open: connecting,
  disconnecting and connecting again leaves the answer to the first ticket request behind; when
  it comes, whatever it holds, it clears the mark of the second request, so the second disconnect
  finds nothing to end; and the answer to the second request then opens a socket for a user who
  disconnected, over which the session is requested as soon as it is open, for the device and
  session of that ticket.
\<close>

theorem disconnect_undone:
  assumes "isProduction v" "idle v" "pf_socket pf c2"
  defines "k \<equiv> length (ticketRequests v)" and "j \<equiv> length (viewerSockets v)"
  shows "\<exists>w. viewer_run pf digest [(t1, Connect p1), (t2, Disconnect), (t3, Connect p2), (t4, TicketAnswered k (Some c1)),
        (t5, Disconnect), (t6, TicketAnswered k (Some c2)), (t7, SocketOpened j)] v = Some w
    \<and> userDisconnected w \<and> stateRef w = Reserved \<and> webSocket w = Some j
    \<and> vs_ready (viewerSockets w ! j) = ChOpen
    \<and> vs_sent (viewerSockets w ! j) =
        [signaling_json ''session.request'' (cc_sessionId c2) (signalingSequence v + 1)
           (JObj [(lit ''deviceId'', JStr (cc_deviceId c2)), (lit ''permission'', JStr (lit ''control'')),
                  (lit ''videoProfile'', JStr (lit (profile_text p2)))])]"
proof -
  let ?T = "\<lambda>n p. ConnectTicket (activeCycle v + n) False p" and ?ts = "ticketRequests v" and ?n = "signalingSequence v"
  define a where "a = connectInternal pf p1 False v"
  define b where "b = disconnect a"
  define c where "c = connectInternal pf p2 False b"
  define d where "d = ticket_answered pf k (Some c1) c"
  define e where "e = disconnect d"
  define f where "f = ticket_answered pf k (Some c2) e"
  define g where "g = socket_opened j (set_socket j ChOpen f)"
  have "resting_at (activeCycle v) ?ts j ?n v" "\<not> isConnecting v"
    using assms(1,2) by (simp_all add: resting_at_def idle_def j_def)
  from resting_connect [OF this, of p1 pf] have a: "resting_at (activeCycle v + 1) (?ts @ [?T 1 p1]) j ?n a" "isConnecting a"
    by (simp_all add: a_def)
  from resting_disconnect_fetching [OF this]
  have b: "resting_at (activeCycle v + 2) (?ts @ [?T 1 p1]) j ?n b" "\<not> isConnecting b"
    by (simp_all add: b_def)
  from resting_connect [OF this, of p2 pf]
  have c: "resting_at (activeCycle v + 3) (?ts @ ?T 1 p1 # [?T 3 p2]) j ?n c"
    by (simp add: c_def numeral_3_eq_3)
  from resting_stale_ticket [OF this, of pf c1]
  have d: "resting_at (activeCycle v + 3) (?ts @ [?T 3 p2]) j ?n d" "\<not> isConnecting d"
    by (simp_all add: d_def k_def)
  from resting_disconnect_idle [OF this]
  have e: "resting_at (activeCycle v + 3) (?ts @ [?T 3 p2]) j ?n e" "userDisconnected e"
    by (simp_all add: e_def)
  note f = resting_ticket [OF e(1) assms(3), folded k_def, folded f_def]
  have len: "length (viewerSockets e) = j" using e(1) by (simp add: resting_at_def)
  then have sock: "viewerSockets f ! j = \<lparr>vs_ready = ChConnecting, vs_sent = [], vs_cycle = activeCycle v + 3,
      vs_config = c2, vs_resume = False, vs_profile = p2, vs_receivedServerIssue = False,
      vs_suppressAutoReconnect = False\<rparr>" "j < length (viewerSockets f)"
    using f by (simp_all add: nth_append)
  have g: "stateRef g = Reserved \<and> webSocket g = Some j \<and> userDisconnected g = userDisconnected f
    \<and> vs_ready (viewerSockets g ! j) = ChOpen
    \<and> vs_sent (viewerSockets g ! j) = [signaling_json ''session.request'' (cc_sessionId c2) (?n + 1)
           (JObj [(lit ''deviceId'', JStr (cc_deviceId c2)), (lit ''permission'', JStr (lit ''control'')),
                  (lit ''videoProfile'', JStr (lit (profile_text p2)))])]"
    unfolding g_def using first_socket_requests [of f j] f sock by simp
  have steps: "k < length (ticketRequests c)" "k < length (ticketRequests e)" "socket_at f j = Some ChConnecting"
    using c e(1) sock by (simp_all add: resting_at_def k_def socket_at_def)
  then have "viewer_run pf digest [(t1, Connect p1), (t2, Disconnect), (t3, Connect p2), (t4, TicketAnswered k (Some c1)),
        (t5, Disconnect), (t6, TicketAnswered k (Some c2)), (t7, SocketOpened j)] v = Some g"
    by (simp add: occurs_def flip: a_def b_def c_def d_def e_def f_def g_def)
  then show ?thesis using g f e(2) by auto
qed

theorem disconnect_undone_witness:
  "\<exists>w. viewer_run sample_platform (\<lambda>b. b)
        (map (Pair 0) [Connect BalancedProfile, Disconnect, Connect HighProfile, TicketAnswered 0 (Some sample_config),
           Disconnect, TicketAnswered 0 (Some sample_config), SocketOpened 0]) (new_viewer True None) = Some w
     \<and> userDisconnected w \<and> stateRef w = Reserved \<and> webSocket w = Some 0"
proof -
  have v: "isProduction (new_viewer True None)" "idle (new_viewer True None)"
    "ticketRequests (new_viewer True None) = []" "viewerSockets (new_viewer True None) = []"
    by (simp_all add: new_viewer_def idle_def)
  show ?thesis
    using disconnect_undone [OF v(1,2), of sample_platform sample_config "\<lambda>b. b" 0 BalancedProfile 0 0 HighProfile 0 sample_config 0 0 0]
    by (auto simp: v(3,4) simp del: viewer_run.simps)
qed

text \<open>
  C21. A silent control channel is noticed. Eight pings without a pong change no state; the
  ninth tick tears the session down and schedules a reconnect.
\<close>

theorem silent_channel_detected:
  assumes "never_throws pf" "i < length (viewerPeers v)"
    and "dc_ready (vp_control (viewerPeers v ! i)) = ChOpen" "missedControlPongs v = 0"
    and "controlChannel v = Some i" "stateRef v \<noteq> Offline" "\<not> userDisconnected v"
    and "\<not> autoReconnectTimer v" "autoReconnectAttempts v < AUTO_RECONNECT_MAX_ATTEMPTS"
  shows "(\<forall>n \<le> 8. stateRef (ping_ticks pf now i (activeCycle v) c n v) = stateRef v
        \<and> missedControlPongs (ping_ticks pf now i (activeCycle v) c n v) = n)
    \<and> stateRef (ping_ticks pf now i (activeCycle v) c 9 v) = Offline
    \<and> controlChannel (ping_ticks pf now i (activeCycle v) c 9 v) = None
    \<and> autoReconnectTimer (ping_ticks pf now i (activeCycle v) c 9 v)"
  using ping_ticks_alive [OF assms(1-4), of _ now "activeCycle v" c] ping_ticks_dead [OF assms, of now c]
  by simp

theorem silent_channel_detected_witness:
  "stateRef (ping_ticks sample_platform 0 0 1 sample_config 9 (active_viewer\<lparr>missedControlPongs := 0\<rparr>)) = Offline
   \<and> autoReconnectTimer (ping_ticks sample_platform 0 0 1 sample_config 9 (active_viewer\<lparr>missedControlPongs := 0\<rparr>))"
  using silent_channel_detected [of sample_platform 0 "active_viewer\<lparr>missedControlPongs := 0\<rparr>" 0 sample_config]
  by (simp add: active_fields never_throws_def AUTO_RECONNECT_MAX_ATTEMPTS_def)

text \<open>
  C18. A policy that revokes control, or reports the host locked, makes the viewer release the
  host's keys and buttons while it still may, with exactly one message; after it the viewer
  sends no input.
\<close>

theorem revoked_grant_releases:
  assumes "may_inject v i" "configRef v = Some c" "\<not> pf_throws pf (controlSequence v + 1)"
    and "i < length (viewerPeers v)" "revokes m" "w = session_policy pf now m v"
  shows "control_log (viewerPeers w ! i) = control_log (viewerPeers v ! i) @
      [TextFrame (control_json ''control.release-all'' (cc_sessionId c) (controlSequence v + 1) now (JObj []))]
    \<and> \<not> grantedControlRef w \<and> (\<forall>later e. perform pf later e w = w)
    \<and> (\<forall>later text. setRemoteClipboard pf later text w = w)"
proof -
  have no: "\<not> grantedControlRef w" using assms(5,6) by (auto simp: session_policy_def Let_def revokes_def)
  then have off: "emitControl pf later ev d w = w" for later ev d by (simp add: emitControl_def)
  have "perform pf later e w = w" for later e
    by (simp add: perform_message off split: option.split prod.split)
  then show ?thesis
    using session_policy_release [OF assms(1-5), of now] no off unfolding assms(6)
    by (simp add: setRemoteClipboard_def)
qed

definition locked_policy :: json where
  "locked_policy = JObj [(lit ''payload'', JObj [(lit ''controlEnabled'', JBool True),
     (lit ''controlGranted'', JBool True), (lit ''locked'', JBool True)])]"

theorem revoked_grant_releases_witness:
  "control_log (viewerPeers (session_policy sample_platform 7 locked_policy active_viewer) ! 0) =
     [sample_ping, TextFrame (control_json ''control.release-all'' sample_session 2 7 (JObj []))]"
proof -
  have "revokes locked_policy" by (simp add: revokes_def locked_policy_def payload_of_def)
  then show ?thesis
    using revoked_grant_releases [OF active_injects active_fields(4) _ _ _ refl, of sample_platform locked_policy 7]
    by (simp add: active_fields sample_config_def numeral_2_eq_2)
qed

text \<open>
  C17. A viewer that another one displaced stays away. The room's \<open>SESSION_REPLACED\<close> error, as
  the room writes it, ends the session it reaches, and the close of that socket which follows
  schedules no reconnect of any kind.
\<close>

theorem displaced_viewer_stays_away:
  assumes "json_schema_validator (pf_ajv pf)" "opaque_id (at_sessionId a)"
    and "webSocket v = Some i" "i < length (viewerSockets v)" "vs_cycle (viewerSockets v ! i) = activeCycle v"
    and "w = socket_message pf now i (error_frame a ''SESSION_REPLACED'' True) v"
    and "u = socket_closed i (set_socket i ChClosed w)"
  shows "stateRef u = Offline \<and> webSocket u = None \<and> peerConnection u = None \<and> \<not> isConnecting u
    \<and> \<not> autoReconnectTimer u \<and> signalingRecoveryTimer u = None
    \<and> length (viewerSockets u) = length (viewerSockets v)"
proof -
  have "''SESSION_REPLACED'' \<in> set ROOM_CODES" by (simp add: ROOM_CODES_def)
  note e = room_error_ends [OF assms(1) this _ _ assms(2-5), of now True, folded assms(6), simplified]
  have "u = set_socket i ChClosed w"
    unfolding assms(7) by (rule replaced_close_silent) (use e assms(4) in \<open>simp_all add: released_def\<close>)
  then show ?thesis using e by (simp add: set_socket_def update_viewer_socket_def released_def)
qed

theorem displaced_viewer_stays_away_witness:
  "stateRef (socket_closed 0 (set_socket 0 ChClosed (socket_message sample_platform 0 0
      (error_frame (sample_attachment Viewer 0) ''SESSION_REPLACED'' True) active_viewer))) = Offline
   \<and> \<not> autoReconnectTimer (socket_closed 0 (set_socket 0 ChClosed (socket_message sample_platform 0 0
      (error_frame (sample_attachment Viewer 0) ''SESSION_REPLACED'' True) active_viewer)))"
  using displaced_viewer_stays_away [of sample_platform "sample_attachment Viewer 0" active_viewer 0 _ 0,
      OF _ _ active_fields(7) _ _ refl refl] reference.json_schema_validator_axioms
  by (simp add: active_fields sample_attachment_def sample_ids)

section \<open>Downloads\<close>

text \<open>
  C19. In every run a step saves a file only as the end of a download that was whole, of the
  announced length, and whose digest is the announced one; the file is its chunks in order.
\<close>

theorem only_verified_files_saved:
  assumes "reachable_viewer pf digest v" "viewer_step pf digest now e v = Some w"
  shows "savedFiles w = savedFiles v
    \<or> (\<exists>d sha. (d, sha) \<in> set (verifyingDownloads v)
        \<and> savedFiles w = savedFiles v @ [(fd_name d, concat (fd_chunks d))]
        \<and> length (concat (fd_chunks d)) = fd_size d \<and> sha256Hex digest (concat (fd_chunks d)) = sha)"
  using assms by (rule step_saves_whole)

theorem only_verified_files_saved_witness:
  "savedFiles (requestFileList sample_platform 0 active_viewer) = []
   \<or> (\<exists>d. savedFiles (requestFileList sample_platform 0 active_viewer) = [(fd_name d, concat (fd_chunks d))])"
  using only_verified_files_saved [OF active_reachable, of "\<lambda>b. b" 0 RequestFiles]
  by (auto simp: active_fields)

text \<open>
  A download delivers. Once the offer has set its size, whatever chunks arrive before the
  announced end, the file is saved under the requested name, as those chunks in order, if they
  have the announced length and digest; otherwise nothing is saved and an error is shown.
\<close>

theorem download_delivers:
  assumes "fileDownload v = Some d" "fd_chunks d = []" "w = download_end digest sha cs v"
  shows "if length (concat cs) = fd_size d \<and> sha256Hex digest (concat cs) = sha
    then savedFiles w = savedFiles v @ [(fd_name d, concat cs)]
         \<and> map_option ds_status (fileDownloadState w) = Some DownloadDone
    else savedFiles w = savedFiles v \<and> map_option ds_status (fileDownloadState w) = Some DownloadError"
  using download_end_cases [OF assms(1,2), where digest = digest and sha = sha and cs = cs] assms(3) by auto

definition sample_download :: file_download where
  "sample_download = \<lparr>fd_transferId = lit ''transfer_1'', fd_name = lit ''a.txt'', fd_size = 3,
     fd_received = 0, fd_lastPercent = - 1, fd_chunks = []\<rparr>"

theorem download_delivers_witness:
  "savedFiles (download_end (\<lambda>b. b) (sha256Hex (\<lambda>b. b) [1, 2, 3]) [[1], [2, 3]]
     (active_viewer\<lparr>fileDownload := Some sample_download\<rparr>)) = [(lit ''a.txt'', [1, 2, 3])]"
  using download_delivers [of "active_viewer\<lparr>fileDownload := Some sample_download\<rparr>" sample_download _
      "\<lambda>b. b" "sha256Hex (\<lambda>b. b) [1, 2, 3]" "[[1], [2, 3]]", OF _ _ refl]
  by (simp add: sample_download_def active_fields)

section \<open>Input\<close>

text \<open>
  What an effect of any run of the input capture makes the session write is a message
  the control schema admits (of a known event, with a whitelisted key, a position in the unit
  square, a wheel delta in its bounds).
\<close>

theorem captured_input_is_protocol:
  assumes "captured s" "e \<in> set (effects s)" "configRef v = Some c" "opaque_id (cc_sessionId c)"
    and "int (controlSequence v + 1) \<le> MAX_SAFE_INTEGER" "0 \<le> now" "i < length (viewerPeers v)"
  shows "\<exists>fs. control_log (viewerPeers (perform pf now e v) ! i) = control_log (viewerPeers v ! i) @ fs
    \<and> (\<forall>f \<in> set fs. \<exists>m. f = TextFrame m \<and> schema_accepts ControlMessageSchema m)"
  using assms by (rule captured_message_valid)

definition sample_capture :: "input_event list \<Rightarrow> capture" where
  "sample_capture es = fold handle es (the (useInputCapture True True))"

lemma sample_captured: "captured (sample_capture es)"
proof -
  have "captured (fold handle es s)" if "captured s" for s
    using that by (induction es arbitrary: s) (simp_all add: captured_event)
  then show ?thesis
    unfolding sample_capture_def by (simp add: captured_start useInputCapture_def)
qed

theorem captured_input_is_protocol_witness:
  "\<exists>fs. control_log (viewerPeers (perform sample_platform 0 (SendPointerWheel 1200 0) active_viewer) ! 0)
      = [sample_ping] @ fs \<and> (\<forall>f \<in> set fs. \<exists>m. f = TextFrame m \<and> schema_accepts ControlMessageSchema m)"
proof -
  have "\<lfloor>1 / 2 :: rat\<rfloor> = 0" by (rule floor_unique) simp_all
  then have "SendPointerWheel 1200 0 \<in> set (effects (sample_capture [Wheeled 5000 0]))"
    by (simp add: sample_capture_def useInputCapture_def handleWheel_def emit_def clampWheel_def
        WHEEL_LIMIT_def floor_divide_eq_div_numeral)
  then show ?thesis
    using captured_input_is_protocol [OF sample_captured _ active_fields(4), of "SendPointerWheel 1200 0"
        "[Wheeled 5000 0]" 0 0 sample_platform]
    by (simp add: active_fields sample_config_def sample_ids MAX_SAFE_INTEGER_def)
qed

text \<open>
  C22. No key sticks. When the host holds a captured key, the key-up of it releases it, also
  over an input field of the page; and when the window loses the focus the host holds none.
\<close>

theorem held_key_is_released:
  assumes "captured s" "c \<in> held_keys (effects s)" "c = getRemoteKeyCode (ke_key e) (ke_code e)"
  shows "c \<notin> held_keys (effects (handle (KeyReleased e) s))
    \<and> held_keys (effects (handle (KeyReleased e) s)) \<subseteq> held_keys (effects s)
    \<and> held_keys (effects (handle Blurred s)) = {}"
proof -
  have ok: "keys_ok s" "shift_ok s" using captured_keys [OF assms(1)] by simp_all
  then have c: "c \<in> forwardedKeys s" "rmatch KEY_CODE_PATTERN c"
    using assms(2) by (auto simp: keys_ok_def captured_codes_def)
  then have "\<not> ignored_up e s" using assms(3) by (simp add: ignored_up_def)
  note up = keyUp_handled(3) [OF this ok(2), folded assms(3)]
  show ?thesis using up by (auto simp: releaseAll_def)
qed

definition key_of :: "string \<Rightarrow> bool \<Rightarrow> key_event" where
  "key_of code shift = \<lparr>ke_key = lit ''k'', ke_code = lit code, ke_repeat = False, ke_shiftKey = shift,
     ke_target = None\<rparr>"

lemma key_of_fields [simp]:
  "getRemoteKeyCode (ke_key (key_of code shift)) (ke_code (key_of code shift)) = lit code"
  "ke_repeat (key_of code shift) = False" "ke_shiftKey (key_of code shift) = shift"
  "isInteractiveTarget (ke_target (key_of code shift)) = False"
  by (simp_all add: key_of_def getRemoteKeyCode_def isInteractiveTarget_def)

lemma key_a: "rmatch KEY_CODE_PATTERN (lit ''KeyA'')" "\<not> is_shift (lit ''KeyA'')"
proof -
  have "lit ''KeyA'' \<in> captured_codes"
    unfolding captured_codes_iff by (simp add: CAPTURE_CODES_def prefixed_def letters_def)
  then show "rmatch KEY_CODE_PATTERN (lit ''KeyA'')" by (simp add: captured_codes_def)
  show "\<not> is_shift (lit ''KeyA'')" by (simp add: is_shift_def js_starts_with_def lit_Cons)
qed

lemma shifted_a:
  assumes "lit ''ShiftLeft'' \<notin> forwardedKeys s" "lit ''ShiftRight'' \<notin> forwardedKeys s"
  shows "handleKeyDown (key_of ''KeyA'' True) s = press_key (lit ''KeyA'')
    ((press_key (lit ''ShiftLeft'') (emit PreventDefault s))\<lparr>synthesizedShift := Some (lit ''ShiftLeft'')\<rparr>)"
  using assms by (simp add: handleKeyDown_def repair_shift_def key_a Let_def)

lemma shifted_a_state:
  "held_keys (effects (sample_capture [KeyPressed (key_of ''KeyA'' True)])) = {lit ''ShiftLeft'', lit ''KeyA''}"
  "forwardedKeys (sample_capture [KeyPressed (key_of ''KeyA'' True)]) = {lit ''ShiftLeft'', lit ''KeyA''}"
proof -
  define s where "s = the (useInputCapture True True)"
  have s: "forwardedKeys s = {}" "held_keys (effects s) = {}"
    by (simp_all add: s_def useInputCapture_def)
  then show "held_keys (effects (sample_capture [KeyPressed (key_of ''KeyA'' True)])) = {lit ''ShiftLeft'', lit ''KeyA''}"
    "forwardedKeys (sample_capture [KeyPressed (key_of ''KeyA'' True)]) = {lit ''ShiftLeft'', lit ''KeyA''}"
    unfolding sample_capture_def s_def [symmetric]
    by (simp_all add: shifted_a insert_commute)
qed

theorem held_key_is_released_witness:
  "lit ''KeyA'' \<notin> held_keys (effects (handle (KeyReleased (key_of ''KeyA'' False))
     (sample_capture [KeyPressed (key_of ''KeyA'' True)])))"
  by (rule held_key_is_released [OF sample_captured, THEN conjunct1]) (simp_all add: shifted_a_state)

text \<open>
  Shift follows the event. After a forwarded key-down the host holds the key, and holds a
  Shift exactly if the event says so, provided that for a shifted event the host holds what
  was forwarded to it.
\<close>

theorem shift_follows_event:
  assumes "captured s" "\<not> ke_repeat e" "\<not> isInteractiveTarget (ke_target e)"
    and "c = getRemoteKeyCode (ke_key e) (ke_code e)" "c \<in> captured_codes" "\<not> is_shift c"
    and "ke_shiftKey e \<Longrightarrow> held_keys (effects s) = forwardedKeys s"
  shows "c \<in> held_keys (effects (handle (KeyPressed e) s))
    \<and> (shifted (held_keys (effects (handle (KeyPressed e) s))) \<longleftrightarrow> ke_shiftKey e)"
proof -
  have "keys_ok s" using captured_keys [OF assms(1)] by simp
  note down = keyDown_shift [OF this assms(2,3) _ assms(6,4)]
  show ?thesis using down assms(5,7) by (auto simp: captured_codes_def)
qed

theorem shift_follows_event_witness:
  "\<not> shifted (held_keys (effects (handle (KeyPressed (key_of ''KeyA'' False))
     (sample_capture [KeyPressed (key_of ''KeyA'' True)]))))"
  using shift_follows_event [OF sample_captured, of "key_of ''KeyA'' False" "lit ''KeyA''"
      "[KeyPressed (key_of ''KeyA'' True)]"] key_a
  by (simp add: captured_codes_def)

definition cancel_event :: pointer_event where
  "cancel_event = \<lparr>pe_touch = True, pe_button = 0, pe_pointerId = 1, pe_clientX = 0, pe_clientY = 0,
     pe_view = \<lparr>vw_videoWidth = 1, vw_videoHeight = 1, vw_left = 0, vw_top = 0, vw_width = 1, vw_height = 1\<rparr>,
     pe_hasCapture = False\<rparr>"

text \<open>
  The proviso on Shift is needed. A cancelled pointer makes the host release everything
  while the capture still counts its keys as forwarded: the next shifted key arrives at the
  host without its Shift.
\<close>

theorem cancelled_pointer_drops_shift:
  "\<exists>s. captured s \<and> held_keys (effects s) = {lit ''KeyA''}
     \<and> s = handle (KeyPressed (key_of ''KeyA'' True)) (handle (PointerCancelled cancel_event)
             (sample_capture [KeyPressed (key_of ''KeyA'' True)]))"
proof -
  let ?s = "sample_capture [KeyPressed (key_of ''KeyA'' True)]"
  have "forwardedKeys (handlePointerCancel cancel_event ?s) = {lit ''ShiftLeft'', lit ''KeyA''}"
    "held_keys (effects (handlePointerCancel cancel_event ?s)) = {}"
    using shifted_a_state
    by (simp_all add: handlePointerCancel_def release_capture_def cancel_event_def resetTouchGesture_def
        clearLongPressTimer_def)
  then have "held_keys (effects (handle (KeyPressed (key_of ''KeyA'' True)) (handle (PointerCancelled cancel_event) ?s)))
      = {lit ''KeyA''}"
    by (simp add: handleKeyDown_def repair_shift_def key_a Let_def)
  then show ?thesis using captured_event [OF captured_event [OF sample_captured]] by blast
qed

text \<open>
  C23. A touch makes one click. Between the press of a touch and its release, whatever moves,
  keys, timers and frames happen, the gesture becomes exactly one left press and release or
  one right press and release, in this order, and leaves no gesture open.
\<close>

theorem touch_makes_one_click:
  assumes "captured s" "pe_touch press" "pe_button press = 0" "pe_touch release"
    and "\<not> isl (toNormalized (pe_view press) (pe_clientX press) (pe_clientY press))"
    and "list_all gesture_event es"
    and "t = handle (PointerReleased release) (fold handle es (handle (PointerPressed press) s))"
  shows "touchPhase t = None \<and> (\<exists>b \<in> {LeftButton, RightButton}.
    button_sends (effects t) = button_sends (effects s) @ [SendPointerButton b Down, SendPointerButton b Up])"
proof -
  have "captured (handle (PointerPressed press) s)" using assms(1) by (rule captured_event)
  then have ok: "touch_ok (handle (PointerPressed press) s)" by (rule captured_touch)
  have "gesture_state (button_sends (effects s)) (handle (PointerPressed press) s)"
    using gesture_press [OF assms(2,3,5)] by simp
  then have "gesture_state (button_sends (effects s)) (fold handle es (handle (PointerPressed press) s))"
    using gesture_run [OF assms(6) ok] by blast
  from gesture_release [OF assms(4) this] show ?thesis by (auto simp: assms(7))
qed

theorem touch_makes_one_click_witness:
  "\<exists>b \<in> {LeftButton, RightButton}. button_sends (effects (handle (PointerReleased cancel_event)
      (fold handle [LongPressFired] (handle (PointerPressed cancel_event) (sample_capture [])))))
    = [SendPointerButton b Down, SendPointerButton b Up]"
  using touch_makes_one_click [OF sample_captured _ _ _ _ _ refl, of cancel_event cancel_event "[LongPressFired]" "[]"]
  by (simp add: cancel_event_def toNormalized_def normalizePointerToContent_def computeContainRect_def
      sample_capture_def useInputCapture_def button_sends_def)

section \<open>Corner cases\<close>

text \<open>
  The host's refusal of an upload that is being streamed is not heard: there is no promise left
  to reject, and the viewer goes on to wait for a result.
\<close>

lemma streaming_refusal_lost:
  assumes "fileUpload v = Some i" "fu_phase (fileUploads v ! i) = Streaming"
    and "is_event m ''file.error''" "text_data m ''transferId'' = fu_transferId (fileUploads v ! i)"
  shows "upload_event m v = v"
  using assms by (auto simp: upload_event_def is_event_def fail_upload_def Let_def)

text \<open>
  An upload whose file is still being read outlives its session: the release has no promise to
  reject. When the data is there it goes on in the session that is then active, and its time
  limit puts its error in the place of a newer upload's card, which cannot be dismissed then.
\<close>

lemma reading_upload_survives:
  assumes "fileUpload v = Some i" "i < length (fileUploads v)" "fu_phase (fileUploads v ! i) = ReadingFile"
  shows "fileUpload (release_upload v) = None \<and> fu_phase (fileUploads (release_upload v) ! i) = ReadingFile
    \<and> fileTransfer (release_upload v) = fileTransfer v"
  using assms by (simp add: release_upload_def fail_upload_def cancel_upload_def Let_def)

lemma late_timeout_replaces_card:
  assumes "fileUpload v = Some j" "i \<noteq> j" "fu_phase (fileUploads v ! i) = AwaitingAccept"
  defines "w \<equiv> upload_timeout i v"
  shows "fileUpload w = Some j \<and> clearFileTransfer w = w
    \<and> fileTransfer w = Some \<lparr>ts_errorCode = Some (lit ''TIMEOUT''), ts_fileName = fu_name (fileUploads v ! i),
        ts_progress = 0, ts_status = TransferError\<rparr>"
  using assms(1-3) by (simp add: w_def upload_timeout_def fail_upload_def clearFileTransfer_def Let_def)

text \<open>
  A heartbeat whose first ping throws tears the cycle down and then still stores its interval.
\<close>

lemma first_ping_failure_leaves_timer:
  assumes "pf_throws pf (controlSequence v + 1)" "configRef v = Some c" "controlChannel v = Some i"
    and "\<not> userDisconnected v"
  shows "stateRef (startControlPing pf now i (activeCycle v) v) = Offline
    \<and> pingTimer (startControlPing pf now i (activeCycle v) v) = Some (i, activeCycle v, c)"
proof -
  have recover: "stateRef (recoverControlChannel i (activeCycle u) u) = Offline"
    if "controlChannel u = Some i" "\<not> userDisconnected u" for u
  proof -
    define x where "x = (stopPing (u\<lparr>channelOpenRef := False\<rparr>))\<lparr>roundTripTimeMs := None\<rparr>"
    have "recoverControlChannel i (activeCycle u) u = scheduleAutoReconnect (teardownForCycle (activeCycle x) x)"
      using that by (simp add: recoverControlChannel_def x_def stopPing_def)
    then show ?thesis
      using teardown_live(2) [of x] teardown_idle [of x] by (cases "idle x") (simp_all add: idle_def)
  qed
  show ?thesis
    using assms recover [of "v\<lparr>controlSequence := controlSequence v + 1, missedControlPongs := 1\<rparr>"]
      recover [of "v\<lparr>missedControlPongs := 0\<rparr>"]
    by (simp add: startControlPing_def sendPing_def send_control_def Let_def)
qed

text \<open>
  Two clipboard images may be prepared at once, since the check for one under way is made
  before the data is read. The first is then no longer the current one, and nothing settles
  its promise: not its time limit, nor the end of its stream.
\<close>

lemma second_image_strands_first:
  assumes "clipboardImageUpload v = Some i" "i < length (imageUploads v)"
    and "w = image_prepared pf digest now data random v"
  shows "imageUploads w ! i = imageUploads v ! i \<and> image_timeout i w = w \<and> image_streamed pf now i StreamStopped w = w"
proof -
  have sent: "clipboardImageUpload b = clipboardImageUpload a \<and> imageUploads b = imageUploads a"
    if "sendImageClipboardMessage pf now e d a = (r, b)" for e d a r b
    using that by (auto simp: sendImageClipboardMessage_def send_image_frame_def update_peer_def Let_def
        split: option.splits if_splits)
  have "clipboardImageUpload w \<noteq> Some i \<and> imageUploads w ! i = imageUploads v ! i"
    using assms by (auto simp: image_prepared_def reject_current_image_def settle_image_def Let_def nth_append
        split: prod.splits bool.splits dest!: sent)
  then show ?thesis by (simp add: image_timeout_def image_streamed_def reject_current_image_def)
qed

end
