(* ===== verification/ViewerPeer.thy ===== *)
theory ViewerPeer
  imports RemoteRuns "HOL-Library.Multiset"
begin

text \<open>
  What the session hook asks of the browser's peer connection (\<open>useRemoteSession.ts\<close>): its ICE
  servers, the codec preference, the way from \<open>createOffer\<close> to the gathered offer with the wait
  of \<open>waitForIceGathering\<close>, and where an answer or a candidate of the host goes. The session's
  step \<open>OfferReady\<close> is what a negotiation ends with.
\<close>

section \<open>The connection's configuration\<close>

definition peer_ice_servers :: "connection_config \<Rightarrow> json list" where
  "peer_ice_servers c =
     JObj [(lit ''urls'', JStr (lit ''stun:stun.cloudflare.com:3478''))]
       # (case cc_iceServers c of Some servers \<Rightarrow> servers | None \<Rightarrow> [])"

text \<open>
  A codec is its media type and its format parameters; only the type is looked at. The lower
  case of \<open>ascii_lower\<close> is that of the code for media types, which are ASCII.
\<close>

record codec =
  cd_mimeType :: jstring
  cd_parameters :: "jstring option"

definition PREFERRED_VIDEO_CODECS :: "string list" where
  "PREFERRED_VIDEO_CODECS = [''video/h264'', ''video/vp8'']"

fun index_of :: "jstring \<Rightarrow> string list \<Rightarrow> nat option" where
  "index_of x [] = None"
| "index_of x (y # ys) = (if x = lit y then Some 0 else map_option Suc (index_of x ys))"

definition codec_rank :: "codec \<Rightarrow> nat" where
  "codec_rank c =
     (case index_of (ascii_lower (cd_mimeType c)) PREFERRED_VIDEO_CODECS of
        Some i \<Rightarrow> i
      | None \<Rightarrow> length PREFERRED_VIDEO_CODECS)"

text \<open>
  What is set on the transceiver: \<open>None\<close> where the browser has no capabilities to tell, no
  \<open>setCodecPreferences\<close>, or rejects the list. \<open>Array.prototype.sort\<close> is stable.
\<close>

definition applyPreferredVideoCodecs ::
  "codec list option \<Rightarrow> bool \<Rightarrow> (codec list \<Rightarrow> bool) \<Rightarrow> codec list option" where
  "applyPreferredVideoCodecs capabilities settable accepted =
     (case capabilities of
        None \<Rightarrow> None
      | Some codecs \<Rightarrow>
          if \<not> settable then None
          else (let ordered = sort_key codec_rank codecs in if accepted ordered then Some ordered else None))"

section \<open>The negotiation of one peer connection\<close>

definition ICE_GATHERING_TIMEOUT_MS :: nat where
  "ICE_GATHERING_TIMEOUT_MS = 10000"

datatype ice_gathering = IceNew | IceGathering | IceComplete

text \<open>
  Where the function that makes the offer waits: for \<open>createOffer\<close>, \<open>setLocalDescription\<close>,
  \<open>waitForIceGathering\<close>, or for nothing more.
\<close>

datatype negotiation_wait = MakingOffer | SettingDescription | GatheringIce | Negotiated

record negotiation =
  ng_step :: negotiation_wait
  ng_gathering :: ice_gathering
  ng_sdp :: "jstring option"
  ng_timer :: "nat option"
  ng_listening :: bool

definition new_negotiation :: negotiation where
  "new_negotiation = \<lparr>ng_step = MakingOffer, ng_gathering = IceNew, ng_sdp = None, ng_timer = None,
     ng_listening = False\<rparr>"

text \<open>
  A promise is rejected, the browser adds a candidate to the local description, or changes
  \<open>iceGatheringState\<close>. A step gives what the negotiation ends with, if it ends: the text of the
  local description, or \<open>None\<close> where a step of the function threw.
\<close>

datatype negotiation_event =
    OfferCreated
  | DescriptionSet jstring
  | StepRejected
  | CandidateAdded jstring
  | GatheringChanged ice_gathering
  | GatheringTimeout

type_synonym outcome = "jstring option option"

text \<open>The continuation after the wait, with the description as it is now.\<close>

definition gathered :: "negotiation \<Rightarrow> negotiation \<times> outcome" where
  "gathered n = (n\<lparr>ng_step := Negotiated\<rparr>, Some (ng_sdp n))"

definition finish_wait :: "negotiation \<Rightarrow> negotiation \<times> outcome" where
  "finish_wait n = gathered (n\<lparr>ng_timer := None, ng_listening := False\<rparr>)"

definition waitForIceGathering :: "nat \<Rightarrow> negotiation \<Rightarrow> negotiation \<times> outcome" where
  "waitForIceGathering timeoutMs n =
     (if ng_gathering n = IceComplete then gathered n
      else (n\<lparr>ng_step := GatheringIce, ng_timer := Some timeoutMs, ng_listening := True\<rparr>, None))"

definition handleStateChange :: "negotiation \<Rightarrow> negotiation \<times> outcome" where
  "handleStateChange n = (if ng_gathering n = IceComplete then finish_wait n else (n, None))"

fun negotiation_step :: "negotiation_event \<Rightarrow> negotiation \<Rightarrow> (negotiation \<times> outcome) option" where
  "negotiation_step OfferCreated n =
     (if ng_step n = MakingOffer then Some (n\<lparr>ng_step := SettingDescription\<rparr>, None) else None)"
| "negotiation_step (DescriptionSet sdp) n =
     (if ng_step n = SettingDescription
      then Some (waitForIceGathering ICE_GATHERING_TIMEOUT_MS (n\<lparr>ng_sdp := Some sdp\<rparr>)) else None)"
| "negotiation_step StepRejected n =
     (if ng_step n \<in> {MakingOffer, SettingDescription} then Some (n\<lparr>ng_step := Negotiated\<rparr>, Some None)
      else None)"
| "negotiation_step (CandidateAdded sdp) n =
     (if ng_sdp n \<noteq> None then Some (n\<lparr>ng_sdp := Some sdp\<rparr>, None) else None)"
| "negotiation_step (GatheringChanged g) n =
     Some (if ng_listening n then handleStateChange (n\<lparr>ng_gathering := g\<rparr>)
           else (n\<lparr>ng_gathering := g\<rparr>, None))"
| "negotiation_step GatheringTimeout n = (if ng_timer n \<noteq> None then Some (finish_wait n) else None)"

fun negotiation_run ::
  "negotiation_event list \<Rightarrow> negotiation \<Rightarrow> (negotiation \<times> jstring option list) option" where
  "negotiation_run [] n = Some (n, [])"
| "negotiation_run (e # es) n =
     (case negotiation_step e n of
        None \<Rightarrow> None
      | Some (m, out) \<Rightarrow>
          map_option (\<lambda>(k, outs). (k, (case out of Some x \<Rightarrow> [x] | None \<Rightarrow> []) @ outs)) (negotiation_run es m))"

section \<open>The negotiation and the session\<close>

text \<open>What a negotiation ends with goes to the session as it then is.\<close>

definition negotiate ::
  "nat \<Rightarrow> negotiation_event \<Rightarrow> negotiation \<Rightarrow> viewer \<Rightarrow> (negotiation \<times> viewer) option" where
  "negotiate i e n v =
     map_option (\<lambda>(m, out). (m, case out of Some sdp \<Rightarrow> offer_ready i sdp v | None \<Rightarrow> v))
       (negotiation_step e n)"

text \<open>
  \<open>handleSignalingMessage\<close> for \<open>webrtc.answer\<close> and \<open>webrtc.ice\<close>: the call on the peer connection
  the reference holds. A rejected call is the event \<open>NegotiationFailed\<close> of the session.
\<close>

datatype peer_call = SetRemoteDescription nat jstring | AddIceCandidate nat json

definition remote_call :: "json \<Rightarrow> viewer \<Rightarrow> peer_call option" where
  "remote_call m v =
     (case peerConnection v of
        None \<Rightarrow> None
      | Some i \<Rightarrow>
          if message_type m = lit ''webrtc.answer''
          then Some (SetRemoteDescription i (string_of (payload_of m ''sdp'')))
          else if message_type m = lit ''webrtc.ice''
          then map_option (AddIceCandidate i) (jget m ''payload'')
          else None)"

section \<open>Codecs\<close>

lemma index_of_bound: "index_of x ys = Some i \<Longrightarrow> i < length ys"
  by (induction ys arbitrary: i) (auto split: if_splits)

lemma codec_rank_bound: "codec_rank c \<le> 2"
  using index_of_bound [of "ascii_lower (cd_mimeType c)" PREFERRED_VIDEO_CODECS]
  by (auto simp: codec_rank_def PREFERRED_VIDEO_CODECS_def split: option.split)

lemma codec_rank_preferred:
  "codec_rank c = 0 \<longleftrightarrow> ascii_lower (cd_mimeType c) = lit ''video/h264''"
  "codec_rank c = 1 \<longleftrightarrow> ascii_lower (cd_mimeType c) = lit ''video/vp8''"
  by (auto simp: codec_rank_def PREFERRED_VIDEO_CODECS_def lit_def)

text \<open>
  What is set is the browser's own list, H.264 before VP8 before the rest, and each of the three
  in the browser's order.
\<close>

theorem preference_orders_codecs:
  assumes "applyPreferredVideoCodecs (Some codecs) settable accepted = Some ordered"
  shows "mset ordered = mset codecs \<and> sorted (map codec_rank ordered)
    \<and> (\<forall>r. filter (\<lambda>c. codec_rank c = r) ordered = filter (\<lambda>c. codec_rank c = r) codecs)"
  using assms
  by (auto simp: applyPreferredVideoCodecs_def Let_def sort_key_stable split: if_splits)

section \<open>The wait\<close>

text \<open>The listener and the timer are there exactly while the wait is, with a description.\<close>

definition waits_well :: "negotiation \<Rightarrow> bool" where
  "waits_well n \<longleftrightarrow> (ng_listening n \<longleftrightarrow> ng_step n = GatheringIce)
     \<and> ng_timer n = (if ng_step n = GatheringIce then Some ICE_GATHERING_TIMEOUT_MS else None)
     \<and> (ng_step n = GatheringIce \<longrightarrow> ng_sdp n \<noteq> None \<and> ng_gathering n \<noteq> IceComplete)"

lemmas negotiation_defs = waitForIceGathering_def handleStateChange_def finish_wait_def gathered_def

lemma new_negotiation_waits: "waits_well new_negotiation"
  by (simp add: waits_well_def new_negotiation_def)

lemma negotiation_step_waits:
  assumes "negotiation_step e n = Some (m, out)" "waits_well n"
  shows "waits_well m"
  using assms by (cases e) (auto simp: waits_well_def negotiation_defs split: if_splits)

text \<open>It ends at most once: in the step that leaves it settled.\<close>

lemma negotiation_step_ends:
  assumes "negotiation_step e n = Some (m, out)" "waits_well n"
  shows "out \<noteq> None \<longleftrightarrow> ng_step n \<noteq> Negotiated \<and> ng_step m = Negotiated"
    "ng_step n = Negotiated \<Longrightarrow> ng_step m = Negotiated"
  using assms by (cases e; force simp: waits_well_def negotiation_defs split: if_splits)+

lemma negotiation_run_waits:
  assumes "negotiation_run es n = Some (m, outs)" "waits_well n"
  shows "waits_well m
    \<and> length outs = (if ng_step n \<noteq> Negotiated \<and> ng_step m = Negotiated then 1 else 0)
    \<and> (ng_step n = Negotiated \<longrightarrow> ng_step m = Negotiated)"
  using assms
proof (induction es arbitrary: n outs)
  case Nil
  then show ?case by auto
next
  case (Cons e es)
  obtain k out outs' where k: "negotiation_step e n = Some (k, out)" "negotiation_run es k = Some (m, outs')"
      "outs = (case out of Some x \<Rightarrow> [x] | None \<Rightarrow> []) @ outs'"
    using Cons.prems(1) by (auto split: option.splits prod.splits)
  note ends = negotiation_step_ends [OF k(1) Cons.prems(2)]
  show ?case
    using Cons.IH [OF k(2) negotiation_step_waits [OF k(1) Cons.prems(2)]] ends k(3)
    by (auto split: option.splits if_splits)
qed

theorem negotiation_ends_once:
  assumes "negotiation_run es new_negotiation = Some (n, outs)"
  shows "outs = [] \<and> ng_step n \<noteq> Negotiated \<or> (\<exists>sdp. outs = [sdp] \<and> ng_step n = Negotiated)"
  using negotiation_run_waits [OF assms new_negotiation_waits]
  by (cases outs) (auto simp: new_negotiation_def split: if_splits)

text \<open>The offer, when it leaves, carries the description of that moment, candidates and all.\<close>

lemma offer_sent:
  assumes "i < length (viewerPeers v)" "sdp \<noteq> []"
    and "webSocket v = Some j" "j < length (viewerSockets v)" "vs_ready (viewerSockets v ! j) = ChOpen"
  shows "offer_ready i (Some sdp) v =
    (update_peer i (\<lambda>p. p\<lparr>vp_offering := False\<rparr>) v)
      \<lparr>signalingSequence := signalingSequence v + 1,
       viewerSockets := (viewerSockets v)[j := (viewerSockets v ! j)\<lparr>vs_sent := vs_sent (viewerSockets v ! j)
         @ [signaling_json ''webrtc.offer'' (cc_sessionId (vp_config (viewerPeers v ! i)))
              (signalingSequence v + 1) (JObj [(lit ''sdp'', JStr sdp)])]\<rparr>]\<rparr>"
  using assms
  by (simp add: offer_ready_def sendSignaling_def socket_ready_def update_peer_def
      update_viewer_socket_def Let_def)

lemma timeout_offers:
  assumes "waits_well n" "ng_step n = GatheringIce"
  shows "\<exists>m sdp. ng_sdp n = Some sdp \<and> negotiate i GatheringTimeout n v = Some (m, offer_ready i (Some sdp) v)
    \<and> ng_step m = Negotiated \<and> ng_timer m = None \<and> \<not> ng_listening m"
  using assms by (auto simp: waits_well_def negotiate_def negotiation_defs)

end
