(* ===== verification/PeerProperties.thy ===== *)
theory PeerProperties
  imports ViewerPeer ViewerSamples
begin

text \<open>
  Where a gathered offer goes. A negotiation that stalls still ends after ten seconds with an
  offer; but the wait outlives a teardown, and then the offer of the old session goes out on the
  socket of the new one, whose room answers it with an error that ends the new session.
\<close>

section \<open>A stalled negotiation\<close>

text \<open>
  C14. A negotiation that is still gathering ends when its timer fires, once: the offer
  goes out as the next signaling message, with the candidates gathered until then, and nothing
  of the wait stays behind.
\<close>

theorem stalled_gathering_offers:
  assumes "negotiation_run es new_negotiation = Some (n, outs)" "ng_step n = GatheringIce"
    and "ng_sdp n \<noteq> Some []" "i < length (viewerPeers v)"
    and "webSocket v = Some j" "j < length (viewerSockets v)" "vs_ready (viewerSockets v ! j) = ChOpen"
  shows "ng_timer n = Some ICE_GATHERING_TIMEOUT_MS \<and> outs = []
    \<and> (\<exists>m w sdp. negotiate i GatheringTimeout n v = Some (m, w) \<and> ng_sdp n = Some sdp
        \<and> vs_sent (viewerSockets w ! j) = vs_sent (viewerSockets v ! j)
            @ [signaling_json ''webrtc.offer'' (cc_sessionId (vp_config (viewerPeers v ! i)))
                 (signalingSequence v + 1) (JObj [(lit ''sdp'', JStr sdp)])]
        \<and> signalingSequence w = signalingSequence v + 1 \<and> \<not> vp_offering (viewerPeers w ! i)
        \<and> ng_timer m = None \<and> \<not> ng_listening m
        \<and> (\<forall>fs k outs2. negotiation_run fs m = Some (k, outs2) \<longrightarrow> outs2 = []))"
proof -
  have waits: "waits_well n" and none: "outs = []"
    using negotiation_run_waits [OF assms(1) new_negotiation_waits] assms(2)
    by (auto simp: new_negotiation_def)
  obtain m sdp where m: "ng_sdp n = Some sdp" "ng_step m = Negotiated" "ng_timer m = None" "\<not> ng_listening m"
      "negotiate i GatheringTimeout n v = Some (m, offer_ready i (Some sdp) v)"
    using timeout_offers [OF waits assms(2)] by blast
  have "waits_well m" using m(2-4) by (simp add: waits_well_def)
  then have quiet: "outs2 = []" if "negotiation_run fs m = Some (k, outs2)" for fs k outs2
    using negotiation_run_waits [OF that] m(2) by simp
  have "ng_timer n = Some ICE_GATHERING_TIMEOUT_MS" using waits assms(2) by (simp add: waits_well_def)
  then show ?thesis
    using m quiet none assms(3) offer_sent [OF assms(4) _ assms(5-7), of sdp] assms(4,6)
    by (auto simp: update_peer_def)
qed

definition sample_negotiation :: negotiation where
  "sample_negotiation = \<lparr>ng_step = GatheringIce, ng_gathering = IceGathering, ng_sdp = Some (lit ''v=0 c''),
     ng_timer = Some ICE_GATHERING_TIMEOUT_MS, ng_listening = True\<rparr>"

definition stalled_events :: "negotiation_event list" where
  "stalled_events = [OfferCreated, GatheringChanged IceGathering, DescriptionSet (lit ''v=0''),
     CandidateAdded (lit ''v=0 c'')]"

lemma sample_stalled: "negotiation_run stalled_events new_negotiation = Some (sample_negotiation, [])"
  by (simp add: stalled_events_def new_negotiation_def sample_negotiation_def negotiation_defs)

lemma negotiating_fields:
  "viewerPeers negotiating_viewer = [sample_peer [] ChConnecting]" "webSocket negotiating_viewer = Some 0"
  "viewerSockets negotiating_viewer = [sample_socket_of sample_sent ChOpen]"
  "signalingSequence negotiating_viewer = 1"
  by (simp_all add: negotiating_viewer_def reserved_viewer_def connecting_viewer_def)

theorem stalled_gathering_offers_witness:
  "\<exists>m w. negotiate 0 GatheringTimeout sample_negotiation negotiating_viewer = Some (m, w)
     \<and> vs_sent (viewerSockets w ! 0) = sample_sent
         @ [signaling_json ''webrtc.offer'' sample_session 2 (JObj [(lit ''sdp'', JStr (lit ''v=0 c''))])]"
proof -
  have "vp_config (sample_peer [] ChConnecting) = sample_config" "cc_sessionId sample_config = sample_session"
    "lit ''v=0 c'' \<noteq> []"
    by (simp_all add: sample_peer_def sample_config_def lit_def)
  then show ?thesis
    using stalled_gathering_offers [OF sample_stalled, of 0 negotiating_viewer 0]
    by (simp add: negotiating_fields sample_negotiation_def numeral_2_eq_2) auto
qed

section \<open>A stale offer\<close>

definition offer_of :: "nat \<Rightarrow> jstring \<Rightarrow> viewer \<Rightarrow> json" where
  "offer_of i sdp v = signaling_json ''webrtc.offer'' (cc_sessionId (vp_config (viewerPeers v ! i)))
     (signalingSequence v + 1) (JObj [(lit ''sdp'', JStr sdp)])"

lemma offer_text:
  assumes "int (signalingSequence v + 1) \<le> MAX_SAFE_INTEGER"
  shows "\<exists>t. json_text (offer_of i sdp v) = Some t \<and> json_parse t = Some (offer_of i sdp v)"
proof -
  have "signalingSequence v < 999999999999999999999" using assms by (simp add: MAX_SAFE_INTEGER_def)
  then obtain t where t: "json_text (offer_of i sdp v) = Some t"
    by (simp add: offer_of_def signaling_json_def num_text_def is_integer_def)
  have "json_wf (offer_of i sdp v)" by (simp add: offer_of_def signaling_json_def)
  with t show ?thesis using json_parse_text [OF t] by blast
qed

text \<open>The room turns down what a viewer sends in another session's name.\<close>

lemma foreign_session_rejected:
  assumes "deserializeAttachment (attachmentData (sockets r ! k)) = Some a" "at_role a = Viewer"
    and "json_parse t = Some m" "message_sessionId m \<noteq> at_sessionId a"
  shows "\<exists>code \<in> {''MESSAGE_TOO_LARGE'', ''INVALID_MESSAGE'', ''MESSAGE_NOT_ALLOWED''}.
    webSocketMessage rt now k (Text t) r = rejectMessage rt k a code r"
proof (cases "length (text_encode t) > MAX_SIGNALING_MESSAGE_BYTES")
  case True
  then show ?thesis using assms(1) by (simp add: webSocketMessage_def)
next
  case False
  have same: "x = m" if "validateSignalingMessage (ajv_of rt) m = Some x" for x
    using that by (simp add: validate_defs split: if_splits)
  show ?thesis
    using False assms same
    by (cases "validateSignalingMessage (ajv_of rt) m") (simp_all add: webSocketMessage_def Let_def)
qed

text \<open>
  C15. A stale offer ends the session that replaced its own. The wait for candidates is
  not cancelled by a teardown, and the continuation does not look at the cycle: when it ends
  while a new session has its socket open, the old offer goes out there in the old session's
  name; the room rejects it, and its error takes the new session offline.
\<close>

theorem stale_offer_ends_session:
  assumes "json_schema_validator (pf_ajv pf)"
    and "negotiation_run es new_negotiation = Some (n, outs)" "ng_step n = GatheringIce"
    and "ng_sdp n \<noteq> Some []" "i < length (viewerPeers v)"
    and "webSocket v = Some j" "j < length (viewerSockets v)" "vs_ready (viewerSockets v ! j) = ChOpen"
    and "vs_cycle (viewerSockets v ! j) = activeCycle v"
    and "deserializeAttachment (attachmentData (sockets r ! k)) = Some a" "at_role a = Viewer"
    and "opaque_id (at_sessionId a)" "at_sessionId a \<noteq> cc_sessionId (vp_config (viewerPeers v ! i))"
    and "int (signalingSequence v + 1) \<le> MAX_SAFE_INTEGER"
  shows "\<exists>m w f t code. negotiate i GatheringTimeout n v = Some (m, w)
    \<and> vs_sent (viewerSockets w ! j) = vs_sent (viewerSockets v ! j) @ [f] \<and> json_text f = Some t
    \<and> webSocketMessage rt now k (Text t) r = rejectMessage rt k a code r
    \<and> stateRef (socket_message pf later j (error_frame a code False) w) = Offline
    \<and> peerConnection (socket_message pf later j (error_frame a code False) w) = None"
proof -
  have waits: "waits_well n" using negotiation_run_waits [OF assms(2) new_negotiation_waits] by simp
  obtain m sdp where m: "ng_sdp n = Some sdp"
      "negotiate i GatheringTimeout n v = Some (m, offer_ready i (Some sdp) v)"
    using timeout_offers [OF waits assms(3)] by blast
  define w where "w = offer_ready i (Some sdp) v"
  have "sdp \<noteq> []" using m(1) assms(4) by auto
  note sent = offer_sent [OF assms(5) this assms(6-8), folded w_def]
  have w: "negotiate i GatheringTimeout n v = Some (m, w)"
      "vs_sent (viewerSockets w ! j) = vs_sent (viewerSockets v ! j) @ [offer_of i sdp v]"
    using m(2) sent assms(7) by (simp_all add: w_def [symmetric] offer_of_def)
  have live: "webSocket w = Some j" "j < length (viewerSockets w)"
      "vs_cycle (viewerSockets w ! j) = activeCycle w"
    using sent assms(6,7,9) by (simp_all add: update_peer_def)
  obtain t where t: "json_text (offer_of i sdp v) = Some t" "json_parse t = Some (offer_of i sdp v)"
    using offer_text [OF assms(14)] by blast
  have "message_sessionId (offer_of i sdp v) \<noteq> at_sessionId a"
    using assms(13) by (simp add: offer_of_def message_sessionId_def string_of_def signaling_json_def)
  then obtain code where code: "code \<in> {''MESSAGE_TOO_LARGE'', ''INVALID_MESSAGE'', ''MESSAGE_NOT_ALLOWED''}"
      "webSocketMessage rt now k (Text t) r = rejectMessage rt k a code r"
    using foreign_session_rejected [OF assms(10,11) t(2)] by blast
  have "code \<in> set ROOM_CODES" "code \<noteq> ''PEER_OFFLINE''" "code \<noteq> ''AGENT_OFFLINE''"
    using code(1) by (auto simp: ROOM_CODES_def)
  note ends = room_error_ends [OF assms(1) this assms(12) live, of later False]
  show ?thesis
    using w t(1) code(2) ends(1,2) unfolding released_def by blast
qed

text \<open>
  The run: a production viewer is accepted, the user disconnects while the offer is gathered and
  connects again.
\<close>

definition old_config :: connection_config where
  "old_config = sample_config\<lparr>cc_sessionId := lit ''old-session''\<rparr>"

definition production_socket :: "json list \<Rightarrow> channel_state \<Rightarrow> viewer_socket" where
  "production_socket sent r = (sample_socket_of sent r)\<lparr>vs_config := old_config\<rparr>"

definition production_fetching :: viewer where
  "production_fetching = (new_viewer True None)\<lparr>activeCycle := 1, connectionEstablishmentTimer := Some 1,
     isConnecting := True, ticketRequests := [ConnectTicket 1 False BalancedProfile]\<rparr>"

definition production_connecting :: viewer where
  "production_connecting = production_fetching\<lparr>isConnecting := False, ticketRequests := [],
     configRef := Some old_config, viewerSockets := [production_socket [] ChConnecting], webSocket := Some 0\<rparr>"

definition production_reserved :: viewer where
  "production_reserved = production_connecting\<lparr>stateRef := Reserved, connectionState := Reserved,
     signalingSequence := 1, viewerSockets := [production_socket
       [signaling_json ''session.request'' (lit ''old-session'') 1 (session_request (production_socket [] ChOpen))] ChOpen]\<rparr>"

definition production_negotiating :: viewer where
  "production_negotiating = production_reserved\<lparr>stateRef := Negotiating, connectionState := Negotiating,
     grantedControlRef := True, controlGranted := True, controlPolicyEnabled := True,
     viewerPeers := [(sample_peer [] ChConnecting)\<lparr>vp_config := old_config\<rparr>], peerConnection := Some 0,
     controlChannel := Some 0, imageClipboardChannel := Some 0, fileChannel := Some 0\<rparr>"

lemma production_steps:
  "viewer_step sample_platform digest 0 (Connect BalancedProfile) (new_viewer True None) = Some production_fetching"
  "viewer_step sample_platform digest 0 (TicketAnswered 0 (Some old_config)) production_fetching
     = Some production_connecting"
  "viewer_step sample_platform digest 0 (SocketOpened 0) production_connecting = Some production_reserved"
proof -
  show "viewer_step sample_platform digest 0 (Connect BalancedProfile) (new_viewer True None) = Some production_fetching"
    by (simp add: connectInternal_def production_fetching_def new_viewer_def cancelAutoReconnect_def Let_def)
  show "viewer_step sample_platform digest 0 (TicketAnswered 0 (Some old_config)) production_fetching
     = Some production_connecting"
    by (simp add: occurs_def ticket_answered_def connect_ticket_def startConnection_def production_fetching_def
        production_connecting_def production_socket_def sample_socket_of_def new_viewer_def Let_def)
  show "viewer_step sample_platform digest 0 (SocketOpened 0) production_connecting = Some production_reserved"
    by (simp add: socket_at_def occurs_def production_connecting_def production_reserved_def
        production_fetching_def new_viewer_def socket_opened_def set_socket_def update_viewer_socket_def
        production_socket_def sample_socket_of_def moveTo_def transitionConnectionState_def
        canTransitionConnectionState_def sendSignaling_def socket_ready_def old_config_def sample_config_def
        session_request_def Let_def not_all_positive)
qed

lemma production_negotiates:
  "viewer_step sample_platform digest 0 (SocketText 0 sample_accept_text) production_reserved
     = Some production_negotiating"
proof -
  have "mark_issue sample_accept s = s" for s by (simp add: mark_issue_def accept_read)
  then have same: "update_viewer_socket 0 (mark_issue sample_accept) production_reserved = production_reserved"
    by (simp add: update_viewer_socket_def production_reserved_def)
  have "handleSignalingMessage sample_platform 0 sample_accept 1 None production_reserved
      = (False, production_negotiating)"
    by (simp add: handleSignalingMessage_def session_accepted_def accept_read moveTo_def
        transitionConnectionState_def canTransitionConnectionState_def createPeerConnection_def
        production_negotiating_def production_reserved_def production_connecting_def
        production_fetching_def new_viewer_def sample_peer_def new_channel_def Let_def)
  moreover have "vs_cycle (viewerSockets production_reserved ! 0) = 1"
      "\<not> vs_resume (viewerSockets production_reserved ! 0)"
      "activeCycle production_reserved = 1" "socket_at production_reserved 0 = Some ChOpen"
    by (simp_all add: production_reserved_def production_connecting_def production_fetching_def
        production_socket_def socket_at_def)
  ultimately show ?thesis
    by (simp add: occurs_def socket_message_def accept_parses accept_valid same accept_read Let_def)
qed

lemma teardown_sequence: "signalingSequence (teardownForCycle cycle v) \<le> signalingSequence v + 1"
proof -
  have release: "signalingSequence (releaseResources u) = signalingSequence u" for u
    by (rule releaseResources_shape [of u]) simp
  have offline: "signalingSequence (finishOffline u) = signalingSequence u" for u
    by (simp add: offline_legal)
  have move: "signalingSequence (move_or_stay s u) = signalingSequence u" for s u
    by (simp add: move_or_stay_def moveTo_def split: sum.split)
  have send: "signalingSequence (snd (sendSignaling ty sid d u)) = signalingSequence u + 1" for ty sid d u
    by (simp add: sendSignaling_def update_viewer_socket_def Let_def)
  show ?thesis
    by (simp add: teardownForCycle_def Let_def release offline move send split: option.split)
qed

definition production_over :: viewer where
  "production_over = disconnect production_negotiating"

lemma production_over:
  "isProduction production_over" "\<not> isConnecting production_over" "stateRef production_over = Offline"
  "activeCycle production_over = 2" "ticketRequests production_over = []"
  "length (viewerSockets production_over) = 1" "map vp_config (viewerPeers production_over) = [old_config]"
  "signalingSequence production_over \<le> 2"
proof -
  define u where "u = cancelAutoReconnect (production_negotiating\<lparr>userDisconnected := True, autoReconnectAttempts := 0\<rparr>)"
  have u: "isProduction u" "stateRef u = Negotiating" "activeCycle u = 1" "ticketRequests u = []"
      "length (viewerSockets u) = 1" "viewerPeers u = [(sample_peer [] ChConnecting)\<lparr>vp_config := old_config\<rparr>]"
      "signalingSequence u = 1"
    by (simp_all add: u_def cancelAutoReconnect_def production_negotiating_def production_reserved_def
        production_connecting_def production_fetching_def new_viewer_def)
  have over: "production_over = teardownForCycle (activeCycle u) u"
    by (simp add: production_over_def disconnect_def u_def Let_def)
  have "\<not> idle u" using u(2) by (simp add: idle_def)
  note t = teardown_live [OF this, folded over]
  show "isProduction production_over" "stateRef production_over = Offline" "activeCycle production_over = 2"
    "ticketRequests production_over = []" "\<not> isConnecting production_over"
    using t u by (simp_all add: released_def)
  show "length (viewerSockets production_over) = 1" using list_all2_lengthD [OF t(16)] u(5) by simp
  show "map vp_config (viewerPeers production_over) = [old_config]"
    using t(15) u(6) by (auto simp: list_all2_Cons1 peer_closes_def)
  show "signalingSequence production_over \<le> 2" using teardown_sequence [of "activeCycle u" u] u(7) by (simp add: over)
qed

definition production_back :: viewer where
  "production_back = socket_opened 1 (set_socket 1 ChOpen
     (ticket_answered sample_platform 0 (Some sample_config)
       (connectInternal sample_platform BalancedProfile False production_over)))"

lemma production_back:
  "viewer_run sample_platform digest [(0, Disconnect), (0, Connect BalancedProfile),
      (0, TicketAnswered 0 (Some sample_config)), (0, SocketOpened 1)] production_negotiating = Some production_back"
  "stateRef production_back = Reserved" "webSocket production_back = Some 1"
  "length (viewerSockets production_back) = 2" "vs_ready (viewerSockets production_back ! 1) = ChOpen"
  "vs_cycle (viewerSockets production_back ! 1) = activeCycle production_back"
  "map vp_config (viewerPeers production_back) = [old_config]"
  "signalingSequence production_back \<le> 3"
proof -
  obtain s where s: "viewerSockets production_over = [s]"
    using production_over(6) by (auto simp: length_Suc_conv)
  define x where "x = ticket_answered sample_platform 0 (Some sample_config)
       (connectInternal sample_platform BalancedProfile False production_over)"
  have x: "viewerSockets x = [s, (sample_socket_of [] ChConnecting)\<lparr>vs_cycle := 3\<rparr>]" "webSocket x = Some 1"
      "activeCycle x = 3" "viewerPeers x = viewerPeers production_over" "stateRef x = Offline"
      "signalingSequence x = signalingSequence production_over" "configRef x = Some sample_config"
    using production_over s
    by (simp_all add: x_def connectInternal_def cancelAutoReconnect_def ticket_answered_def connect_ticket_def
        startConnection_def sample_socket_of_def Let_def)
  have "socket_at x 1 = Some ChConnecting" by (simp add: socket_at_def x)
  moreover have "length (ticketRequests (connectInternal sample_platform BalancedProfile False production_over)) = 1"
    using production_over by (simp add: connectInternal_def cancelAutoReconnect_def Let_def)
  ultimately show "viewer_run sample_platform digest [(0, Disconnect), (0, Connect BalancedProfile),
      (0, TicketAnswered 0 (Some sample_config)), (0, SocketOpened 1)] production_negotiating = Some production_back"
    by (simp add: production_over_def [symmetric] x_def [symmetric] production_back_def occurs_def)
  show "stateRef production_back = Reserved" "webSocket production_back = Some 1"
    "length (viewerSockets production_back) = 2" "vs_ready (viewerSockets production_back ! 1) = ChOpen"
    "vs_cycle (viewerSockets production_back ! 1) = activeCycle production_back"
    "map vp_config (viewerPeers production_back) = [old_config]" "signalingSequence production_back \<le> 3"
    using x production_over(7,8)
    by (simp_all add: production_back_def x_def [symmetric] socket_opened_def set_socket_def
        update_viewer_socket_def moveTo_def transitionConnectionState_def canTransitionConnectionState_def
        sendSignaling_def socket_ready_def Let_def)
qed

lemma production_reachable: "reachable_viewer sample_platform digest production_back"
proof -
  have "viewer_run sample_platform digest [(0, Connect BalancedProfile), (0, TicketAnswered 0 (Some old_config)),
      (0, SocketOpened 0), (0, SocketText 0 sample_accept_text)] (new_viewer True None) = Some production_negotiating"
    by (simp add: production_steps production_negotiates del: viewer_step.simps)
  then show ?thesis
    using production_back(1) [of digest] unfolding reachable_viewer_def by (metis bind.bind_lunit run_append)
qed

theorem stale_offer_ends_session_witness:
  "\<exists>v w f t code. reachable_viewer sample_platform (\<lambda>b. b) v \<and> stateRef v = Reserved
     \<and> vs_sent (viewerSockets w ! 1) = vs_sent (viewerSockets v ! 1) @ [f] \<and> json_text f = Some t
     \<and> webSocketMessage standard_runtime 3 1 (Text t) full_room
         = rejectMessage standard_runtime 1 (sample_attachment Viewer 2) code full_room
     \<and> stateRef (socket_message sample_platform 0 1 (error_frame (sample_attachment Viewer 2) code False) w) = Offline"
proof -
  have room: "deserializeAttachment (attachmentData (sockets full_room ! 1)) = Some (sample_attachment Viewer 2)"
    by (simp add: full_room_sockets sample_socket_def)
  have ids: "at_role (sample_attachment Viewer 2) = Viewer" "opaque_id (at_sessionId (sample_attachment Viewer 2))"
    by (simp_all add: sample_attachment_def sample_ids)
  have "at_sessionId (sample_attachment Viewer 2) \<noteq> lit ''old-session''"
    by (simp add: sample_attachment_def sample_session_def lit_def)
  moreover have old: "vp_config (viewerPeers production_back ! 0) = old_config" "0 < length (viewerPeers production_back)"
    using production_back(7) by auto
  ultimately have other: "at_sessionId (sample_attachment Viewer 2)
      \<noteq> cc_sessionId (vp_config (viewerPeers production_back ! 0))"
    by (simp add: old_config_def)
  have small: "int (signalingSequence production_back + 1) \<le> MAX_SAFE_INTEGER"
    using production_back(8) by (simp add: MAX_SAFE_INTEGER_def)
  have sdp: "ng_step sample_negotiation = GatheringIce" "ng_sdp sample_negotiation \<noteq> Some []"
    by (simp_all add: sample_negotiation_def lit_def)
  have ajv: "json_schema_validator (pf_ajv sample_platform)" using reference.json_schema_validator_axioms by simp
  have "1 < length (viewerSockets production_back)" using production_back(4) by simp
  from stale_offer_ends_session [OF ajv sample_stalled sdp old(2) production_back(3) this production_back(5,6)
      room ids other small, of standard_runtime 3 0]
  show ?thesis using production_reachable production_back(2) by blast
qed

section \<open>The host's description\<close>

text \<open>
  An answer or a candidate is applied to the peer connection of the active cycle, or to none.
\<close>

theorem remote_calls_reach_current_peer:
  assumes "reachable_viewer pf digest v" "remote_call m v = Some c"
  shows "\<exists>i < length (viewerPeers v). vp_cycle (viewerPeers v ! i) = activeCycle v
    \<and> ((\<exists>sdp. c = SetRemoteDescription i sdp) \<or> (\<exists>candidate. c = AddIceCandidate i candidate))"
proof -
  have "viewer_inv v" by (rule reachable_viewer_inv [OF assms(1)])
  then show ?thesis
    using assms(2) by (auto simp: remote_call_def inv_defs split: option.splits if_splits)
qed

end
