(* ===== verification/ViewerPanels.thy ===== *)
theory ViewerPanels
  imports RemoteRuns
begin

text \<open>
  The clipboard panels of the viewer (\<open>apps/viewer/src/RemoteClipboard.tsx\<close>,
  \<open>ImageClipboardPanel.tsx\<close>) and the key chords they and the toolbar send: the state of a
  mounted panel, its operations, and what the image panel asks of the browser. The browser's
  image decoder, canvas and clipboard are parameters; the texts shown are named by their
  meaning.
\<close>

section \<open>Chords\<close>

definition sendKeys :: "platform \<Rightarrow> int \<Rightarrow> (string \<times> key_action) list \<Rightarrow> viewer \<Rightarrow> viewer" where
  "sendKeys pf now ks v = fold (\<lambda>(code, action). sendKey pf now (lit code) (action_text action)) ks v"

definition CAPTURE_CHORD :: "(string \<times> key_action) list" where
  "CAPTURE_CHORD = [(''MetaLeft'', Down), (''ShiftLeft'', Down), (''KeyS'', Down),
                    (''KeyS'', Up), (''ShiftLeft'', Up), (''MetaLeft'', Up)]"

definition sendCaptureShortcut :: "platform \<Rightarrow> int \<Rightarrow> viewer \<Rightarrow> viewer" where
  "sendCaptureShortcut pf now v = sendKeys pf now CAPTURE_CHORD v"

definition PASTE_CHORD :: "(string \<times> key_action) list" where
  "PASTE_CHORD = [(''ControlLeft'', Down), (''KeyV'', Down), (''KeyV'', Up), (''ControlLeft'', Up)]"

definition sendRemotePasteShortcut :: "platform \<Rightarrow> int \<Rightarrow> viewer \<Rightarrow> viewer" where
  "sendRemotePasteShortcut pf now v = sendKeys pf now PASTE_CHORD v"

section \<open>The text panel\<close>

text \<open>\<open>tp_status\<close> is the number of characters pasted that the status line names.\<close>

record text_panel =
  tp_text :: jstring
  tp_status :: "nat option"
  tp_statusTimer :: bool

definition new_text_panel :: text_panel where
  "new_text_panel = \<lparr>tp_text = [], tp_status = None, tp_statusTimer = False\<rparr>"

definition CLIPBOARD_MAX_CHARS :: nat where
  "CLIPBOARD_MAX_CHARS = 16384"

definition flashStatus :: "nat \<Rightarrow> text_panel \<Rightarrow> text_panel" where
  "flashStatus n p = p\<lparr>tp_status := Some n, tp_statusTimer := True\<rparr>"

definition status_timeout :: "text_panel \<Rightarrow> text_panel" where
  "status_timeout p = p\<lparr>tp_status := None, tp_statusTimer := False\<rparr>"

definition pasteToRemote :: "platform \<Rightarrow> int \<Rightarrow> text_panel \<Rightarrow> viewer \<Rightarrow> text_panel \<times> viewer" where
  "pasteToRemote pf now p v =
     (let payload = take CLIPBOARD_MAX_CHARS (tp_text p)
      in if payload = [] then (p, v)
         else (flashStatus (length payload) p,
               sendKeys pf now PASTE_CHORD (setRemoteClipboard pf now payload v)))"

section \<open>Images and the browser\<close>

record blob =
  bl_type :: jstring
  bl_data :: "byte list"

definition bl_size :: "blob \<Rightarrow> nat" where
  "bl_size b = length (bl_data b)"

text \<open>
  What the browser makes of an image: its size once decoded (\<open>None\<close>: \<open>createImageBitmap\<close>
  rejects), whether a canvas has a context, and the PNG the canvas gives (\<open>None\<close>: \<open>toBlob\<close>
  gives \<open>null\<close>).
\<close>

record image_platform =
  im_bitmap :: "blob \<Rightarrow> (int \<times> int) option"
  im_context :: bool
  im_png :: "blob \<Rightarrow> blob option"

text \<open>
  An exception with a code (the panel's, the session's, or the host's reason for a refusal), or one
  of the browser.
\<close>

datatype image_error = Code jstring | BrowserError

datatype image_notice =
    ArrivesHere | ImageLoaded | SendingImage | ImagePasted | ImageCopied | NoImageOnClipboard
  | NoControl | OtherImageInTransfer | HostTimedOut | UnsupportedImage | ImageFailed

definition imageErrorMessage :: "image_error \<Rightarrow> image_notice" where
  "imageErrorMessage error =
     (case error of
        Code code \<Rightarrow>
          if code = lit ''CONTROL_INACTIVE'' then NoControl
          else if code = lit ''BUSY'' then OtherImageInTransfer
          else if code = lit ''TIMEOUT'' then HostTimedOut
          else if code = lit ''INVALID_IMAGE'' then UnsupportedImage
          else ImageFailed
      | BrowserError \<Rightarrow> ImageFailed)"

definition IMAGE_MAX_BYTES :: nat where
  "IMAGE_MAX_BYTES = 20 * 1024 * 1024"

definition IMAGE_MAX_PIXELS :: int where
  "IMAGE_MAX_PIXELS = 40000000"

definition canvasToPng :: "image_platform \<Rightarrow> blob \<Rightarrow> image_error + blob" where
  "canvasToPng im picture =
     (case im_png im picture of Some png \<Rightarrow> Inr png | None \<Rightarrow> Inl (Code (lit ''INVALID_IMAGE'')))"

definition normalizeClipboardImage :: "image_platform \<Rightarrow> blob \<Rightarrow> image_error + blob" where
  "normalizeClipboardImage im picture =
     (if \<not> js_starts_with (lit ''image/'') (bl_type picture) then Inl (Code (lit ''INVALID_IMAGE''))
      else if bl_type picture = lit ''image/png'' \<and> bl_size picture \<le> IMAGE_MAX_BYTES then Inr picture
      else
        (case im_bitmap im picture of
           None \<Rightarrow> Inl BrowserError
         | Some (w, h) \<Rightarrow>
             if w \<le> 0 \<or> h \<le> 0 \<or> w * h > IMAGE_MAX_PIXELS
             then Inl (Code (lit ''INVALID_IMAGE''))
             else if \<not> im_context im then Inl (Code (lit ''INVALID_IMAGE''))
             else
               (case canvasToPng im picture of
                  Inl e \<Rightarrow> Inl e
                | Inr png \<Rightarrow>
                    if bl_size png > IMAGE_MAX_BYTES then Inl (Code (lit ''INVALID_IMAGE'')) else Inr png)))"

text \<open>
  The local clipboard: whether it can be read and written here, its items (\<open>None\<close>: \<open>read\<close>
  rejects) as the types and what \<open>getType\<close> gives, and whether a \<open>write\<close> is accepted.
\<close>

record local_clipboard =
  lc_secure :: bool
  lc_canRead :: bool
  lc_canWrite :: bool
  lc_hasItem :: bool
  lc_items :: "(jstring list \<times> (jstring \<Rightarrow> blob option)) list option"
  lc_accepts :: bool

fun first_image :: "(jstring list \<times> (jstring \<Rightarrow> blob option)) list \<Rightarrow> blob option option" where
  "first_image [] = None"
| "first_image ((types, getType) # items) =
     (case find (js_starts_with (lit ''image/'')) types of
        Some imageType \<Rightarrow> Some (getType imageType)
      | None \<Rightarrow> first_image items)"

definition readImageFromLocalClipboard :: "image_platform \<Rightarrow> local_clipboard \<Rightarrow> image_error + blob" where
  "readImageFromLocalClipboard im lc =
     (if \<not> lc_secure lc \<or> \<not> lc_canRead lc then Inl (Code (lit ''CLIPBOARD_UNAVAILABLE''))
      else
        (case lc_items lc of
           None \<Rightarrow> Inl BrowserError
         | Some items \<Rightarrow>
             (case first_image items of
                None \<Rightarrow> Inl (Code (lit ''INVALID_IMAGE''))
              | Some None \<Rightarrow> Inl BrowserError
              | Some (Some picture) \<Rightarrow> normalizeClipboardImage im picture)))"

text \<open>The image that is written to the local clipboard.\<close>

definition copyImageToLocalClipboard ::
  "image_platform \<Rightarrow> local_clipboard \<Rightarrow> blob \<Rightarrow> image_error + blob" where
  "copyImageToLocalClipboard im lc picture =
     (if \<not> lc_secure lc \<or> \<not> lc_canWrite lc \<or> \<not> lc_hasItem lc then Inl (Code (lit ''CLIPBOARD_UNAVAILABLE''))
      else
        (case (if bl_type picture \<noteq> lit ''image/png'' \<or> bl_size picture > IMAGE_MAX_BYTES
               then normalizeClipboardImage im picture else Inr picture) of
           Inl e \<Rightarrow> Inl e
         | Inr png \<Rightarrow> if lc_accepts lc then Inr png else Inl BrowserError))"

section \<open>The image panel\<close>

text \<open>\<open>ip_mount\<close> names the mounted instance: an answer for another one changes no state.\<close>

record image_panel =
  ip_mount :: nat
  ip_selectedImage :: "blob option"
  ip_status :: image_notice
  ip_sending :: bool

definition new_image_panel :: "nat \<Rightarrow> image_panel" where
  "new_image_panel mount =
     \<lparr>ip_mount = mount, ip_selectedImage = None, ip_status = ArrivesHere, ip_sending = False\<rparr>"

text \<open>\<open>acceptImage\<close>, once the image is normalized.\<close>

definition image_accepted :: "image_error + blob \<Rightarrow> image_panel \<Rightarrow> image_panel" where
  "image_accepted result p =
     (case result of
        Inr png \<Rightarrow> p\<lparr>ip_selectedImage := Some png, ip_status := ImageLoaded\<rparr>
      | Inl e \<Rightarrow> p\<lparr>ip_status := imageErrorMessage e\<rparr>)"

text \<open>The end of the panel's \<open>pasteToRemote\<close>.\<close>

definition paste_ended :: "image_notice \<Rightarrow> image_panel \<Rightarrow> image_panel" where
  "paste_ended notice p = p\<lparr>ip_status := notice, ip_sending := False\<rparr>"

section \<open>What the panels guarantee\<close>

lemma normalized_blob:
  assumes "normalizeClipboardImage im picture = Inr png"
  shows "bl_size png \<le> IMAGE_MAX_BYTES \<and> (png = picture \<and> bl_type png = lit ''image/png'' \<or> im_png im picture = Some png)"
  using assms
  by (auto simp: normalizeClipboardImage_def canvasToPng_def split: if_splits option.splits sum.splits)

lemma normalize_png:
  "bl_type picture = lit ''image/png'' \<Longrightarrow> bl_size picture \<le> IMAGE_MAX_BYTES
    \<Longrightarrow> normalizeClipboardImage im picture = Inr picture"
  by (simp add: normalizeClipboardImage_def js_starts_with_def lit_def)

end
