(* ===== verification/ViewerApp.thy ===== *)
theory ViewerApp
  imports ViewerPanels
begin

text \<open>
  The viewer's interface (\<open>apps/viewer/src/App.tsx\<close>) around the session hook, the input
  capture and the clipboard panels: its React states, one handler per control it renders, and
  the effects that run after a render. The handlers are spread over the markup. They test little
  themselves: what guards an event here is the markup's conditional rendering and \<open>disabled\<close>
  attributes, since a control that is absent or disabled gives no event; so \<open>app_handle\<close> is
  partial. A step is a handler and then the effects (\<open>settle\<close>). The session
  is the hook's state; its own events (platform, timers, far side) come as \<open>SessionEvent\<close>,
  with a flag that says whether one of them set another media stream than the one shown.
\<close>

section \<open>What is rendered from the session\<close>

definition canConnect :: "viewer \<Rightarrow> bool" where
  "canConnect v \<longleftrightarrow> isProduction v \<or> configRef v \<noteq> None"

definition connect_enabled :: "viewer \<Rightarrow> bool" where
  "connect_enabled v \<longleftrightarrow> canConnect v \<and> \<not> (errorMessage v \<noteq> None \<and> \<not> canRetry v)"

datatype control_label = ControlForwarded | EmergencyLocked | ControlLost | ControlNotAllowed

definition controlLabel :: "viewer \<Rightarrow> control_label option" where
  "controlLabel v =
     (if isControlActive v then Some ControlForwarded
      else if controlLocked v then Some EmergencyLocked
      else if mediaStream v then
        Some (if controlPolicyEnabled v then ControlLost else ControlNotAllowed)
      else None)"

definition profile_enabled :: "viewer \<Rightarrow> bool" where
  "profile_enabled v \<longleftrightarrow> \<not> videoProfilePending v \<and> \<not> videoProfileStabilizing v"

definition image_panel_enabled :: "viewer \<Rightarrow> bool" where
  "image_panel_enabled v \<longleftrightarrow> isControlActive v \<and> canSendClipboardImage v"

definition download_enabled :: "viewer \<Rightarrow> bool" where
  "download_enabled v \<longleftrightarrow>
     map_option ds_status (fileDownloadState v) \<notin> {Some Downloading, Some DownloadVerifying}"

text \<open>
  \<open>formatBytes\<close>, as the number and the unit; \<open>toFixed(1)\<close> rounds to the nearest tenth, ties
  up, and the divisions by 1024 are exact.
\<close>

datatype byte_unit = Bytes | KB | MB | GB

fun next_unit :: "byte_unit \<Rightarrow> byte_unit" where
  "next_unit Bytes = KB"
| "next_unit KB = MB"
| "next_unit MB = GB"
| "next_unit GB = GB"

function scale_bytes :: "rat \<Rightarrow> byte_unit \<Rightarrow> rat \<times> byte_unit" where
  "scale_bytes n u = (if n \<ge> 1024 \<and> u \<noteq> GB then scale_bytes (n / 1024) (next_unit u) else (n, u))"
  by pat_completeness auto

termination
proof (relation "measure (\<lambda>(n, u). case u of Bytes \<Rightarrow> 3 | KB \<Rightarrow> 2 | MB \<Rightarrow> 1 | GB \<Rightarrow> 0)")
qed (auto split: byte_unit.split)

declare scale_bytes.simps [simp del]

definition toFixed1 :: "rat \<Rightarrow> rat" where
  "toFixed1 x = of_int \<lfloor>x * 10 + 1 / 2\<rfloor> / 10"

definition formatBytes :: "nat \<Rightarrow> rat \<times> byte_unit" where
  "formatBytes bytes =
     (if bytes < 1024 then (of_nat bytes, Bytes)
      else (case scale_bytes (of_nat bytes / 1024) KB of (value, u) \<Rightarrow> (toFixed1 value, u)))"

text \<open>
  \<open>copyTextToClipboard\<close>: what the asynchronous write gives (\<open>None\<close>: it is not offered here),
  and what \<open>execCommand\<close> gives (\<open>None\<close>: the fallback throws).
\<close>

definition copyTextToClipboard :: "bool option \<Rightarrow> bool option \<Rightarrow> bool" where
  "copyTextToClipboard asyncWrite execCopy =
     (if asyncWrite = Some True then True
      else (case execCopy of Some copied \<Rightarrow> copied | None \<Rightarrow> False))"

section \<open>The state\<close>

text \<open>
  \<open>startedAt\<close> and \<open>frameCounter\<close> are what the clock and the frame callback close over.
  \<open>clipboardReads\<close>, \<open>normalizing\<close> and \<open>pastes\<close> are the image panel's asynchronous calls
  that have not returned, each with the mounted panel it belongs to; a paste awaits its data,
  and then the upload with the index it has.
\<close>

record app =
  ap_session :: viewer
  displayMode :: display_mode
  isFullscreen :: bool
  fullscreenToolsOpen :: bool
  elapsedSeconds :: int
  startedAt :: "int option"
  framesPerSecond :: "int option"
  frameCounter :: "(nat \<times> rat) option"
  videoSize :: "nat \<times> nat"
  presentationError :: bool
  clipboardPanelOpen :: bool
  imageClipboardPanelOpen :: bool
  downloadPanelOpen :: bool
  copiedClipboardId :: "nat option"
  inputCapture :: "capture option"
  textPanel :: "text_panel option"
  imagePanel :: "image_panel option"
  panelMounts :: nat
  clipboardReads :: "nat list"
  normalizing :: "(nat \<times> blob) list"
  pastes :: "(nat \<times> blob \<times> nat option) list"

definition new_app :: "bool \<Rightarrow> connection_config option \<Rightarrow> app" where
  "new_app production c =
     \<lparr>ap_session = new_viewer production c, displayMode = Fit, isFullscreen = False,
      fullscreenToolsOpen = False, elapsedSeconds = 0, startedAt = None, framesPerSecond = None,
      frameCounter = None, videoSize = (0, 0), presentationError = False, clipboardPanelOpen = False,
      imageClipboardPanelOpen = False, downloadPanelOpen = False, copiedClipboardId = None,
      inputCapture = None, textPanel = None, imagePanel = None, panelMounts = 0, clipboardReads = [],
      normalizing = [], pastes = []\<rparr>"

record surroundings =
  su_platform :: platform
  su_digest :: "byte list \<Rightarrow> byte list"
  su_images :: image_platform
  su_frames :: bool

text \<open>A control stands in the toolbar, or in the drawer of the fullscreen view.\<close>

datatype place = Toolbar | Drawer

fun placed :: "place \<Rightarrow> app \<Rightarrow> bool" where
  "placed Toolbar a = True"
| "placed Drawer a = (isFullscreen a \<and> fullscreenToolsOpen a)"

fun after_click :: "place \<Rightarrow> app \<Rightarrow> app" where
  "after_click Toolbar a = a"
| "after_click Drawer a = a\<lparr>fullscreenToolsOpen := False\<rparr>"

section \<open>Events\<close>

datatype app_event =
    SessionEvent viewer_event bool
  | ClickConnect place
  | ClickDisconnect
  | SelectProfile place video_profile
  | ClickDisplayMode
  | ClickFullscreen
  | FullscreenRefused
  | FullscreenChanged bool
  | ClickCapture place
  | ClickTextClipboard place
  | ClickImageClipboard place
  | ClickFileSend place
  | ClickFileReceive place
  | ChooseFile "byte list" jstring nat
  | OpenTools
  | CloseTools
  | ToolsPointerDown
  | VideoResized nat nat
  | MetadataLoaded nat nat
  | ClockTick
  | FramePresented
  | Captured input_event
  | DismissTransfer
  | DismissDownload
  | RefreshFiles
  | ClickDownload "byte list" jstring
  | CloseDownloads
  | DismissTextEntry nat
  | CopyTextEntry nat "bool option" "bool option"
  | EditText jstring
  | PasteText
  | StatusTimeout
  | CloseTextPanel
  | CloseImagePanel
  | DismissImageEntry nat
  | CopyImageEntry nat local_clipboard
  | PasteIntoPanel "blob option"
  | LoadClipboardImage
  | ClipboardRead nat local_clipboard
  | ImageNormalized nat
  | PasteImage
  | PasteRead nat "byte list"
  | PasteSettled nat

text \<open>The events of the hook that the interface causes itself, or that end the page.\<close>

fun from_interface :: "viewer_event \<Rightarrow> bool" where
  "from_interface (Connect _) = True"
| "from_interface Disconnect = True"
| "from_interface Unmount = True"
| "from_interface (ChangeProfile _) = True"
| "from_interface (UserEffect _) = True"
| "from_interface (SetClipboard _) = True"
| "from_interface (DismissText _) = True"
| "from_interface (DismissImage _) = True"
| "from_interface RequestFiles = True"
| "from_interface (DownloadFile _ _) = True"
| "from_interface (SendFile _ _ _) = True"
| "from_interface ClearTransfer = True"
| "from_interface ClearDownload = True"
| "from_interface (ImagePrepared _ _) = True"
| "from_interface _ = False"

section \<open>Panels\<close>

definition toggleTextClipboardPanel :: "app \<Rightarrow> app" where
  "toggleTextClipboardPanel a =
     a\<lparr>clipboardPanelOpen := \<not> clipboardPanelOpen a, imageClipboardPanelOpen := False,
       downloadPanelOpen := False\<rparr>"

definition toggleImageClipboardPanel :: "app \<Rightarrow> app" where
  "toggleImageClipboardPanel a =
     a\<lparr>imageClipboardPanelOpen := \<not> imageClipboardPanelOpen a, clipboardPanelOpen := False,
       downloadPanelOpen := False\<rparr>"

definition toggleDownloadPanel :: "platform \<Rightarrow> int \<Rightarrow> app \<Rightarrow> app" where
  "toggleDownloadPanel pf now a =
     a\<lparr>downloadPanelOpen := \<not> downloadPanelOpen a, clipboardPanelOpen := False,
       imageClipboardPanelOpen := False, ap_session := requestFileList pf now (ap_session a)\<rparr>"

definition toggleFullscreen :: "app \<Rightarrow> app" where
  "toggleFullscreen a = a\<lparr>presentationError := False\<rparr>"

definition onFullscreenChange :: "bool \<Rightarrow> app \<Rightarrow> app" where
  "onFullscreenChange fullscreenActive a =
     a\<lparr>isFullscreen := fullscreenActive, fullscreenToolsOpen := False\<rparr>"

definition in_panel :: "nat \<Rightarrow> (image_panel \<Rightarrow> image_panel) \<Rightarrow> app \<Rightarrow> app" where
  "in_panel mount f a =
     a\<lparr>imagePanel := map_option (\<lambda>p. if ip_mount p = mount then f p else p) (imagePanel a)\<rparr>"

section \<open>The video\<close>

definition updateVideoSize :: "nat \<Rightarrow> nat \<Rightarrow> app \<Rightarrow> app" where
  "updateVideoSize w h a = (if w > 0 \<and> h > 0 then a\<lparr>videoSize := (w, h)\<rparr> else a)"

definition updateElapsed :: "int \<Rightarrow> app \<Rightarrow> app" where
  "updateElapsed now a =
     (case startedAt a of Some t \<Rightarrow> a\<lparr>elapsedSeconds := (now - t) div 1000\<rparr> | None \<Rightarrow> a)"

definition onFrame :: "rat \<Rightarrow> app \<Rightarrow> app" where
  "onFrame perf a =
     (case frameCounter a of
        None \<Rightarrow> a
      | Some (count, measuredAt) \<Rightarrow>
          (let elapsed = perf - measuredAt
           in if elapsed \<ge> 1000
              then a\<lparr>framesPerSecond := Some \<lfloor>of_nat (count + 1) * 1000 / elapsed + 1 / 2\<rfloor>,
                     frameCounter := Some (0, perf)\<rparr>
              else a\<lparr>frameCounter := Some (count + 1, measuredAt)\<rparr>))"

text \<open>The three effects of a stream that is shown, replaced or gone.\<close>

definition show_stream :: "bool \<Rightarrow> int \<Rightarrow> rat \<Rightarrow> app \<Rightarrow> app" where
  "show_stream frames now perf a =
     (if mediaStream (ap_session a)
      then a\<lparr>startedAt := Some now, elapsedSeconds := 0,
             frameCounter := (if frames then Some (0, perf) else None)\<rparr>
      else a\<lparr>displayMode := Fit, elapsedSeconds := 0, framesPerSecond := None, videoSize := (0, 0),
             startedAt := None, frameCounter := None\<rparr>)"

section \<open>Handlers\<close>

definition with_session :: "(viewer \<Rightarrow> viewer) \<Rightarrow> app \<Rightarrow> app" where
  "with_session f a = a\<lparr>ap_session := f (ap_session a)\<rparr>"

definition allowed :: "bool \<Rightarrow> app \<Rightarrow> app option" where
  "allowed possible a = (if possible then Some a else None)"

text \<open>The capture's handler, and the senders it called, in their order.\<close>

definition capture_input :: "platform \<Rightarrow> int \<Rightarrow> input_event \<Rightarrow> capture \<Rightarrow> app \<Rightarrow> app" where
  "capture_input pf now e s a =
     (let s' = handle e s
      in a\<lparr>inputCapture := Some s',
           ap_session := fold (perform pf now) (drop (length (effects s)) (effects s')) (ap_session a)\<rparr>)"

definition paste_text :: "platform \<Rightarrow> int \<Rightarrow> text_panel \<Rightarrow> app \<Rightarrow> app" where
  "paste_text pf now p a =
     (case pasteToRemote pf now p (ap_session a) of (p', v) \<Rightarrow> a\<lparr>textPanel := Some p', ap_session := v\<rparr>)"

definition without :: "nat \<Rightarrow> 'a list \<Rightarrow> 'a list" where
  "without k xs = take k xs @ drop (Suc k) xs"

definition clipboard_read :: "image_platform \<Rightarrow> local_clipboard \<Rightarrow> nat \<Rightarrow> app \<Rightarrow> app" where
  "clipboard_read im lc k a =
     (let mount = clipboardReads a ! k;
          a1 = a\<lparr>clipboardReads := without k (clipboardReads a)\<rparr>
      in case readImageFromLocalClipboard im lc of
           Inr picture \<Rightarrow> a1\<lparr>normalizing := normalizing a1 @ [(mount, picture)]\<rparr>
         | Inl e \<Rightarrow> in_panel mount (\<lambda>p. p\<lparr>ip_status := imageErrorMessage e\<rparr>) a1)"

definition image_normalized :: "image_platform \<Rightarrow> nat \<Rightarrow> app \<Rightarrow> app" where
  "image_normalized im k a =
     (case normalizing a ! k of
        (mount, picture) \<Rightarrow>
          in_panel mount (image_accepted (normalizeClipboardImage im picture))
            (a\<lparr>normalizing := without k (normalizing a)\<rparr>))"

text \<open>The image panel's \<open>pasteToRemote\<close>, up to its \<open>await\<close>.\<close>

definition paste_image :: "image_panel \<Rightarrow> app \<Rightarrow> app" where
  "paste_image p a =
     (case ip_selectedImage p of
        None \<Rightarrow> a
      | Some picture \<Rightarrow>
          if ip_sending p then a
          else
            (case sendRemoteClipboardImage (bl_type picture) (int (bl_size picture)) (ap_session a) of
               Inl code \<Rightarrow> in_panel (ip_mount p) (paste_ended (imageErrorMessage (Code (lit code)))) a
             | Inr _ \<Rightarrow>
                 (in_panel (ip_mount p) (\<lambda>p. p\<lparr>ip_sending := True, ip_status := SendingImage\<rparr>) a)
                   \<lparr>pastes := pastes a @ [(ip_mount p, picture, None)]\<rparr>))"

text \<open>The data of a paste is read: the upload it registers is the next one of the session.\<close>

definition paste_read :: "platform \<Rightarrow> (byte list \<Rightarrow> byte list) \<Rightarrow> int \<Rightarrow> byte list \<Rightarrow> nat \<Rightarrow> app \<Rightarrow> app" where
  "paste_read pf digest now random k a =
     (case pastes a ! k of
        (mount, picture, _) \<Rightarrow>
          a\<lparr>pastes := (pastes a)[k := (mount, picture, Some (length (imageUploads (ap_session a))))],
            ap_session := image_prepared pf digest now (bl_data picture) random (ap_session a)\<rparr>)"

text \<open>What the awaited promise of a paste is settled to.\<close>

definition paste_outcome :: "app \<Rightarrow> nat \<Rightarrow> image_outcome" where
  "paste_outcome a k =
     (case pastes a ! k of
        (_, _, Some i) \<Rightarrow>
          if i < length (imageUploads (ap_session a)) then iu_outcome (imageUploads (ap_session a) ! i)
          else ImagePending
      | (_, _, None) \<Rightarrow> ImagePending)"

text \<open>The rest of the panel's \<open>pasteToRemote\<close>.\<close>

definition paste_settled :: "platform \<Rightarrow> int \<Rightarrow> nat \<Rightarrow> app \<Rightarrow> app" where
  "paste_settled pf now k a =
     (let mount = fst (pastes a ! k);
          a1 = a\<lparr>pastes := without k (pastes a)\<rparr>
      in case paste_outcome a k of
           ImagePending \<Rightarrow> a
         | ImageResolved \<Rightarrow>
             in_panel mount (paste_ended ImagePasted) (with_session (sendRemotePasteShortcut pf now) a1)
         | ImageRejected code \<Rightarrow>
             in_panel mount (paste_ended (imageErrorMessage (Code code))) a1)"

fun app_handle :: "surroundings \<Rightarrow> int \<Rightarrow> rat \<Rightarrow> app_event \<Rightarrow> app \<Rightarrow> app option" where
  "app_handle su now perf (SessionEvent e fresh) a =
     (if from_interface e then None
      else map_option (\<lambda>v. a\<lparr>ap_session := v\<rparr>)
             (viewer_step (su_platform su) (su_digest su) now e (ap_session a)))"
| "app_handle su now perf (ClickConnect pl) a =
     allowed (placed pl a \<and> connect_enabled (ap_session a)
         \<and> (if pl = Toolbar then connectionState (ap_session a) = Offline
            else \<not> isControlActive (ap_session a)))
       (with_session (\<lambda>v. connectInternal (su_platform su) (videoProfile v) False v) a)"
| "app_handle su now perf ClickDisconnect a =
     allowed (connectionState (ap_session a) \<noteq> Offline) (with_session disconnect a)"
| "app_handle su now perf (SelectProfile pl profile) a =
     allowed (placed pl a \<and> profile_enabled (ap_session a)) (with_session (changeVideoProfile profile) a)"
| "app_handle su now perf ClickDisplayMode a =
     allowed (mediaStream (ap_session a) \<and> fst (videoSize a) \<noteq> 0)
       (a\<lparr>displayMode := (if displayMode a = Fit then Actual else Fit)\<rparr>)"
| "app_handle su now perf ClickFullscreen a =
     allowed (mediaStream (ap_session a)) (toggleFullscreen a)"
| "app_handle su now perf FullscreenRefused a = Some (a\<lparr>presentationError := True\<rparr>)"
| "app_handle su now perf (FullscreenChanged active) a = Some (onFullscreenChange active a)"
| "app_handle su now perf (ClickCapture pl) a =
     allowed (placed pl a \<and> isControlActive (ap_session a))
       (after_click pl (with_session (sendCaptureShortcut (su_platform su) now) a))"
| "app_handle su now perf (ClickTextClipboard pl) a =
     allowed (placed pl a \<and> isControlActive (ap_session a)) (after_click pl (toggleTextClipboardPanel a))"
| "app_handle su now perf (ClickImageClipboard pl) a =
     allowed (placed pl a \<and> image_panel_enabled (ap_session a))
       (after_click pl (toggleImageClipboardPanel a))"
| "app_handle su now perf (ClickFileSend pl) a =
     allowed (placed pl a \<and> canSendFiles (ap_session a)) (after_click pl a)"
| "app_handle su now perf (ClickFileReceive pl) a =
     allowed (placed pl a \<and> canSendFiles (ap_session a))
       (after_click pl (toggleDownloadPanel (su_platform su) now a))"
| "app_handle su now perf (ChooseFile random name n) a = Some (with_session (sendFile random name n) a)"
| "app_handle su now perf OpenTools a =
     allowed (isFullscreen a \<and> \<not> fullscreenToolsOpen a) (a\<lparr>fullscreenToolsOpen := True\<rparr>)"
| "app_handle su now perf CloseTools a = allowed (placed Drawer a) (a\<lparr>fullscreenToolsOpen := False\<rparr>)"
| "app_handle su now perf ToolsPointerDown a =
     allowed (isFullscreen a) (with_session (releaseRemoteInput (su_platform su) now) a)"
| "app_handle su now perf (VideoResized w h) a = Some (updateVideoSize w h a)"
| "app_handle su now perf (MetadataLoaded w h) a =
     allowed (mediaStream (ap_session a)) (a\<lparr>videoSize := (w, h)\<rparr>)"
| "app_handle su now perf ClockTick a = allowed (startedAt a \<noteq> None) (updateElapsed now a)"
| "app_handle su now perf FramePresented a = allowed (frameCounter a \<noteq> None) (onFrame perf a)"
| "app_handle su now perf (Captured e) a =
     (case inputCapture a of
        None \<Rightarrow> None
      | Some s \<Rightarrow> Some (capture_input (su_platform su) now e s a))"
| "app_handle su now perf DismissTransfer a =
     allowed (map_option ts_status (fileTransfer (ap_session a)) \<in> {Some TransferDone, Some TransferError})
       (with_session clearFileTransfer a)"
| "app_handle su now perf DismissDownload a =
     allowed (map_option ds_status (fileDownloadState (ap_session a)) \<in> {Some DownloadDone, Some DownloadError})
       (with_session clearFileDownload a)"
| "app_handle su now perf RefreshFiles a =
     allowed (downloadPanelOpen a \<and> canSendFiles (ap_session a))
       (with_session (requestFileList (su_platform su) now) a)"
| "app_handle su now perf (ClickDownload random name) a =
     allowed (downloadPanelOpen a \<and> name \<in> fst ` set (downloadableFiles (ap_session a))
         \<and> download_enabled (ap_session a))
       (with_session (downloadFile (su_platform su) now random name) a)"
| "app_handle su now perf CloseDownloads a = allowed (downloadPanelOpen a) (a\<lparr>downloadPanelOpen := False\<rparr>)"
| "app_handle su now perf (DismissTextEntry k) a =
     allowed (k \<in> fst ` set (clipboardEntries (ap_session a))) (with_session (dismissClipboardEntry k) a)"
| "app_handle su now perf (CopyTextEntry k asyncWrite execCopy) a =
     allowed (k \<in> fst ` set (clipboardEntries (ap_session a)))
       (if copyTextToClipboard asyncWrite execCopy then a\<lparr>copiedClipboardId := Some k\<rparr> else a)"
| "app_handle su now perf (EditText text) a =
     allowed (textPanel a \<noteq> None) (a\<lparr>textPanel := map_option (\<lambda>p. p\<lparr>tp_text := text\<rparr>) (textPanel a)\<rparr>)"
| "app_handle su now perf PasteText a =
     (case textPanel a of
        None \<Rightarrow> None
      | Some p \<Rightarrow> allowed (tp_text p \<noteq> []) (paste_text (su_platform su) now p a))"
| "app_handle su now perf StatusTimeout a =
     allowed (map_option tp_statusTimer (textPanel a) = Some True)
       (a\<lparr>textPanel := map_option status_timeout (textPanel a)\<rparr>)"
| "app_handle su now perf CloseTextPanel a =
     allowed (textPanel a \<noteq> None) (a\<lparr>clipboardPanelOpen := False\<rparr>)"
| "app_handle su now perf CloseImagePanel a =
     allowed (imagePanel a \<noteq> None) (a\<lparr>imageClipboardPanelOpen := False\<rparr>)"
| "app_handle su now perf (DismissImageEntry k) a =
     allowed (imagePanel a \<noteq> None \<and> k \<in> fst ` set (clipboardImages (ap_session a)))
       (with_session (dismissClipboardImageEntry k) a)"
| "app_handle su now perf (CopyImageEntry k lc) a =
     (case find (\<lambda>entry. fst entry = k) (clipboardImages (ap_session a)) of
        None \<Rightarrow> None
      | Some (_, _, data) \<Rightarrow>
          allowed (imagePanel a \<noteq> None)
            (a\<lparr>imagePanel := map_option (\<lambda>p. p\<lparr>ip_status :=
                 (case copyImageToLocalClipboard (su_images su) lc
                         \<lparr>bl_type = lit ''image/png'', bl_data = data\<rparr> of
                    Inr _ \<Rightarrow> ImageCopied | Inl e \<Rightarrow> imageErrorMessage e)\<rparr>) (imagePanel a)\<rparr>))"
| "app_handle su now perf (PasteIntoPanel content) a =
     (case imagePanel a of
        None \<Rightarrow> None
      | Some p \<Rightarrow>
          Some (case content of
                  Some picture \<Rightarrow> a\<lparr>normalizing := normalizing a @ [(ip_mount p, picture)]\<rparr>
                | None \<Rightarrow> in_panel (ip_mount p) (\<lambda>p. p\<lparr>ip_status := NoImageOnClipboard\<rparr>) a))"
| "app_handle su now perf LoadClipboardImage a =
     (case imagePanel a of
        None \<Rightarrow> None
      | Some p \<Rightarrow> allowed (canSendClipboardImage (ap_session a) \<and> \<not> ip_sending p)
                    (a\<lparr>clipboardReads := clipboardReads a @ [ip_mount p]\<rparr>))"
| "app_handle su now perf (ClipboardRead k lc) a =
     allowed (k < length (clipboardReads a)) (clipboard_read (su_images su) lc k a)"
| "app_handle su now perf (ImageNormalized k) a =
     allowed (k < length (normalizing a)) (image_normalized (su_images su) k a)"
| "app_handle su now perf PasteImage a =
     (case imagePanel a of
        None \<Rightarrow> None
      | Some p \<Rightarrow> allowed (canSendClipboardImage (ap_session a) \<and> ip_selectedImage p \<noteq> None \<and> \<not> ip_sending p)
                    (paste_image p a))"
| "app_handle su now perf (PasteRead k random) a =
     allowed (k < length (pastes a) \<and> snd (snd (pastes a ! k)) = None)
       (paste_read (su_platform su) (su_digest su) now random k a)"
| "app_handle su now perf (PasteSettled k) a =
     allowed (k < length (pastes a) \<and> paste_outcome a k \<noteq> ImagePending)
       (paste_settled (su_platform su) now k a)"

section \<open>After the render\<close>

text \<open>An image has arrived, or another panel was closed, while images are kept: the panel opens.\<close>

definition reveal_images :: "app \<Rightarrow> app \<Rightarrow> app" where
  "reveal_images before a =
     (if (clipboardPanelOpen before \<noteq> clipboardPanelOpen a \<or> downloadPanelOpen before \<noteq> downloadPanelOpen a
          \<or> length (clipboardImages (ap_session before)) \<noteq> length (clipboardImages (ap_session a)))
         \<and> length (clipboardImages (ap_session a)) > 0 \<and> \<not> clipboardPanelOpen a \<and> \<not> downloadPanelOpen a
      then a\<lparr>imageClipboardPanelOpen := True\<rparr> else a)"

text \<open>\<open>useInputCapture\<close> follows \<open>isControlActive\<close>; the video element is always there.\<close>

definition attach_input :: "platform \<Rightarrow> int \<Rightarrow> app \<Rightarrow> app" where
  "attach_input pf now a =
     (case inputCapture a of
        None \<Rightarrow> a\<lparr>inputCapture := useInputCapture True (isControlActive (ap_session a))\<rparr>
      | Some s \<Rightarrow>
          if isControlActive (ap_session a) then a
          else a\<lparr>inputCapture := None,
                 ap_session := fold (perform pf now) (drop (length (effects s)) (effects (cleanup s)))
                                 (ap_session a)\<rparr>)"

text \<open>The panels are mounted while they are open and control is active.\<close>

definition mount_panels :: "app \<Rightarrow> app" where
  "mount_panels a =
     (let active = isControlActive (ap_session a);
          textOpen = (clipboardPanelOpen a \<and> active);
          imageOpen = (imageClipboardPanelOpen a \<and> active)
      in a\<lparr>textPanel := (if textOpen
             then Some (case textPanel a of Some p \<Rightarrow> p | None \<Rightarrow> new_text_panel) else None),
           imagePanel := (if imageOpen
             then Some (case imagePanel a of Some p \<Rightarrow> p | None \<Rightarrow> new_image_panel (panelMounts a)) else None),
           panelMounts := (if imageOpen \<and> imagePanel a = None then panelMounts a + 1 else panelMounts a)\<rparr>)"

fun sets_stream :: "app_event \<Rightarrow> bool" where
  "sets_stream (SessionEvent _ fresh) = fresh"
| "sets_stream _ = False"

definition stream_changed :: "app_event \<Rightarrow> app \<Rightarrow> app \<Rightarrow> bool" where
  "stream_changed e before a \<longleftrightarrow>
     mediaStream (ap_session before) \<noteq> mediaStream (ap_session a)
     \<or> mediaStream (ap_session a) \<and> sets_stream e"

definition settle :: "surroundings \<Rightarrow> int \<Rightarrow> rat \<Rightarrow> app_event \<Rightarrow> app \<Rightarrow> app \<Rightarrow> app" where
  "settle su now perf e before a =
     mount_panels (attach_input (su_platform su) now (reveal_images before
       (if stream_changed e before a then show_stream (su_frames su) now perf a else a)))"

definition app_step :: "surroundings \<Rightarrow> int \<Rightarrow> rat \<Rightarrow> app_event \<Rightarrow> app \<Rightarrow> app option" where
  "app_step su now perf e a = map_option (settle su now perf e a) (app_handle su now perf e a)"

fun app_run :: "surroundings \<Rightarrow> (int \<times> rat \<times> app_event) list \<Rightarrow> app \<Rightarrow> app option" where
  "app_run su [] a = Some a"
| "app_run su ((now, perf, e) # es) a =
     (case app_step su now perf e a of Some b \<Rightarrow> app_run su es b | None \<Rightarrow> None)"

definition reachable_app :: "surroundings \<Rightarrow> app \<Rightarrow> bool" where
  "reachable_app su a \<longleftrightarrow> (\<exists>production c es. app_run su es (new_app production c) = Some a)"

end
