(* ===== verification/AppRuns.thy ===== *)
theory AppRuns
  imports ViewerApp RemoteSafety
begin

text \<open>
  The interface over the session: what a step of the interface does to the session is a run of
  the session hook, so what holds of every run of the hook holds of the whole viewer; and the
  invariants of the interface itself.
\<close>

section \<open>A step of the interface is a run of the session\<close>

text \<open>
  A coarse bound on the events of the hook that an event of the interface can cause, in any state:
  who can connect, disconnect and unmount. It is enough for invariants; \<open>AppTrace\<close> has the exact
  list of calls, for reachable states.
\<close>

fun clicks_connect :: "app_event \<Rightarrow> bool" where
  "clicks_connect (ClickConnect _) = True"
| "clicks_connect _ = False"

fun carries :: "app_event \<Rightarrow> viewer_event \<Rightarrow> bool" where
  "carries (SessionEvent x _) e = (e = x)"
| "carries _ e = False"

fun causes :: "app_event \<Rightarrow> viewer_event \<Rightarrow> bool" where
  "causes x (Connect profile) = clicks_connect x"
| "causes x Disconnect = (x = ClickDisconnect)"
| "causes x Unmount = False"
| "causes x e = (from_interface e \<or> carries x e)"

definition session_run :: "surroundings \<Rightarrow> app_event \<Rightarrow> viewer \<Rightarrow> viewer \<Rightarrow> bool" where
  "session_run su x v w \<longleftrightarrow>
     (\<exists>es. viewer_run (su_platform su) (su_digest su) es v = Some w \<and> (\<forall>(now, e) \<in> set es. causes x e))"

lemma session_run_refl [simp]: "session_run su x v v"
  by (auto simp: session_run_def intro: exI [of _ "[]"])

lemma session_run_trans: "session_run su x u v \<Longrightarrow> session_run su x v w \<Longrightarrow> session_run su x u w"
  unfolding session_run_def
  by (elim exE conjE, rule_tac x = "es @ esa" in exI) (auto simp: run_append)

lemma session_run_one:
  "viewer_step (su_platform su) (su_digest su) now e v = Some w \<Longrightarrow> causes x e \<Longrightarrow> session_run su x v w"
  unfolding session_run_def by (rule exI [of _ "[(now, e)]"]) auto

lemma session_run_ends:
  "session_run su (ClickConnect pl) v (connectInternal (su_platform su) profile False v)"
  "session_run su ClickDisconnect v (disconnect v)"
  by (rule session_run_one [of _ 0 "Connect profile"] session_run_one [of _ 0 Disconnect]; simp)+

lemma session_run_perform [simp]: "session_run su x v (perform (su_platform su) now e v)"
  by (rule session_run_one [of _ now "UserEffect e"]) simp_all

lemma session_run_performs [simp]: "session_run su x v (fold (perform (su_platform su) now) es v)"
proof (induction es arbitrary: v)
  case (Cons e es)
  show ?case using session_run_trans [OF session_run_perform Cons] by simp
qed simp

lemma session_run_keys [simp]: "session_run su x v (sendKeys (su_platform su) now ks v)"
proof -
  have "sendKeys (su_platform su) now ks v
      = fold (perform (su_platform su) now) (map (\<lambda>(code, action). SendKey (lit code) action) ks) v" for v
    by (induction ks arbitrary: v) (auto simp: sendKeys_def)
  then show ?thesis by simp
qed

lemma session_run_user [simp]:
  "session_run su x v (changeVideoProfile profile v)"
  "session_run su x v (setRemoteClipboard (su_platform su) now text v)"
  "session_run su x v (releaseRemoteInput (su_platform su) now v)"
  "session_run su x v (requestFileList (su_platform su) now v)"
  "session_run su x v (downloadFile (su_platform su) now random name v)"
  "session_run su x v (sendFile random name n v)"
  "session_run su x v (clearFileTransfer v)"
  "session_run su x v (clearFileDownload v)"
  "session_run su x v (dismissClipboardEntry k v)"
  "session_run su x v (dismissClipboardImageEntry k v)"
  "session_run su x v (image_prepared (su_platform su) (su_digest su) now data random v)"
proof -
  note one = session_run_one [where su = su]
  show "session_run su x v (changeVideoProfile profile v)"
    by (rule one [of 0 "ChangeProfile profile"]) simp_all
  show "session_run su x v (setRemoteClipboard (su_platform su) now text v)"
    by (rule one [of now "SetClipboard text"]) simp_all
  show "session_run su x v (releaseRemoteInput (su_platform su) now v)"
    by (rule one [of now "UserEffect ReleaseRemoteInput"]) simp_all
  show "session_run su x v (requestFileList (su_platform su) now v)"
    by (rule one [of now "RequestFiles"]) simp_all
  show "session_run su x v (downloadFile (su_platform su) now random name v)"
    by (rule one [of now "DownloadFile random name"]) simp_all
  show "session_run su x v (sendFile random name n v)"
    by (rule one [of 0 "SendFile random name n"]) simp_all
  show "session_run su x v (clearFileTransfer v)"
    by (rule one [of 0 "ClearTransfer"]) simp_all
  show "session_run su x v (clearFileDownload v)"
    by (rule one [of 0 "ClearDownload"]) simp_all
  show "session_run su x v (dismissClipboardEntry k v)"
    by (rule one [of 0 "DismissText k"]) simp_all
  show "session_run su x v (dismissClipboardImageEntry k v)"
    by (rule one [of 0 "DismissImage k"]) simp_all
  show "session_run su x v (image_prepared (su_platform su) (su_digest su) now data random v)"
    by (rule one [of now "ImagePrepared data random"]) simp_all
qed

lemma session_run_paste [simp]: "session_run su x v (snd (pasteToRemote (su_platform su) now p v))"
  using session_run_trans [OF session_run_user(2) session_run_keys]
  by (simp add: pasteToRemote_def Let_def)

lemma allowed_iff [simp]: "allowed possible a = Some b \<longleftrightarrow> possible \<and> b = a"
  by (auto simp: allowed_def)

lemma session_of [simp]:
  "ap_session (with_session f a) = f (ap_session a)"
  "ap_session (in_panel mount g a) = ap_session a" "ap_session (toggleTextClipboardPanel a) = ap_session a"
  "ap_session (toggleImageClipboardPanel a) = ap_session a"
  "ap_session (toggleDownloadPanel pf now a) = requestFileList pf now (ap_session a)"
  "ap_session (toggleFullscreen a) = ap_session a" "ap_session (onFullscreenChange b a) = ap_session a"
  "ap_session (updateVideoSize w h a) = ap_session a" "ap_session (show_stream frames now perf a) = ap_session a"
  "ap_session (reveal_images a' a) = ap_session a" "ap_session (mount_panels a) = ap_session a"
  by (simp_all add: with_session_def in_panel_def toggleTextClipboardPanel_def toggleImageClipboardPanel_def
      toggleDownloadPanel_def toggleFullscreen_def onFullscreenChange_def updateVideoSize_def show_stream_def
      reveal_images_def mount_panels_def Let_def)

lemma session_after_click [simp]: "ap_session (after_click pl a) = ap_session a"
  by (cases pl) simp_all

lemma session_of_video [simp]:
  "ap_session (updateElapsed now a) = ap_session a" "ap_session (onFrame perf a) = ap_session a"
  by (simp_all add: updateElapsed_def onFrame_def Let_def split: option.split prod.split)

lemma session_of_images [simp]:
  "ap_session (clipboard_read im lc k a) = ap_session a" "ap_session (image_normalized im k a) = ap_session a"
  "ap_session (paste_image p a) = ap_session a"
  by (simp_all add: clipboard_read_def image_normalized_def paste_image_def Let_def
      split: option.split prod.split sum.split)

lemma handle_runs_session:
  assumes "app_handle su now perf e a = Some b"
  shows "session_run su e (ap_session a) (ap_session b)"
proof (cases e)
  case (SessionEvent x fresh)
  then have "causes e x" using assms by (cases x) (auto split: if_splits)
  then show ?thesis using assms SessionEvent by (auto split: if_splits intro: session_run_one)
next
  case (Captured x)
  then show ?thesis using assms by (auto simp: capture_input_def Let_def split: option.splits)
next
  case PasteText
  then obtain p where "ap_session b = snd (pasteToRemote (su_platform su) now p (ap_session a))"
    using assms
    by (auto simp: paste_text_def split: option.splits prod.splits) (metis snd_conv)
  then show ?thesis by simp
qed (use assms in \<open>auto simp: session_run_ends sendCaptureShortcut_def sendRemotePasteShortcut_def
       paste_read_def paste_settled_def Let_def split: option.splits prod.splits image_outcome.splits\<close>)

lemma settle_runs_session [simp]:
  "session_run su x (ap_session a) (ap_session (settle su now perf e before a))"
proof -
  have "session_run su x (ap_session a) (ap_session (attach_input (su_platform su) now a))" for a
    by (auto simp: attach_input_def split: option.split)
  from this [of "reveal_images before (if stream_changed e before a then show_stream (su_frames su) now perf a else a)"]
  show ?thesis by (simp add: settle_def split: if_splits)
qed

lemma step_runs_session:
  "app_step su now perf e a = Some b \<Longrightarrow> session_run su e (ap_session a) (ap_session b)"
  using session_run_trans [OF handle_runs_session settle_runs_session] by (auto simp: app_step_def)

text \<open>A run of the interface is a run of the session, without a new \<open>connect\<close> if none was clicked.\<close>

lemma run_runs_session:
  assumes "app_run su es a = Some b"
  shows "\<exists>xs. viewer_run (su_platform su) (su_digest su) xs (ap_session a) = Some (ap_session b)
    \<and> ((\<forall>(now, perf, e) \<in> set es. \<not> clicks_connect e) \<longrightarrow> (\<forall>now p. (now, Connect p) \<notin> set xs))"
  using assms
proof (induction es arbitrary: a)
  case (Cons x es)
  obtain now perf e where x: "x = (now, perf, e)" by (cases x)
  obtain u where u: "app_step su now perf e a = Some u" "app_run su es u = Some b"
    using Cons.prems(1) by (auto simp: x split: option.splits)
  obtain xs where "viewer_run (su_platform su) (su_digest su) xs (ap_session a) = Some (ap_session u)"
      "\<forall>(now, y) \<in> set xs. causes e y"
    using step_runs_session [OF u(1)] unfolding session_run_def by blast
  moreover obtain ys where "viewer_run (su_platform su) (su_digest su) ys (ap_session u) = Some (ap_session b)"
      "(\<forall>(now, perf, e) \<in> set es. \<not> clicks_connect e) \<longrightarrow> (\<forall>now p. (now, Connect p) \<notin> set ys)"
    using Cons.IH [OF u(2)] by blast
  ultimately show ?case by (intro exI [of _ "xs @ ys"]) (fastforce simp: x run_append)
qed (simp add: exI [of _ "[]"])

lemma app_run_append: "app_run su (es @ fs) a = Option.bind (app_run su es a) (app_run su fs)"
  by (induction es arbitrary: a) (auto split: option.split)

lemma app_reaches_session:
  assumes "reachable_app su a"
  shows "reachable_viewer (su_platform su) (su_digest su) (ap_session a)"
proof -
  obtain production c es where "app_run su es (new_app production c) = Some a"
    using assms by (auto simp: reachable_app_def)
  from run_runs_session [OF this] show ?thesis
    unfolding reachable_viewer_def by (auto simp: new_app_def)
qed

end
