(* ===== verification/RemoteUser.thy ===== *)
theory RemoteUser
  imports RemoteOutcomes RemotePhases
begin

text \<open>
  The mark of a user who disconnected: only \<open>disconnect\<close> and the unmount set it. And a sequence
  of input operations: what reaches the control channel is a prefix of the messages, in order.
\<close>

section \<open>The mark of a disconnect\<close>

definition marks_no_user :: "viewer \<Rightarrow> viewer \<Rightarrow> bool" where
  "marks_no_user v w \<longleftrightarrow> (userDisconnected w \<longrightarrow> userDisconnected v)"

named_theorems unmarking \<open>the operations that do not mark the user as disconnected\<close>

lemma unmarked_refl [simp]: "marks_no_user v v"
  by (simp add: marks_no_user_def)

lemma unmarked_same: "userDisconnected w = userDisconnected v \<Longrightarrow> marks_no_user v w"
  by (simp add: marks_no_user_def)

lemma unmarked_core: "same_core v w \<Longrightarrow> marks_no_user v w"
  by (simp add: core_defs marks_no_user_def)

lemma user_small [simp]:
  "userDisconnected (scheduleAutoReconnect v) = userDisconnected v"
  "userDisconnected (scheduleSignalingRecovery cycle v) = userDisconnected v"
  "userDisconnected (applyConnectionIssue code r v) = userDisconnected v"
  "userDisconnected (stopPing v) = userDisconnected v"
  "userDisconnected (clearConnectionEstablishmentTimer v) = userDisconnected v"
  "userDisconnected (clearVideoProfileTimer v) = userDisconnected v"
  "userDisconnected (cancelAutoReconnect v) = userDisconnected v"
  "userDisconnected (cancelSignalingRecovery v) = userDisconnected v"
  "userDisconnected (snd (sendSignaling ty sid d v)) = userDisconnected v"
  "userDisconnected (update_viewer_socket i f v) = userDisconnected v"
  "userDisconnected (update_peer i g v) = userDisconnected v"
  "userDisconnected (updateActiveState v) = userDisconnected v"
  "userDisconnected (startVideoStats i cycle v) = userDisconnected v"
  by (simp_all add: scheduleAutoReconnect_def scheduleSignalingRecovery_def applyConnectionIssue_def
      stopPing_def clearConnectionEstablishmentTimer_def clearVideoProfileTimer_def cancelAutoReconnect_def
      cancelSignalingRecovery_def sendSignaling_def update_viewer_socket_def update_peer_def
      active_step_legal startVideoStats_def stopVideoStats_def Let_def split: option.split)

lemma user_teardown [simp]: "userDisconnected (teardownForCycle cycle v) = userDisconnected v"
proof (cases "cycle = activeCycle v \<and> \<not> idle v")
  case True
  then show ?thesis using teardown_live(5) by simp
next
  case False
  then show ?thesis using teardown_stale teardown_idle by metis
qed

lemma user_ends [simp]:
  "userDisconnected (cycle_failed code cycle v) = userDisconnected v"
  "userDisconnected (recoverControlChannel ch cycle v) = userDisconnected v"
  by (simp_all add: cycle_failed_def recoverControlChannel_def)

lemma user_send_control: "send_control th i n m v = Some w \<Longrightarrow> userDisconnected w = userDisconnected v"
  by (auto simp: send_control_def split: if_splits)

lemma user_emit [simp]: "userDisconnected (emitControl pf now e d v) = userDisconnected v"
  by (simp add: emitControl_def Let_def user_send_control split: option.split)

lemma user_senders [simp]:
  "userDisconnected (perform pf now e v) = userDisconnected v"
  "userDisconnected (setRemoteClipboard pf now text v) = userDisconnected v"
  by (simp_all add: perform_message setRemoteClipboard_def split: option.split)

lemma user_ping [simp]:
  "userDisconnected (sendPing pf now i cycle c v) = userDisconnected v"
  "userDisconnected (startControlPing pf now i cycle v) = userDisconnected v"
proof -
  show ping: "userDisconnected (sendPing pf now i cycle c v) = userDisconnected v" for c v
    by (simp add: sendPing_def Let_def user_send_control split: option.split)
  show "userDisconnected (startControlPing pf now i cycle v) = userDisconnected v"
    by (simp add: startControlPing_def ping split: option.split)
qed

lemma user_startConnection:
  "startConnection pf profile c cycle r v = Some w \<Longrightarrow> userDisconnected w = userDisconnected v"
  by (auto simp: startConnection_def split: if_splits)

lemma unmarked_connect [unmarking]: "marks_no_user v (connectInternal pf profile isAuto v)"
  unfolding connectInternal_def Let_def marks_no_user_def
  by (simp add: user_startConnection split: option.split)

lemma unmarked_tickets [unmarking]:
  "marks_no_user v (ticket_answered pf k answer v)"
  "marks_no_user v (signaling_recovery_fired pf profile cycle v)"
  "marks_no_user v (auto_reconnect_fired pf profile v)" "marks_no_user v (establishment_timeout cycle v)"
proof -
  have connect: "marks_no_user v (connectInternal pf profile True (v\<lparr>autoReconnectTimer := False\<rparr>))"
    using unmarked_connect [of "v\<lparr>autoReconnectTimer := False\<rparr>"] by (simp add: marks_no_user_def)
  show "marks_no_user v (auto_reconnect_fired pf profile v)"
    by (simp add: auto_reconnect_fired_def Let_def connect unmarked_same)
qed (simp_all add: ticket_answered_def connect_ticket_def recovery_ticket_def signaling_recovery_fired_def
      establishment_timeout_def Let_def user_startConnection unmarked_same
      split: option.split ticket_request.split)

lemma user_set [simp]:
  "userDisconnected (set_control i r v) = userDisconnected v" "userDisconnected (set_image i r v) = userDisconnected v"
  "userDisconnected (set_file i r v) = userDisconnected v" "userDisconnected (set_peer i st v) = userDisconnected v"
  "userDisconnected (set_socket i r v) = userDisconnected v"
  by (simp_all add: set_control_def set_image_def set_file_def set_peer_def set_socket_def)

lemma unmarked_peer_events [unmarking]:
  "marks_no_user v (control_opened pf now i v)" "marks_no_user v (control_closed i v)"
  "marks_no_user v (track_arrived i v)" "marks_no_user v (peer_state_changed i v)"
  "marks_no_user v (offer_ready i sdp v)"
proof -
  have sent: "userDisconnected w = userDisconnected u" if "sendSignaling ty sid d u = (r, w)" for ty sid d r u w
    using user_small(9) [of ty sid d u] that by simp
  show "marks_no_user v (offer_ready i sdp v)"
    by (simp add: offer_ready_def Let_def unmarked_same sent split: option.split prod.split sum.split)
qed (simp_all add: control_opened_def control_closed_def track_arrived_def peer_state_changed_def Let_def
      unmarked_same split: peer_state.split)

lemma unmarked_moveTo: "moveTo s v = Inr w \<Longrightarrow> userDisconnected w = userDisconnected v"
  by (auto simp: moveTo_def split: sum.splits)

lemma user_session_accepted: "userDisconnected (snd (session_accepted pf m cycle rc v)) = userDisconnected v"
proof -
  have "userDisconnected (snd (createPeerConnection pf cycle u)) = userDisconnected u" for u
    by (simp add: createPeerConnection_def Let_def split: option.split)
  then show ?thesis
    by (simp add: session_accepted_def Let_def unmarked_moveTo split: option.split sum.split)
qed

lemma user_handleSignalingMessage:
  "userDisconnected (snd (handleSignalingMessage pf now m cycle rc v)) = userDisconnected v"
proof -
  have policy: "userDisconnected (session_policy pf now m v) = userDisconnected v"
    by (simp add: session_policy_def Let_def releaseRemoteInput_def)
  have configured: "userDisconnected (session_configured m v) = userDisconnected v"
    using neutral_session_configured [of v m] by (simp add: core_defs)
  have issue: "userDisconnected (server_issue m cycle v) = userDisconnected v"
    by (simp add: server_issue_def Let_def)
  show ?thesis
    by (simp add: handleSignalingMessage_def Let_def user_session_accepted policy configured issue)
qed

lemma unmarked_socket_events [unmarking]:
  "marks_no_user v (socket_message pf now i text v)" "marks_no_user v (socket_opened i v)"
  "marks_no_user v (socket_error i v)" "marks_no_user v (socket_closed i v)"
proof -
  have handled: "userDisconnected w = userDisconnected u"
    if "handleSignalingMessage pf now m cycle rc u = (b, w)" for m cycle rc u b w
    using user_handleSignalingMessage [of pf now m cycle rc u] that by simp
  show "marks_no_user v (socket_message pf now i text v)"
    by (simp add: socket_message_def Let_def unmarked_same handled
        split: option.split prod.split bool.split)
  have sent: "userDisconnected w = userDisconnected u" if "sendSignaling ty sid d u = (r, w)" for ty sid d r u w
    using user_small(9) [of ty sid d u] that by simp
  show "marks_no_user v (socket_opened i v)"
    by (simp add: socket_opened_def Let_def unmarked_same unmarked_moveTo sent
        split: option.split prod.split sum.split)
qed (simp_all add: socket_error_def socket_closed_def Let_def unmarked_same)

lemmas core_unmarking = neutral [THEN unmarked_core]

lemma unmarked_set:
  "userDisconnected u = userDisconnected v \<Longrightarrow> marks_no_user u w \<Longrightarrow> marks_no_user v w"
  by (simp add: marks_no_user_def)

lemma unmarked_after_set:
  "marks_no_user v (control_closed i (set_control i r v))" "marks_no_user v (peer_state_changed i (set_peer i st v))"
  "marks_no_user v (control_opened pf now i (set_control i r v))"
  "marks_no_user v (socket_closed i (set_socket i r v))" "marks_no_user v (socket_opened i (set_socket i r v))"
  "marks_no_user v (image_channel_opened i (set_image i r v))"
  "marks_no_user v (image_channel_closed i (set_image i r v))" "marks_no_user v (file_channel_opened i (set_file i r v))"
  "marks_no_user v (file_channel_closed i (set_file i r v))"
  by (rule unmarked_set [rotated], rule unmarking core_unmarking, simp)+

lemma step_unmarked:
  assumes "viewer_step pf digest now e v = Some w" "e \<notin> {Disconnect, Unmount}"
  shows "marks_no_user v w"
  using assms
  by (cases e) (auto simp: occurs_def unmarked_same
      intro: unmarking core_unmarking unmarked_after_set split: if_splits)

section \<open>Sequences of input\<close>

definition emits :: "platform \<Rightarrow> int \<Rightarrow> (string \<times> json) list \<Rightarrow> viewer \<Rightarrow> viewer" where
  "emits pf now ms v = fold (\<lambda>(e, d). emitControl pf now e d) ms v"

text \<open>The frames of a sequence of messages, numbered from \<open>n + 1\<close>.\<close>

fun numbered_frames :: "jstring \<Rightarrow> nat \<Rightarrow> int \<Rightarrow> (string \<times> json) list \<Rightarrow> channel_frame list" where
  "numbered_frames sid n now [] = []"
| "numbered_frames sid n now ((e, d) # ms) =
     TextFrame (control_json e sid (n + 1) now d) # numbered_frames sid (n + 1) now ms"

text \<open>Without the right to inject an input operation does nothing.\<close>

lemma emit_blocked: "(\<forall>i. \<not> may_inject v i) \<or> configRef v = None \<Longrightarrow> emitControl pf now e d v = v"
  by (auto simp: emitControl_def may_inject_def control_ready_def split: option.split)

lemma emits_blocked: "(\<forall>i. \<not> may_inject v i) \<or> configRef v = None \<Longrightarrow> emits pf now ms v = v"
  by (induction ms) (auto simp: emits_def emit_blocked)

text \<open>A \<open>send\<close> that throws ends the cycle: the session goes offline and nothing more is sent.\<close>

lemma emit_throws:
  fixes v :: viewer and e :: string and d :: json and now :: int
  assumes "may_inject v i" "configRef v = Some c" "pf_throws pf (controlSequence v + 1)" "\<not> userDisconnected v"
  defines "w \<equiv> emitControl pf now e d v"
  shows "stateRef w = Offline \<and> logs w = logs v \<and> controlSequence v \<le> controlSequence w"
proof -
  define x where "x = (stopPing (v\<lparr>controlSequence := controlSequence v + 1, channelOpenRef := False\<rparr>))
    \<lparr>roundTripTimeMs := None\<rparr>"
  have w: "w = scheduleAutoReconnect (teardownForCycle (activeCycle x) x)"
    using assms(1-4)
    by (simp add: w_def emitControl_def may_inject_def control_ready_def send_control_def
        recoverControlChannel_def Let_def x_def stopPing_def)
  have "\<not> idle x" using assms(1) by (simp add: may_inject_def idle_def x_def stopPing_def)
  note t = teardown_live(2,12) [OF this]
  have "logs x = logs v" by (simp add: x_def stopPing_def)
  moreover have "controlSequence x = controlSequence v + 1" by (simp add: x_def stopPing_def)
  moreover have "controlSequence (scheduleAutoReconnect y) = controlSequence y" for y
    by (simp add: scheduleAutoReconnect_def)
  ultimately show ?thesis using t by (simp add: w)
qed

lemma emit_writes_on:
  fixes v :: viewer and e :: string and d :: json and now :: int
  assumes "may_inject v i" "configRef v = Some c" "\<not> pf_throws pf (controlSequence v + 1)" "i < length (viewerPeers v)"
  defines "w \<equiv> emitControl pf now e d v"
  shows "may_inject w i \<and> configRef w = Some c \<and> i < length (viewerPeers w) \<and> userDisconnected w = userDisconnected v
    \<and> controlSequence w = controlSequence v + 1
    \<and> logs w = (logs v)[i := logs v ! i @
        [TextFrame (control_json e (cc_sessionId c) (controlSequence v + 1) now d)]]"
  using assms(1-4)
  by (simp add: w_def emitControl_def may_inject_def control_ready_def send_control_def Let_def
      update_peer_def control_log_def map_update)

text \<open>What is written is a prefix; all of it unless a \<open>send\<close> threw.\<close>

lemma emits_prefix:
  assumes "may_inject v i" "configRef v = Some c" "i < length (viewerPeers v)" "\<not> userDisconnected v"
  shows "\<exists>k \<le> length ms. logs (emits pf now ms v) = (logs v)[i := logs v ! i
      @ take k (numbered_frames (cc_sessionId c) (controlSequence v) now ms)]
    \<and> controlSequence v + k \<le> controlSequence (emits pf now ms v)
    \<and> (k < length ms \<longrightarrow> pf_throws pf (controlSequence v + k + 1) \<and> stateRef (emits pf now ms v) = Offline)"
  using assms
proof (induction ms arbitrary: v)
  case Nil
  then show ?case by (simp add: emits_def)
next
  case (Cons m ms)
  obtain e d where m: "m = (e, d)" by force
  define w where "w = emitControl pf now e d v"
  have next_step: "emits pf now (m # ms) v = emits pf now ms w" by (simp add: emits_def m w_def)
  show ?case
  proof (cases "pf_throws pf (controlSequence v + 1)")
    case True
    from emit_throws [OF Cons.prems(1,2) this Cons.prems(4), of now e d]
    have w: "stateRef w = Offline" "logs w = logs v" "controlSequence v \<le> controlSequence w"
      by (simp_all add: w_def)
    moreover from w(1) have "\<not> may_inject w j" for j by (simp add: may_inject_def)
    then have "emits pf now (m # ms) v = w" by (simp add: next_step emits_blocked)
    ultimately show ?thesis using True Cons.prems(3) by (intro exI [of _ 0]) simp
  next
    case False
    note w = emit_writes_on [OF Cons.prems(1,2) False Cons.prems(3), of now e d, folded w_def]
    then obtain k where "k \<le> length ms" "logs (emits pf now ms w) = (logs w)[i := logs w ! i
        @ take k (numbered_frames (cc_sessionId c) (controlSequence w) now ms)]"
      "controlSequence w + k \<le> controlSequence (emits pf now ms w)"
      "k < length ms \<longrightarrow> pf_throws pf (controlSequence w + k + 1) \<and> stateRef (emits pf now ms w) = Offline"
      using Cons.IH [of w] Cons.prems(4) by auto
    then show ?thesis
      using w Cons.prems(3) by (intro exI [of _ "Suc k"]) (simp add: next_step, simp add: m)
  qed
qed

lemma emits_counts:
  assumes "may_inject v i" "configRef v = Some c" "i < length (viewerPeers v)" "\<And>n. \<not> pf_throws pf n"
  shows "controlSequence (emits pf now ms v) = controlSequence v + length ms"
  using assms
proof (induction ms arbitrary: v)
  case (Cons m ms)
  obtain e d where m: "m = (e, d)" by force
  show ?case
    using Cons.IH emit_writes_on [OF Cons.prems(1,2,4,3), of now e d] Cons.prems(4)
    by (auto simp: emits_def m)
qed (simp add: emits_def)

text \<open>Messages the schema admits make frames it admits, while the numbers are safe.\<close>

definition admitted :: "string \<times> json \<Rightarrow> bool" where
  "admitted m \<longleftrightarrow> (\<exists>ds. (fst m, ds) \<in> set control_data \<and> schema_accepts ds (snd m))"

lemma numbered_valid:
  assumes "list_all admitted ms" "opaque_id sid" "int (n + k) \<le> MAX_SAFE_INTEGER" "0 \<le> now"
    and "f \<in> set (take k (numbered_frames sid n now ms))"
  shows "\<exists>m. f = TextFrame m \<and> schema_accepts ControlMessageSchema m"
  using assms
proof (induction ms arbitrary: n k)
  case (Cons m ms)
  obtain e d where m: "m = (e, d)" by force
  obtain ds where "(e, ds) \<in> set control_data" "schema_accepts ds d"
    using Cons.prems(1) by (auto simp: m admitted_def)
  then have head: "schema_accepts ControlMessageSchema (control_json e sid (n + 1) now d)" if "0 < k"
    using control_json_valid [of e ds d "n + 1" now sid] Cons.prems(2-4) that by auto
  show ?case
    using Cons.prems head Cons.IH [where n = "n + 1" and k = "k - 1"]
    by (cases k) (auto simp: m)
qed simp

text \<open>What a sequence of admitted messages adds to any peer's control channel.\<close>

lemma injecting_peer: "viewer_inv v \<Longrightarrow> may_inject v i \<Longrightarrow> i < length (viewerPeers v)"
  by (auto simp: viewer_inv_def refs_ok_def may_inject_def)

lemma emits_valid:
  assumes "list_all admitted ms" "viewer_inv v" "\<not> userDisconnected v"
    and "\<And>c. configRef v = Some c \<Longrightarrow> opaque_id (cc_sessionId c)"
    and "int (controlSequence (emits pf now ms v)) \<le> MAX_SAFE_INTEGER" "0 \<le> now" "j < length (viewerPeers v)"
  shows "\<exists>fs. logs (emits pf now ms v) ! j = logs v ! j @ fs
    \<and> (\<forall>f \<in> set fs. \<exists>m. f = TextFrame m \<and> schema_accepts ControlMessageSchema m)"
proof (cases "(\<forall>i. \<not> may_inject v i) \<or> configRef v = None")
  case True
  then show ?thesis by (intro exI [of _ "[]"]) (simp add: emits_blocked)
next
  case False
  then obtain i c where i: "may_inject v i" "configRef v = Some c" by auto
  obtain k where k: "logs (emits pf now ms v) = (logs v)[i := logs v ! i
        @ take k (numbered_frames (cc_sessionId c) (controlSequence v) now ms)]"
      "controlSequence v + k \<le> controlSequence (emits pf now ms v)"
    using emits_prefix [OF i injecting_peer [OF assms(2) i(1)] assms(3), of ms pf now] by blast
  have "int (controlSequence v + k) \<le> MAX_SAFE_INTEGER" using k(2) assms(5) by linarith
  note valid = numbered_valid [OF assms(1) assms(4) [OF i(2)] this assms(6)]
  show ?thesis
    using valid assms(7)
    by (intro exI [of _ "if j = i then take k (numbered_frames (cc_sessionId c) (controlSequence v) now ms) else []"])
      (auto simp: k(1) nth_list_update)
qed

end
