(* ===== verification/AppInvariants.thy ===== *)
theory AppInvariants
  imports AppRuns RemoteUser
begin

text \<open>
  The invariants of the viewer's interface: which panels can be open together, what is attached
  and mounted while control is active, and what the video's effects leave behind.
\<close>

definition one_panel :: "app \<Rightarrow> bool" where
  "one_panel a \<longleftrightarrow> \<not> (clipboardPanelOpen a \<and> imageClipboardPanelOpen a)
     \<and> \<not> (clipboardPanelOpen a \<and> downloadPanelOpen a)
     \<and> \<not> (imageClipboardPanelOpen a \<and> downloadPanelOpen a)"

definition drawer_ok :: "app \<Rightarrow> bool" where
  "drawer_ok a \<longleftrightarrow> (fullscreenToolsOpen a \<longrightarrow> isFullscreen a)"

definition capture_ok :: "app \<Rightarrow> bool" where
  "capture_ok a \<longleftrightarrow> (\<forall>s. inputCapture a = Some s \<longrightarrow> captured s)"

definition video_idle :: "app \<Rightarrow> bool" where
  "video_idle a \<longleftrightarrow> displayMode a = Fit \<and> elapsedSeconds a = 0 \<and> framesPerSecond a = None
     \<and> startedAt a = None \<and> frameCounter a = None"

definition handled_ok :: "app \<Rightarrow> bool" where
  "handled_ok a \<longleftrightarrow> one_panel a \<and> drawer_ok a \<and> capture_ok a"

definition app_inv :: "app \<Rightarrow> bool" where
  "app_inv a \<longleftrightarrow> handled_ok a
     \<and> (inputCapture a \<noteq> None \<longleftrightarrow> isControlActive (ap_session a))
     \<and> (textPanel a \<noteq> None \<longleftrightarrow> clipboardPanelOpen a \<and> isControlActive (ap_session a))
     \<and> (imagePanel a \<noteq> None \<longleftrightarrow> imageClipboardPanelOpen a \<and> isControlActive (ap_session a))
     \<and> (mediaStream (ap_session a) \<longleftrightarrow> startedAt a \<noteq> None)
     \<and> (\<not> mediaStream (ap_session a) \<longrightarrow> video_idle a)"

lemmas app_inv_defs = app_inv_def handled_ok_def one_panel_def drawer_ok_def capture_ok_def

section \<open>Handlers\<close>

text \<open>What a handler that is no click on a panel leaves alone.\<close>

definition view_of :: "app \<Rightarrow> bool \<times> bool \<times> bool \<times> bool \<times> bool \<times> capture option" where
  "view_of a = (clipboardPanelOpen a, imageClipboardPanelOpen a, downloadPanelOpen a, isFullscreen a,
     fullscreenToolsOpen a, inputCapture a)"

lemma handled_view: "handled_ok a \<Longrightarrow> view_of b = view_of a \<Longrightarrow> handled_ok b"
  by (simp add: view_of_def app_inv_defs)

lemma view_same [simp]:
  "view_of (with_session f a) = view_of a" "view_of (in_panel mount g a) = view_of a"
  "view_of (toggleFullscreen a) = view_of a" "view_of (updateVideoSize w h a) = view_of a"
  "view_of (a\<lparr>ap_session := v\<rparr>) = view_of a" "view_of (a\<lparr>textPanel := tp\<rparr>) = view_of a"
  "view_of (a\<lparr>imagePanel := ip\<rparr>) = view_of a" "view_of (a\<lparr>pastes := ps\<rparr>) = view_of a"
  "view_of (a\<lparr>normalizing := ns\<rparr>) = view_of a" "view_of (a\<lparr>clipboardReads := rs\<rparr>) = view_of a"
  "view_of (a\<lparr>displayMode := m\<rparr>) = view_of a" "view_of (a\<lparr>presentationError := e\<rparr>) = view_of a"
  "view_of (a\<lparr>videoSize := sz\<rparr>) = view_of a" "view_of (a\<lparr>copiedClipboardId := c\<rparr>) = view_of a"
  by (simp_all add: view_of_def with_session_def in_panel_def toggleFullscreen_def updateVideoSize_def)

lemma view_video [simp]:
  "view_of (updateElapsed now a) = view_of a" "view_of (onFrame perf a) = view_of a"
  "view_of (show_stream frames now perf a) = view_of a"
  by (simp_all add: view_of_def updateElapsed_def onFrame_def show_stream_def Let_def
      split: option.split prod.split)

lemma view_images [simp]:
  "view_of (clipboard_read im lc k a) = view_of a" "view_of (image_normalized im k a) = view_of a"
  "view_of (paste_image p a) = view_of a" "view_of (paste_text pf now q a) = view_of a"
  "view_of (paste_read pf digest now random k a) = view_of a" "view_of (paste_settled pf now k a) = view_of a"
  by (simp_all add: clipboard_read_def image_normalized_def paste_image_def paste_text_def paste_read_def
      paste_settled_def Let_def split: option.split prod.split sum.split image_outcome.split)

lemma handled_panels:
  assumes "handled_ok a"
  shows "handled_ok (toggleTextClipboardPanel a)" "handled_ok (toggleImageClipboardPanel a)"
    "handled_ok (toggleDownloadPanel pf now a)" "handled_ok (onFullscreenChange active a)"
    "handled_ok (after_click pl a)"
  using assms
  by (auto simp: app_inv_defs toggleTextClipboardPanel_def toggleImageClipboardPanel_def
      toggleDownloadPanel_def onFullscreenChange_def) (cases pl; simp)+

lemma handled_fields:
  assumes "handled_ok a"
  shows "handled_ok (a\<lparr>clipboardPanelOpen := False\<rparr>)" "handled_ok (a\<lparr>imageClipboardPanelOpen := False\<rparr>)"
    "handled_ok (a\<lparr>downloadPanelOpen := False\<rparr>)" "handled_ok (a\<lparr>fullscreenToolsOpen := False\<rparr>)"
    "isFullscreen a \<Longrightarrow> handled_ok (a\<lparr>fullscreenToolsOpen := True\<rparr>)"
  using assms by (auto simp: app_inv_defs)

lemma handled_input: "handled_ok a \<Longrightarrow> inputCapture a = Some s \<Longrightarrow> handled_ok (capture_input pf now e s a)"
  by (simp add: app_inv_defs capture_input_def Let_def captured_event)

lemma handled_session [simp]: "handled_ok (with_session f a) = handled_ok a"
  by (simp add: with_session_def app_inv_defs)

lemma handle_keeps:
  assumes "app_handle su now perf e a = Some b" "handled_ok a"
  shows "handled_ok b"
  using assms
  by (cases e) (auto simp: handled_panels handled_fields handled_input intro: handled_view [of a]
      split: if_splits option.splits)

text \<open>The clock and the frame counter run only while a stream is shown.\<close>

definition clock_of :: "app \<Rightarrow> display_mode \<times> int \<times> int option \<times> int option \<times> (nat \<times> rat) option" where
  "clock_of a = (displayMode a, elapsedSeconds a, framesPerSecond a, startedAt a, frameCounter a)"

lemma idle_clock: "video_idle a \<Longrightarrow> clock_of b = clock_of a \<Longrightarrow> video_idle b"
  by (simp add: clock_of_def video_idle_def)

lemma clock_same [simp]:
  "clock_of (with_session f a) = clock_of a" "clock_of (in_panel mount g a) = clock_of a"
  "clock_of (toggleFullscreen a) = clock_of a" "clock_of (updateVideoSize w h a) = clock_of a"
  "clock_of (toggleTextClipboardPanel a) = clock_of a" "clock_of (toggleImageClipboardPanel a) = clock_of a"
  "clock_of (toggleDownloadPanel pf now a) = clock_of a" "clock_of (onFullscreenChange b a) = clock_of a"
  "clock_of (capture_input pf now e s a) = clock_of a"
  by (simp_all add: clock_of_def with_session_def in_panel_def toggleFullscreen_def updateVideoSize_def
      toggleTextClipboardPanel_def toggleImageClipboardPanel_def toggleDownloadPanel_def
      onFullscreenChange_def capture_input_def Let_def)

lemma clock_fields [simp]:
  "clock_of (a\<lparr>ap_session := v\<rparr>) = clock_of a" "clock_of (a\<lparr>textPanel := tp\<rparr>) = clock_of a"
  "clock_of (a\<lparr>imagePanel := ip\<rparr>) = clock_of a" "clock_of (a\<lparr>pastes := ps\<rparr>) = clock_of a"
  "clock_of (a\<lparr>normalizing := ns\<rparr>) = clock_of a" "clock_of (a\<lparr>clipboardReads := rs\<rparr>) = clock_of a"
  "clock_of (a\<lparr>presentationError := e\<rparr>) = clock_of a" "clock_of (a\<lparr>fullscreenToolsOpen := b\<rparr>) = clock_of a"
  "clock_of (a\<lparr>videoSize := sz\<rparr>) = clock_of a" "clock_of (a\<lparr>copiedClipboardId := c\<rparr>) = clock_of a"
  "clock_of (a\<lparr>clipboardPanelOpen := b\<rparr>) = clock_of a" "clock_of (a\<lparr>downloadPanelOpen := b\<rparr>) = clock_of a"
  "clock_of (a\<lparr>imageClipboardPanelOpen := b\<rparr>) = clock_of a" "clock_of (after_click pl a) = clock_of a"
  by (simp_all add: clock_of_def) (cases pl; simp)

lemma clock_images [simp]:
  "clock_of (clipboard_read im lc k a) = clock_of a" "clock_of (image_normalized im k a) = clock_of a"
  "clock_of (paste_image p a) = clock_of a" "clock_of (paste_text pf now q a) = clock_of a"
  "clock_of (paste_read pf digest now random k a) = clock_of a" "clock_of (paste_settled pf now k a) = clock_of a"
  by (simp_all add: clipboard_read_def image_normalized_def paste_image_def paste_text_def paste_read_def
      paste_settled_def Let_def split: option.split prod.split sum.split image_outcome.split)

lemma handle_clock:
  assumes "app_handle su now perf e a = Some b" "\<not> mediaStream (ap_session a)" "video_idle a"
  shows "video_idle b"
  using assms
  by (cases e) (auto intro: idle_clock [of a] simp: video_idle_def [of a] split: if_splits option.splits)

lemma clock_started: "clock_of b = clock_of a \<Longrightarrow> startedAt b = startedAt a"
  by (simp add: clock_of_def)

lemma handle_started:
  assumes "app_handle su now perf e a = Some b"
  shows "startedAt b = startedAt a"
proof -
  have "startedAt (updateElapsed now a) = startedAt a" "startedAt (onFrame perf a) = startedAt a"
    by (simp_all add: updateElapsed_def onFrame_def Let_def split: option.split prod.split)
  then show ?thesis
    using assms by (cases e) (auto intro: clock_started split: if_splits option.splits)
qed

section \<open>The effects after a render\<close>

text \<open>The release of the capture's cleanup: control is gone, so the session drops it.\<close>

lemma cleanup_dropped:
  assumes "viewer_inv v" "\<not> isControlActive v"
  shows "fold (perform pf now) (drop (length (effects s)) (effects (cleanup s))) v = v"
proof -
  have "flags_ok v" using assms(1) by (simp add: viewer_inv_def)
  then have "stateRef v \<noteq> ControlActive \<or> \<not> grantedControlRef v"
    using assms(2) by (auto simp: flags_ok_def isControlActive_def)
  then have "perform pf now ReleaseRemoteInput v = v"
    by (auto simp: releaseRemoteInput_def emitControl_def)
  then show ?thesis
    by (simp add: cleanup_def emit_def resetTouchGesture_def clearLongPressTimer_def)
qed

lemma attach_session:
  "viewer_inv (ap_session a) \<Longrightarrow> ap_session (attach_input pf now a) = ap_session a"
  by (simp add: attach_input_def cleanup_dropped split: option.split)

lemma settle_session:
  assumes "viewer_inv (ap_session a)"
  shows "ap_session (settle su now perf e before a) = ap_session a"
  using assms by (simp add: settle_def attach_session)

definition refreshed :: "surroundings \<Rightarrow> int \<Rightarrow> rat \<Rightarrow> app_event \<Rightarrow> app \<Rightarrow> app \<Rightarrow> app" where
  "refreshed su now perf e before a = reveal_images before
     (if stream_changed e before a then show_stream (su_frames su) now perf a else a)"

lemma refreshed_session [simp]: "ap_session (refreshed su now perf e before a) = ap_session a"
  by (simp add: refreshed_def)

lemma refreshed_handled: "handled_ok a \<Longrightarrow> handled_ok (refreshed su now perf e before a)"
  using handled_view [of a "show_stream (su_frames su) now perf a"]
  by (auto simp: refreshed_def reveal_images_def app_inv_defs)

lemma refreshed_video:
  assumes "mediaStream (ap_session before) \<longleftrightarrow> startedAt a \<noteq> None"
    and "\<not> mediaStream (ap_session before) \<longrightarrow> video_idle a"
  shows "(mediaStream (ap_session a) \<longleftrightarrow> startedAt (refreshed su now perf e before a) \<noteq> None)
    \<and> (\<not> mediaStream (ap_session a) \<longrightarrow> video_idle (refreshed su now perf e before a))"
  using assms
  by (auto simp: refreshed_def reveal_images_def show_stream_def stream_changed_def video_idle_def)

lemma mounted [simp]:
  "view_of (mount_panels a) = view_of a" "clock_of (mount_panels a) = clock_of a"
  "textPanel (mount_panels a) \<noteq> None \<longleftrightarrow> clipboardPanelOpen a \<and> isControlActive (ap_session a)"
  "imagePanel (mount_panels a) \<noteq> None \<longleftrightarrow> imageClipboardPanelOpen a \<and> isControlActive (ap_session a)"
  by (simp_all add: mount_panels_def view_of_def clock_of_def Let_def)

lemma view_fields:
  "view_of b = view_of a \<Longrightarrow> clipboardPanelOpen b = clipboardPanelOpen a
    \<and> imageClipboardPanelOpen b = imageClipboardPanelOpen a \<and> inputCapture b = inputCapture a"
  by (simp add: view_of_def)

lemma settle_inv:
  assumes "handled_ok a" "viewer_inv (ap_session a)"
    and "mediaStream (ap_session before) \<longleftrightarrow> startedAt a \<noteq> None"
    and "\<not> mediaStream (ap_session before) \<longrightarrow> video_idle a"
  shows "app_inv (settle su now perf e before a)"
proof -
  define r where "r = refreshed su now perf e before a"
  define b where "b = attach_input (su_platform su) now r"
  have r: "handled_ok r" "ap_session r = ap_session a"
    "mediaStream (ap_session a) \<longleftrightarrow> startedAt r \<noteq> None" "\<not> mediaStream (ap_session a) \<longrightarrow> video_idle r"
    using refreshed_handled [OF assms(1)] refreshed_video [OF assms(3,4)] by (simp_all add: r_def)
  have s: "ap_session b = ap_session a" using attach_session [of r] r(2) assms(2) by (simp add: b_def)
  have "captured t" if "useInputCapture True True = Some t" for t
    using that by (rule captured_start)
  then have b: "handled_ok b" "inputCapture b \<noteq> None \<longleftrightarrow> isControlActive (ap_session a)"
    using r(1,2) by (auto simp: b_def attach_input_def app_inv_defs useInputCapture_def split: option.split)
  have "clock_of b = clock_of r" by (simp add: b_def attach_input_def clock_of_def split: option.split)
  then have c: "startedAt (mount_panels b) = startedAt r" "video_idle r \<Longrightarrow> video_idle (mount_panels b)"
    using clock_started [of "mount_panels b" r] idle_clock [of r "mount_panels b"] by simp_all
  have "handled_ok (mount_panels b)" using handled_view [OF b(1)] by simp
  moreover note view_fields [OF mounted(1) [of b]] mounted(3,4) [of b]
  moreover have "settle su now perf e before a = mount_panels b"
    by (simp add: settle_def b_def r_def refreshed_def)
  ultimately show ?thesis using b(2) c r(3,4) s unfolding app_inv_def by simp
qed

section \<open>A user who disconnected\<close>

text \<open>
  The interface offers \<open>disconnect\<close> only while the session is not offline, so behind it a
  disconnect always leaves the session quiet.
\<close>

definition user_ok :: "viewer \<Rightarrow> bool" where
  "user_ok v \<longleftrightarrow> viewer_inv v \<and> (userDisconnected v \<longrightarrow> quiet v)"

lemma connect_unmarks:
  "userDisconnected (connectInternal pf profile False v) \<Longrightarrow> connectInternal pf profile False v = v"
  by (auto simp: connectInternal_def Let_def user_startConnection split: option.splits if_splits)

lemma user_ok_step:
  assumes "user_ok v" "viewer_step pf digest now e v = Some w" "e \<notin> {Disconnect, Unmount}"
  shows "user_ok w"
proof -
  have inv: "viewer_inv w" using viewer_inv_step assms(1,2) unfolding user_ok_def by blast
  moreover have "quiet w" if w: "userDisconnected w"
  proof -
    have v: "quiet v" using step_unmarked [OF assms(2,3)] w assms(1) by (simp add: user_ok_def marks_no_user_def)
    show ?thesis
    proof (cases "\<exists>p. e = Connect p")
      case True
      then obtain p where "w = connectInternal pf p False v" using assms(2) by auto
      then have "w = v" using connect_unmarks [of pf p v] w by metis
      then show ?thesis using v by simp
    next
      case False
      then show ?thesis using quiet_step [OF v assms(2)] by (auto simp: stays_quiet_def)
    qed
  qed
  ultimately show ?thesis by (simp add: user_ok_def)
qed

lemma disconnect_user_ok:
  assumes "viewer_inv v" "connectionState v \<noteq> Offline"
  shows "quiet (disconnect v)"
proof (rule disconnect_quiet [OF assms(1)])
  have "flags_ok v" using assms(1) by (simp add: viewer_inv_def)
  then have "\<not> idle v" using assms(2) by (simp add: flags_ok_def idle_def)
  then show "idle v \<Longrightarrow> \<forall>t \<in> set (ticketRequests v). ticket_cycle t \<noteq> activeCycle v" by simp
qed

lemma handle_user:
  assumes "app_handle su now perf e a = Some b" "user_ok (ap_session a)"
  shows "user_ok (ap_session b)"
proof (cases "e = ClickDisconnect")
  case True
  then have "ap_session b = disconnect (ap_session a)" "connectionState (ap_session a) \<noteq> Offline"
    using assms(1) by auto
  then show ?thesis
    using disconnect_user_ok [of "ap_session a"] assms(2) by (simp add: user_ok_def quiet_def)
next
  case False
  obtain es where run: "viewer_run (su_platform su) (su_digest su) es (ap_session a) = Some (ap_session b)"
      "\<forall>(now, x) \<in> set es. causes e x"
    using handle_runs_session [OF assms(1)] unfolding session_run_def by blast
  show ?thesis
  proof (rule run_invariant [where P = user_ok, OF run(1) assms(2)])
    fix t x v w
    assume "(t, x) \<in> set es" and v: "user_ok v" "viewer_step (su_platform su) (su_digest su) t x v = Some w"
    then have "causes e x" using run(2) by auto
    then have "x \<notin> {Disconnect, Unmount}" using False by (cases x) auto
    then show "user_ok w" by (rule user_ok_step [OF v])
  qed
qed

section \<open>Every run\<close>

lemma reachable_app_step:
  assumes "reachable_app su a" "app_step su now perf e a = Some b"
  shows "reachable_app su b"
proof -
  have "app_run su (es @ [(now, perf, e)]) x = Some b" if "app_run su es x = Some a" for es x
    using that by (induction es arbitrary: x) (auto simp: assms(2) split: option.splits)
  then show ?thesis using assms(1) unfolding reachable_app_def by blast
qed

lemma reachable_app_run:
  assumes "reachable_app su a" "app_run su es a = Some b"
  shows "reachable_app su b"
proof -
  obtain production c xs where "app_run su xs (new_app production c) = Some a"
    using assms(1) by (auto simp: reachable_app_def)
  then have "app_run su (xs @ es) (new_app production c) = Some b" using assms(2) by (simp add: app_run_append)
  then show ?thesis unfolding reachable_app_def by blast
qed

text \<open>A step of the interface keeps its invariant, over a session that keeps its own.\<close>

lemma app_inv_step:
  assumes "app_inv a" "user_ok (ap_session a)" "app_step su now perf e a = Some b"
  shows "app_inv b \<and> user_ok (ap_session b)"
proof -
  obtain c where c: "app_handle su now perf e a = Some c" "b = settle su now perf e a c"
    using assms(3) by (auto simp: app_step_def)
  have u: "user_ok (ap_session c)" using handle_user [OF c(1) assms(2)] .
  then have v: "viewer_inv (ap_session c)" by (simp add: user_ok_def)
  have "app_inv b"
    unfolding c(2)
    by (rule settle_inv)
      (use assms(1) v handle_keeps [OF c(1)] handle_clock [OF c(1)] handle_started [OF c(1)] in
        \<open>auto simp: app_inv_def\<close>)
  then show ?thesis using settle_session [OF v] u by (simp add: c(2))
qed

lemma reachable_app_inv:
  assumes "reachable_app su a"
  shows "app_inv a \<and> user_ok (ap_session a)"
proof -
  have "app_inv b \<and> user_ok (ap_session b)"
    if "app_run su es a = Some b" "app_inv a" "user_ok (ap_session a)" for es a b
    using that
  proof (induction es arbitrary: a)
    case (Cons x es)
    obtain now perf e where x: "x = (now, perf, e)" by (cases x)
    obtain u where u: "app_step su now perf e a = Some u" "app_run su es u = Some b"
      using Cons.prems(1) by (auto simp: x split: option.splits)
    show ?case using Cons.IH [OF u(2)] app_inv_step [OF Cons.prems(2,3) u(1)] by blast
  qed simp
  moreover have "app_inv (new_app production c)" for production c
    by (simp add: new_app_def app_inv_defs video_idle_def new_viewer_def isControlActive_def)
  moreover have "user_ok (ap_session (new_app production c))" for production c
  proof -
    have "\<not> userDisconnected (new_viewer production c)" by (simp add: new_viewer_def)
    then show ?thesis by (simp add: user_ok_def viewer_inv_start new_app_def)
  qed
  ultimately show ?thesis using assms unfolding reachable_app_def by blast
qed

end
