(* ===== verification/AppInput.thy ===== *)
theory AppInput
  imports AppInvariants
begin

text \<open>
  The input that the interface sends: for each of its events the messages it hands to the
  session, in their order, and that they are messages of the control protocol.
\<close>

fun key_message :: "string \<times> key_action \<Rightarrow> string \<times> json" where
  "key_message (code, Down) = (''key.down'', JObj [(lit ''code'', JStr (lit code))])"
| "key_message (code, Up) = (''key.up'', JObj [(lit ''code'', JStr (lit code))])"

definition paste_messages :: "jstring \<Rightarrow> (string \<times> json) list" where
  "paste_messages text =
     (''clipboard.set'', JObj [(lit ''text'', JStr (take CLIPBOARD_MAX_CHARS text))]) # map key_message PASTE_CHORD"

text \<open>The messages of a sequence of the capture's effects.\<close>

fun effect_messages :: "effect list \<Rightarrow> (string \<times> json) list" where
  "effect_messages [] = []"
| "effect_messages (e # es) =
     (case effect_message e of Some m \<Rightarrow> m # effect_messages es | None \<Rightarrow> effect_messages es)"

fun app_input :: "app \<Rightarrow> app_event \<Rightarrow> (string \<times> json) list" where
  "app_input a (ClickCapture pl) = map key_message CAPTURE_CHORD"
| "app_input a ToolsPointerDown = [(''control.release-all'', JObj [])]"
| "app_input a (Captured e) =
     (case inputCapture a of
        Some s \<Rightarrow> effect_messages (drop (length (effects s)) (effects (handle e s)))
      | None \<Rightarrow> [])"
| "app_input a PasteText =
     (case textPanel a of
        Some p \<Rightarrow> if tp_text p = [] then [] else paste_messages (tp_text p)
      | None \<Rightarrow> [])"
| "app_input a (PasteSettled k) =
     (if paste_outcome a k = ImageResolved then map key_message PASTE_CHORD else [])"
| "app_input a e = []"

section \<open>What a handler sends\<close>

lemma emits_Cons [simp]: "emits pf now ((e, d) # ms) v = emits pf now ms (emitControl pf now e d v)"
  by (simp add: emits_def)

lemma emits_Nil [simp]: "emits pf now [] v = v"
  by (simp add: emits_def)

lemma sendKeys_emits: "sendKeys pf now ks v = emits pf now (map key_message ks) v"
proof (induction ks arbitrary: v)
  case (Cons k ks)
  then show ?case
    by (cases k; cases "snd k") (simp_all add: sendKeys_def sendKey_def)
qed (simp add: sendKeys_def)

lemma performs_emits: "fold (perform pf now) es v = emits pf now (effect_messages es) v"
  by (induction es arbitrary: v) (auto simp: perform_message split: option.split)

lemma paste_emits:
  "tp_text p \<noteq> [] \<Longrightarrow> snd (pasteToRemote pf now p v) = emits pf now (paste_messages (tp_text p)) v"
  by (simp add: pasteToRemote_def paste_messages_def sendKeys_emits setRemoteClipboard_def CLIPBOARD_MAX_CHARS_def Let_def)

lemma handle_sends:
  assumes "app_handle su now perf e a = Some b" "\<And>x f. e \<noteq> SessionEvent x f"
  shows "logs (ap_session b) = logs (emits (su_platform su) now (app_input a e) (ap_session a))
    \<and> (app_input a e \<noteq> [] \<longrightarrow> ap_session b = emits (su_platform su) now (app_input a e) (ap_session a))"
proof -
  have changes: "logs (changeVideoProfile profile v) = logs v" for profile v
    by (simp add: changeVideoProfile_def Let_def split: option.split)
  show ?thesis
proof (cases e)
  case PasteText
  then obtain p where p: "textPanel a = Some p" "tp_text p \<noteq> []"
      "b = paste_text (su_platform su) now p a"
    using assms(1) by (auto split: option.splits)
  have "ap_session b = snd (pasteToRemote (su_platform su) now p (ap_session a))"
    by (simp add: p(3) paste_text_def split: prod.split)
  then show ?thesis using p PasteText by (simp add: paste_emits)
next
  case (Captured x)
  then show ?thesis
    using assms(1) by (auto simp: capture_input_def performs_emits Let_def split: option.splits)
next
  case (PasteSettled k)
  then show ?thesis
    using assms(1)
    by (auto simp: paste_settled_def sendRemotePasteShortcut_def sendKeys_emits Let_def split: image_outcome.splits)
qed (use assms in \<open>auto simp: changes sendCaptureShortcut_def sendKeys_emits releaseRemoteInput_def paste_read_def
       split: option.splits prod.splits\<close>)
qed

section \<open>It is protocol\<close>

lemma key_admitted:
  assumes "schema_accepts KeyboardCodeSchema (JStr (lit code))"
  shows "admitted (key_message (code, action))"
proof -
  have "schema_accepts (SObject [Required ''code'' KeyboardCodeSchema]) (JObj [(lit ''code'', JStr (lit code))])"
    using assms by (simp add: known_keys_def)
  then show ?thesis using input_events(1,2) by (cases action) (auto simp only: admitted_def key_message.simps fst_conv snd_conv)
qed

lemma chord_codes:
  assumes "code \<in> {''MetaLeft'', ''ShiftLeft'', ''KeyS'', ''ControlLeft'', ''KeyV''}"
  shows "schema_accepts KeyboardCodeSchema (JStr (lit code))"
proof -
  have "code \<in> set SCHEMA_CODES"
    using assms by (auto simp: SCHEMA_CODES_def CAPTURE_CODES_def prefixed_def letters_def)
  then show ?thesis by (simp add: KeyboardCodeSchema_def code_string_bounds)
qed

lemma chords_admitted:
  "list_all admitted (map key_message CAPTURE_CHORD)" "list_all admitted (map key_message PASTE_CHORD)"
proof -
  have "admitted (key_message k)" if "fst k \<in> {''MetaLeft'', ''ShiftLeft'', ''KeyS'', ''ControlLeft'', ''KeyV''}" for k
    using key_admitted [OF chord_codes [OF that]] by (metis prod.collapse)
  then have chord: "list_all admitted (map key_message ks)"
    if "list_all (\<lambda>k. fst k \<in> {''MetaLeft'', ''ShiftLeft'', ''KeyS'', ''ControlLeft'', ''KeyV''}) ks" for ks
    using that by (induction ks) auto
  show "list_all admitted (map key_message CAPTURE_CHORD)" "list_all admitted (map key_message PASTE_CHORD)"
    by (rule chord, simp add: CAPTURE_CHORD_def PASTE_CHORD_def)+
qed

lemma ucs2length_bounds: "ucs2length s \<le> length s \<and> (s \<noteq> [] \<longrightarrow> 1 \<le> ucs2length s)"
  by (induction s rule: ucs2length.induct) auto

lemma paste_admitted:
  assumes "text \<noteq> []"
  shows "list_all admitted (paste_messages text)"
proof -
  let ?s = "SObject [Required ''text'' (SString (Some 1) (Some CLIPBOARD_TEXT_MAX_LENGTH) None)]"
  have "string_bounds (Some 1) (Some CLIPBOARD_TEXT_MAX_LENGTH) None (take CLIPBOARD_MAX_CHARS text)"
    using ucs2length_bounds [of "take CLIPBOARD_MAX_CHARS text"] assms
    by (simp add: string_bounds_def CLIPBOARD_TEXT_MAX_LENGTH_def CLIPBOARD_MAX_CHARS_def)
  then have "schema_accepts ?s (JObj [(lit ''text'', JStr (take CLIPBOARD_MAX_CHARS text))])"
    by (simp add: known_keys_def)
  moreover have "(''clipboard.set'', ?s) \<in> set control_data" by (simp add: control_data_def)
  ultimately have "admitted (''clipboard.set'', JObj [(lit ''text'', JStr (take CLIPBOARD_MAX_CHARS text))])"
    unfolding admitted_def fst_conv snd_conv by blast
  then show ?thesis using chords_admitted(2) by (simp add: paste_messages_def del: list_all_length)
qed

lemma release_admitted: "admitted (''control.release-all'', JObj [])"
proof -
  have "schema_accepts (SObject []) (JObj [])" by (simp add: known_keys_def)
  then show ?thesis using input_events(6) unfolding admitted_def fst_conv snd_conv by blast
qed

lemma effects_admitted: "list_all effect_ok es \<Longrightarrow> list_all admitted (effect_messages es)"
proof (induction es)
  case (Cons e es)
  then show ?case
    using effect_message_valid [of e] by (auto simp: admitted_def split: option.split)
qed simp

lemma input_admitted:
  assumes "capture_ok a" shows "list_all admitted (app_input a e)"
proof (cases e)
  case (Captured x)
  have "list_all effect_ok (drop n (effects (handle x s)))" if "inputCapture a = Some s" for n s
  proof -
    have "captured (handle x s)" using assms that by (simp add: capture_ok_def captured_event)
    then show ?thesis
      using captured_effects by (auto simp: effects_ok_def list_all_iff dest: in_set_dropD)
  qed
  then show ?thesis using Captured effects_admitted by (auto split: option.split)
qed (auto simp: chords_admitted release_admitted paste_admitted split: option.split)

section \<open>What a step adds to a control channel\<close>

text \<open>Peer connections are never forgotten.\<close>

lemma run_peers:
  assumes "viewer_run pf digest es v = Some w"
  shows "length (logs v) \<le> length (logs w)"
proof (rule run_invariant [where P = "\<lambda>u. length (logs v) \<le> length (logs u)", OF assms])
  fix now e x y
  assume "viewer_step pf digest now e x = Some y" "length (logs v) \<le> length (logs x)"
  then show "length (logs v) \<le> length (logs y)"
    using viewer_step_logs [of pf digest now e x y] by (auto simp: logs_step_def grows_def injects_def dest: arg_cong [of _ _ length])
qed simp

lemma handled_step:
  assumes "reachable_app su a" "app_step su now perf e a = Some b"
  obtains c where "app_handle su now perf e a = Some c" "ap_session b = ap_session c"
proof -
  obtain c where c: "app_handle su now perf e a = Some c" "b = settle su now perf e a c"
    using assms(2) by (auto simp: app_step_def)
  have "user_ok (ap_session c)" using handle_user [OF c(1)] reachable_app_inv [OF assms(1)] by simp
  then show thesis using that c settle_session by (simp add: user_ok_def)
qed

lemma input_step_session:
  assumes "reachable_app su a" "app_step su now perf e a = Some b" "app_input a e \<noteq> []"
  shows "ap_session b = emits (su_platform su) now (app_input a e) (ap_session a)"
proof -
  have "e \<noteq> SessionEvent x f" for x f using assms(3) by auto
  with handled_step [OF assms(1,2)] handle_sends assms(3) show ?thesis by metis
qed

lemma input_step_valid:
  assumes "reachable_app su a" "app_step su now perf e a = Some b" "\<And>x f. e \<noteq> SessionEvent x f"
    and "\<And>c. configRef (ap_session a) = Some c \<Longrightarrow> opaque_id (cc_sessionId c)"
    and "int (controlSequence (ap_session b)) \<le> MAX_SAFE_INTEGER" "0 \<le> now"
    and i: "i < length (viewerPeers (ap_session a))"
  shows "\<exists>fs. control_log (viewerPeers (ap_session b) ! i) = control_log (viewerPeers (ap_session a) ! i) @ fs
    \<and> (\<forall>f \<in> set fs. \<exists>m. f = TextFrame m \<and> schema_accepts ControlMessageSchema m)"
proof -
  have inv: "app_inv a" "user_ok (ap_session a)" using reachable_app_inv [OF assms(1)] by simp_all
  obtain c where c: "app_handle su now perf e a = Some c" "ap_session b = ap_session c"
    by (rule handled_step [OF assms(1,2)])
  note sends = handle_sends [OF c(1) assms(3), folded c(2)]
  have "\<exists>fs. logs (ap_session b) ! i = logs (ap_session a) ! i @ fs
    \<and> (\<forall>f \<in> set fs. \<exists>m. f = TextFrame m \<and> schema_accepts ControlMessageSchema m)"
  proof (cases "app_input a e = [] \<or> userDisconnected (ap_session a)")
    case True
    have "logs (ap_session b) = logs (ap_session a)"
    proof (cases "app_input a e = []")
      case False
      then have "quiet (ap_session a)" using True inv(2) by (simp add: user_ok_def)
      then have "\<not> may_inject (ap_session a) j" for j by (simp add: quiet_def may_inject_def)
      then show ?thesis using sends by (simp add: emits_blocked)
    qed (use sends in simp)
    then show ?thesis by (intro exI [of _ "[]"]) simp
  next
    case False
    then have b: "ap_session b = emits (su_platform su) now (app_input a e) (ap_session a)" using sends by simp
    have "list_all admitted (app_input a e)"
      using input_admitted inv(1) by (simp add: app_inv_def handled_ok_def)
    then show ?thesis
      using emits_valid [of "app_input a e" "ap_session a" "su_platform su" now i] False inv(2) assms(4-6) i
      by (simp add: b user_ok_def)
  qed
  moreover have "length (logs (ap_session b)) \<ge> length (logs (ap_session a))"
  proof -
    obtain es where "viewer_run (su_platform su) (su_digest su) es (ap_session a) = Some (ap_session b)"
      using step_runs_session [OF assms(2)] unfolding session_run_def by blast
    then show ?thesis by (rule run_peers)
  qed
  ultimately show ?thesis using i by simp
qed

lemma logs_nth:
  assumes "logs w = (logs v)[i := ls]" "i < length (viewerPeers v)"
  shows "control_log (viewerPeers w ! i) = ls"
proof -
  have "length (viewerPeers w) = length (viewerPeers v)" using arg_cong [OF assms(1), of length] by simp
  then show ?thesis using arg_cong [OF assms(1), of "\<lambda>l. l ! i"] assms(2) by simp
qed

text \<open>The text panel is there only while the session may inject.\<close>

lemma paste_may_inject:
  assumes "reachable_app su a" "textPanel a = Some p" "controlChannel (ap_session a) = Some i"
    and "dc_ready (vp_control (viewerPeers (ap_session a) ! i)) = ChOpen"
  shows "may_inject (ap_session a) i \<and> i < length (viewerPeers (ap_session a)) \<and> \<not> userDisconnected (ap_session a)"
proof -
  have inv: "app_inv a" "user_ok (ap_session a)" using reachable_app_inv [OF assms(1)] by simp_all
  then have "isControlActive (ap_session a)" using assms(2) by (simp add: app_inv_def)
  then have "stateRef (ap_session a) = ControlActive" "grantedControlRef (ap_session a)"
    using inv(2) by (simp_all add: user_ok_def viewer_inv_def flags_ok_def isControlActive_def)
  then show ?thesis
    using inv(2) assms(3,4) injecting_peer by (auto simp: user_ok_def may_inject_def quiet_def)
qed

end
