(* ===== verification/RemoteImages.thy ===== *)
theory RemoteImages
  imports RemoteObservers
begin

text \<open>
  When an image counts as applied. The uploads whose promise was resolved, with their transfer
  ids, change by one kind of event only: the host's \<open>clipboard.image-applied\<close> for that id.
\<close>

definition applied :: "viewer \<Rightarrow> (nat \<times> jstring) set" where
  "applied v = {(i, iu_transferId (imageUploads v ! i)) |i.
     i < length (imageUploads v) \<and> iu_outcome (imageUploads v ! i) = ImageResolved}"

lemma applied_iff:
  "(i, tid) \<in> applied v \<longleftrightarrow> i < length (imageUploads v) \<and> iu_outcome (imageUploads v ! i) = ImageResolved
     \<and> iu_transferId (imageUploads v ! i) = tid"
  by (auto simp: applied_def)

lemma applied_images: "imageUploads w = imageUploads v \<Longrightarrow> applied w = applied v"
  by (simp add: applied_def)

lemma settle_uploads:
  "(j, tid) \<in> applied (settle_image i cancel outcome v) \<longleftrightarrow>
     (j, tid) \<in> applied v \<or> j = i \<and> i < length (imageUploads v) \<and> outcome = ImageResolved
       \<and> iu_outcome (imageUploads v ! i) = ImagePending \<and> iu_transferId (imageUploads v ! i) = tid"
  by (cases "j = i") (auto simp: applied_iff settle_image_def)

interpretation uploads: viewer_observer applied
proof
  show "applied w = applied v" if "imageUploads w = imageUploads v" for v w :: viewer
    using that by (rule applied_images)
  show "applied (settle_image i cancel (ImageRejected code) v) = applied v" for i cancel code v
    by (rule set_eqI, rename_tac x, case_tac x) (simp add: settle_uploads)
  show "applied (v\<lparr>imageUploads := imageUploads v @ [u]\<rparr>) = applied v" if "iu_outcome u = ImagePending" for v u
    using that by (auto simp: applied_def nth_append)
qed

text \<open>Files leave the images alone.\<close>

lemma file_keeps_uploads:
  "applied (file_channel_message pf i data v) = applied v" "applied (download_verified digest k v) = applied v"
proof -
  have finish: "applied (finishDownload d sha v) = applied v" for d sha
    by (rule applied_images) (simp add: finishDownload_def show_download_def Let_def)
  have "applied (download_event m d v) = applied v" for m d
    by (simp add: download_event_def finish)
  moreover have "applied (v\<lparr>downloadableFiles := fs\<rparr>) = applied v" for fs
    by (rule applied_images) simp
  ultimately have "applied (handleFileMessage m v) = applied v" for m
    by (simp add: handleFileMessage_def split: option.split)
  then show "applied (file_channel_message pf i data v) = applied v"
    by (cases data) (simp_all add: file_channel_message_def split: option.split)
  show "applied (download_verified digest k v) = applied v"
    by (rule applied_images)
      (simp add: download_verified_def triggerBrowserDownload_def show_download_def Let_def split: prod.split)
qed

text \<open>The host's word that the image of a transfer is on its clipboard.\<close>

definition says_applied :: "platform \<Rightarrow> jstring \<Rightarrow> jstring \<Rightarrow> bool" where
  "says_applied pf tid content \<longleftrightarrow> (\<exists>parsed m. json_parse content = Some parsed
     \<and> validateImageClipboardMessage (pf_ajv pf) parsed = Some m
     \<and> is_event m ''clipboard.image-applied'' \<and> text_data m ''transferId'' = tid)"

lemma image_message_applies:
  assumes "(j, tid) \<in> applied (handleImageClipboardMessage m v)" "(j, tid) \<notin> applied v"
  shows "is_event m ''clipboard.image-applied'' \<and> text_data m ''transferId'' = tid"
proof -
  have same: "applied (finishIncomingClipboardImage incoming v) = applied v"
    "applied (v\<lparr>incomingClipboardImage := x\<rparr>) = applied v"
    "applied (v\<lparr>clipboardImageUpload := None\<rparr>) = applied v" for incoming x
    by (rule applied_images, simp add: finishIncomingClipboardImage_def Let_def)+
  show ?thesis
    using assms
    by (auto simp: handleImageClipboardMessage_def settle_uploads same split: if_splits option.splits)
qed

lemma step_applies:
  assumes "viewer_step pf digest now e v = Some w" "(j, tid) \<in> applied w" "(j, tid) \<notin> applied v"
  shows "\<exists>i content. e = ImageData i (TextData content) \<and> says_applied pf tid content"
proof -
  have "answers_transfer e" using uploads.obs_step [OF assms(1)] assms(2,3) by auto
  then show ?thesis
    using assms
  proof (cases e)
    case (ImageData i data)
    then obtain content where content: "data = TextData content"
      using \<open>answers_transfer e\<close> by (cases data) simp_all
    have "w = image_channel_message pf i (TextData content) v"
      using assms(1) by (auto simp: ImageData content occurs_def split: if_splits)
    then show ?thesis
      using assms(2,3) image_message_applies
      by (auto simp: ImageData content image_channel_message_def says_applied_def split: if_splits option.splits)
  qed (auto simp: occurs_def file_keeps_uploads split: if_splits)
qed

end
