(* ===== verification/AppPastes.thy ===== *)
theory AppPastes
  imports AppInput RemoteImages
begin

text \<open>
  The image panel's paste: its Ctrl+V is sent only for an upload the host said is on its
  clipboard, in a message that came earlier in the run.
\<close>

lemma step_hears_applied:
  assumes "app_step su now perf e a = Some b"
    and "(j, tid) \<in> applied (ap_session b)" "(j, tid) \<notin> applied (ap_session a)"
  shows "\<exists>i content fresh. e = SessionEvent (ImageData i (TextData content)) fresh
    \<and> says_applied (su_platform su) tid content"
proof -
  define heard where "heard v \<longleftrightarrow> ((j, tid) \<in> applied v \<longrightarrow>
    (\<exists>i content. causes e (ImageData i (TextData content)) \<and> says_applied (su_platform su) tid content))" for v
  obtain es where es: "viewer_run (su_platform su) (su_digest su) es (ap_session a) = Some (ap_session b)"
      "\<forall>(now, x) \<in> set es. causes e x"
    using step_runs_session [OF assms(1)] unfolding session_run_def by blast
  have "heard (ap_session b)"
  proof (rule run_invariant [where P = heard, OF es(1)])
    show "heard (ap_session a)" using assms(3) by (simp add: heard_def)
    fix t x v w
    assume x: "(t, x) \<in> set es" "heard v" "viewer_step (su_platform su) (su_digest su) t x v = Some w"
    have "causes e x" using es(2) x(1) by auto
    then show "heard w" using x(2) step_applies [OF x(3), of j tid] unfolding heard_def by blast
  qed
  then obtain i content where "causes e (ImageData i (TextData content))" "says_applied (su_platform su) tid content"
    using assms(2) by (auto simp: heard_def)
  then show ?thesis by (cases e) auto
qed

lemma run_hears_applied:
  assumes "app_run su es a = Some b" "(j, tid) \<in> applied (ap_session b)" "(j, tid) \<notin> applied (ap_session a)"
  shows "\<exists>t perf i content fresh. (t, perf, SessionEvent (ImageData i (TextData content)) fresh) \<in> set es
    \<and> says_applied (su_platform su) tid content"
  using assms
proof (induction es arbitrary: a)
  case (Cons x es)
  obtain now perf e where x: "x = (now, perf, e)" by (cases x)
  obtain u where u: "app_step su now perf e a = Some u" "app_run su es u = Some b"
    using Cons.prems(1) by (auto simp: x split: option.splits)
  show ?case
  proof (cases "(j, tid) \<in> applied (ap_session u)")
    case True
    from step_hears_applied [OF u(1) this Cons.prems(3)] obtain i content fresh
      where e: "e = SessionEvent (ImageData i (TextData content)) fresh"
        "says_applied (su_platform su) tid content" by blast
    then have "(now, perf, SessionEvent (ImageData i (TextData content)) fresh) \<in> set (x # es)" by (simp add: x)
    then show ?thesis using e(2) by blast
  next
    case False
    from Cons.IH [OF u(2) Cons.prems(2) this] show ?thesis by (meson list.set_intros(2))
  qed
qed simp

text \<open>A settled paste that sends something is one of an applied upload.\<close>

lemma paste_sends_applied:
  assumes "app_handle su now perf (PasteSettled k) a = Some b" "ap_session b \<noteq> ap_session a"
  shows "\<exists>i. snd (snd (pastes a ! k)) = Some i
    \<and> (i, iu_transferId (imageUploads (ap_session a) ! i)) \<in> applied (ap_session a)"
proof -
  have "paste_outcome a k = ImageResolved"
    using assms by (auto simp: paste_settled_def Let_def split: image_outcome.splits)
  then show ?thesis
    by (auto simp: paste_outcome_def applied_iff split: prod.splits option.splits if_splits)
qed

end
