(* ===== verification/AppSamples.thy ===== *)
theory AppSamples
  imports AppPastes ViewerSamples
begin

text \<open>
  The sample run of the session behind the interface: a click on connect, the session's own
  events, and then a text typed into the clipboard panel.
\<close>

definition sample_images :: image_platform where
  "sample_images = \<lparr>im_bitmap = (\<lambda>b. Some (1, 1)), im_context = True,
     im_png = (\<lambda>b. Some \<lparr>bl_type = lit ''image/png'', bl_data = [1]\<rparr>)\<rparr>"

definition sample_su :: surroundings where
  "sample_su = \<lparr>su_platform = sample_platform, su_digest = (\<lambda>b. b), su_images = sample_images,
     su_frames = True\<rparr>"

lemma sample_su_fields [simp]:
  "su_platform sample_su = sample_platform" "su_digest sample_su = (\<lambda>b. b)"
  by (simp_all add: sample_su_def)

section \<open>Steps that end in a known session\<close>

lemma app_step_session:
  assumes "reachable_app su a" "app_handle su now perf e a = Some c"
  shows "reachable_app su (settle su now perf e a c) \<and> ap_session (settle su now perf e a c) = ap_session c"
proof -
  have step: "app_step su now perf e a = Some (settle su now perf e a c)"
    using assms(2) by (simp add: app_step_def)
  have "user_ok (ap_session c)" using handle_user [OF assms(2)] reachable_app_inv [OF assms(1)] by simp
  then have "ap_session (settle su now perf e a c) = ap_session c" by (simp add: settle_session user_ok_def)
  then show ?thesis using reachable_app_step [OF assms(1) step] by simp
qed

lemma session_event_reached:
  assumes "reachable_app su a" "\<not> from_interface e"
    and "viewer_step (su_platform su) (su_digest su) now e (ap_session a) = Some w"
  shows "\<exists>b. reachable_app su b \<and> ap_session b = w"
proof -
  have "app_handle su now 0 (SessionEvent e False) a = Some (a\<lparr>ap_session := w\<rparr>)"
    using assms(2,3) by simp
  from app_step_session [OF assms(1) this] show ?thesis by auto
qed

lemma panels_settled:
  assumes "viewer_inv (ap_session a)"
  shows "clipboardPanelOpen (settle su now perf e before a) = clipboardPanelOpen a"
    "clipboardPanelOpen a \<Longrightarrow> isControlActive (ap_session a) \<Longrightarrow> textPanel a = Some p
      \<Longrightarrow> textPanel (settle su now perf e before a) = Some p"
  using assms
  by (simp_all add: settle_def mount_panels_def attach_input_def reveal_images_def show_stream_def Let_def
      cleanup_dropped split: option.split)

section \<open>The run\<close>

lemma new_app_reachable: "reachable_app su (new_app production c)"
  unfolding reachable_app_def by (metis app_run.simps(1))

lemma connecting_app: "\<exists>a. reachable_app sample_su a \<and> ap_session a = connecting_viewer"
proof -
  have "connectInternal sample_platform BalancedProfile False sample_first = connecting_viewer"
    using connecting_step [of "\<lambda>b. b" 0] by simp
  moreover have "videoProfile sample_first = BalancedProfile" by (simp add: new_viewer_def)
  ultimately have "app_handle sample_su 0 0 (ClickConnect Toolbar) (new_app False (Some sample_config))
      = Some ((new_app False (Some sample_config))\<lparr>ap_session := connecting_viewer\<rparr>)"
    by (simp add: allowed_def with_session_def connect_enabled_def canConnect_def new_app_def)
      (simp add: new_viewer_def)
  from app_step_session [OF new_app_reachable this] show ?thesis by auto
qed

lemma active_app: "\<exists>a. reachable_app sample_su a \<and> ap_session a = active_viewer"
proof -
  obtain a where a: "reachable_app sample_su a" "ap_session a = connecting_viewer"
    using connecting_app by blast
  obtain b where b: "reachable_app sample_su b" "ap_session b = reserved_viewer"
    using session_event_reached [OF a(1), of "SocketOpened 0"] a(2) reserved_step by fastforce
  obtain c where c: "reachable_app sample_su c" "ap_session c = negotiating_viewer"
    using session_event_reached [OF b(1), of "SocketText 0 sample_accept_text"] b(2) negotiating_step by fastforce
  obtain d where d: "reachable_app sample_su d" "ap_session d = open_viewer"
    using session_event_reached [OF c(1), of "ControlOpened 0"] c(2) open_step by fastforce
  show ?thesis
    using session_event_reached [OF d(1), of "TrackArrived 0"] d(2) active_step by fastforce
qed

lemma active_peer: "0 < length (viewerPeers active_viewer)"
  by (simp add: active_fields)

lemma active_control: "isControlActive active_viewer" "connectionState active_viewer = ControlActive"
  by (simp_all add: isControlActive_def active_viewer_def open_viewer_def negotiating_viewer_def)

text \<open>The text panel is open in this state or after the next click, and takes a text.\<close>

lemma typed_app:
  "\<exists>a p. reachable_app sample_su a \<and> ap_session a = active_viewer \<and> textPanel a = Some p \<and> tp_text p = lit ''hi''"
proof -
  obtain a where a: "reachable_app sample_su a" "ap_session a = active_viewer" using active_app by blast
  have inv: "viewer_inv active_viewer" using reachable_app_inv [OF a(1)] a(2) by (simp add: user_ok_def)
  obtain b where b: "reachable_app sample_su b" "ap_session b = active_viewer" "clipboardPanelOpen b"
  proof (cases "clipboardPanelOpen a")
    case True
    then show thesis using that a by blast
  next
    case False
    have "app_handle sample_su 0 0 (ClickTextClipboard Toolbar) a = Some (toggleTextClipboardPanel a)"
      by (simp add: a(2) active_control)
    from app_step_session [OF a(1) this] show thesis
      using that panels_settled(1) [of "toggleTextClipboardPanel a"] a(2) inv False
      by (auto simp: toggleTextClipboardPanel_def)
  qed
  have "textPanel b \<noteq> None"
    using reachable_app_inv [OF b(1)] b(2,3) active_control by (simp add: app_inv_def)
  then obtain p where p: "textPanel b = Some p" by blast
  let ?c = "b\<lparr>textPanel := Some (p\<lparr>tp_text := lit ''hi''\<rparr>)\<rparr>"
  have "app_handle sample_su 0 0 (EditText (lit ''hi'')) b = Some ?c" by (simp add: p)
  from app_step_session [OF b(1) this] show ?thesis
    using panels_settled(2) [of ?c] b(2,3) inv active_control by auto
qed

end
