(* ===== verification/AppImageSample.thy ===== *)
theory AppImageSample
  imports AppSamples
begin

text \<open>
  The sample run goes on: the image channel opens, an image is pasted into the image panel and
  sent, and the host says that it is on its clipboard.
\<close>

section \<open>The session's part\<close>

definition sample_random :: "byte list" where
  "sample_random = replicate 16 0"

definition sample_transfer :: jstring where
  "sample_transfer = newTransferId sample_random"

lemma sample_transfer_id: "opaque_id sample_transfer"
  by code_simp

definition image_viewer :: viewer where
  "image_viewer = active_viewer\<lparr>canSendClipboardImage := True,
     viewerPeers := [(sample_peer [sample_ping] ChOpen)\<lparr>vp_image := \<lparr>dc_ready = ChOpen, dc_sent = []\<rparr>\<rparr>]\<rparr>"

lemma image_step:
  "viewer_step sample_platform digest now (ImageOpened 0) active_viewer = Some image_viewer"
  by (simp add: occurs_def image_viewer_def active_fields set_image_def update_peer_def
      image_channel_opened_def sample_peer_def new_channel_def)

lemma image_fields:
  "stateRef image_viewer = ControlActive" "grantedControlRef image_viewer" "activeCycle image_viewer = 1"
  "connectionState image_viewer = ControlActive" "canSendClipboardImage image_viewer"
  "configRef image_viewer = Some sample_config" "controlChannel image_viewer = Some 0"
  "imageClipboardChannel image_viewer = Some 0" "clipboardImageUpload image_viewer = None"
  "imageUploads image_viewer = []" "clipboardImages image_viewer = []" "controlSequence image_viewer = 1"
  "viewerPeers image_viewer = [(sample_peer [sample_ping] ChOpen)\<lparr>vp_image := \<lparr>dc_ready = ChOpen, dc_sent = []\<rparr>\<rparr>]"
  by (simp_all add: image_viewer_def active_fields)
    (simp_all add: active_viewer_def open_viewer_def negotiating_viewer_def reserved_viewer_def
      connecting_viewer_def new_viewer_def)

definition offer_frame :: channel_frame where
  "offer_frame = TextFrame (control_json ''clipboard.image-offer'' sample_session 2 0
     (JObj [(lit ''mimeType'', JStr (lit ''image/png'')), (lit ''sha256'', JStr (sha256Hex (\<lambda>b. b) [1])),
            (lit ''size'', JNum 1), (lit ''transferId'', JStr sample_transfer)]))"

definition upload_viewer :: viewer where
  "upload_viewer = image_viewer\<lparr>clipboardImageUpload := Some 0, controlSequence := 2,
     imageUploads := [\<lparr>iu_transferId = sample_transfer, iu_cancelled = False, iu_outcome = ImagePending,
       iu_data = [1]\<rparr>],
     viewerPeers := [(sample_peer [sample_ping] ChOpen)\<lparr>vp_image := \<lparr>dc_ready = ChOpen, dc_sent = [offer_frame]\<rparr>\<rparr>]\<rparr>"

lemma upload_prepared: "image_prepared sample_platform (\<lambda>b. b) 0 [1] sample_random image_viewer = upload_viewer"
  by (simp add: image_prepared_def image_fields sendImageClipboardMessage_def image_ready_def
      send_image_frame_def update_peer_def upload_viewer_def sample_config_def offer_frame_def numeral_2_eq_2 Let_def
      flip: sample_transfer_def)

section \<open>The host's word\<close>

definition sample_applied :: json where
  "sample_applied = control_json ''clipboard.image-applied'' sample_session 1 0
     (JObj [(lit ''transferId'', JStr sample_transfer)])"

definition applied_text :: jstring where
  "applied_text = (case json_text sample_applied of Some t \<Rightarrow> t | None \<Rightarrow> [])"

lemma applied_parses: "json_parse applied_text = Some sample_applied"
proof -
  have "json_text sample_applied = Some applied_text"
    by (simp add: applied_text_def sample_applied_def control_json_def num_text_def is_integer_def)
  then show ?thesis by (rule json_parse_text) (simp add: sample_applied_def control_json_def)
qed

lemma applied_valid: "validateImageClipboardMessage schema_accepts sample_applied = Some sample_applied"
proof -
  have "schema_accepts OpaqueIdSchema (JStr sample_session)" "schema_accepts OpaqueIdSchema (JStr sample_transfer)"
    using sample_ids(2) sample_transfer_id by (simp_all add: reference.opaque_id_schema)
  then have "schema_accepts (event_envelope ''clipboard.image-applied'' transfer_only) sample_applied"
    by (simp add: event_envelope_def transfer_only_def sample_applied_def control_json_def known_keys_def
        PROTOCOL_VERSION_def SequenceSchema_def TimestampSchema_def is_integer_def MAX_SAFE_INTEGER_def)
  then show ?thesis
    by (auto simp: validate_defs ImageClipboardMessageSchema_def image_data_def)
qed

definition applied_viewer :: viewer where
  "applied_viewer = upload_viewer\<lparr>clipboardImageUpload := None,
     imageUploads := [\<lparr>iu_transferId = sample_transfer, iu_cancelled = False, iu_outcome = ImageResolved,
       iu_data = [1]\<rparr>]\<rparr>"

lemma applied_step:
  "viewer_step sample_platform digest now (ImageData 0 (TextData applied_text)) upload_viewer = Some applied_viewer"
proof -
  have "is_event sample_applied ''clipboard.image-applied''"
    "\<not> is_event sample_applied ''clipboard.image-offer''" "\<not> is_event sample_applied ''clipboard.image-complete''"
    "text_data sample_applied ''transferId'' = sample_transfer"
    by (simp_all add: sample_applied_def control_json_def is_event_def text_data_def data_of_def string_of_def)
  then have "handleImageClipboardMessage sample_applied upload_viewer = applied_viewer"
    by (simp add: handleImageClipboardMessage_def settle_image_def upload_viewer_def applied_viewer_def)
  then show ?thesis
    by (simp add: occurs_def image_channel_message_def applied_parses applied_valid)
      (simp add: upload_viewer_def image_fields)
qed

lemma applied_fields:
  "imageUploads applied_viewer = [\<lparr>iu_transferId = sample_transfer, iu_cancelled = False, iu_outcome = ImageResolved,
       iu_data = [1]\<rparr>]"
  "may_inject applied_viewer 0" "configRef applied_viewer = Some sample_config" "controlSequence applied_viewer = 2"
  "0 < length (viewerPeers applied_viewer)"
  by (simp_all add: applied_viewer_def upload_viewer_def image_fields may_inject_def)

section \<open>The panel's part\<close>

lemma image_panel_settled:
  "imageClipboardPanelOpen (settle su now perf e before a) = imageClipboardPanelOpen (reveal_images before a)"
  by (auto simp: settle_def mount_panels_def attach_input_def reveal_images_def show_stream_def Let_def
      split: option.split)

definition sample_picture :: blob where
  "sample_picture = \<lparr>bl_type = lit ''image/png'', bl_data = [1]\<rparr>"

text \<open>A state with the image panel mounted, and steps that leave it so.\<close>

definition shows_panel :: "app \<Rightarrow> viewer \<Rightarrow> image_panel \<Rightarrow> bool" where
  "shows_panel a v p \<longleftrightarrow> reachable_app sample_su a \<and> ap_session a = v \<and> imageClipboardPanelOpen a \<and> imagePanel a = Some p"

lemma panel_step:
  assumes "shows_panel a v q" "app_handle sample_su 0 0 e a = Some c"
    and "imagePanel c = Some p" "imageClipboardPanelOpen c" "isControlActive (ap_session c)"
  shows "\<exists>b. shows_panel b (ap_session c) p \<and> pastes b = pastes c \<and> normalizing b = normalizing c"
proof -
  let ?b = "settle sample_su 0 0 e a c"
  have "reachable_app sample_su a" using assms(1) by (simp add: shows_panel_def)
  note b = app_step_session [OF this assms(2)]
  have "imageClipboardPanelOpen ?b \<and> imagePanel ?b = Some p \<and> pastes ?b = pastes c \<and> normalizing ?b = normalizing c"
    using assms(3-5)
    by (auto simp: settle_def mount_panels_def attach_input_def reveal_images_def show_stream_def Let_def
        split: option.split)
  then show ?thesis using b by (auto simp: shows_panel_def)
qed

lemma sample_controls:
  "isControlActive image_viewer" "isControlActive upload_viewer" "isControlActive applied_viewer"
proof -
  show "isControlActive image_viewer"
    using active_control by (simp add: isControlActive_def image_viewer_def)
  then show "isControlActive upload_viewer" "isControlActive applied_viewer"
    by (simp_all add: isControlActive_def applied_viewer_def upload_viewer_def)
qed

lemma opened_app: "\<exists>a n. shows_panel a image_viewer (new_image_panel n)"
proof -
  obtain a where a: "reachable_app sample_su a" "ap_session a = active_viewer" using active_app by blast
  obtain b where b: "reachable_app sample_su b" "ap_session b = image_viewer"
    using session_event_reached [OF a(1), of "ImageOpened 0"] a(2) image_step by fastforce
  have toggle: "app_handle sample_su 0 0 (ClickImageClipboard Toolbar) x = Some (toggleImageClipboardPanel x)"
    if "ap_session x = image_viewer" for x
    using that by (simp add: image_panel_enabled_def sample_controls image_fields)
  obtain c where c: "reachable_app sample_su c" "ap_session c = image_viewer" "\<not> imageClipboardPanelOpen c"
  proof (cases "imageClipboardPanelOpen b")
    case True
    let ?c = "settle sample_su 0 0 (ClickImageClipboard Toolbar) b (toggleImageClipboardPanel b)"
    have "\<not> imageClipboardPanelOpen ?c"
      using b(2) True by (auto simp: image_panel_settled reveal_images_def toggleImageClipboardPanel_def image_fields)
    then show thesis using that [of ?c] app_step_session [OF b(1) toggle [OF b(2)]] b(2) by simp
  qed (use that b in blast)
  have "imagePanel c = None" using reachable_app_inv [OF c(1)] c(3) by (simp add: app_inv_def)
  then have "imagePanel (settle sample_su 0 0 e c (toggleImageClipboardPanel c)) = Some (new_image_panel (panelMounts c))
      \<and> imageClipboardPanelOpen (settle sample_su 0 0 e c (toggleImageClipboardPanel c))" for e
    using c(2,3) sample_controls(1)
    by (auto simp: settle_def mount_panels_def attach_input_def reveal_images_def show_stream_def
        toggleImageClipboardPanel_def Let_def split: option.split)
  then show ?thesis
    using app_step_session [OF c(1) toggle [OF c(2)]] c(2) by (auto simp: shows_panel_def)
qed

text \<open>The image is loaded into the panel, and a click sends it.\<close>

definition loaded_panel :: "nat \<Rightarrow> image_panel" where
  "loaded_panel n = \<lparr>ip_mount = n, ip_selectedImage = Some sample_picture, ip_status = ImageLoaded, ip_sending = False\<rparr>"

lemma sample_picture_normal: "normalizeClipboardImage im sample_picture = Inr sample_picture"
  by (rule normalize_png) (simp_all add: sample_picture_def bl_size_def IMAGE_MAX_BYTES_def)

lemma loaded_app: "\<exists>a n. shows_panel a image_viewer (loaded_panel n)"
proof -
  obtain a n where a: "shows_panel a image_viewer (new_image_panel n)" using opened_app by blast
  let ?c = "a\<lparr>normalizing := normalizing a @ [(n, sample_picture)]\<rparr>"
  have "app_handle sample_su 0 0 (PasteIntoPanel (Some sample_picture)) a = Some ?c"
    using a by (simp add: shows_panel_def new_image_panel_def)
  from panel_step [OF a this, of "new_image_panel n"] obtain b where
    b: "shows_panel b image_viewer (new_image_panel n)" "normalizing b = normalizing a @ [(n, sample_picture)]"
    using a by (auto simp: shows_panel_def sample_controls)
  let ?k = "length (normalizing a)"
  have "app_handle sample_su 0 0 (ImageNormalized ?k) b = Some (image_normalized (su_images sample_su) ?k b)"
    by (simp add: b(2))
  moreover have "imagePanel (image_normalized (su_images sample_su) ?k b) = Some (loaded_panel n)"
      "imageClipboardPanelOpen (image_normalized (su_images sample_su) ?k b)"
    using b(1)
    by (simp_all add: image_normalized_def b(2) in_panel_def shows_panel_def new_image_panel_def image_accepted_def
        sample_picture_normal loaded_panel_def)
  ultimately show ?thesis
    using panel_step [OF b(1), of "ImageNormalized ?k"] b(1) by (fastforce simp: shows_panel_def sample_controls)
qed

text \<open>The paste awaits the upload, which the host answers.\<close>

lemma pasted_app:
  "\<exists>a k. reachable_app sample_su a \<and> ap_session a = applied_viewer \<and> k < length (pastes a)
     \<and> snd (snd (pastes a ! k)) = Some 0"
proof -
  obtain a n where a: "shows_panel a image_viewer (loaded_panel n)" using loaded_app by blast
  let ?k = "length (pastes a)"
  let ?p = "(loaded_panel n)\<lparr>ip_sending := True, ip_status := SendingImage\<rparr>"
  have send: "sendRemoteClipboardImage (bl_type sample_picture) (int (bl_size sample_picture)) image_viewer = Inr ()"
    by (simp add: sendRemoteClipboardImage_def sample_picture_def bl_size_def CLIPBOARD_IMAGE_MAX_BYTES_def
        image_fields image_ready_def)
  have pasted: "pastes (paste_image (loaded_panel n) a) = pastes a @ [(n, sample_picture, None)]"
      "imagePanel (paste_image (loaded_panel n) a) = Some ?p"
      "imageClipboardPanelOpen (paste_image (loaded_panel n) a)"
    using a send by (simp_all add: paste_image_def loaded_panel_def shows_panel_def in_panel_def)
  have "app_handle sample_su 0 0 PasteImage a = Some (paste_image (loaded_panel n) a)"
    using a by (simp add: shows_panel_def loaded_panel_def image_fields)
  from panel_step [OF a this pasted(2,3)] obtain b where
    b: "shows_panel b image_viewer ?p" "pastes b = pastes a @ [(n, sample_picture, None)]"
    using a by (auto simp: pasted(1) shows_panel_def sample_controls)
  let ?c = "paste_read sample_platform (\<lambda>b. b) 0 sample_random ?k b"
  have read: "ap_session ?c = upload_viewer" "pastes ?c = pastes a @ [(n, sample_picture, Some 0)]"
      "imagePanel ?c = Some ?p" "imageClipboardPanelOpen ?c"
    using b(1) by (simp_all add: paste_read_def b(2) shows_panel_def sample_picture_def upload_prepared image_fields)
  have "app_handle sample_su 0 0 (PasteRead ?k sample_random) b = Some ?c" by (simp add: b(2))
  from panel_step [OF b(1) this read(3,4)] obtain c where
    c: "shows_panel c upload_viewer ?p" "pastes c = pastes a @ [(n, sample_picture, Some 0)]"
    by (auto simp: read sample_controls)
  let ?d = "c\<lparr>ap_session := applied_viewer\<rparr>"
  have "app_handle sample_su 0 0 (SessionEvent (ImageData 0 (TextData applied_text)) False) c = Some ?d"
    using c(1) applied_step by (simp add: shows_panel_def del: viewer_step.simps)
  from panel_step [OF c(1) this, of ?p] obtain d where
    "shows_panel d applied_viewer ?p" "pastes d = pastes a @ [(n, sample_picture, Some 0)]"
    using c by (auto simp: shows_panel_def sample_controls)
  then show ?thesis by (intro exI [of _ d] exI [of _ ?k]) (simp add: shows_panel_def)
qed

end
