(* ===== verification/AppTrace.thy ===== *)
theory AppTrace
  imports AppInvariants
begin

text \<open>
  The interface as a client of the session hook: \<open>asks\<close> says, in the terms of the hook alone,
  which operations each event of the interface calls, with which arguments and in which order;
  \<open>session_trace\<close> joins them along a run. The handlers (and the effects after them) call just
  these.
\<close>

section \<open>What each event asks of the session\<close>

definition key_presses :: "(string \<times> key_action) list \<Rightarrow> viewer_event list" where
  "key_presses ks = map (\<lambda>(code, action). UserEffect (SendKey (lit code) action)) ks"

definition asks_paste :: "viewer_event list" where
  "asks_paste = key_presses [(''ControlLeft'', Down), (''KeyV'', Down), (''KeyV'', Up), (''ControlLeft'', Up)]"

fun asks :: "app_event \<Rightarrow> app \<Rightarrow> viewer_event list" where
  "asks (SessionEvent x fresh) a = [x]"
| "asks (ClickConnect pl) a = [Connect (videoProfile (ap_session a))]"
| "asks ClickDisconnect a = [Disconnect]"
| "asks (SelectProfile pl profile) a = [ChangeProfile profile]"
| "asks (ClickCapture pl) a =
     key_presses [(''MetaLeft'', Down), (''ShiftLeft'', Down), (''KeyS'', Down),
                  (''KeyS'', Up), (''ShiftLeft'', Up), (''MetaLeft'', Up)]"
| "asks (ClickFileReceive pl) a = [RequestFiles]"
| "asks RefreshFiles a = [RequestFiles]"
| "asks (ClickDownload random name) a = [DownloadFile random name]"
| "asks (ChooseFile random name content) a = [SendFile random name content]"
| "asks DismissTransfer a = [ClearTransfer]"
| "asks DismissDownload a = [ClearDownload]"
| "asks (DismissTextEntry k) a = [DismissText k]"
| "asks (DismissImageEntry k) a = [DismissImage k]"
| "asks ToolsPointerDown a = [UserEffect ReleaseRemoteInput]"
| "asks (Captured e) a =
     (case inputCapture a of
        None \<Rightarrow> []
      | Some s \<Rightarrow> map UserEffect (drop (length (effects s)) (effects (handle e s))))"
| "asks PasteText a =
     (case textPanel a of
        None \<Rightarrow> []
      | Some p \<Rightarrow> SetClipboard (take 16384 (tp_text p)) # asks_paste)"
| "asks (PasteRead k random) a = [ImagePrepared (bl_data (fst (snd (pastes a ! k)))) random]"
| "asks (PasteSettled k) a = (if paste_outcome a k = ImageResolved then asks_paste else [])"
| "asks _ a = []"

fun session_trace :: "surroundings \<Rightarrow> (int \<times> rat \<times> app_event) list \<Rightarrow> app \<Rightarrow> (int \<times> viewer_event) list" where
  "session_trace su [] a = []"
| "session_trace su ((now, perf, e) # es) a =
     map (Pair now) (asks e a)
     @ (case app_step su now perf e a of Some b \<Rightarrow> session_trace su es b | None \<Rightarrow> [])"

section \<open>The handlers call what their event asks\<close>

definition runs :: "surroundings \<Rightarrow> int \<Rightarrow> viewer_event list \<Rightarrow> viewer \<Rightarrow> viewer option" where
  "runs su now xs v = viewer_run (su_platform su) (su_digest su) (map (Pair now) xs) v"

lemma runs_Nil [simp]: "runs su now [] v = Some v"
  by (simp add: runs_def)

lemma runs_Cons [simp]:
  "runs su now (x # xs) v =
     (case viewer_step (su_platform su) (su_digest su) now x v of Some w \<Rightarrow> runs su now xs w | None \<Rightarrow> None)"
  by (simp add: runs_def split: option.split)

lemma runs_effects [simp]:
  "runs su now (map UserEffect es) v = Some (fold (perform (su_platform su) now) es v)"
  by (induction es arbitrary: v) simp_all

lemma runs_keys [simp]: "runs su now (key_presses ks) v = Some (sendKeys (su_platform su) now ks v)"
  by (induction ks arbitrary: v) (auto simp: key_presses_def sendKeys_def)

lemma runs_paste [simp]: "runs su now asks_paste v = Some (sendRemotePasteShortcut (su_platform su) now v)"
  by (simp add: asks_paste_def sendRemotePasteShortcut_def PASTE_CHORD_def)

lemma handle_asks:
  assumes "app_handle su now perf e a = Some b"
  shows "runs su now (asks e a) (ap_session a) = Some (ap_session b)"
proof (cases e)
  case (Captured x)
  then show ?thesis using assms by (auto simp: capture_input_def Let_def split: option.splits)
next
  case PasteText
  then show ?thesis
    using assms
    by (auto simp: paste_text_def pasteToRemote_def sendRemotePasteShortcut_def CLIPBOARD_MAX_CHARS_def Let_def
        split: option.splits)
next
  case (PasteSettled k)
  then show ?thesis
    using assms by (auto simp: paste_settled_def Let_def split: image_outcome.splits)
next
  case (PasteRead k random)
  then show ?thesis using assms by (auto simp: paste_read_def split: prod.splits)
next
  case (ClickCapture pl)
  then show ?thesis using assms by (simp add: sendCaptureShortcut_def CAPTURE_CHORD_def)
qed (use assms in \<open>auto split: if_splits option.splits\<close>)

text \<open>In a reachable state the effects after the handler add nothing.\<close>

lemma step_asks:
  assumes "reachable_app su a" "app_step su now perf e a = Some b"
  shows "runs su now (asks e a) (ap_session a) = Some (ap_session b)"
proof -
  obtain c where c: "app_handle su now perf e a = Some c" "b = settle su now perf e a c"
    using assms(2) by (auto simp: app_step_def)
  have "viewer_inv (ap_session c)"
    using handle_user [OF c(1)] reachable_app_inv [OF assms(1)] by (simp add: user_ok_def)
  then show ?thesis using handle_asks [OF c(1)] by (simp add: c(2) settle_session)
qed

lemma run_traced:
  assumes "reachable_app su a" "app_run su es a = Some b"
  shows "viewer_run (su_platform su) (su_digest su) (session_trace su es a) (ap_session a) = Some (ap_session b)"
  using assms
proof (induction es arbitrary: a)
  case (Cons x es)
  obtain now perf e where x: "x = (now, perf, e)" by (cases x)
  obtain c where c: "app_step su now perf e a = Some c" "app_run su es c = Some b"
    using Cons.prems(2) by (auto simp: x split: option.splits)
  show ?case
    using step_asks [OF Cons.prems(1) c(1)] Cons.IH [OF reachable_app_step [OF Cons.prems(1) c(1)] c(2)]
    by (simp add: x c(1) run_append runs_def)
qed simp

end
