(* ===== verification/RemoteCards.thy ===== *)
theory RemoteCards
  imports RemoteControl
begin

text \<open>
  What the hook shows of its transfers: in every run the two states it renders as cards are well
  formed. A progress lies between nothing and all, a transfer that is verified or done is
  complete, and an error, and nothing else, comes with its code. An upload never has sent more
  than it read.
\<close>

definition transfer_ok :: "transfer_state \<Rightarrow> bool" where
  "transfer_ok t \<longleftrightarrow> 0 \<le> ts_progress t \<and> ts_progress t \<le> 1
     \<and> (ts_status t \<in> {TransferVerifying, TransferDone} \<longrightarrow> ts_progress t = 1)
     \<and> (ts_errorCode t \<noteq> None \<longleftrightarrow> ts_status t = TransferError)"

definition download_ok :: "download_state \<Rightarrow> bool" where
  "download_ok d \<longleftrightarrow> 0 \<le> ds_progress d \<and> ds_progress d \<le> 1
     \<and> (ds_status d \<in> {DownloadVerifying, DownloadDone} \<longrightarrow> ds_progress d = 1)
     \<and> (ds_errorCode d \<noteq> None \<longleftrightarrow> ds_status d = DownloadError)"

definition sent_ok :: "file_upload \<Rightarrow> bool" where
  "sent_ok u \<longleftrightarrow> fu_sent u \<le> length (fu_data u) \<and> (fu_phase u = ReadingFile \<longrightarrow> fu_sent u = 0)"

definition cards_ok :: "viewer \<Rightarrow> bool" where
  "cards_ok v \<longleftrightarrow> pred_option transfer_ok (fileTransfer v) \<and> pred_option download_ok (fileDownloadState v)
     \<and> list_all sent_ok (fileUploads v)"

lemma ok_fields [simp]:
  "cards_ok (v\<lparr>isProduction := x0\<rparr>) = cards_ok v" "cards_ok (v\<lparr>configRef := x1\<rparr>) = cards_ok v"
  "cards_ok (v\<lparr>isConnecting := x2\<rparr>) = cards_ok v" "cards_ok (v\<lparr>webSocket := x3\<rparr>) = cards_ok v"
  "cards_ok (v\<lparr>peerConnection := x4\<rparr>) = cards_ok v" "cards_ok (v\<lparr>controlChannel := x5\<rparr>) = cards_ok v"
  "cards_ok (v\<lparr>fileChannel := x6\<rparr>) = cards_ok v" "cards_ok (v\<lparr>imageClipboardChannel := x7\<rparr>) = cards_ok v"
  "cards_ok (v\<lparr>viewerSockets := x8\<rparr>) = cards_ok v" "cards_ok (v\<lparr>viewerPeers := x9\<rparr>) = cards_ok v"
  "cards_ok (v\<lparr>ticketRequests := x10\<rparr>) = cards_ok v" "cards_ok (v\<lparr>signalingSequence := x11\<rparr>) = cards_ok v"
  "cards_ok (v\<lparr>controlSequence := x12\<rparr>) = cards_ok v" "cards_ok (v\<lparr>pingTimer := x13\<rparr>) = cards_ok v"
  "cards_ok (v\<lparr>videoStatsTimer := x14\<rparr>) = cards_ok v" "cards_ok (v\<lparr>previousVideoStats := x15\<rparr>) = cards_ok v"
  "cards_ok (v\<lparr>missedControlPongs := x16\<rparr>) = cards_ok v" "cards_ok (v\<lparr>videoProfileTimer := x17\<rparr>) = cards_ok v"
  "cards_ok (v\<lparr>videoProfileStabilizeTimer := x18\<rparr>) = cards_ok v" "cards_ok (v\<lparr>stabilizingVideoProfile := x19\<rparr>) = cards_ok v"
  "cards_ok (v\<lparr>connectionEstablishmentTimer := x20\<rparr>) = cards_ok v" "cards_ok (v\<lparr>signalingRecoveryTimer := x21\<rparr>) = cards_ok v"
  "cards_ok (v\<lparr>signalingRecoveryDelay := x22\<rparr>) = cards_ok v" "cards_ok (v\<lparr>signalingRecoveryInFlight := x23\<rparr>) = cards_ok v"
  "cards_ok (v\<lparr>stateRef := x24\<rparr>) = cards_ok v" "cards_ok (v\<lparr>connectionState := x25\<rparr>) = cards_ok v"
  "cards_ok (v\<lparr>channelOpenRef := x26\<rparr>) = cards_ok v" "cards_ok (v\<lparr>trackReadyRef := x27\<rparr>) = cards_ok v"
  "cards_ok (v\<lparr>grantedControlRef := x28\<rparr>) = cards_ok v" "cards_ok (v\<lparr>activeCycle := x29\<rparr>) = cards_ok v"
  "cards_ok (v\<lparr>autoReconnectTimer := x30\<rparr>) = cards_ok v" "cards_ok (v\<lparr>autoReconnectAttempts := x31\<rparr>) = cards_ok v"
  "cards_ok (v\<lparr>userDisconnected := x32\<rparr>) = cards_ok v" "cards_ok (v\<lparr>errorMessage := x33\<rparr>) = cards_ok v"
  "cards_ok (v\<lparr>errorAction := x34\<rparr>) = cards_ok v" "cards_ok (v\<lparr>canRetry := x35\<rparr>) = cards_ok v"
  "cards_ok (v\<lparr>mediaStream := x36\<rparr>) = cards_ok v" "cards_ok (v\<lparr>roundTripTimeMs := x37\<rparr>) = cards_ok v"
  "cards_ok (v\<lparr>videoTelemetry := x38\<rparr>) = cards_ok v" "cards_ok (v\<lparr>connectionRoute := x39\<rparr>) = cards_ok v"
  "cards_ok (v\<lparr>controlGranted := x40\<rparr>) = cards_ok v" "cards_ok (v\<lparr>controlLocked := x41\<rparr>) = cards_ok v"
  "cards_ok (v\<lparr>controlPolicyEnabled := x42\<rparr>) = cards_ok v" "cards_ok (v\<lparr>videoProfile := x43\<rparr>) = cards_ok v"
  "cards_ok (v\<lparr>videoProfileError := x44\<rparr>) = cards_ok v" "cards_ok (v\<lparr>videoProfilePending := x45\<rparr>) = cards_ok v"
  "cards_ok (v\<lparr>videoProfileStabilizing := x46\<rparr>) = cards_ok v" "cards_ok (v\<lparr>clipboardEntries := x47\<rparr>) = cards_ok v"
  "cards_ok (v\<lparr>clipboardId := x48\<rparr>) = cards_ok v" "cards_ok (v\<lparr>clipboardImages := x49\<rparr>) = cards_ok v"
  "cards_ok (v\<lparr>clipboardImageId := x50\<rparr>) = cards_ok v" "cards_ok (v\<lparr>canSendClipboardImage := x51\<rparr>) = cards_ok v"
  "cards_ok (v\<lparr>canSendFiles := x52\<rparr>) = cards_ok v" "cards_ok (v\<lparr>fileUpload := x53\<rparr>) = cards_ok v"
  "cards_ok (v\<lparr>fileDownload := x54\<rparr>) = cards_ok v" "cards_ok (v\<lparr>downloadableFiles := x55\<rparr>) = cards_ok v"
  "cards_ok (v\<lparr>verifyingDownloads := x56\<rparr>) = cards_ok v" "cards_ok (v\<lparr>savedFiles := x57\<rparr>) = cards_ok v"
  "cards_ok (v\<lparr>incomingClipboardImage := x58\<rparr>) = cards_ok v" "cards_ok (v\<lparr>verifyingImages := x59\<rparr>) = cards_ok v"
  "cards_ok (v\<lparr>clipboardImageUpload := x60\<rparr>) = cards_ok v" "cards_ok (v\<lparr>imageUploads := x61\<rparr>) = cards_ok v"
  by (simp_all add: cards_ok_def)

lemma ok_shown [simp]:
  "cards_ok v \<Longrightarrow> cards_ok (v\<lparr>fileTransfer := t\<rparr>) = pred_option transfer_ok t"
  "cards_ok v \<Longrightarrow> cards_ok (v\<lparr>fileDownloadState := d\<rparr>) = pred_option download_ok d"
  by (simp_all add: cards_ok_def)

lemma ok_upload: "cards_ok v \<Longrightarrow> i < length (fileUploads v) \<Longrightarrow> sent_ok (fileUploads v ! i)"
  by (simp add: cards_ok_def list_all_length)

lemma ok_update:
  assumes "cards_ok v" "i < length (fileUploads v) \<Longrightarrow> sent_ok u"
  shows "cards_ok (v\<lparr>fileUploads := (fileUploads v)[i := u]\<rparr>)"
proof (cases "i < length (fileUploads v)")
  case True
  then show ?thesis using assms by (auto simp: cards_ok_def list_all_length nth_list_update)
next
  case False
  then show ?thesis using assms(1) by (simp add: list_update_beyond cards_ok_def)
qed

section \<open>The end of a session\<close>

lemma ok_fail [simp]: "cards_ok v \<Longrightarrow> cards_ok (fail_upload i code v)"
proof -
  assume v: "cards_ok v"
  have "cards_ok (v\<lparr>fileUploads := (fileUploads v)[i := (fileUploads v ! i)\<lparr>fu_phase := UploadSettled\<rparr>]\<rparr>)"
    using ok_update [OF v] ok_upload [OF v] by (simp add: sent_ok_def)
  then show ?thesis using v by (simp add: fail_upload_def Let_def transfer_ok_def)
qed

lemma ok_cancel [simp]: "cards_ok v \<Longrightarrow> cards_ok (cancel_upload i v)"
  using ok_update [of v] ok_upload [of v] by (simp add: cancel_upload_def sent_ok_def)

lemma ok_settle_image [simp]: "cards_ok (settle_image i b oc v) = cards_ok v"
  by (simp add: settle_image_def)

lemma ok_objects [simp]:
  "cards_ok (update_viewer_socket i f v) = cards_ok v" "cards_ok (update_peer i g v) = cards_ok v"
  by (simp_all add: update_viewer_socket_def update_peer_def)

lemma ok_release [simp]: "cards_ok v \<Longrightarrow> cards_ok (releaseResources v)"
proof -
  assume v: "cards_ok v"
  define w where "w = release_image_channel (release_image_upload (release_control_channel (release_timers v)))"
  have "cards_ok w"
    using v by (simp add: w_def release_image_channel_def release_image_upload_def release_control_channel_def
        release_timer_defs split: option.split)
  then have "cards_ok (release_download (release_upload w))"
    by (simp add: release_download_def release_upload_def download_ok_def split: option.split)
  then show ?thesis
    by (simp add: releaseResources_def w_def release_socket_def release_peer_def release_file_channel_def
        split: option.split)
qed

lemma ok_send [simp]: "cards_ok (snd (sendSignaling ty sid d v)) = cards_ok v"
  by (simp add: sendSignaling_def Let_def)

lemma ok_sent: "sendSignaling ty sid d v = (r, w) \<Longrightarrow> cards_ok w = cards_ok v"
  using ok_send by (metis snd_conv)

lemma ok_moved: "moveTo s v = Inr w \<Longrightarrow> cards_ok w = cards_ok v"
  by (auto simp: moveTo_def split: sum.splits)

lemma ok_moves [simp]:
  "cards_ok (move_or_stay s v) = cards_ok v" "cards_ok (finishOffline v) = cards_ok v"
proof -
  show move: "cards_ok (move_or_stay s v) = cards_ok v" for s v
    by (simp add: move_or_stay_def moveTo_def split: sum.split)
  show "cards_ok (finishOffline v) = cards_ok v" by (simp add: finishOffline_def move Let_def)
qed

lemma ok_teardown [simp]: "cards_ok v \<Longrightarrow> cards_ok (teardownForCycle cycle v)"
  by (simp add: teardownForCycle_def Let_def split: option.split)

lemma ok_small [simp]:
  "cards_ok (scheduleAutoReconnect v) = cards_ok v" "cards_ok (scheduleSignalingRecovery cycle v) = cards_ok v"
  "cards_ok (applyConnectionIssue code r v) = cards_ok v" "cards_ok (clearVideoProfileTimer v) = cards_ok v"
  "cards_ok (clearConnectionEstablishmentTimer v) = cards_ok v" "cards_ok (clearVideoProfileStabilizing v) = cards_ok v"
  "cards_ok (stopPing v) = cards_ok v" "cards_ok (stopVideoStats b v) = cards_ok v"
  "cards_ok (cancelAutoReconnect v) = cards_ok v" "cards_ok (cancelSignalingRecovery v) = cards_ok v"
  "cards_ok (updateActiveState v) = cards_ok v"
  by (simp_all add: scheduleAutoReconnect_def scheduleSignalingRecovery_def applyConnectionIssue_def
      clearVideoProfileTimer_def clearConnectionEstablishmentTimer_def clearVideoProfileStabilizing_def
      stopPing_def stopVideoStats_def Let_def cancelAutoReconnect_def cancelSignalingRecovery_def
      active_step_legal split: option.split)

lemma ok_ends [simp]:
  assumes "cards_ok v"
  shows "cards_ok (cycle_failed code cycle v)" "cards_ok (recoverControlChannel ch cycle v)"
    "cards_ok (disconnect v)" "cards_ok (unmount v)"
  using assms by (simp_all add: cycle_failed_def recoverControlChannel_def disconnect_def unmount_def Let_def)


section \<open>Operations of the session\<close>

lemma ok_send_control: "send_control throws i n m v = Some w \<Longrightarrow> cards_ok w = cards_ok v"
  by (auto simp: send_control_def split: if_splits)

lemma ok_emit [simp]: "cards_ok v \<Longrightarrow> cards_ok (emitControl pf now e d v)"
  by (auto simp: emitControl_def Let_def dest!: ok_send_control split: option.split)

lemma ok_user [simp]:
  assumes "cards_ok v"
  shows "cards_ok (perform pf now e v)" "cards_ok (setRemoteClipboard pf now text v)"
    "cards_ok (releaseRemoteInput pf now v)"
proof -
  show release: "cards_ok (releaseRemoteInput pf now v)" using assms by (simp add: releaseRemoteInput_def)
  show "cards_ok (perform pf now e v)"
    using assms release by (cases e) (simp_all add: sendKey_def sendPointerButton_def sendPointerMove_def sendPointerWheel_def)
  show "cards_ok (setRemoteClipboard pf now text v)" using assms by (simp add: setRemoteClipboard_def)
qed

lemma ok_startConnection: "startConnection pf profile c cycle r v = Some w \<Longrightarrow> cards_ok w = cards_ok v"
  by (auto simp: startConnection_def split: if_splits)

lemma ok_connect [simp]: "cards_ok v \<Longrightarrow> cards_ok (connectInternal pf profile isAuto v)"
  by (auto simp: connectInternal_def Let_def dest!: ok_startConnection split: option.split)

lemma ok_tickets [simp]:
  assumes "cards_ok v"
  shows "cards_ok (ticket_answered pf k answer v)" "cards_ok (signaling_recovery_fired pf profile cycle v)"
    "cards_ok (auto_reconnect_fired pf profile v)" "cards_ok (establishment_timeout cycle v)"
proof -
  have connect: "cards_ok (connect_ticket pf cycle isAuto profile answer u)" if "cards_ok u"
    for cycle isAuto profile u
    using that by (auto simp: connect_ticket_def Let_def dest!: ok_startConnection split: option.split)
  have recovery: "cards_ok (recovery_ticket pf cycle profile answer u)" if "cards_ok u" for cycle profile u
    using that by (auto simp: recovery_ticket_def Let_def dest!: ok_startConnection split: option.split)
  show "cards_ok (ticket_answered pf k answer v)"
    using assms by (simp add: ticket_answered_def Let_def connect recovery split: ticket_request.split)
  show "cards_ok (signaling_recovery_fired pf profile cycle v)"
    using assms by (auto simp: signaling_recovery_fired_def Let_def dest!: ok_startConnection split: option.split)
  show "cards_ok (auto_reconnect_fired pf profile v)"
    using assms by (simp add: auto_reconnect_fired_def Let_def)
  show "cards_ok (establishment_timeout cycle v)"
    using assms by (simp add: establishment_timeout_def Let_def)
qed

lemma ok_heartbeat [simp]:
  assumes "cards_ok v"
  shows "cards_ok (sendPing pf now i cycle c v)" "cards_ok (startControlPing pf now i cycle v)"
    "cards_ok (control_opened pf now i v)" "cards_ok (control_closed i v)"
proof -
  have ping: "cards_ok (sendPing pf now i cycle c u)" if "cards_ok u" for i cycle c u
    using that by (auto simp: sendPing_def Let_def dest!: ok_send_control split: option.split)
  have start: "cards_ok (startControlPing pf now i cycle u)" if "cards_ok u" for i cycle u
    using that ping by (simp add: startControlPing_def split: option.split)
  show "cards_ok (sendPing pf now i cycle c v)" "cards_ok (startControlPing pf now i cycle v)"
    using assms by (rule ping start)+
  show "cards_ok (control_opened pf now i v)" using assms start by (simp add: control_opened_def Let_def)
  show "cards_ok (control_closed i v)" using assms by (simp add: control_closed_def Let_def)
qed

lemma ok_peer_events [simp]:
  assumes "cards_ok v"
  shows "cards_ok (control_message pf now i text v)" "cards_ok (peer_state_changed i v)"
    "cards_ok (track_arrived i v)" "cards_ok (offer_ready i sdp v)" "cards_ok (changeVideoProfile profile v)"
proof -
  show "cards_ok (control_message pf now i text v)"
    using assms by (simp add: control_message_def Let_def split: option.split)
  show "cards_ok (peer_state_changed i v)"
    using assms by (simp add: peer_state_changed_def Let_def split: peer_state.split)
  show "cards_ok (track_arrived i v)"
    using assms by (simp add: track_arrived_def startVideoStats_def Let_def)
  show "cards_ok (offer_ready i sdp v)"
    using assms by (auto simp: offer_ready_def Let_def dest!: ok_sent split: option.split prod.split sum.split)
  show "cards_ok (changeVideoProfile profile v)"
    using assms by (simp add: changeVideoProfile_def Let_def split: option.split)
qed

lemma ok_stats [simp]:
  assumes "cards_ok v" shows "cards_ok (sampleVideoStats pf now i cycle inbound ice v)"
proof -
  have report: "cards_ok (sendReceiverReport pf now ch tel rt u)" if "cards_ok u" for ch tel rt u
    using that by (auto simp: sendReceiverReport_def Let_def dest!: ok_send_control split: option.split)
  have "cards_ok (finishVideoProfileStabilizingIfDecoded tel u) = cards_ok u" for tel u
    by (simp add: finishVideoProfileStabilizingIfDecoded_def split: option.split)
  then show ?thesis using assms report by (simp add: sampleVideoStats_def Let_def split: option.split)
qed

lemma ok_socket_events [simp]:
  assumes "cards_ok v"
  shows "cards_ok (socket_error i v)" "cards_ok (socket_closed i v)" "cards_ok (socket_opened i v)"
proof -
  show "cards_ok (socket_error i v)" using assms by (simp add: socket_error_def Let_def)
  show "cards_ok (socket_closed i v)" using assms by (simp add: socket_closed_def Let_def)
  show "cards_ok (socket_opened i v)"
    using assms by (auto simp: socket_opened_def Let_def dest!: ok_sent ok_moved
        split: sum.split prod.split if_splits)
qed

lemma ok_signaling:
  assumes "cards_ok v" shows "cards_ok (snd (handleSignalingMessage pf now m cycle rc v))"
proof -
  have create: "cards_ok (snd (createPeerConnection pf cycle u)) = cards_ok u" for u
    by (simp add: createPeerConnection_def Let_def split: option.split)
  have "cards_ok (snd (session_accepted pf m cycle rc v))"
    using assms by (auto simp: session_accepted_def Let_def create dest!: ok_moved split: option.split sum.split)
  moreover have "cards_ok (session_policy pf now m v)" using assms by (simp add: session_policy_def Let_def)
  moreover have "cards_ok (server_issue m cycle v)" "cards_ok (session_configured m v)"
    using assms by (simp_all add: server_issue_def session_configured_def Let_def split: option.split)
  ultimately show ?thesis using assms by (simp add: handleSignalingMessage_def Let_def)
qed

lemma ok_socket_message [simp]:
  assumes "cards_ok v" shows "cards_ok (socket_message pf now i text v)"
proof -
  have "cards_ok (case handleSignalingMessage pf now m cycle rc u of
      (False, v2) \<Rightarrow> v2 | (True, v2) \<Rightarrow> cycle_failed code c v2)" if "cards_ok u" for m cycle rc code c u
    using ok_signaling [OF that, of pf now m cycle rc]
    by (cases "handleSignalingMessage pf now m cycle rc u") (simp split: bool.split)
  then show ?thesis using assms by (simp add: socket_message_def Let_def split: option.split)
qed

section \<open>Transfers\<close>

lemma ok_sends:
  "sendFileMessage pf now e d v = (b, w) \<Longrightarrow> cards_ok w = cards_ok v"
  "sendImageClipboardMessage pf now e d v = (b, w) \<Longrightarrow> cards_ok w = cards_ok v"
  by (auto simp: sendFileMessage_def sendImageClipboardMessage_def send_image_frame_def
      send_file_frame_def Let_def split: option.splits if_splits)

lemma ok_frames [simp]:
  "cards_ok (send_file_frame i frame v) = cards_ok v" "cards_ok (send_image_frame i frame v) = cards_ok v"
  "cards_ok (forget_upload i v) = cards_ok v" "cards_ok (reject_current_image i code v) = cards_ok v"
  by (simp_all add: send_file_frame_def send_image_frame_def forget_upload_def reject_current_image_def)

lemma ok_show [simp]:
  "cards_ok v \<Longrightarrow> 0 \<le> q \<Longrightarrow> q \<le> 1 \<Longrightarrow> (st \<in> {TransferVerifying, TransferDone} \<longrightarrow> q = 1)
    \<Longrightarrow> (c \<noteq> None \<longleftrightarrow> st = TransferError) \<Longrightarrow> cards_ok (show_transfer i c q st v)"
  "cards_ok v \<Longrightarrow> 0 \<le> q \<Longrightarrow> q \<le> 1 \<Longrightarrow> (dt \<in> {DownloadVerifying, DownloadDone} \<longrightarrow> q = 1)
    \<Longrightarrow> (c \<noteq> None \<longleftrightarrow> dt = DownloadError) \<Longrightarrow> cards_ok (show_download c n q dt v)"
  by (auto simp: show_transfer_def show_download_def transfer_ok_def download_ok_def)

lemma ok_phase [simp]: "cards_ok v \<Longrightarrow> ph \<noteq> ReadingFile \<Longrightarrow> cards_ok (set_phase i ph v)"
  using ok_update [of v] ok_upload [of v] by (simp add: set_phase_def sent_ok_def)

lemma ok_upload_error [simp]: "cards_ok v \<Longrightarrow> cards_ok (upload_error i code v)"
  by (simp add: upload_error_def)

lemma ok_update_upload:
  "cards_ok v \<Longrightarrow> (sent_ok (fileUploads v ! i) \<Longrightarrow> sent_ok (f (fileUploads v ! i)))
    \<Longrightarrow> cards_ok (update_upload i f v)"
  using ok_update [of v] ok_upload [of v] by (simp add: update_upload_def)

lemma ok_upload_read:
  assumes "cards_ok v" "fu_phase (fileUploads v ! i) = ReadingFile"
  shows "cards_ok (upload_read pf digest now data i v)"
proof -
  have "cards_ok (update_upload i (\<lambda>u. u\<lparr>fu_phase := AwaitingAccept, fu_data := data\<rparr>) v)"
    using assms by (intro ok_update_upload) (simp_all add: sent_ok_def)
  then show ?thesis by (auto simp: upload_read_def Let_def dest!: ok_sends split: prod.split bool.split)
qed

lemma ok_progress:
  assumes "cards_ok v" "i < length (fileUploads v)" shows "cards_ok (upload_progress i v)"
proof -
  let ?u = "fileUploads v ! i"
  have "fu_sent ?u \<le> length (fu_data ?u)" using ok_upload [OF assms] by (simp add: sent_ok_def)
  then have "(of_nat (fu_sent ?u) :: rat) / of_nat (length (fu_data ?u)) \<le> 1"
    by (cases "length (fu_data ?u) = 0") (simp_all add: divide_le_eq_1)
  moreover have "cards_ok (update_upload i (\<lambda>u. u\<lparr>fu_lastPercent := p\<rparr>) v)" for p
    using assms(1) by (rule ok_update_upload) (simp add: sent_ok_def)
  ultimately show ?thesis using assms(1) by (simp add: upload_progress_def Let_def)
qed

lemma ok_chunk:
  assumes "cards_ok v" "upload_sends v i" shows "cards_ok (upload_chunk i v)"
proof -
  let ?u = "fileUploads v ! i"
  define w where "w = update_upload i (\<lambda>u. u\<lparr>fu_sent := min (fu_sent ?u + FILE_CHUNK_BYTES) (length (fu_data ?u))\<rparr>)
    (send_file_frame (fu_channel ?u) (BinaryFrame (take (min (fu_sent ?u + FILE_CHUNK_BYTES) (length (fu_data ?u)) - fu_sent ?u)
       (drop (fu_sent ?u) (fu_data ?u)))) v)"
  have same: "fileUploads (send_file_frame j f v) = fileUploads v" for j f
    by (simp add: send_file_frame_def update_peer_def)
  have "cards_ok w"
    unfolding w_def using assms by (intro ok_update_upload) (auto simp: same sent_ok_def upload_sends_def Let_def)
  moreover have "i < length (fileUploads w)"
    using assms(2) by (simp add: w_def update_upload_def same upload_sends_def)
  ultimately have "cards_ok (upload_progress i w)" by (rule ok_progress)
  then show ?thesis by (simp add: upload_chunk_def w_def Let_def)
qed

lemma ok_uploads [simp]:
  assumes "cards_ok v"
  shows "cards_ok (upload_streamed pf now how i v)" "cards_ok (upload_unread i code v)"
    "cards_ok (upload_timeout i v)" "cards_ok (sendFile random name n v)" "cards_ok (upload_event m v)"
proof -
  show "cards_ok (upload_streamed pf now how i v)"
    using assms by (auto simp: upload_streamed_def dest!: ok_sends split: stream_end.split prod.split bool.split)
  show "cards_ok (upload_unread i code v)" "cards_ok (upload_timeout i v)"
    using assms by (simp_all add: upload_unread_def upload_timeout_def)
  show "cards_ok (sendFile random name n v)"
    using assms by (simp add: sendFile_def cards_ok_def transfer_ok_def sent_ok_def)
  show "cards_ok (upload_event m v)"
    using assms by (simp add: upload_event_def upload_accepted_def upload_done_def split: option.split)
qed

lemma ok_downloads [simp]:
  assumes "cards_ok v"
  shows "cards_ok (handleDownloadChunk chunk v)" "cards_ok (finishDownload d sha v)"
    "cards_ok (download_verified digest k v)" "cards_ok (download_event m d v)"
    "cards_ok (requestFileList pf now v)" "cards_ok (downloadFile pf now random name v)"
    "cards_ok (clearFileDownload v)" "cards_ok (clearFileTransfer v)"
proof -
  show "cards_ok (handleDownloadChunk chunk v)"
    using assms by (simp add: handleDownloadChunk_def Let_def split: option.split)
  show finish: "cards_ok (finishDownload d sha v)" for d sha
    using assms by (simp add: finishDownload_def Let_def)
  show "cards_ok (download_verified digest k v)"
    using assms by (simp add: download_verified_def triggerBrowserDownload_def Let_def split: prod.split)
  show "cards_ok (download_event m d v)" using assms finish by (simp add: download_event_def)
  have send: "cards_ok (snd (sendFileMessage pf now e d u)) = cards_ok u" for e d u
    using ok_sends(1) by (metis surjective_pairing)
  show "cards_ok (requestFileList pf now v)" "cards_ok (downloadFile pf now random name v)"
    using assms by (simp_all add: requestFileList_def downloadFile_def send Let_def)
  show "cards_ok (clearFileDownload v)" "cards_ok (clearFileTransfer v)"
    using assms by (simp_all add: clearFileDownload_def clearFileTransfer_def)
qed

lemma ok_images [simp]:
  assumes "cards_ok v"
  shows "cards_ok (handleImageClipboardMessage m v)" "cards_ok (handleImageClipboardChunk chunk v)"
    "cards_ok (image_verified digest now k v)" "cards_ok (image_prepared pf digest now data random v)"
    "cards_ok (image_streamed pf now i how v)" "cards_ok (image_timeout i v)" "cards_ok (image_chunk i ch offset v)"
proof -
  show "cards_ok (handleImageClipboardMessage m v)" "cards_ok (handleImageClipboardChunk chunk v)"
    "cards_ok (image_verified digest now k v)" "cards_ok (image_timeout i v)" "cards_ok (image_chunk i ch offset v)"
    using assms by (simp_all add: handleImageClipboardMessage_def finishIncomingClipboardImage_def
        handleImageClipboardChunk_def image_verified_def image_timeout_def image_chunk_def Let_def split: option.split)
  show "cards_ok (image_prepared pf digest now data random v)"
    using assms by (auto simp: image_prepared_def Let_def dest!: ok_sends split: prod.split bool.split)
  show "cards_ok (image_streamed pf now i how v)"
    using assms by (auto simp: image_streamed_def dest!: ok_sends split: stream_end.split prod.split bool.split)
qed

lemma ok_channels [simp]:
  assumes "cards_ok v"
  shows "cards_ok (image_channel_message pf i data v)" "cards_ok (image_channel_opened i v)"
    "cards_ok (image_channel_closed i v)" "cards_ok (file_channel_message pf i data v)"
    "cards_ok (file_channel_opened i v)" "cards_ok (file_channel_closed i v)"
    "cards_ok (dismissClipboardEntry k v)" "cards_ok (dismissClipboardImageEntry k v)"
proof -
  have "cards_ok (handleFileMessage m v)" for m
    using assms by (simp add: handleFileMessage_def split: option.split)
  then show "cards_ok (file_channel_message pf i data v)"
    using assms by (simp add: file_channel_message_def split: channel_data.split option.split)
  show "cards_ok (image_channel_message pf i data v)"
    using assms by (simp add: image_channel_message_def split: channel_data.split option.split)
  show "cards_ok (image_channel_opened i v)" "cards_ok (image_channel_closed i v)"
    "cards_ok (file_channel_opened i v)" "cards_ok (file_channel_closed i v)"
    "cards_ok (dismissClipboardEntry k v)" "cards_ok (dismissClipboardImageEntry k v)"
    using assms by (simp_all add: image_channel_opened_def image_channel_closed_def file_channel_opened_def
        file_channel_closed_def dismissClipboardEntry_def dismissClipboardImageEntry_def Let_def split: option.split)
qed

lemma ok_set [simp]:
  "cards_ok (set_control i r v) = cards_ok v" "cards_ok (set_image i r v) = cards_ok v"
  "cards_ok (set_file i r v) = cards_ok v" "cards_ok (set_peer i st v) = cards_ok v"
  "cards_ok (set_socket i r v) = cards_ok v"
  by (simp_all add: set_control_def set_image_def set_file_def set_peer_def set_socket_def)

section \<open>Every run\<close>

lemma cards_step:
  assumes "viewer_step pf digest now e v = Some w" "cards_ok v"
  shows "cards_ok w"
  using assms
  by (cases e) (auto simp: occurs_def profile_timeout_def stabilize_timeout_def ok_upload_read ok_chunk
      split: if_splits)

lemma reachable_cards:
  assumes "reachable_viewer pf digest v" shows "cards_ok v"
proof -
  obtain production c es where "viewer_run pf digest es (new_viewer production c) = Some v"
    using assms by (auto simp: reachable_viewer_def)
  moreover have "cards_ok (new_viewer production c)" by (simp add: new_viewer_def cards_ok_def)
  ultimately show ?thesis using run_invariant [where P = cards_ok] cards_step by blast
qed

end
