(* ===== verification/ViewerView.thy ===== *)
theory ViewerView
  imports AppInvariants RemoteCards
begin

text \<open>
  What the viewer renders (the markup of \<open>App.tsx\<close>, \<open>RemoteClipboard.tsx\<close> and
  \<open>ImageClipboardPanel.tsx\<close>): which controls are there, enabled and pressed, and the data the
  page shows. \<open>render\<close> is a screen of the interface's state. Texts are named by their meaning,
  class names are left out.
\<close>

section \<open>Controls\<close>

datatype button =
    ProfileSelect | DisplayModeButton | FullscreenButton | CaptureButton | TextClipboardButton
  | ImageClipboardButton | FileSendButton | FileReceiveButton | ReconnectButton | CloseToolsButton

record control =
  ct_button :: button
  ct_enabled :: bool
  ct_pressed :: bool

definition plain_control :: "button \<Rightarrow> bool \<Rightarrow> control" where
  "plain_control b enabled = \<lparr>ct_button = b, ct_enabled = enabled, ct_pressed = False\<rparr>"

definition toggle_control :: "button \<Rightarrow> bool \<Rightarrow> bool \<Rightarrow> control" where
  "toggle_control b pressed enabled = \<lparr>ct_button = b, ct_enabled = enabled, ct_pressed = pressed\<rparr>"

definition toolbar :: "app \<Rightarrow> control list" where
  "toolbar a =
     (let v = ap_session a
      in [plain_control ProfileSelect (\<not> (videoProfilePending v \<or> videoProfileStabilizing v)),
          plain_control DisplayModeButton (\<not> (\<not> mediaStream v \<or> fst (videoSize a) = 0)),
          plain_control FullscreenButton (mediaStream v),
          plain_control CaptureButton (isControlActive v),
          toggle_control TextClipboardButton (clipboardPanelOpen a) (isControlActive v),
          toggle_control ImageClipboardButton (imageClipboardPanelOpen a)
            (\<not> (\<not> isControlActive v \<or> \<not> canSendClipboardImage v)),
          plain_control FileSendButton (canSendFiles v),
          toggle_control FileReceiveButton (downloadPanelOpen a) (canSendFiles v)])"

definition drawer :: "app \<Rightarrow> control list option" where
  "drawer a =
     (let v = ap_session a
      in if isFullscreen a \<and> fullscreenToolsOpen a
         then Some
           ([plain_control CloseToolsButton True,
             plain_control ProfileSelect (\<not> (videoProfilePending v \<or> videoProfileStabilizing v))]
            @ (if \<not> isControlActive v
               then [plain_control ReconnectButton
                       (\<not> (\<not> canConnect v \<or> (errorMessage v \<noteq> None \<and> \<not> canRetry v)))]
               else [])
            @ [plain_control CaptureButton (isControlActive v),
               toggle_control TextClipboardButton (clipboardPanelOpen a) (isControlActive v),
               toggle_control ImageClipboardButton (imageClipboardPanelOpen a)
                 (\<not> (\<not> isControlActive v \<or> \<not> canSendClipboardImage v)),
               plain_control FileSendButton (canSendFiles v),
               toggle_control FileReceiveButton (downloadPanelOpen a) (canSendFiles v)])
         else None)"

text \<open>The button under the summary; a connect button says whether it connects again.\<close>

datatype session_button = ConnectShown bool bool | DisconnectShown

definition session_button :: "viewer \<Rightarrow> session_button" where
  "session_button v =
     (if connectionState v = Offline
      then ConnectShown (\<not> (\<not> canConnect v \<or> (errorMessage v \<noteq> None \<and> \<not> canRetry v)))
             (errorMessage v \<noteq> None \<and> canRetry v)
      else DisconnectShown)"

section \<open>Cards and lists\<close>

text \<open>
  A transfer's card: the name, the status, the code of an error (empty where there is none), the
  percentage beside the status, the progress bar, and whether it can be closed.
\<close>

record 's card =
  cr_name :: jstring
  cr_status :: 's
  cr_error :: "jstring option"
  cr_percent :: "int option"
  cr_bar :: "int option"
  cr_closable :: bool

definition percent_of :: "rat \<Rightarrow> int" where
  "percent_of progress = \<lfloor>progress * 100 + 1 / 2\<rfloor>"

definition transfer_card :: "transfer_state \<Rightarrow> transfer_status card" where
  "transfer_card t =
     (let s = ts_status t; percent = percent_of (ts_progress t)
      in \<lparr>cr_name = ts_fileName t, cr_status = s,
          cr_error = (if s = TransferError
                      then Some (case ts_errorCode t of Some code \<Rightarrow> code | None \<Rightarrow> []) else None),
          cr_percent = (if s = TransferSending then Some percent else None),
          cr_bar = (if s = TransferSending \<or> s = TransferVerifying then Some percent else None),
          cr_closable = (s = TransferDone \<or> s = TransferError)\<rparr>)"

definition download_card :: "download_state \<Rightarrow> download_status card" where
  "download_card t =
     (let s = ds_status t; percent = percent_of (ds_progress t)
      in \<lparr>cr_name = ds_fileName t, cr_status = s,
          cr_error = (if s = DownloadError
                      then Some (case ds_errorCode t of Some code \<Rightarrow> code | None \<Rightarrow> []) else None),
          cr_percent = (if s = Downloading then Some percent else None),
          cr_bar = (if s = Downloading \<or> s = DownloadVerifying then Some percent else None),
          cr_closable = (s = DownloadDone \<or> s = DownloadError)\<rparr>)"

text \<open>The panel of the host's files: whether it can be refreshed, the files, and whether one can be got.\<close>

record downloads_view =
  dv_refresh :: bool
  dv_files :: "(jstring \<times> rat \<times> byte_unit) list"
  dv_enabled :: bool

definition downloads_view :: "viewer \<Rightarrow> downloads_view" where
  "downloads_view v =
     \<lparr>dv_refresh = canSendFiles v,
      dv_files = map (\<lambda>(name, size). (name, formatBytes size)) (downloadableFiles v),
      dv_enabled = (case fileDownloadState v of
                      None \<Rightarrow> True
                    | Some d \<Rightarrow> \<not> (ds_status d = Downloading \<or> ds_status d = DownloadVerifying))\<rparr>"

definition clipboard_rows :: "app \<Rightarrow> (nat \<times> jstring \<times> bool) list" where
  "clipboard_rows a =
     map (\<lambda>(k, receivedAt, text). (k, text, copiedClipboardId a = Some k)) (clipboardEntries (ap_session a))"

record text_view =
  tv_text :: jstring
  tv_paste :: bool
  tv_status :: "nat option"

definition text_view :: "text_panel \<Rightarrow> text_view" where
  "text_view p = \<lparr>tv_text = tp_text p, tv_paste = (length (tp_text p) \<noteq> 0), tv_status = tp_status p\<rparr>"

record image_view =
  iv_load :: bool
  iv_paste :: bool
  iv_sending :: bool
  iv_entries :: "nat list"
  iv_status :: image_notice

definition image_view :: "viewer \<Rightarrow> image_panel \<Rightarrow> image_view" where
  "image_view v p =
     \<lparr>iv_load = (\<not> (\<not> canSendClipboardImage v \<or> ip_sending p)),
      iv_paste = (\<not> (\<not> canSendClipboardImage v \<or> ip_selectedImage p = None \<or> ip_sending p)),
      iv_sending = ip_sending p, iv_entries = map fst (clipboardImages v), iv_status = ip_status p\<rparr>"

section \<open>Measurements\<close>

definition toFixed :: "nat \<Rightarrow> rat \<Rightarrow> rat" where
  "toFixed n x = of_int \<lfloor>x * 10 ^ n + 1 / 2\<rfloor> / 10 ^ n"

record telemetry_view =
  te_quality :: "quality_label \<times> quality_tone"
  te_profile :: video_profile
  te_route :: route
  te_protocol :: "jstring option"
  te_size :: "(nat \<times> nat) option"
  te_fps :: "int option"
  te_bitrate :: "rat option"
  te_loss :: "rat option"
  te_jitter :: "rat option"
  te_qp :: "rat option"
  te_duration :: jstring

definition ascii_upper :: "jstring \<Rightarrow> jstring" where
  "ascii_upper s = map (\<lambda>u. if is_lower_unit u then u - 32 else u) s"

definition telemetry_view :: "app \<Rightarrow> telemetry_view" where
  "telemetry_view a =
     (let v = ap_session a; t = videoTelemetry v
      in \<lparr>te_quality = getConnectionQuality (map_option of_int (roundTripTimeMs v)) t,
          te_profile = videoProfile v,
          te_route = rt_route (connectionRoute v),
          te_protocol = (if truthy (rt_protocol (connectionRoute v))
                         then map_option ascii_upper (rt_protocol (connectionRoute v)) else None),
          te_size = (if fst (videoSize a) > 0 then Some (videoSize a) else None),
          te_fps = framesPerSecond a,
          te_bitrate = map_option (toFixed 2) (receivedBitrateMbps t),
          te_loss = map_option (toFixed 1) (packetLossPercent t),
          te_jitter = map_option (toFixed 1) (jitterMs t),
          te_qp = map_option (toFixed 1) (averageQp t),
          te_duration = formatSessionDuration (Some (of_int (elapsedSeconds a)))\<rparr>)"

section \<open>The screen\<close>

definition videoStyle :: "app \<Rightarrow> (nat \<times> nat) option" where
  "videoStyle a =
     (if displayMode a = Actual \<and> fst (videoSize a) > 0 then Some (videoSize a) else None)"

record profile_view =
  pv_selected :: video_profile
  pv_pending :: bool
  pv_stabilizing :: bool
  pv_error :: bool

definition profile_view :: "viewer \<Rightarrow> profile_view" where
  "profile_view v = \<lparr>pv_selected = videoProfile v, pv_pending = videoProfilePending v,
     pv_stabilizing = videoProfileStabilizing v, pv_error = videoProfileError v\<rparr>"

record screen =
  sc_state :: connection_state
  sc_toolbar :: "control list"
  sc_profile :: profile_view
  sc_modeLabel :: mode_label
  sc_exitFullscreen :: bool
  sc_controlActive :: bool
  sc_video :: bool
  sc_videoStyle :: "(nat \<times> nat) option"
  sc_fullscreen :: bool
  sc_openTools :: bool
  sc_drawer :: "control list option"
  sc_transfer :: "transfer_status card option"
  sc_download :: "download_status card option"
  sc_downloads :: "downloads_view option"
  sc_textPanel :: "text_view option"
  sc_imagePanel :: "image_view option"
  sc_clipboard :: "(nat \<times> jstring \<times> bool) list"
  sc_device :: "jstring option"
  sc_rtt :: "int option"
  sc_error :: "(issue_text \<times> issue_text option) option"
  sc_presentationError :: bool
  sc_telemetry :: "telemetry_view option"
  sc_control :: "control_label option"
  sc_button :: session_button

definition render :: "app \<Rightarrow> screen" where
  "render a =
     (let v = ap_session a
      in \<lparr>sc_state = connectionState v, sc_toolbar = toolbar a, sc_profile = profile_view v,
          sc_modeLabel = getDisplayModeLabel (displayMode a), sc_exitFullscreen = isFullscreen a,
          sc_controlActive = isControlActive v, sc_video = mediaStream v, sc_videoStyle = videoStyle a,
          sc_fullscreen = isFullscreen a, sc_openTools = (isFullscreen a \<and> \<not> fullscreenToolsOpen a),
          sc_drawer = drawer a, sc_transfer = map_option transfer_card (fileTransfer v),
          sc_download = map_option download_card (fileDownloadState v),
          sc_downloads = (if downloadPanelOpen a then Some (downloads_view v) else None),
          sc_textPanel = (if clipboardPanelOpen a \<and> isControlActive v
             then Some (text_view (case textPanel a of Some p \<Rightarrow> p | None \<Rightarrow> new_text_panel)) else None),
          sc_imagePanel = (if imageClipboardPanelOpen a \<and> isControlActive v
             then Some (image_view v
                    (case imagePanel a of Some p \<Rightarrow> p | None \<Rightarrow> new_image_panel (panelMounts a))) else None),
          sc_clipboard = clipboard_rows a,
          sc_device = map_option cc_deviceId (configRef v), sc_rtt = roundTripTimeMs v,
          sc_error = map_option (\<lambda>m. (m, errorAction v)) (errorMessage v),
          sc_presentationError = presentationError a,
          sc_telemetry = (if mediaStream v then Some (telemetry_view a) else None),
          sc_control = controlLabel v, sc_button = session_button v\<rparr>)"

section \<open>Cards of sound transfers\<close>

lemma screen_cards [simp]:
  "sc_transfer (render a) = map_option transfer_card (fileTransfer (ap_session a))"
  "sc_download (render a) = map_option download_card (fileDownloadState (ap_session a))"
  by (simp_all add: render_def Let_def)

text \<open>A progress between nothing and all is shown as a percentage.\<close>

lemma percent_bounds:
  assumes "0 \<le> progress" "progress \<le> 1" shows "0 \<le> percent_of progress \<and> percent_of progress \<le> 100"
proof -
  have "progress * 100 + 1 / 2 < 101" using assms(2) by simp
  then have "\<lfloor>progress * 100 + 1 / 2\<rfloor> < 101" by (simp add: floor_less_iff)
  then show ?thesis using assms(1) by (simp add: percent_of_def)
qed

lemma percent_full [simp]: "percent_of 1 = 100"
  by (simp add: percent_of_def floor_eq_iff)

lemma transfer_card_ok:
  assumes "transfer_ok t" "c = transfer_card t"
  shows "(\<forall>p. cr_percent c = Some p \<or> cr_bar c = Some p \<longrightarrow> 0 \<le> p \<and> p \<le> 100)
    \<and> (cr_status c = TransferVerifying \<longrightarrow> cr_bar c = Some 100) \<and> cr_error c = ts_errorCode t"
  using assms percent_bounds [of "ts_progress t"]
  by (auto simp: transfer_ok_def transfer_card_def Let_def split: if_splits option.split)

lemma download_card_ok:
  assumes "download_ok d" "c = download_card d"
  shows "(\<forall>p. cr_percent c = Some p \<or> cr_bar c = Some p \<longrightarrow> 0 \<le> p \<and> p \<le> 100)
    \<and> (cr_status c = DownloadVerifying \<longrightarrow> cr_bar c = Some 100) \<and> cr_error c = ds_errorCode d"
  using assms percent_bounds [of "ds_progress d"]
  by (auto simp: download_ok_def download_card_def Let_def split: if_splits option.split)

end
