(* ===== verification/AppProperties.thy ===== *)
theory AppProperties
  imports AppImageSample AppTrace ViewerView
begin

text \<open>
  The properties of the viewer behind its interface: what a step of the interface does to the
  session, what is open and attached, and what reaches the host.
\<close>

section \<open>The interface and the session\<close>

text \<open>
  C7. A run of the interface calls the session hook exactly as \<open>asks\<close> says: from any reachable
  state the session behind the interface ends where the hook ends when it is given just the
  operations of the run's trace, in order and at their times. The trace names each operation
  with its arguments: connect with the selected profile, the six keys of the capture shortcut,
  the list request of the file panel, the first 16384 units of a pasted text and then Control
  and V, the same keys for an image only once its upload is resolved, what the capture emits,
  and nothing for a control that only changes the page. The effects after a render add nothing.
\<close>

theorem interface_refines_session:
  assumes "reachable_app su a" "app_run su es a = Some b"
  shows "viewer_run (su_platform su) (su_digest su) (session_trace su es a) (ap_session a) = Some (ap_session b)"
  by (rule run_traced [OF assms])

theorem interface_refines_session_witness:
  "\<exists>a b. ap_session a = active_viewer \<and> app_run sample_su [(0, 0, ClickCapture Toolbar)] a = Some b
     \<and> viewer_run sample_platform (\<lambda>b. b)
         (map (\<lambda>(code, action). (0, UserEffect (SendKey (lit code) action)))
           [(''MetaLeft'', Down), (''ShiftLeft'', Down), (''KeyS'', Down),
            (''KeyS'', Up), (''ShiftLeft'', Up), (''MetaLeft'', Up)]) active_viewer = Some (ap_session b)
     \<and> controlSequence active_viewer = 1 \<and> controlSequence (ap_session b) = 7"
proof -
  obtain a where a: "reachable_app sample_su a" "ap_session a = active_viewer" using active_app by blast
  obtain b where b: "app_step sample_su 0 0 (ClickCapture Toolbar) a = Some b"
    using a(2) by (simp add: app_step_def active_control)
  then have run: "app_run sample_su [(0, 0, ClickCapture Toolbar)] a = Some b" by simp
  have "ap_session b = emits sample_platform 0 (app_input a (ClickCapture Toolbar)) active_viewer"
    using input_step_session [OF a(1) b] a(2) by (simp add: CAPTURE_CHORD_def)
  then have "controlSequence (ap_session b) = 7"
    by (simp only: emits_counts [OF active_injects active_fields(4) active_peer sample_platform_fields(2)])
      (simp add: CAPTURE_CHORD_def active_fields)
  moreover have "session_trace sample_su [(0, 0, ClickCapture Toolbar)] a
      = map (\<lambda>(code, action). (0, UserEffect (SendKey (lit code) action)))
          [(''MetaLeft'', Down), (''ShiftLeft'', Down), (''KeyS'', Down),
           (''KeyS'', Up), (''ShiftLeft'', Up), (''MetaLeft'', Up)]"
    by (simp add: b key_presses_def)
  ultimately show ?thesis
    using interface_refines_session [OF a(1) run] a(2) run by (auto simp: active_fields)
qed

text \<open>
  C8. In every state the interface reaches: at most one of the three panels is open and the
  tools drawer only in fullscreen; the input capture is attached exactly while control is
  active, a panel mounted exactly while it is open and control is active; the clock runs
  exactly while a stream is shown; and a user who disconnected has an offline session.
\<close>

theorem interface_invariant:
  assumes "reachable_app su a"
  shows "\<not> (clipboardPanelOpen a \<and> imageClipboardPanelOpen a)
    \<and> \<not> (clipboardPanelOpen a \<and> downloadPanelOpen a)
    \<and> \<not> (imageClipboardPanelOpen a \<and> downloadPanelOpen a)
    \<and> (fullscreenToolsOpen a \<longrightarrow> isFullscreen a)
    \<and> (inputCapture a \<noteq> None \<longleftrightarrow> isControlActive (ap_session a))
    \<and> (textPanel a \<noteq> None \<longleftrightarrow> clipboardPanelOpen a \<and> isControlActive (ap_session a))
    \<and> (imagePanel a \<noteq> None \<longleftrightarrow> imageClipboardPanelOpen a \<and> isControlActive (ap_session a))
    \<and> (startedAt a \<noteq> None \<longleftrightarrow> mediaStream (ap_session a))
    \<and> (\<not> mediaStream (ap_session a) \<longrightarrow> displayMode a = Fit \<and> elapsedSeconds a = 0 \<and> framesPerSecond a = None)
    \<and> (userDisconnected (ap_session a) \<longrightarrow> connectionState (ap_session a) = Offline)"
proof -
  have "app_inv a" "user_ok (ap_session a)" using reachable_app_inv [OF assms] by simp_all
  moreover have "connectionState (ap_session a) = Offline" if "userDisconnected (ap_session a)"
    using \<open>user_ok (ap_session a)\<close> that quiet_facts(4) by (simp add: user_ok_def)
  ultimately show ?thesis
    unfolding app_inv_def handled_ok_def one_panel_def drawer_ok_def video_idle_def by metis
qed

theorem interface_invariant_witness:
  "\<exists>a. reachable_app sample_su a \<and> ap_session a = active_viewer \<and> inputCapture a \<noteq> None
     \<and> \<not> (clipboardPanelOpen a \<and> imageClipboardPanelOpen a)"
proof -
  obtain a where "reachable_app sample_su a" "ap_session a = active_viewer" using active_app by blast
  with interface_invariant [OF this(1)] show ?thesis by (metis active_control(1))
qed

text \<open>
  C9. Through the interface a disconnect is final. After a click on disconnect no run without a
  new click on connect opens a socket or asks for a ticket; the session stays offline with
  nothing scheduled, and neither the capture nor a clipboard panel is there.
\<close>

theorem interface_disconnect_is_final:
  assumes "reachable_app su a" "app_step su now perf ClickDisconnect a = Some b"
    and "app_run su es b = Some c" "\<And>t p e. (t, p, e) \<in> set es \<Longrightarrow> \<not> clicks_connect e"
  shows "connectionState (ap_session c) = Offline \<and> webSocket (ap_session c) = None
    \<and> peerConnection (ap_session c) = None \<and> \<not> autoReconnectTimer (ap_session c)
    \<and> signalingRecoveryTimer (ap_session c) = None
    \<and> length (viewerSockets (ap_session c)) = length (viewerSockets (ap_session b))
    \<and> length (ticketRequests (ap_session c)) \<le> length (ticketRequests (ap_session b))
    \<and> inputCapture c = None \<and> textPanel c = None \<and> imagePanel c = None"
proof -
  have reached: "reachable_app su b" by (rule reachable_app_step [OF assms(1,2)])
  have "user_ok (ap_session a)" using reachable_app_inv [OF assms(1)] by simp
  then have "quiet (ap_session b)"
    using assms(2) disconnect_user_ok [of "ap_session a"]
    by (auto simp: app_step_def user_ok_def settle_session quiet_def)
  moreover obtain xs where "viewer_run (su_platform su) (su_digest su) xs (ap_session b) = Some (ap_session c)"
      "\<forall>now p. (now, Connect p) \<notin> set xs"
    using run_runs_session [OF assms(3)] assms(4) by blast
  ultimately have q: "stays_quiet (ap_session b) (ap_session c)" using quiet_run by blast
  then have "connectionState (ap_session c) = Offline" using quiet_facts(4) by (simp add: stays_quiet_def)
  moreover have "reachable_app su c"
    using reached assms(3) by (rule reachable_app_run)
  then have "app_inv c" using reachable_app_inv by blast
  ultimately show ?thesis
    using q quiet_facts(1,3,5) [of "ap_session c"]
    by (auto simp: app_inv_def isControlActive_def stays_quiet_def no_more_tries_def quiet_def)
qed

theorem interface_disconnect_is_final_witness:
  "\<exists>a b. ap_session a = active_viewer \<and> app_step sample_su 0 0 ClickDisconnect a = Some b
     \<and> connectionState (ap_session b) = Offline \<and> inputCapture b = None"
proof -
  obtain a where a: "reachable_app sample_su a" "ap_session a = active_viewer" using active_app by blast
  obtain b where b: "app_step sample_su 0 0 ClickDisconnect a = Some b"
    using a(2) by (simp add: app_step_def active_control)
  from interface_disconnect_is_final [OF a(1) b, of "[]" b] show ?thesis using a(2) b by auto
qed

text \<open>
  C13. The cards the page shows of its transfers are sound. In every state the interface
  reaches, whatever the host sends: the percentage and the bar of an upload's or a download's
  card lie between 0 and 100, a transfer that is verified shows a full bar, and the card names
  exactly the error code the session recorded, so the empty text that stands for a missing code
  is never shown.
\<close>

theorem transfer_cards_sound:
  assumes "reachable_app su a"
  shows "(\<forall>c. sc_transfer (render a) = Some c \<longrightarrow>
      (\<forall>p. cr_percent c = Some p \<or> cr_bar c = Some p \<longrightarrow> 0 \<le> p \<and> p \<le> 100)
      \<and> (cr_status c = TransferVerifying \<longrightarrow> cr_bar c = Some 100)
      \<and> cr_error c = Option.bind (fileTransfer (ap_session a)) ts_errorCode)
    \<and> (\<forall>d. sc_download (render a) = Some d \<longrightarrow>
      (\<forall>p. cr_percent d = Some p \<or> cr_bar d = Some p \<longrightarrow> 0 \<le> p \<and> p \<le> 100)
      \<and> (cr_status d = DownloadVerifying \<longrightarrow> cr_bar d = Some 100)
      \<and> cr_error d = Option.bind (fileDownloadState (ap_session a)) ds_errorCode)"
proof -
  have ok: "cards_ok (ap_session a)" by (rule reachable_cards [OF app_reaches_session [OF assms]])
  show ?thesis
  proof (intro conjI allI impI)
    fix c assume "sc_transfer (render a) = Some c"
    then obtain t where t: "fileTransfer (ap_session a) = Some t" "c = transfer_card t" by auto
    then have "transfer_ok t" using ok by (simp add: cards_ok_def)
    note card = transfer_card_ok [OF this t(2)]
    show "0 \<le> p" "p \<le> 100" if "cr_percent c = Some p \<or> cr_bar c = Some p" for p using card that by blast+
    show "cr_bar c = Some 100" if "cr_status c = TransferVerifying" using card that by blast
    show "cr_error c = Option.bind (fileTransfer (ap_session a)) ts_errorCode" using card t(1) by simp
  next
    fix d assume "sc_download (render a) = Some d"
    then obtain t where t: "fileDownloadState (ap_session a) = Some t" "d = download_card t" by auto
    then have "download_ok t" using ok by (simp add: cards_ok_def)
    note card = download_card_ok [OF this t(2)]
    show "0 \<le> p" "p \<le> 100" if "cr_percent d = Some p \<or> cr_bar d = Some p" for p using card that by blast+
    show "cr_bar d = Some 100" if "cr_status d = DownloadVerifying" using card that by blast
    show "cr_error d = Option.bind (fileDownloadState (ap_session a)) ds_errorCode" using card t(1) by simp
  qed
qed

theorem transfer_cards_sound_witness:
  "\<exists>a c. reachable_app sample_su a \<and> sc_transfer (render a) = Some c \<and> cr_status c = TransferError
     \<and> cr_error c = Some (lit ''TOO_LARGE'')"
proof -
  obtain a where a: "reachable_app sample_su a" "ap_session a = active_viewer" using active_app by blast
  let ?w = "file_channel_opened 0 (set_file 0 ChOpen active_viewer)"
  have w: "file_ready ?w = Some ChOpen" "fileUpload ?w = None"
    by (simp_all add: file_channel_opened_def set_file_def update_peer_def file_ready_def active_viewer_def
        open_viewer_def negotiating_viewer_def reserved_viewer_def connecting_viewer_def new_viewer_def sample_peer_def)
  have "viewer_step sample_platform (\<lambda>b. b) 0 (FileOpened 0) active_viewer = Some ?w"
    by (simp add: occurs_def active_fields sample_peer_def new_channel_def)
  then obtain b where b: "reachable_app sample_su b" "ap_session b = ?w"
    using session_event_reached [OF a(1), of "FileOpened 0" 0] a(2) by fastforce
  have "app_handle sample_su 0 0 (ChooseFile [] [] (600 * 1024 * 1024)) b
      = Some (with_session (sendFile [] [] (600 * 1024 * 1024)) b)" by simp
  from app_step_session [OF b(1) this] obtain c where c: "reachable_app sample_su c"
    "fileTransfer (ap_session c) = Some \<lparr>ts_errorCode = Some (lit ''TOO_LARGE''), ts_fileName = [],
       ts_progress = 0, ts_status = TransferError\<rparr>"
    using b(2) w by (auto simp: sendFile_def FILE_MAX_BYTES_def)
  then obtain card where card: "sc_transfer (render c) = Some card" "cr_status card = TransferError"
    by (simp add: transfer_card_def)
  then show ?thesis using transfer_cards_sound [OF c(1)] c by auto
qed

section \<open>What reaches the host\<close>

text \<open>
  C10. Whatever the user does in one step (captured input, shortcuts, pasting, the drawer), what
  is added to any peer's control channel are messages the control schema admits, while the
  message numbers are safe integers and the session id of the configuration is well-formed.
\<close>

theorem interface_input_is_protocol:
  assumes "reachable_app su a" "app_step su now perf e a = Some b" "\<And>x f. e \<noteq> SessionEvent x f"
    and "\<And>c. configRef (ap_session a) = Some c \<Longrightarrow> opaque_id (cc_sessionId c)"
    and "int (controlSequence (ap_session b)) \<le> MAX_SAFE_INTEGER" "0 \<le> now"
    and "i < length (viewerPeers (ap_session a))"
  shows "\<exists>fs. control_log (viewerPeers (ap_session b) ! i) = control_log (viewerPeers (ap_session a) ! i) @ fs
    \<and> (\<forall>f \<in> set fs. \<exists>m. f = TextFrame m \<and> schema_accepts ControlMessageSchema m)"
  using input_step_valid [OF assms] by blast

theorem interface_input_is_protocol_witness:
  "\<exists>a b fs. ap_session a = active_viewer \<and> app_step sample_su 0 0 (ClickCapture Toolbar) a = Some b
     \<and> control_log (viewerPeers (ap_session b) ! 0) = [sample_ping] @ fs
     \<and> (\<forall>f \<in> set fs. \<exists>m. f = TextFrame m \<and> schema_accepts ControlMessageSchema m)"
proof -
  obtain a where a: "reachable_app sample_su a" "ap_session a = active_viewer" using active_app by blast
  obtain b where b: "app_step sample_su 0 0 (ClickCapture Toolbar) a = Some b"
    using a(2) by (simp add: app_step_def active_control)
  have "ap_session b = emits sample_platform 0 (app_input a (ClickCapture Toolbar)) active_viewer"
    using input_step_session [OF a(1) b] a(2) by (simp add: CAPTURE_CHORD_def)
  then have "controlSequence (ap_session b) = 7"
    by (simp only: emits_counts [OF active_injects active_fields(4) active_peer sample_platform_fields(2)])
      (simp add: CAPTURE_CHORD_def active_fields)
  with interface_input_is_protocol [OF a(1) b, of 0] show ?thesis
    using a(2) b by (auto simp: active_fields sample_config_def sample_ids MAX_SAFE_INTEGER_def)
qed

text \<open>
  C11. Pasting a text is ordered. When the paste button is clicked the control channel is written
  a prefix of: the text as \<open>clipboard.set\<close> (cut to 16384 units), Control down, V down, V up,
  Control up, numbered in this order; all five unless a \<open>send\<close> throws, which takes the session
  offline.
\<close>

theorem text_paste_ordered:
  assumes "reachable_app su a" "textPanel a = Some p" "tp_text p \<noteq> []"
    and "app_step su now perf PasteText a = Some b" "configRef (ap_session a) = Some c"
    and "controlChannel (ap_session a) = Some i" "dc_ready (vp_control (viewerPeers (ap_session a) ! i)) = ChOpen"
  shows "\<exists>k \<le> 5. control_log (viewerPeers (ap_session b) ! i) = control_log (viewerPeers (ap_session a) ! i)
      @ take k (numbered_frames (cc_sessionId c) (controlSequence (ap_session a)) now
          [(''clipboard.set'', JObj [(lit ''text'', JStr (take 16384 (tp_text p)))]),
           key_message (''ControlLeft'', Down), key_message (''KeyV'', Down),
           key_message (''KeyV'', Up), key_message (''ControlLeft'', Up)])
    \<and> (k < 5 \<longrightarrow> pf_throws (su_platform su) (controlSequence (ap_session a) + k + 1)
        \<and> connectionState (ap_session b) = Offline)"
proof -
  have inject: "may_inject (ap_session a) i" "i < length (viewerPeers (ap_session a))" "\<not> userDisconnected (ap_session a)"
    using paste_may_inject [OF assms(1,2,6,7)] by simp_all
  have b: "ap_session b = emits (su_platform su) now (paste_messages (tp_text p)) (ap_session a)"
    using input_step_session [OF assms(1,4)] assms(2,3) by (simp add: paste_messages_def)
  have "length (paste_messages (tp_text p)) = 5" by (simp add: paste_messages_def PASTE_CHORD_def)
  then obtain k where k: "k \<le> 5" "logs (ap_session b) = (logs (ap_session a))[i := logs (ap_session a) ! i
        @ take k (numbered_frames (cc_sessionId c) (controlSequence (ap_session a)) now (paste_messages (tp_text p)))]"
      "k < 5 \<longrightarrow> pf_throws (su_platform su) (controlSequence (ap_session a) + k + 1) \<and> stateRef (ap_session b) = Offline"
    using emits_prefix [OF inject(1) assms(5) inject(2,3), of "paste_messages (tp_text p)" "su_platform su" now]
    unfolding b by auto
  have "viewer_inv (ap_session b)"
    using reachable_app_inv [OF reachable_app_step [OF assms(1,4)]] by (simp add: user_ok_def)
  then have "connectionState (ap_session b) = stateRef (ap_session b)" by (simp add: viewer_inv_def flags_ok_def)
  moreover have "control_log (viewerPeers (ap_session b) ! i) = control_log (viewerPeers (ap_session a) ! i)
      @ take k (numbered_frames (cc_sessionId c) (controlSequence (ap_session a)) now (paste_messages (tp_text p)))"
    using logs_nth [OF k(2) inject(2)] inject(2) by simp
  ultimately show ?thesis
    using k(1,3) by (intro exI [of _ k]) (simp add: paste_messages_def PASTE_CHORD_def CLIPBOARD_MAX_CHARS_def)
qed

theorem text_paste_ordered_witness:
  "\<exists>a b. ap_session a = active_viewer \<and> app_step sample_su 0 0 PasteText a = Some b
     \<and> length (control_log (viewerPeers (ap_session b) ! 0)) = 6"
proof -
  obtain a p where a: "reachable_app sample_su a" "ap_session a = active_viewer" "textPanel a = Some p" "tp_text p = lit ''hi''"
    using typed_app by blast
  have p: "tp_text p \<noteq> []" by (simp add: a(4) lit_Cons)
  obtain b where b: "app_step sample_su 0 0 PasteText a = Some b"
    using a(3) p by (simp add: app_step_def allowed_def)
  from text_paste_ordered [OF a(1,3) p b, of sample_config 0] obtain k where
    "k \<le> 5" "length (control_log (viewerPeers (ap_session b) ! 0)) = 1 + k" "\<not> k < 5"
    using a(2) by (auto simp: active_fields)
  then show ?thesis using a(2) b by auto
qed

text \<open>
  C12. An image is pasted after it is there. A step of the image panel's paste changes the
  session (it presses Control and V) only if the run heard the host say that the transfer of
  exactly that upload is on its clipboard.
\<close>

theorem image_paste_after_applied:
  assumes "app_run su es (new_app production c) = Some a" "app_step su now perf (PasteSettled k) a = Some b"
    and "ap_session b \<noteq> ap_session a"
  shows "\<exists>i. snd (snd (pastes a ! k)) = Some i \<and> (\<exists>t p j content fresh.
    (t, p, SessionEvent (ImageData j (TextData content)) fresh) \<in> set es
    \<and> says_applied (su_platform su) (iu_transferId (imageUploads (ap_session a) ! i)) content)"
proof -
  have "reachable_app su a" using assms(1) unfolding reachable_app_def by blast
  then obtain d where d: "app_handle su now perf (PasteSettled k) a = Some d" "ap_session b = ap_session d"
    using handled_step [OF _ assms(2)] by blast
  obtain i where i: "snd (snd (pastes a ! k)) = Some i"
      "(i, iu_transferId (imageUploads (ap_session a) ! i)) \<in> applied (ap_session a)"
    using paste_sends_applied [OF d(1)] assms(3) d(2) by auto
  have "applied (ap_session (new_app production c)) = {}" by (simp add: new_app_def new_viewer_def applied_def)
  then show ?thesis using run_hears_applied [OF assms(1) i(2)] i(1) by blast
qed

theorem image_paste_after_applied_witness:
  "\<exists>es production c a b k t p j content fresh. app_run sample_su es (new_app production c) = Some a
     \<and> app_step sample_su 0 0 (PasteSettled k) a = Some b \<and> controlSequence (ap_session b) = 6
     \<and> (t, p, SessionEvent (ImageData j (TextData content)) fresh) \<in> set es
     \<and> says_applied sample_platform sample_transfer content"
proof -
  obtain a k where a: "reachable_app sample_su a" "ap_session a = applied_viewer" "k < length (pastes a)"
      "snd (snd (pastes a ! k)) = Some 0"
    using pasted_app by blast
  obtain production c es where run: "app_run sample_su es (new_app production c) = Some a"
    using a(1) unfolding reachable_app_def by blast
  have outcome: "paste_outcome a k = ImageResolved"
    using a(2,4) by (auto simp: paste_outcome_def applied_fields split: prod.split)
  obtain b where b: "app_step sample_su 0 0 (PasteSettled k) a = Some b"
    using a(3) outcome by (simp add: app_step_def)
  have "ap_session b = emits sample_platform 0 (map key_message PASTE_CHORD) applied_viewer"
    using input_step_session [OF a(1) b] a(2) outcome by (simp add: PASTE_CHORD_def)
  then have count: "controlSequence (ap_session b) = 6"
    by (simp only: emits_counts [OF applied_fields(2,3,5) sample_platform_fields(2)])
      (simp add: PASTE_CHORD_def applied_fields)
  then have "ap_session b \<noteq> ap_session a" using a(2) by (auto simp: applied_fields)
  from image_paste_after_applied [OF run b this] obtain t p j content fresh where
    "(t, p, SessionEvent (ImageData j (TextData content)) fresh) \<in> set es"
    "says_applied sample_platform sample_transfer content"
    using a(2,4) by (auto simp: applied_fields)
  with run b count show ?thesis by blast
qed

text \<open>
  The release at the end of control reaches nobody. When a step ends control, the capture is
  detached, and the release its cleanup asks for changes nothing: the session is as the step's
  own handler left it.
\<close>

theorem control_end_sends_nothing:
  assumes "reachable_app su a" "app_handle su now perf e a = Some c" "app_step su now perf e a = Some b"
  shows "ap_session b = ap_session c \<and> (isControlActive (ap_session a) \<and> \<not> isControlActive (ap_session c) \<longrightarrow>
    inputCapture a \<noteq> None \<and> inputCapture b = None)"
proof -
  obtain d where "app_handle su now perf e a = Some d" "ap_session b = ap_session d"
    by (rule handled_step [OF assms(1,3)])
  then have b: "ap_session b = ap_session c" using assms(2) by simp
  have "app_inv a" "app_inv b"
    using reachable_app_inv [OF assms(1)] reachable_app_inv [OF reachable_app_step [OF assms(1,3)]] by simp_all
  then show ?thesis using b by (auto simp: app_inv_def)
qed

theorem control_end_sends_nothing_witness:
  "\<exists>a b. ap_session a = active_viewer \<and> app_step sample_su 0 0 ClickDisconnect a = Some b
     \<and> ap_session b = disconnect active_viewer \<and> inputCapture b = None"
proof -
  obtain a where a: "reachable_app sample_su a" "ap_session a = active_viewer" using active_app by blast
  have h: "app_handle sample_su 0 0 ClickDisconnect a = Some (with_session disconnect a)"
    using a(2) by (simp add: active_control)
  obtain b where b: "app_step sample_su 0 0 ClickDisconnect a = Some b"
    using h by (simp add: app_step_def)
  have "quiet (disconnect active_viewer)"
    using disconnect_user_ok [of active_viewer] reachable_app_inv [OF a(1)] a(2)
    by (simp add: active_control user_ok_def)
  then have "\<not> isControlActive (disconnect active_viewer)"
    using quiet_facts(4) by (simp add: isControlActive_def)
  then show ?thesis
    using control_end_sends_nothing [OF a(1) h b] a(2) b active_control by auto
qed

section \<open>Images\<close>

text \<open>
  A normalized image can be sent. If the canvas gives PNGs, the panel's normalization of any
  image gives one the session does not refuse as invalid, unless it is empty; and a normalized
  image is normalized to itself.
\<close>

theorem normalized_image_sendable:
  assumes "normalizeClipboardImage im picture = Inr png"
    and "\<And>b q. im_png im b = Some q \<Longrightarrow> bl_type q = lit ''image/png''" "bl_data png \<noteq> []"
  shows "sendRemoteClipboardImage (bl_type png) (int (bl_size png)) v \<noteq> Inl ''INVALID_IMAGE''
    \<and> normalizeClipboardImage im png = Inr png"
proof -
  have png: "bl_type png = lit ''image/png''" "bl_size png \<le> IMAGE_MAX_BYTES" "bl_size png > 0"
    using normalized_blob [OF assms(1)] assms(2,3) by (auto simp: bl_size_def)
  then have "int (bl_size png) \<le> CLIPBOARD_IMAGE_MAX_BYTES"
    by (simp add: IMAGE_MAX_BYTES_def CLIPBOARD_IMAGE_MAX_BYTES_def)
  then show ?thesis using png normalize_png by (auto simp: sendRemoteClipboardImage_def)
qed

theorem normalized_image_sendable_witness:
  "sendRemoteClipboardImage (lit ''image/png'') 1 active_viewer \<noteq> Inl ''INVALID_IMAGE''"
proof -
  have "normalizeClipboardImage sample_images \<lparr>bl_type = lit ''image/jpeg'', bl_data = []\<rparr>
      = Inr \<lparr>bl_type = lit ''image/png'', bl_data = [1]\<rparr>"
    by (simp add: normalizeClipboardImage_def canvasToPng_def sample_images_def js_starts_with_def lit_def
        bl_size_def IMAGE_MAX_PIXELS_def IMAGE_MAX_BYTES_def)
  from normalized_image_sendable [OF this] show ?thesis by (simp add: sample_images_def bl_size_def)
qed

section \<open>Corner cases\<close>

text \<open>
  The drawer's reconnect button shows whenever control is not active, also in a session that is
  only viewed; there it does nothing, since the hook connects only when offline.
\<close>

lemma drawer_reconnect_does_nothing:
  assumes "reachable_app su a" "connectionState (ap_session a) \<noteq> Offline"
    and "app_handle su now perf (ClickConnect Drawer) a = Some b"
  shows "b = a"
proof -
  have "viewer_inv (ap_session a)" using reachable_app_inv [OF assms(1)] by (simp add: user_ok_def)
  then have "stateRef (ap_session a) \<noteq> Offline" using assms(2) by (simp add: viewer_inv_def flags_ok_def)
  then show ?thesis using assms(3) by (simp add: with_session_def connectInternal_def)
qed

text \<open>Closing the text panel opens the image panel while images are kept.\<close>

lemma closing_panel_reveals_images:
  assumes "reachable_app su a" "clipboardPanelOpen a" "clipboardImages (ap_session a) \<noteq> []"
    and "app_step su now perf (ClickTextClipboard Toolbar) a = Some b"
  shows "imageClipboardPanelOpen b \<and> \<not> clipboardPanelOpen b"
proof -
  let ?c = "toggleTextClipboardPanel a"
  have b: "b = settle su now perf (ClickTextClipboard Toolbar) a ?c"
    using assms(4) by (auto simp: app_step_def)
  have "viewer_inv (ap_session a)" using reachable_app_inv [OF assms(1)] by (simp add: user_ok_def)
  then have "\<not> clipboardPanelOpen b"
    unfolding b using assms(2) by (simp add: panels_settled toggleTextClipboardPanel_def)
  moreover have "imageClipboardPanelOpen b = imageClipboardPanelOpen (reveal_images a ?c)"
    unfolding b by (rule image_panel_settled)
  moreover have "imageClipboardPanelOpen (reveal_images a ?c)"
    using assms(2,3) by (simp add: reveal_images_def toggleTextClipboardPanel_def)
  ultimately show ?thesis by simp
qed

text \<open>A size is shown within a twentieth of its unit.\<close>

fun unit_bytes :: "byte_unit \<Rightarrow> rat" where
  "unit_bytes Bytes = 1"
| "unit_bytes KB = 1024"
| "unit_bytes MB = 1048576"
| "unit_bytes GB = 1073741824"

lemma scale_keeps: "fst (scale_bytes n u) * unit_bytes (snd (scale_bytes n u)) = n * unit_bytes u"
proof (induction n u rule: scale_bytes.induct)
  case (1 n u)
  show ?case
  proof (cases "n \<ge> 1024 \<and> u \<noteq> GB")
    case True
    then have "scale_bytes n u = scale_bytes (n / 1024) (next_unit u)" by (subst scale_bytes.simps) simp
    moreover have "n / 1024 * unit_bytes (next_unit u) = n * unit_bytes u" using True by (cases u) simp_all
    ultimately show ?thesis using 1 [OF True] by (simp only:)
  next
    case False
    then have "scale_bytes n u = (n, u)" using scale_bytes.simps [of n u] by (simp only: if_False)
    then show ?thesis by simp
  qed
qed

lemma toFixed1_close: "\<bar>toFixed1 x - x\<bar> \<le> 1 / 20"
proof -
  define m where "m = \<lfloor>x * 10 + 1 / 2\<rfloor>"
  have "of_int m \<le> x * 10 + 1 / 2" "x * 10 + 1 / 2 < of_int m + 1"
    unfolding m_def by linarith+
  moreover have "toFixed1 x = of_int m / 10" by (simp add: toFixed1_def m_def)
  ultimately have "toFixed1 x - x \<le> 1 / 20" "- (toFixed1 x - x) \<le> 1 / 20" by linarith+
  then show ?thesis by (rule abs_leI)
qed

lemma format_bytes_close:
  "\<bar>fst (formatBytes n) * unit_bytes (snd (formatBytes n)) - of_nat n\<bar> \<le> unit_bytes (snd (formatBytes n)) / 20"
proof (cases "n < 1024")
  case False
  obtain x u where xu: "scale_bytes (of_nat n / 1024) KB = (x, u)" by force
  then have "x * unit_bytes u = of_nat n" using scale_keeps [of "of_nat n / 1024" KB] by simp
  then have "toFixed1 x * unit_bytes u - of_nat n = (toFixed1 x - x) * unit_bytes u" by (simp add: left_diff_distrib)
  moreover have "unit_bytes u > 0" by (cases u) simp_all
  moreover from this have "\<bar>toFixed1 x - x\<bar> * unit_bytes u \<le> 1 / 20 * unit_bytes u"
    using toFixed1_close [of x] by (intro mult_right_mono) simp_all
  ultimately show ?thesis using False xu by (simp add: formatBytes_def abs_mult)
qed (simp add: formatBytes_def)

end
