(* ===== verification/TicketService.thy ===== *)
theory TicketService
  imports AccessTicket
begin

text \<open>
  The ticket function over the requests of one instance (\<open>session/ticket.ts\<close>): the module-level
  \<open>keySetCache\<close>, which outlives a request, and that it changes no answer.
\<close>

section \<open>The cache\<close>

text \<open>\<open>created\<close> is the issuers \<open>createAccessKeySet\<close> made a key set for, in their order.\<close>

record 'k key_cache =
  keySetCache :: "jstring \<rightharpoonup> 'k"
  created :: "jstring list"

definition new_key_cache :: "'k key_cache" where
  "new_key_cache = \<lparr>keySetCache = Map.empty, created = []\<rparr>"

definition keySetFor :: "'k jose \<Rightarrow> jstring \<Rightarrow> 'k key_cache \<Rightarrow> 'k option \<times> 'k key_cache" where
  "keySetFor j issuer s =
     (case keySetCache s issuer of
        Some keySet \<Rightarrow> (Some keySet, s)
      | None \<Rightarrow>
          (case remote_keys j issuer of
             None \<Rightarrow> (None, s)
           | Some keySet \<Rightarrow>
               (Some keySet, \<lparr>keySetCache = (keySetCache s)(issuer \<mapsto> keySet), created = created s @ [issuer]\<rparr>)))"

section \<open>Serving\<close>

record ticket_call =
  tk_now :: int
  tk_session :: "byte list"
  tk_nonce :: "byte list"
  tk_request :: http_request
  tk_env :: ticket_env

text \<open>
  \<open>onRequestGet\<close> with the resolver the cache gives, which is asked once the configuration and the
  assertion are there.
\<close>

definition serve :: "'k jose \<Rightarrow> mac \<Rightarrow> ticket_call \<Rightarrow> 'k key_cache \<Rightarrow> json_response \<times> 'k key_cache" where
  "serve j mac c s =
     (onRequestGet (j\<lparr>remote_keys := \<lambda>issuer. fst (keySetFor j issuer s)\<rparr>) mac
        (tk_now c) (tk_session c) (tk_nonce c) (tk_request c) (tk_env c),
      case (readConfig (tk_env c), readAccessToken (tk_request c)) of
        (Some config, Some _) \<Rightarrow> snd (keySetFor j (au_issuer config) s)
      | _ \<Rightarrow> s)"

fun serve_all :: "'k jose \<Rightarrow> mac \<Rightarrow> ticket_call list \<Rightarrow> 'k key_cache \<Rightarrow> json_response list \<times> 'k key_cache" where
  "serve_all j mac [] s = ([], s)"
| "serve_all j mac (c # cs) s =
     (case serve j mac c s of
        (r, s1) \<Rightarrow> (case serve_all j mac cs s1 of (rs, s2) \<Rightarrow> (r # rs, s2)))"

section \<open>The cache is valid\<close>

text \<open>Every entry is the issuer's own key set, and was created once.\<close>

definition valid_cache :: "'k jose \<Rightarrow> 'k key_cache \<Rightarrow> bool" where
  "valid_cache j s \<longleftrightarrow> (\<forall>issuer keySet. keySetCache s issuer = Some keySet \<longrightarrow> remote_keys j issuer = Some keySet)
     \<and> dom (keySetCache s) = set (created s) \<and> distinct (created s)"

lemma new_key_cache_valid: "valid_cache j new_key_cache"
  by (simp add: valid_cache_def new_key_cache_def)

lemma keySetFor_valid:
  assumes "valid_cache j s"
  shows "fst (keySetFor j issuer s) = remote_keys j issuer \<and> valid_cache j (snd (keySetFor j issuer s))"
  using assms by (auto simp: keySetFor_def valid_cache_def split: option.split)

lemma serve_valid:
  assumes "valid_cache j s"
  shows "fst (serve j mac c s) = onRequestGet j mac (tk_now c) (tk_session c) (tk_nonce c) (tk_request c) (tk_env c)
    \<and> valid_cache j (snd (serve j mac c s))"
proof -
  have "j\<lparr>remote_keys := \<lambda>issuer. fst (keySetFor j issuer s)\<rparr> = j"
    using keySetFor_valid [OF assms] by simp
  then show ?thesis
    using keySetFor_valid [OF assms] assms by (simp add: serve_def split: option.split)
qed

lemma serve_all_valid:
  assumes "valid_cache j s"
  shows "fst (serve_all j mac cs s)
      = map (\<lambda>c. onRequestGet j mac (tk_now c) (tk_session c) (tk_nonce c) (tk_request c) (tk_env c)) cs
    \<and> valid_cache j (snd (serve_all j mac cs s))"
  using assms
proof (induction cs arbitrary: s)
  case (Cons c cs)
  show ?case
    using serve_valid [OF Cons.prems, of mac c] Cons.IH [of "snd (serve j mac c s)"]
    by (auto split: prod.splits)
qed simp

text \<open>
  The cache is transparent. Over any requests an instance answers each as it would with a
  fresh key set, and makes at most one key set per issuer.
\<close>

theorem key_cache_transparent:
  "fst (serve_all j mac calls new_key_cache)
     = map (\<lambda>c. onRequestGet j mac (tk_now c) (tk_session c) (tk_nonce c) (tk_request c) (tk_env c)) calls
   \<and> distinct (created (snd (serve_all j mac calls new_key_cache)))"
  using serve_all_valid [OF new_key_cache_valid] unfolding valid_cache_def by blast

end
