(* ===== verification/Provisioning.thy ===== *)
theory Provisioning
  imports Worker ViewerConfig Samples
begin

text \<open>
  The scripts that hand out credentials (\<open>scripts/mint-device-token.ts\<close>,
  \<open>mint-viewer-ticket.ts\<close>, \<open>dev-connect.ts\<close>): what they read, what they refuse, the tokens and
  the address they make, and which process the launcher replaces. Environment variables and
  arguments are functions and lists of strings, the clock and the random bytes arguments;
  \<open>crypto.randomBytes(18).toString('base64url')\<close> is \<open>opaqueId\<close>'s encoding. \<open>path.resolve\<close> and
  the operating system's answers are parameters.
\<close>

type_synonym process_env = "string \<Rightarrow> jstring option"

datatype script_error =
    MissingVariable string
  | DaysOutOfRange
  | Usage
  | SecretNotFound
  | TokenError token_error

section \<open>Numbers\<close>

text \<open>
  \<open>Number(s)\<close> where it is finite: white space around it is dropped, the empty text is 0; a
  prefixed binary, octal or hexadecimal integer, or a signed decimal.
\<close>

definition radix_value :: "nat \<Rightarrow> jstring \<Rightarrow> rat option" where
  "radix_value base ds =
     (if ds = [] \<or> list_ex (\<lambda>u. case hex_value u of Some d \<Rightarrow> d \<ge> base | None \<Rightarrow> True) ds then None
      else Some (of_nat (foldl (\<lambda>n u. n * base + the (hex_value u)) 0 ds)))"

definition decimal_value :: "jstring \<Rightarrow> rat option" where
  "decimal_value s =
     (let ds = takeWhile is_digit_unit s;
          r1 = dropWhile is_digit_unit s;
          dot = (r1 \<noteq> [] \<and> hd r1 = 46);
          fs = (if dot then takeWhile is_digit_unit (tl r1) else []);
          r2 = (if dot then dropWhile is_digit_unit (tl r1) else r1)
      in if ds = [] \<and> fs = [] then None
         else (case parse_exponent r2 of
                 Some (p, []) \<Rightarrow> Some (of_nat (digits_value (ds @ fs)) / 10 ^ length fs * p)
               | _ \<Rightarrow> None))"

fun js_number :: "jstring \<Rightarrow> rat option" where
  "js_number s =
     (case js_trim s of
        [] \<Rightarrow> Some 0
      | u # r \<Rightarrow>
          if u = 48 \<and> r \<noteq> [] \<and> (hd r = 120 \<or> hd r = 88) then radix_value 16 (tl r)
          else if u = 48 \<and> r \<noteq> [] \<and> (hd r = 111 \<or> hd r = 79) then radix_value 8 (tl r)
          else if u = 48 \<and> r \<noteq> [] \<and> (hd r = 98 \<or> hd r = 66) then radix_value 2 (tl r)
          else if u = 45 then map_option uminus (decimal_value r)
          else if u = 43 then decimal_value r
          else decimal_value (u # r))"

section \<open>The device token\<close>

definition requireEnv :: "process_env \<Rightarrow> string \<Rightarrow> script_error + jstring" where
  "requireEnv env name = (if truthy (env name) then Inr (the (env name)) else Inl (MissingVariable name))"

definition random_id :: "string \<Rightarrow> byte list \<Rightarrow> jstring" where
  "random_id prefix bytes = lit prefix @ 95 # encodeBase64Url bytes"

definition token_days :: "process_env \<Rightarrow> script_error + rat" where
  "token_days env =
     (case js_number (case env ''MIRROR_DEVICE_TOKEN_DAYS'' of Some t \<Rightarrow> t | None \<Rightarrow> lit ''90'') of
        None \<Rightarrow> Inl DaysOutOfRange
      | Some days \<Rightarrow> if days < 1 \<or> days > 400 then Inl DaysOutOfRange else Inr days)"

text \<open>The values the script prints: the device, the session and the token.\<close>

definition mint_device_token ::
  "mac \<Rightarrow> int \<Rightarrow> byte list \<Rightarrow> byte list \<Rightarrow> process_env \<Rightarrow> script_error + (jstring \<times> jstring \<times> jstring)" where
  "mint_device_token mac now sessionBytes nonceBytes env =
     (case requireEnv env ''DEVICE_AUTH_SECRET'' of
        Inl e \<Rightarrow> Inl e
      | Inr secret \<Rightarrow>
          (case requireEnv env ''MIRROR_DEVICE_ID'' of
             Inl e \<Rightarrow> Inl e
           | Inr deviceId \<Rightarrow>
               (case token_days env of
                  Inl e \<Rightarrow> Inl e
                | Inr days \<Rightarrow>
                    (let sub = (case env ''MIRROR_DEVICE_TOKEN_SUB'' of
                           Some s \<Rightarrow> s | None \<Rightarrow> lit ''device:'' @ deviceId);
                         sessionId = random_id ''session'' sessionBytes
                     in case createDeviceToken mac now
                            \<lparr>do_deviceId = deviceId, do_lifetimeSeconds = Some \<lfloor>days * 24 * 60 * 60\<rfloor>,
                             do_nonce = random_id ''nonce'' nonceBytes, do_nowSeconds = None,
                             do_secret = secret, do_sessionId = sessionId, do_sub = sub\<rparr> of
                          Inl e \<Rightarrow> Inl (TokenError e)
                        | Inr token \<Rightarrow> Inr (deviceId, sessionId, token)))))"

section \<open>The development ticket and its address\<close>

text \<open>
  The secret of \<open>apps/signaling/.dev.vars\<close>, as \<open>/^DEV_TICKET_SECRET=(.+)$/m\<close> finds it: the rest of
  the first line with that name and something after it.
\<close>

definition line_end :: "code_unit \<Rightarrow> bool" where
  "line_end u \<longleftrightarrow> u = 10 \<or> u = 13 \<or> u = 8232 \<or> u = 8233"

function text_lines :: "jstring \<Rightarrow> jstring list" where
  "text_lines s =
     (case dropWhile (\<lambda>u. \<not> line_end u) s of
        [] \<Rightarrow> [s]
      | _ # r \<Rightarrow> takeWhile (\<lambda>u. \<not> line_end u) s # text_lines r)"
  by pat_completeness auto

termination
proof (relation "measure length")
  fix s :: jstring and u r
  assume "dropWhile (\<lambda>u. \<not> line_end u) s = u # r"
  then show "(r, s) \<in> measure length"
    using length_dropWhile_le [of "\<lambda>u. \<not> line_end u" s] by simp
qed simp

declare text_lines.simps [simp del]

definition secret_line :: "jstring \<Rightarrow> bool" where
  "secret_line l \<longleftrightarrow> js_starts_with (lit ''DEV_TICKET_SECRET='') l \<and> length l > 18"

definition readSecret :: "process_env \<Rightarrow> jstring \<Rightarrow> script_error + jstring" where
  "readSecret env devVars =
     (if truthy (env ''DEV_TICKET_SECRET'') then Inr (the (env ''DEV_TICKET_SECRET''))
      else
        (case find secret_line (text_lines devVars) of
           Some l \<Rightarrow> Inr (js_trim (drop 18 l))
         | None \<Rightarrow> Inl SecretNotFound))"

text \<open>The query parameters of the viewer's address.\<close>

definition viewer_params :: "jstring \<Rightarrow> jstring \<Rightarrow> jstring \<Rightarrow> jstring \<Rightarrow> (string \<times> jstring) list" where
  "viewer_params deviceId sessionId ticket ws =
     [(''deviceId'', deviceId), (''sessionId'', sessionId), (''ticket'', ticket), (''ws'', ws)]"

definition development_ticket ::
  "mac \<Rightarrow> int \<Rightarrow> jstring \<Rightarrow> jstring \<Rightarrow> jstring \<Rightarrow> role \<Rightarrow> byte list \<Rightarrow> script_error + jstring" where
  "development_ticket mac now secret deviceId sessionId role nonceBytes =
     (case createDevelopmentTicket mac now
             \<lparr>to_deviceId = deviceId, to_lifetimeSeconds = None, to_nowSeconds = None,
              to_nonce = random_id ''nonce'' nonceBytes, to_role = role, to_secret = secret,
              to_sessionId = sessionId\<rparr> of
        Inl e \<Rightarrow> Inl (TokenError e)
      | Inr ticket \<Rightarrow> Inr ticket)"

definition mint_viewer_ticket ::
  "mac \<Rightarrow> int \<Rightarrow> byte list \<Rightarrow> process_env \<Rightarrow> jstring \<Rightarrow> jstring list \<Rightarrow>
   script_error + (jstring \<times> (string \<times> jstring) list)" where
  "mint_viewer_ticket mac now nonceBytes env devVars args =
     (let deviceId = (if 0 < length args then args ! 0 else []);
          sessionId = (if 1 < length args then args ! 1 else []);
          host = (if 2 < length args then args ! 2 else lit ''localhost'')
      in if deviceId = [] \<or> sessionId = [] then Inl Usage
         else
           (case readSecret env devVars of
              Inl e \<Rightarrow> Inl e
            | Inr secret \<Rightarrow>
                (case development_ticket mac now secret deviceId sessionId Viewer nonceBytes of
                   Inl e \<Rightarrow> Inl e
                 | Inr ticket \<Rightarrow>
                     Inr (lit ''http://'' @ host @ lit '':5173/'',
                          viewer_params deviceId sessionId ticket (lit ''ws://'' @ host @ lit '':8787/ws'')))))"

section \<open>The development launcher\<close>

text \<open>The pair of tickets \<open>dev-connect\<close> hands to the agent and to the viewer.\<close>

record dev_random =
  dr_device :: "byte list"
  dr_session :: "byte list"
  dr_agentNonce :: "byte list"
  dr_viewerNonce :: "byte list"

record dev_pair =
  dp_deviceId :: jstring
  dp_sessionId :: jstring
  dp_agentTicket :: jstring
  dp_viewerTicket :: jstring

definition dev_tickets :: "mac \<Rightarrow> int \<Rightarrow> dev_random \<Rightarrow> jstring \<Rightarrow> script_error + dev_pair" where
  "dev_tickets mac now random secret =
     (let deviceId = random_id ''device'' (dr_device random);
          sessionId = random_id ''session'' (dr_session random)
      in case development_ticket mac now secret deviceId sessionId Agent (dr_agentNonce random) of
           Inl e \<Rightarrow> Inl e
         | Inr agentTicket \<Rightarrow>
             (case development_ticket mac now secret deviceId sessionId Viewer (dr_viewerNonce random) of
                Inl e \<Rightarrow> Inl e
              | Inr viewerTicket \<Rightarrow>
                  Inr \<lparr>dp_deviceId = deviceId, dp_sessionId = sessionId, dp_agentTicket = agentTicket,
                       dp_viewerTicket = viewerTicket\<rparr>))"

text \<open>The record of the agent the launcher started, in its file.\<close>

record managed_agent =
  ma_executable :: jstring
  ma_pid :: int
  ma_workspaceRoot :: jstring

definition readManagedAgent :: "jstring option \<Rightarrow> managed_agent option" where
  "readManagedAgent pidFile =
     (case Option.bind pidFile json_parse of
        None \<Rightarrow> None
      | Some value \<Rightarrow>
          (case (as_integer (jget value ''pid''), as_string (jget value ''executable''),
                 as_string (jget value ''workspaceRoot'')) of
             (Some pid, Some executable, Some dir) \<Rightarrow>
               if \<bar>pid\<bar> > MAX_SAFE_INTEGER \<or> pid \<le> 0 then None
               else Some \<lparr>ma_executable = executable, ma_pid = pid, ma_workspaceRoot = dir\<rparr>
           | _ \<Rightarrow> None))"

text \<open>
  What the system says of a process: that there is none, nothing it could read, or the executable
  and the command line of the one with that number.
\<close>

datatype inspection = NoProcess | NotInspected | Process "jstring option" "jstring option"

datatype stop_error = Unrecognized | NotWindows | Unverified | NotTheAgent | NotStopped

text \<open>The processes \<open>taskkill\<close> was asked to stop are kept in their order.\<close>

record launcher =
  la_pidFile :: "jstring option"
  la_killed :: "int list"

definition AGENT_MODULE :: string where
  "AGENT_MODULE = ''-m mirror_host_agent''"

fun js_includes :: "jstring \<Rightarrow> jstring \<Rightarrow> bool" where
  "js_includes [] part = (part = [])"
| "js_includes (u # s) part = (js_starts_with part (u # s) \<or> js_includes s part)"

definition stopPreviousManagedAgent ::
  "(jstring \<Rightarrow> jstring) \<Rightarrow> bool \<Rightarrow> (int \<Rightarrow> inspection) \<Rightarrow> (int \<Rightarrow> bool) \<Rightarrow> jstring \<Rightarrow> jstring \<Rightarrow>
   launcher \<Rightarrow> (stop_error + unit) \<times> launcher" where
  "stopPreviousManagedAgent windowsPath windows inspect taskkill workspaceRoot expectedPython l =
     (case readManagedAgent (la_pidFile l) of
        None \<Rightarrow> (Inr (), l\<lparr>la_pidFile := None\<rparr>)
      | Some r \<Rightarrow>
          if windowsPath (ma_workspaceRoot r) \<noteq> windowsPath workspaceRoot
             \<or> windowsPath (ma_executable r) \<noteq> windowsPath expectedPython
          then (Inl Unrecognized, l)
          else if \<not> windows then (Inl NotWindows, l)
          else
            (case inspect (ma_pid r) of
               NoProcess \<Rightarrow> (Inr (), l\<lparr>la_pidFile := None\<rparr>)
             | NotInspected \<Rightarrow> (Inl Unverified, l)
             | Process executable commandLine \<Rightarrow>
                 if windowsPath (case executable of Some e \<Rightarrow> e | None \<Rightarrow> []) \<noteq> windowsPath expectedPython
                    \<or> \<not> (case commandLine of Some c \<Rightarrow> js_includes c (lit AGENT_MODULE) | None \<Rightarrow> False)
                 then (Inl NotTheAgent, l)
                 else if \<not> taskkill (ma_pid r) then (Inl NotStopped, l\<lparr>la_killed := la_killed l @ [ma_pid r]\<rparr>)
                 else (Inr (), \<lparr>la_pidFile = None, la_killed = la_killed l @ [ma_pid r]\<rparr>)))"

text \<open>
  The launcher only stops the process its own file names, and only if that process runs this
  workspace's Python with the agent's module.
\<close>

lemma stops_only_the_agent:
  assumes "stopPreviousManagedAgent windowsPath windows inspect taskkill workspaceRoot expectedPython l = (result, l')"
    and "la_killed l' \<noteq> la_killed l"
  shows "\<exists>r executable c. readManagedAgent (la_pidFile l) = Some r \<and> la_killed l' = la_killed l @ [ma_pid r]
    \<and> windowsPath (ma_workspaceRoot r) = windowsPath workspaceRoot
    \<and> inspect (ma_pid r) = Process executable (Some c) \<and> js_includes c (lit AGENT_MODULE)
    \<and> windowsPath (case executable of Some e \<Rightarrow> e | None \<Rightarrow> []) = windowsPath expectedPython"
  using assms
  by (auto simp: stopPreviousManagedAgent_def split: option.splits if_splits inspection.splits)

section \<open>Identifiers and tickets that verify\<close>

lemma prefix_units:
  "list_all is_id_unit (lit ''device'')" "list_all is_id_unit (lit ''session'')" "list_all is_id_unit (lit ''nonce'')"
  by code_simp+

lemma random_id_opaque:
  assumes "length bytes = 9 \<or> length bytes = 18" "prefix \<in> {''device'', ''session'', ''nonce''}"
  shows "opaque_id (random_id prefix bytes)"
proof -
  have "\<forall>u \<in> set (lit prefix). is_id_unit u"
    using assms(2) prefix_units by (auto simp: list_all_iff)
  moreover have "length (encodeBase64Url bytes) = 12 \<or> length (encodeBase64Url bytes) = 24"
    using assms(1) by (auto simp: length_encodeBase64Url)
  ultimately show ?thesis
    using assms(2) encodeBase64Url_units [of _ bytes] is_id_unit_95
    by (auto simp: opaque_id_def random_id_def)
qed

lemma development_ticket_verifies:
  assumes "development_ticket mac now secret deviceId sessionId role nonceBytes = Inr ticket"
    and "opaque_id deviceId" "opaque_id sessionId" "length nonceBytes = 9 \<or> length nonceBytes = 18"
    and "\<And>k m. mac k m \<noteq> []" "now \<le> now2 + 30000" "now2 \<le> now + 299000"
  shows "\<exists>payload. verifyDevelopmentTicket mac now2 None None secret ticket = Some payload
    \<and> payload_role payload = role \<and> ticket \<noteq> [] \<and> secret \<noteq> []
    \<and> payload_context role payload = \<lparr>rc_deviceId = deviceId, rc_role = role, rc_sessionId = sessionId,
         rc_subject = lit ''local-development-user''\<rparr>"
proof -
  define o' where "o' = \<lparr>to_deviceId = deviceId, to_lifetimeSeconds = None, to_nowSeconds = None,
    to_nonce = random_id ''nonce'' nonceBytes, to_role = role, to_secret = secret, to_sessionId = sessionId\<rparr>"
  have o': "to_deviceId o' = deviceId" "to_nonce o' = random_id ''nonce'' nonceBytes" "to_sessionId o' = sessionId"
      "to_secret o' = secret" "to_role o' = role" "to_nowSeconds o' = None" "to_lifetimeSeconds o' = None"
    by (simp_all add: o'_def)
  have "createDevelopmentTicket mac now o' = Inr ticket"
    using assms(1) by (simp add: development_ticket_def o'_def split: sum.splits)
  then obtain l where l: "l = 300" "seal_token mac secret (JObj (developmentPayload o' (now div 1000) l)) = Inr ticket"
    by (rule created_development_ticket) (simp add: o' now_seconds_def)
  let ?v = "JObj (developmentPayload o' (now div 1000) l)"
  have "isDevelopmentTicketPayload ?v \<and> role_admitted None ?v"
    using assms(2,3) random_id_opaque [OF assms(4), of "''nonce''"] developmentPayload_admitted [of o']
    by (simp add: o' role_admitted_def)
  moreover have "now div 1000 \<le> now2 div 1000 + 30" "now2 div 1000 < now div 1000 + 300"
    using assms(6,7) by linarith+
  then have "time_valid MAX_TICKET_LIFETIME_SECONDS (now2 div 1000) ?v"
    by (simp add: developmentPayload_times l(1) MAX_TICKET_LIFETIME_SECONDS_def)
  ultimately have "verifyDevelopmentTicket mac 0 None (Some (now2 div 1000)) secret ticket = Some ?v"
    by (rule dev_ticket.verify_sealed [OF l(2) developmentPayload_wf assms(5)])
  then have v: "verifyDevelopmentTicket mac now2 None None secret ticket = Some ?v"
    by (subst development_clock) (simp add: now_seconds_def)
  have "open_token mac secret ticket = Some ?v"
    using v by (auto simp: verifyDevelopmentTicket_def Let_def split: option.splits if_splits)
  then have "ticket \<noteq> [] \<and> secret \<noteq> []" by (rule opened_not_empty)
  moreover have "payload_role ?v = role"
    by (cases role) (simp_all add: payload_role_def text_field_def string_of_def developmentPayload_def o')
  moreover have "payload_context role ?v = \<lparr>rc_deviceId = deviceId, rc_role = role, rc_sessionId = sessionId,
         rc_subject = lit ''local-development-user''\<rparr>"
    by (simp add: payload_context_def text_field_def string_of_def developmentPayload_def o')
  ultimately show ?thesis using v by blast
qed

text \<open>A development ticket is made when the secret has 32 units and the time is in range.\<close>

lemma development_ticket_made:
  assumes "32 \<le> length secret" "0 \<le> now" "now < 2 ^ 53"
  shows "\<exists>ticket. development_ticket mac now secret deviceId sessionId role nonceBytes = Inr ticket"
proof -
  define o' where "o' = \<lparr>to_deviceId = deviceId, to_lifetimeSeconds = None, to_nowSeconds = None,
      to_nonce = random_id ''nonce'' nonceBytes, to_role = role, to_secret = secret, to_sessionId = sessionId\<rparr>"
  have "0 \<le> now div 1000" "now div 1000 < 2 ^ 53" using assms(2,3) by simp_all
  then have "\<bar>now div 1000\<bar> < 10 ^ 21" "\<bar>now div 1000 + 300\<bar> < 10 ^ 21" by simp_all
  then have "num_text (of_int (now div 1000)) \<noteq> None" "num_text (of_int (now div 1000 + 300)) \<noteq> None"
    by (simp_all only: num_text_int) simp_all
  then have "\<exists>text. json_text (JObj (developmentPayload o' (now div 1000) 300)) = Some text"
    by (auto simp: developmentPayload_def)
  then have "\<exists>ticket. createDevelopmentTicket mac now o' = Inr ticket"
    using assms(1)
    by (simp add: createDevelopmentTicket_def Let_def now_seconds_def o'_def MAX_TICKET_LIFETIME_SECONDS_def seal_token_Inr)
  then show ?thesis by (auto simp: development_ticket_def o'_def)
qed

section \<open>What is minted opens a room\<close>

lemma dev_upgrade_accepts:
  assumes "hr_hostname request \<in> lit ` set LOCAL_HOSTNAMES" "DEV_TICKET_SECRET environment = Some secret"
    and "secret \<noteq> []" "search_param request ''ticket'' = Some ticket" "ticket \<noteq> []"
    and "verifyDevelopmentTicket mac now None None secret ticket = Some payload" "payload_role payload = role"
    and "role = Viewer \<Longrightarrow> \<exists>origin. hr_headers request ''origin'' = Some origin \<and> origin \<in> lit ` set LOCAL_VIEWER_ORIGINS"
    and "role = Agent \<Longrightarrow> hr_headers request ''origin'' = None"
  shows "handleWebSocketUpgrade rt mac now environment request rooms
    = forwardToRoom rt (of_int now) request (payload_context role payload) rooms"
proof (cases role)
  case Viewer
  then obtain origin where origin: "hr_headers request ''origin'' = Some origin" "origin \<in> lit ` set LOCAL_VIEWER_ORIGINS"
    using assms(8) by blast
  then have "truthy (Some origin)" by (auto simp: LOCAL_VIEWER_ORIGINS_def lit_Cons)
  then show ?thesis
    using assms(1-7) origin Viewer by (simp add: handleWebSocketUpgrade_def handleDevWebSocketUpgrade_def Let_def)
qed (use assms in \<open>simp add: handleWebSocketUpgrade_def handleDevWebSocketUpgrade_def Let_def\<close>)

lemma minted_token:
  assumes "mint_device_token mac now sessionBytes nonceBytes env = Inr (device, session, token)"
  obtains secret and days :: rat where "env ''DEVICE_AUTH_SECRET'' = Some secret" "env ''MIRROR_DEVICE_ID'' = Some device"
    "session = random_id ''session'' sessionBytes" "1 \<le> days" "days \<le> 400"
    "createDeviceToken mac now
       \<lparr>do_deviceId = device, do_lifetimeSeconds = Some \<lfloor>days * 24 * 60 * 60\<rfloor>,
        do_nonce = random_id ''nonce'' nonceBytes, do_nowSeconds = None, do_secret = secret,
        do_sessionId = session,
        do_sub = (case env ''MIRROR_DEVICE_TOKEN_SUB'' of Some s \<Rightarrow> s | None \<Rightarrow> lit ''device:'' @ device)\<rparr> = Inr token"
proof -
  obtain days where "token_days env = Inr days"
    using assms by (auto simp: mint_device_token_def split: sum.splits)
  moreover from this have "1 \<le> days \<and> days \<le> 400"
    by (auto simp: token_days_def split: option.splits if_splits)
  ultimately show thesis
    using assms that
    by (cases "env ''DEVICE_AUTH_SECRET''"; cases "env ''MIRROR_DEVICE_ID''")
      (auto simp: mint_device_token_def requireEnv_def Let_def split: sum.splits if_splits)
qed

text \<open>The subject a minted token names.\<close>

definition minted_subject :: "process_env \<Rightarrow> jstring \<Rightarrow> jstring" where
  "minted_subject env device =
     (case env ''MIRROR_DEVICE_TOKEN_SUB'' of Some s \<Rightarrow> s | None \<Rightarrow> lit ''device:'' @ device)"

lemma minted_token_verifies:
  assumes "mint_device_token mac now sessionBytes nonceBytes env = Inr (device, session, token)"
    and "opaque_id device" "length sessionBytes = 18" "length nonceBytes = 18"
    and "\<And>k m. mac k m \<noteq> []" "now \<le> now2 + 30000" "now2 \<le> now + 86399000"
    and "env ''DEVICE_AUTH_SECRET'' = Some secret"
  shows "\<exists>payload. verifyDeviceToken mac now2 None secret token = Some payload
    \<and> payload_context Agent payload = \<lparr>rc_deviceId = device, rc_role = Agent, rc_sessionId = session,
         rc_subject = minted_subject env device\<rparr>"
proof -
  obtain days :: rat where mint: "session = random_id ''session'' sessionBytes" "1 \<le> days" "days \<le> 400"
    "createDeviceToken mac now
       \<lparr>do_deviceId = device, do_lifetimeSeconds = Some \<lfloor>days * 24 * 60 * 60\<rfloor>,
        do_nonce = random_id ''nonce'' nonceBytes, do_nowSeconds = None, do_secret = secret,
        do_sessionId = session, do_sub = minted_subject env device\<rparr> = Inr token"
    using minted_token [OF assms(1)] assms(8) unfolding minted_subject_def by (metis option.inject)
  define o' where "o' = \<lparr>do_deviceId = device, do_lifetimeSeconds = Some \<lfloor>days * 24 * 60 * 60\<rfloor>,
        do_nonce = random_id ''nonce'' nonceBytes, do_nowSeconds = None, do_secret = secret,
        do_sessionId = session, do_sub = minted_subject env device\<rparr>"
  have o': "do_deviceId o' = device" "do_nonce o' = random_id ''nonce'' nonceBytes" "do_sessionId o' = session"
      "do_secret o' = secret" "do_sub o' = minted_subject env device" "do_nowSeconds o' = None"
      "do_lifetimeSeconds o' = Some \<lfloor>days * 24 * 60 * 60\<rfloor>"
    by (simp_all add: o'_def)
  obtain l where l: "l = \<lfloor>days * 24 * 60 * 60\<rfloor>" "l \<le> MAX_DEVICE_TOKEN_LIFETIME_SECONDS" "subject_ok (do_sub o')"
      "seal_token mac secret (JObj (devicePayload o' (now div 1000) l)) = Inr token"
    using mint(4) unfolding o'_def [symmetric]
    by (rule created_device_token) (simp add: o' now_seconds_def)
  let ?v = "JObj (devicePayload o' (now div 1000) l)"
  have "86400 \<le> days * 24 * 60 * 60" using mint(2) by simp
  then have "86400 \<le> l" unfolding l(1) by linarith
  moreover have "now div 1000 \<le> now2 div 1000 + 30" "now2 div 1000 < now div 1000 + 86400"
    using assms(6,7) by linarith+
  ultimately have "time_valid MAX_DEVICE_TOKEN_LIFETIME_SECONDS (now2 div 1000) ?v"
    using l(2) by (simp add: devicePayload_times)
  moreover have "isDeviceTokenPayload ?v"
    by (rule devicePayload_admitted)
      (simp_all add: o' mint(1) assms(2) random_id_opaque assms(3,4) l(3) [unfolded o'])
  ultimately have "verifyDeviceToken mac 0 (Some (now2 div 1000)) secret token = Some ?v"
    by (intro device_token.verify_sealed [OF l(4) devicePayload_wf assms(5)])
  then have "verifyDeviceToken mac now2 None secret token = Some ?v"
    by (subst device_clock) (simp add: now_seconds_def)
  moreover have "payload_context Agent ?v = \<lparr>rc_deviceId = device, rc_role = Agent, rc_sessionId = session,
         rc_subject = minted_subject env device\<rparr>"
    by (simp add: payload_context_def text_field_def string_of_def devicePayload_def o')
  ultimately show ?thesis by blast
qed

end
