(* ===== verification/OriginMatrix.thy ===== *)
theory OriginMatrix
  imports Provisioning
begin

text \<open>
  The repository's own regression test of the origin policy (\<open>scripts/origin-matrix.ts\<close>), run
  against the model of the Worker: its cases, its raw handshake, and the loop of its \<open>main\<close>.
  Starting and stopping the local Worker is left out.
\<close>

section \<open>The handshake\<close>

text \<open>The header is left out, \<open>null\<close>, or a text; workerd drops an empty one, as the script notes.\<close>

datatype sent_origin = OmitOrigin | NullOrigin | SentOrigin jstring

fun origin_header :: "sent_origin \<Rightarrow> jstring option" where
  "origin_header OmitOrigin = None"
| "origin_header NullOrigin = Some (lit ''null'')"
| "origin_header (SentOrigin s) = (if s = [] then None else Some s)"

definition rawHandshake :: "jstring \<Rightarrow> sent_origin \<Rightarrow> http_request" where
  "rawHandshake ticket origin =
     \<lparr>hr_method = lit ''GET'', hr_hostname = lit ''127.0.0.1'', hr_pathname = lit ''/ws'',
      hr_query = [(lit ''ticket'', ticket)],
      hr_headers = [''host'' \<mapsto> lit ''127.0.0.1:8788'', ''upgrade'' \<mapsto> lit ''websocket'',
        ''connection'' \<mapsto> lit ''Upgrade'', ''sec-websocket-version'' \<mapsto> lit ''13'']
        (''origin'' := origin_header origin)\<rparr>"

fun reply_status :: "worker_reply \<Rightarrow> nat" where
  "reply_status (JsonReply r) = resp_status r"
| "reply_status (RoomReply (Refused st code)) = st"
| "reply_status (RoomReply (Upgraded server)) = 101"
| "reply_status WorkerThrew = 500"

section \<open>The cases\<close>

record matrix_case =
  mc_name :: string
  mc_role :: role
  mc_origin :: sent_origin
  mc_expectRejected :: bool

definition matrix_cases :: "matrix_case list" where
  "matrix_cases =
     [\<lparr>mc_name = ''viewer + allowlisted origin passes gate'', mc_role = Viewer,
       mc_origin = SentOrigin (lit ''http://127.0.0.1:5173''), mc_expectRejected = False\<rparr>,
      \<lparr>mc_name = ''viewer + foreign origin rejected'', mc_role = Viewer,
       mc_origin = SentOrigin (lit ''http://evil.example''), mc_expectRejected = True\<rparr>,
      \<lparr>mc_name = ''viewer + null origin rejected'', mc_role = Viewer,
       mc_origin = NullOrigin, mc_expectRejected = True\<rparr>,
      \<lparr>mc_name = ''viewer + no origin header rejected'', mc_role = Viewer,
       mc_origin = OmitOrigin, mc_expectRejected = True\<rparr>,
      \<lparr>mc_name = ''agent + no origin header passes gate'', mc_role = Agent,
       mc_origin = OmitOrigin, mc_expectRejected = False\<rparr>,
      \<lparr>mc_name = ''agent + browser origin rejected'', mc_role = Agent,
       mc_origin = SentOrigin (lit ''http://127.0.0.1:5173''), mc_expectRejected = True\<rparr>,
      \<lparr>mc_name = ''agent + empty origin passes gate (workerd-normalized)'', mc_role = Agent,
       mc_origin = SentOrigin [], mc_expectRejected = False\<rparr>]"

section \<open>The run\<close>

text \<open>One turn: when its ticket is made and when it arrives, and the random bytes.\<close>

record matrix_turn =
  mt_made :: int
  mt_arrives :: int
  mt_session :: "byte list"
  mt_nonce :: "byte list"

datatype matrix_failure = HarnessError script_error | WrongStatus string nat

definition ticketFor :: "mac \<Rightarrow> jstring \<Rightarrow> jstring \<Rightarrow> role \<Rightarrow> matrix_turn \<Rightarrow> script_error + jstring" where
  "ticketFor mac secret deviceId role t =
     development_ticket mac (mt_made t) secret deviceId (random_id ''session'' (mt_session t)) role (mt_nonce t)"

fun matrix_failures ::
  "runtime \<Rightarrow> turn_api \<Rightarrow> mac \<Rightarrow> environment \<Rightarrow> jstring \<Rightarrow> jstring \<Rightarrow> (matrix_case \<times> matrix_turn) list \<Rightarrow>
   rooms \<Rightarrow> matrix_failure list" where
  "matrix_failures rt api mac environment secret deviceId [] rooms = []"
| "matrix_failures rt api mac environment secret deviceId ((c, t) # cs) rooms =
     (case ticketFor mac secret deviceId (mc_role c) t of
        Inl e \<Rightarrow> [HarnessError e]
      | Inr ticket \<Rightarrow>
          (case worker_fetch rt api mac (mt_arrives t) environment (rawHandshake ticket (mc_origin c)) rooms of
             (reply, rooms1) \<Rightarrow>
               (let rejected = (reply_status reply = 403);
                    failures = matrix_failures rt api mac environment secret deviceId cs rooms1
                in if rejected = mc_expectRejected c then failures
                   else WrongStatus (mc_name c) (reply_status reply) # failures)))"

section \<open>The gate\<close>

fun origin_passes :: "role \<Rightarrow> jstring option \<Rightarrow> bool" where
  "origin_passes Viewer origin = (\<exists>x \<in> lit ` set LOCAL_VIEWER_ORIGINS. origin = Some x)"
| "origin_passes Agent origin = (origin = None)"

lemma forward_status: "reply_status (fst (forwardToRoom rt now request context rooms)) \<noteq> 403"
proof -
  have "reply_status (RoomReply reply) \<noteq> 403" if "fetch rt now hs r = (Inr reply, r')" for hs r reply r'
    using that
    by (auto simp: fetch_def join_room_def acceptRejectedViewer_def Let_def
        split: if_splits option.splits prod.splits sum.splits)
  then show ?thesis
    by (auto simp: forwardToRoom_def split: option.split prod.split sum.split)
qed

lemma gate:
  assumes "hr_hostname request \<in> lit ` set LOCAL_HOSTNAMES" "DEV_TICKET_SECRET environment = Some secret"
    and "secret \<noteq> []" "search_param request ''ticket'' = Some ticket" "ticket \<noteq> []"
    and "verifyDevelopmentTicket mac now None None secret ticket = Some payload"
  shows "reply_status (fst (handleWebSocketUpgrade rt mac now environment request rooms)) = 403
    \<longleftrightarrow> \<not> origin_passes (payload_role payload) (hr_headers request ''origin'')"
proof -
  have "truthy (Some x)" if "x \<in> lit ` set LOCAL_VIEWER_ORIGINS" for x
    using that by (auto simp: LOCAL_VIEWER_ORIGINS_def lit_Cons)
  then show ?thesis
    using assms forward_status
    by (cases "payload_role payload"; cases "hr_headers request ''origin''")
      (auto simp: handleWebSocketUpgrade_def handleDevWebSocketUpgrade_def jsonError_def Let_def)
qed

lemma ticket_made:
  assumes "32 \<le> length secret" "0 \<le> mt_made t" "mt_made t < 2 ^ 53"
  shows "\<exists>ticket. ticketFor mac secret deviceId role t = Inr ticket"
  using development_ticket_made [OF assms] by (simp add: ticketFor_def)

lemma handshake_facts:
  "hr_hostname (rawHandshake ticket origin) \<in> lit ` set LOCAL_HOSTNAMES"
  "search_param (rawHandshake ticket origin) ''ticket'' = Some ticket"
  "hr_method (rawHandshake ticket origin) = lit ''GET''" "hr_pathname (rawHandshake ticket origin) = lit ''/ws''"
  "isWebSocketUpgrade (rawHandshake ticket origin)"
  "hr_headers (rawHandshake ticket origin) ''origin'' = origin_header origin"
  by (simp_all add: rawHandshake_def LOCAL_HOSTNAMES_def search_param_def isWebSocketUpgrade_def lower_websocket)

text \<open>A turn's handshake is rejected exactly when the gate says so, in whatever rooms.\<close>

lemma handshake_gate:
  assumes "ticketFor mac secret (random_id ''device'' device) role t = Inr ticket"
    and "length device = 9" "length (mt_session t) = 9" "length (mt_nonce t) = 9"
    and "\<And>k m. mac k m \<noteq> []" "mt_made t \<le> mt_arrives t + 30000" "mt_arrives t \<le> mt_made t + 299000"
    and "DEV_TICKET_SECRET environment = Some secret"
  shows "reply_status (fst (worker_fetch rt api mac (mt_arrives t) environment (rawHandshake ticket origin) rooms)) = 403
    \<longleftrightarrow> \<not> origin_passes role (origin_header origin)"
proof -
  have "opaque_id (random_id ''device'' device)" "opaque_id (random_id ''session'' (mt_session t))"
    using assms(2,3) by (simp_all add: random_id_opaque)
  then obtain payload where payload: "verifyDevelopmentTicket mac (mt_arrives t) None None secret ticket = Some payload"
      "payload_role payload = role" "ticket \<noteq> []" "secret \<noteq> []"
    using development_ticket_verifies [OF assms(1) [unfolded ticketFor_def], of "mt_arrives t"] assms(4-7) by blast
  have "worker_fetch rt api mac (mt_arrives t) environment (rawHandshake ticket origin) rooms
      = handleWebSocketUpgrade rt mac (mt_arrives t) environment (rawHandshake ticket origin) rooms"
    by (rule routed_upgrade) (rule handshake_facts)+
  then show ?thesis
    using gate [OF handshake_facts(1) assms(8) payload(4) handshake_facts(2) payload(3,1), of rt origin rooms]
    by (simp only: payload(2) handshake_facts(6))
qed

text \<open>What each case expects is what the gate does.\<close>

lemma cases_expect:
  "c \<in> set matrix_cases \<Longrightarrow> mc_expectRejected c \<longleftrightarrow> \<not> origin_passes (mc_role c) (origin_header (mc_origin c))"
proof -
  have ne: "lit ''http://127.0.0.1:5173'' \<noteq> []" "lit ''http://evil.example'' \<noteq> []" by (simp_all add: lit_Cons)
  show "c \<in> set matrix_cases \<Longrightarrow> ?thesis"
    by (auto simp: matrix_cases_def LOCAL_VIEWER_ORIGINS_def ne)
qed

end
