(* ===== verification/Admission.thy ===== *)
theory Admission
  imports RoomSafety Worker
begin

text \<open>
  What becomes of a connection the Worker admits: the headers it adds carry the verified
  identity into the device's room, and the room joins the socket with that identity attached.
  The one part of the identity the tokens leave free is the subject; it has to be a text a
  header can carry.
\<close>

definition attachment_for :: "room_context \<Rightarrow> rat \<Rightarrow> jstring \<Rightarrow> socket_attachment" where
  "attachment_for who now label =
     \<lparr>at_connectedAt = now, at_deviceId = rc_deviceId who, at_lastSeenAt = now, at_role = rc_role who,
      at_sessionId = rc_sessionId who, at_subject = label\<rparr>"

lemma role_header [simp]: "header_value (lit (role_text ro)) = Some (lit (role_text ro))"
  "as_role (Some (lit (role_text ro))) = Some ro"
  by (cases ro; simp; code_simp)+

lemma admitted_headers:
  assumes "opaque_id (rc_deviceId who)" "opaque_id (rc_sessionId who)"
    and "header_value (rc_subject who) = Some label" "label \<noteq> []"
  obtains forwarded where "room_headers who hs = Some forwarded" "forwarded ''upgrade'' = hs ''upgrade''"
    "readAttachmentHeaders now forwarded = Some (attachment_for who now label)"
proof -
  have "rc_deviceId who \<noteq> []" "rc_sessionId who \<noteq> []" using assms(1,2) by (auto simp: opaque_id_def)
  then show thesis
    using assms that
    by (simp add: room_headers_def header_set_def header_value_opaque readAttachmentHeaders_def attachment_for_def
        del: as_role.simps)
qed

context session_runtime
begin

text \<open>An agent joins the room of its device, unless another one is there.\<close>

lemma agent_admitted:
  fixes rooms :: rooms and now :: rat
  assumes "opaque_id (rc_deviceId who)" "opaque_id (rc_sessionId who)"
    and "header_value (rc_subject who) = Some label" "label \<noteq> []"
    and "isWebSocketUpgrade request" "rc_role who = Agent"
  defines "r \<equiv> rooms (rc_deviceId who)"
    and "r' \<equiv> snd (forwardToRoom rt now request who rooms) (rc_deviceId who)"
  shows "fst (forwardToRoom rt now request who rooms)
      = RoomReply (if hasRole Agent r then Refused 409 ''AGENT_ALREADY_ONLINE'' else Upgraded (length (sockets r)))"
    and "sockets r' = sockets r @ (if hasRole Agent r then []
        else [\<lparr>tags = [Agent], readyState = accepted rt,
               attachmentData = Some (attachment_json (attachment_for who now label)),
               sentFrames = [], closedWith = None\<rparr>])"
    and "d \<noteq> rc_deviceId who \<Longrightarrow> snd (forwardToRoom rt now request who rooms) d = rooms d"
proof -
  obtain forwarded where hs: "room_headers who (hr_headers request) = Some forwarded"
      "forwarded ''upgrade'' = hr_headers request ''upgrade''"
      "readAttachmentHeaders now forwarded = Some (attachment_for who now label)"
    using admitted_headers [OF assms(1-4), of "hr_headers request" now] by blast
  have "fetch rt now forwarded r =
      (if hasRole Agent r then (Inr (Refused 409 ''AGENT_ALREADY_ONLINE''), r)
       else join_room rt (attachment_for who now label) r)"
    using assms(5,6) hs(2,3) by (simp add: fetch_def isWebSocketUpgrade_def attachment_for_def)
  then have fwd: "forwardToRoom rt now request who rooms =
      (if hasRole Agent r then (RoomReply (Refused 409 ''AGENT_ALREADY_ONLINE''), rooms(rc_deviceId who := r))
       else (RoomReply (Upgraded (length (sockets r))),
             rooms(rc_deviceId who := snd (join_room rt (attachment_for who now label) r))))"
    using hs(1) by (simp add: forwardToRoom_def r_def join_room_def Let_def)
  then show "fst (forwardToRoom rt now request who rooms)
      = RoomReply (if hasRole Agent r then Refused 409 ''AGENT_ALREADY_ONLINE'' else Upgraded (length (sockets r)))"
    "sockets r' = sockets r @ (if hasRole Agent r then []
        else [\<lparr>tags = [Agent], readyState = accepted rt,
               attachmentData = Some (attachment_json (attachment_for who now label)),
               sentFrames = [], closedWith = None\<rparr>])"
    "d \<noteq> rc_deviceId who \<Longrightarrow> snd (forwardToRoom rt now request who rooms) d = rooms d"
    using assms(6) by (simp_all add: r'_def joined_sockets attachment_for_def)
qed

text \<open>A viewer joins it as its only viewer, if the agent is there.\<close>

lemma viewer_admitted:
  fixes rooms :: rooms and now :: rat
  assumes "opaque_id (rc_deviceId who)" "opaque_id (rc_sessionId who)"
    and "header_value (rc_subject who) = Some label" "label \<noteq> []"
    and "isWebSocketUpgrade request" "rc_role who = Viewer"
  defines "r \<equiv> rooms (rc_deviceId who)"
    and "r' \<equiv> snd (forwardToRoom rt now request who rooms) (rc_deviceId who)"
  assumes "room_ok rt r" "hasRole Agent r"
  shows "fst (forwardToRoom rt now request who rooms) = RoomReply (Upgraded (length (sockets r)))"
    and "holds Viewer r' i \<longleftrightarrow> i = length (sockets r)"
    and "attachment_of (sockets r' ! length (sockets r)) = Some (attachment_for who now label)"
    and "d \<noteq> rc_deviceId who \<Longrightarrow> snd (forwardToRoom rt now request who rooms) d = rooms d"
proof -
  let ?a = "attachment_for who now label"
  obtain forwarded where hs: "room_headers who (hr_headers request) = Some forwarded"
      "forwarded ''upgrade'' = hr_headers request ''upgrade''"
      "readAttachmentHeaders now forwarded = Some ?a"
    using admitted_headers [OF assms(1-4), of "hr_headers request" now] by blast
  have up: "map_option ascii_lower (forwarded ''upgrade'') = Some (lit ''websocket'')"
    using assms(5) hs(2) by (simp add: isWebSocketUpgrade_def)
  have role: "at_role ?a = Viewer" using assms(6) by (simp add: attachment_for_def)
  note joins = takeover_joins [OF assms(9,10) up hs(3) role]
  have "hasRole Agent (after_takeover r)"
    using assms(10) takeover_agent [OF assms(9)] by (auto simp: hasRole_iff)
  then have f: "fetch rt now forwarded r = join_room rt ?a (after_takeover r)"
    using viewer_fetch [OF up hs(3) role] by simp
  have fwd: "forwardToRoom rt now request who rooms =
      (RoomReply (Upgraded (length (sockets r))), rooms(rc_deviceId who := snd (fetch rt now forwarded r)))"
    using hs(1) joins(1)
    by (cases "fetch rt now forwarded (rooms (rc_deviceId who))") (simp add: forwardToRoom_def r_def)
  then show "fst (forwardToRoom rt now request who rooms) = RoomReply (Upgraded (length (sockets r)))"
    "holds Viewer r' i \<longleftrightarrow> i = length (sockets r)"
    "d \<noteq> rc_deviceId who \<Longrightarrow> snd (forwardToRoom rt now request who rooms) d = rooms d"
    using joins(2) by (simp_all add: r'_def)
  show "attachment_of (sockets r' ! length (sockets r)) = Some ?a"
    by (simp add: r'_def fwd f joined_sockets nth_append attachment_of_def)
qed

end

end
