(* ===== verification/ScriptProperties.thy ===== *)
theory ScriptProperties
  imports OriginMatrix Admission
begin

text \<open>
  The properties of the scripts: that what they mint opens the rooms of the Worker as modelled,
  and that the Worker as modelled passes the repository's own origin test.
\<close>

section \<open>The device token\<close>




definition sample_mint_bytes :: "byte list" where
  "sample_mint_bytes = replicate 18 7"



text \<open>
  The label of a token may be any text of 320 units, but the Worker puts it into a header: a
  token minted with a label outside Latin-1 verifies, and every connection with it throws.
\<close>

lemma foreign_label_locks_out:
  assumes "hr_headers ws = hs" "\<exists>u \<in> set label. unat u > 255"
  shows "fst (forwardToRoom rt now ws
      \<lparr>rc_deviceId = device, rc_role = Agent, rc_sessionId = session, rc_subject = label\<rparr> rooms) = WorkerThrew"
proof -
  have "header_value label = None" using assms(2) by (simp add: header_value_def Let_def list_ex_iff)
  then have "room_headers \<lparr>rc_deviceId = device, rc_role = Agent, rc_sessionId = session, rc_subject = label\<rparr> hs = None"
    by (auto simp: room_headers_def header_set_def bind_eq_None_conv)
  then show ?thesis using assms(1) by (simp add: forwardToRoom_def)
qed

section \<open>The development address\<close>

text \<open>
  C29. The minted address works end to end. For well-formed ids, the default host and a URL parser
  that reads the socket address as written, the viewer takes its configuration from the address
  as minted, and the local Worker with the same secret, asked within 299 seconds with that
  configuration's ticket from the viewer's origin, takes it to the device's room as the viewer.
\<close>

theorem minted_address_connects:
  assumes "mint_viewer_ticket mac now nonceBytes env devVars [device, session] = Inr (address, params)"
    and "opaque_id device" "opaque_id session" "length nonceBytes = 18"
    and "\<And>k m. mac k m \<noteq> []" "now \<le> now2 + 30000" "now2 \<le> now + 299000"
    and "parse_url (lit ''ws://localhost:8787/ws'')
      = Some \<lparr>url_protocol = lit ''ws:'', url_hostname = lit ''localhost'', url_pathname = lit ''/ws''\<rparr>"
    and "readSecret env devVars = Inr secret" "DEV_TICKET_SECRET environment = Some secret"
    and "hr_hostname ws \<in> lit ` set LOCAL_HOSTNAMES" "hr_method ws = lit ''GET''"
      "hr_pathname ws = lit ''/ws''" "isWebSocketUpgrade ws"
    and "hr_headers ws ''origin'' = Some (lit ''http://localhost:5173'')"
    and "search_param ws ''ticket'' = map_of params ''ticket''"
  shows "(\<exists>c. readDevelopmentConfig parse_url (map_of params) history = Some c
      \<and> cc_deviceId c = device \<and> cc_sessionId c = session \<and> map_of params ''ticket'' = Some (cc_ticket c))
    \<and> worker_fetch rt api mac now2 environment ws rooms
      = forwardToRoom rt (of_int now2) ws
          \<lparr>rc_deviceId = device, rc_role = Viewer, rc_sessionId = session,
           rc_subject = lit ''local-development-user''\<rparr> rooms"
proof -
  have host: "lit ''ws://'' @ lit ''localhost'' @ lit '':8787/ws'' = lit ''ws://localhost:8787/ws''"
    by (simp add: lit_def)
  obtain ticket where ticket: "development_ticket mac now secret device session Viewer nonceBytes = Inr ticket"
      "params = viewer_params device session ticket (lit ''ws://localhost:8787/ws'')"
    using assms(1,9) by (auto simp: mint_viewer_ticket_def host Let_def split: sum.splits if_splits)
  obtain payload where payload: "verifyDevelopmentTicket mac now2 None None secret ticket = Some payload"
      "payload_role payload = Viewer" "ticket \<noteq> []" "secret \<noteq> []"
      "payload_context Viewer payload = \<lparr>rc_deviceId = device, rc_role = Viewer, rc_sessionId = session,
         rc_subject = lit ''local-development-user''\<rparr>"
    using development_ticket_verifies [OF ticket(1) assms(2,3) _ assms(5-7)] assms(4) by blast
  have "device \<noteq> []" "session \<noteq> []" using assms(2,3) by (auto simp: opaque_id_def)
  then have "truthy (Some device)" "truthy (Some session)" "truthy (Some ticket)" using payload(3) by simp_all
  then have "readDevelopmentConfig parse_url (map_of params) history
      = Some \<lparr>cc_deviceId = device, cc_sessionId = session, cc_ticket = ticket,
          cc_webSocketUrl = lit ''ws://localhost:8787/ws'', cc_iceServers = None\<rparr>"
    using assms(8) \<open>device \<noteq> []\<close> \<open>session \<noteq> []\<close> payload(3)
    by (simp add: readDevelopmentConfig_def ticket(2) viewer_params_def isDevelopmentConnectionConfig_def
        config_json_def LOCAL_HOSTS_def lit_Cons)
  moreover have "worker_fetch rt api mac now2 environment ws rooms = handleWebSocketUpgrade rt mac now2 environment ws rooms"
    by (rule routed_upgrade [OF assms(12-14)])
  moreover have "handleWebSocketUpgrade rt mac now2 environment ws rooms
      = forwardToRoom rt (of_int now2) ws (payload_context Viewer payload) rooms"
    using assms(15,16)
    by (intro dev_upgrade_accepts [OF assms(11,10) payload(4) _ payload(3,1,2)])
      (simp_all add: ticket(2) viewer_params_def LOCAL_VIEWER_ORIGINS_def)
  ultimately show ?thesis by (simp add: payload(5) ticket(2) viewer_params_def)
qed

definition sample_dev_env :: environment where
  "sample_dev_env = sample_env\<lparr>DEV_TICKET_SECRET := Some sample_secret\<rparr>"

definition sample_dev_vars :: jstring where
  "sample_dev_vars = lit ''BUILD=1'' @ 13 # 10 # lit ''DEV_TICKET_SECRET='' @ sample_secret @ [10]"

lemma sample_dev_secret: "readSecret Map.empty sample_dev_vars = Inr sample_secret"
  by code_simp

definition sample_local_request :: "jstring \<Rightarrow> http_request" where
  "sample_local_request ticket =
     (sample_upgrade_request (Some (lit ''http://localhost:5173'')) ticket)\<lparr>hr_hostname := lit ''localhost''\<rparr>"

theorem minted_address_connects_witness:
  "\<exists>address params c ws. mint_viewer_ticket sample_mac 1000000 sample_mint_bytes Map.empty sample_dev_vars
       [sample_device, sample_session] = Inr (address, params)
     \<and> readDevelopmentConfig (\<lambda>_. Some \<lparr>url_protocol = lit ''ws:'', url_hostname = lit ''localhost'',
         url_pathname = lit ''/ws''\<rparr>) (map_of params) JNull = Some c \<and> cc_deviceId c = sample_device
     \<and> worker_fetch standard_runtime (\<lambda>_ _. None) sample_mac 1200000 sample_dev_env ws (\<lambda>_. agent_room)
       = forwardToRoom standard_runtime (of_int 1200000) ws
          \<lparr>rc_deviceId = sample_device, rc_role = Viewer, rc_sessionId = sample_session,
           rc_subject = lit ''local-development-user''\<rparr> (\<lambda>_. agent_room)"
proof -
  let ?parse = "\<lambda>_. Some \<lparr>url_protocol = lit ''ws:'', url_hostname = lit ''localhost'', url_pathname = lit ''/ws''\<rparr>"
  define made where "made = development_ticket sample_mac 1000000 sample_secret sample_device sample_session Viewer sample_mint_bytes"
  have "\<exists>t. made = Inr t"
    unfolding made_def by (rule development_ticket_made) (simp_all add: sample_secret_length)
  then obtain t where t: "made = Inr t" by blast
  have "sample_device \<noteq> []" "sample_session \<noteq> []" by (simp_all add: sample_device_def sample_session_def)
  then obtain address where mint: "mint_viewer_ticket sample_mac 1000000 sample_mint_bytes Map.empty sample_dev_vars
       [sample_device, sample_session] = Inr (address,
         viewer_params sample_device sample_session t (lit ''ws://'' @ lit ''localhost'' @ lit '':8787/ws''))"
    using t by (simp add: mint_viewer_ticket_def sample_dev_secret made_def Let_def)
  let ?params = "viewer_params sample_device sample_session t (lit ''ws://'' @ lit ''localhost'' @ lit '':8787/ws'')"
  have "(\<exists>c. readDevelopmentConfig ?parse (map_of ?params) JNull = Some c
      \<and> cc_deviceId c = sample_device \<and> cc_sessionId c = sample_session \<and> map_of ?params ''ticket'' = Some (cc_ticket c))
    \<and> worker_fetch standard_runtime (\<lambda>_ _. None) sample_mac 1200000 sample_dev_env (sample_local_request t) (\<lambda>_. agent_room)
      = forwardToRoom standard_runtime (of_int 1200000) (sample_local_request t)
          \<lparr>rc_deviceId = sample_device, rc_role = Viewer, rc_sessionId = sample_session,
           rc_subject = lit ''local-development-user''\<rparr> (\<lambda>_. agent_room)"
    by (rule minted_address_connects [OF mint])
      (simp_all add: sample_ids sample_mac_output sample_mint_bytes_def sample_dev_secret sample_dev_env_def
        sample_local_request_def sample_upgrade_request_def LOCAL_HOSTNAMES_def isWebSocketUpgrade_def
        lower_websocket search_param_def viewer_params_def)
  then show ?thesis using mint by blast
qed

section \<open>The origin matrix\<close>

text \<open>
  C30. The Worker passes the repository's origin test. With a secret of at least 32 units, random
  bytes as many as the script draws, times within a ticket's life and whatever rooms and
  runtime, no case of the matrix fails, in any number of turns and in any order.
\<close>

theorem origin_matrix_passes:
  assumes "32 \<le> length secret" "length device = 9" "DEV_TICKET_SECRET environment = Some secret"
    and "\<And>k m. mac k m \<noteq> []"
    and "\<And>c t. (c, t) \<in> set turns \<Longrightarrow> c \<in> set matrix_cases \<and> length (mt_session t) = 9 \<and> length (mt_nonce t) = 9
      \<and> 0 \<le> mt_made t \<and> mt_made t < 2 ^ 53 \<and> mt_made t \<le> mt_arrives t + 30000 \<and> mt_arrives t \<le> mt_made t + 299000"
  shows "matrix_failures rt api mac environment secret (random_id ''device'' device) turns rooms = []"
  using assms(5)
proof (induction turns arbitrary: rooms)
  case (Cons x turns)
  obtain c t where x: "x = (c, t)" by force
  have t: "c \<in> set matrix_cases" "length (mt_session t) = 9" "length (mt_nonce t) = 9" "0 \<le> mt_made t"
      "mt_made t < 2 ^ 53" "mt_made t \<le> mt_arrives t + 30000" "mt_arrives t \<le> mt_made t + 299000"
    using Cons.prems x by auto
  obtain ticket where ticket: "ticketFor mac secret (random_id ''device'' device) (mc_role c) t = Inr ticket"
    using ticket_made [OF assms(1) t(4,5)] by blast
  have "reply_status (fst (worker_fetch rt api mac (mt_arrives t) environment (rawHandshake ticket (mc_origin c)) rooms)) = 403
      \<longleftrightarrow> mc_expectRejected c"
    using handshake_gate [OF ticket assms(2) t(2,3) assms(4) t(6,7) assms(3)] cases_expect [OF t(1)] by simp
  moreover have "matrix_failures rt api mac environment secret (random_id ''device'' device) turns rooms' = []" for rooms'
    by (rule Cons.IH) (rule Cons.prems, simp)
  ultimately show ?case by (auto simp: x ticket Let_def split: prod.splits)
qed simp

definition sample_turn :: matrix_turn where
  "sample_turn = \<lparr>mt_made = 1000000, mt_arrives = 1000500, mt_session = replicate 9 3, mt_nonce = replicate 9 5\<rparr>"

theorem origin_matrix_passes_witness:
  "matrix_failures standard_runtime (\<lambda>_ _. None) sample_mac sample_dev_env sample_secret
     (random_id ''device'' (replicate 9 1)) (map (\<lambda>c. (c, sample_turn)) matrix_cases) (\<lambda>_. empty_room) = []"
  by (rule origin_matrix_passes)
    (auto simp: sample_secret_length sample_dev_env_def sample_mac_output sample_turn_def)

end
