(* ===== verification/Spec2Isabelle.thy ===== *)
theory Spec2Isabelle
  imports ViewerProperties PeerProperties AppProperties TicketService ScriptProperties
begin

text \<open>
  My Mirror Computer: a browser viewer controls a home PC through a WebRTC session that a
  Cloudflare Worker signals. This library models the TypeScript side, from the messages on the
  wire to the session hook of the viewer, and proves what makes it correct. The program's parts
  and the theories that model them (file names are under \<open>src/\<close>; a definition has the name of
  the function it models):

  \<^item> Language and wire. \<open>Prelude\<close> (JavaScript strings as UTF-16 code units, bytes, string
    methods), \<open>Utf8\<close> and \<open>Base64Url\<close> (\<open>TextEncoder\<close>, \<open>TextDecoder\<close>, \<open>atob\<close>, \<open>btoa\<close> and the
    codec of \<open>packages/protocol/src/ticket.ts\<close>), \<open>JsonText\<close> (\<open>JSON.parse\<close> and
    \<open>JSON.stringify\<close>), \<open>Regex\<close> (the patterns, by derivatives).
  \<^item> Protocol, \<open>packages/protocol/src\<close>. \<open>Schema\<close> and \<open>Messages\<close> (\<open>schemas/*.ts\<close>,
    \<open>validation.ts\<close>), \<open>Keyboard\<close> (the two key whitelists), \<open>ConnectionState\<close> (\<open>state.ts\<close>),
    \<open>Pointer\<close> (\<open>pointer.ts\<close>), \<open>RateLimit\<close> (\<open>rateLimit.ts\<close>), \<open>SignedToken\<close> and \<open>Tickets\<close>
    (\<open>ticket.ts\<close>, \<open>sessionTicket.ts\<close>).
  \<^item> Signaling, \<open>apps/signaling/src\<close>. \<open>DeviceToken\<close> (\<open>deviceToken.ts\<close>), \<open>SessionRoom\<close> (the
    Durable Object of \<open>sessionRoom.ts\<close>: one device's agent and viewer sockets, their
    attachments, the alarm), \<open>Http\<close> and \<open>Worker\<close> (\<open>index.ts\<close>, \<open>productionWebSocket.ts\<close>,
    \<open>turnCredentials.ts\<close>). \<open>RoomInvariants\<close>, \<open>RoomTimers\<close> and \<open>RoomSafety\<close> are about the room.
  \<^item> The ticket function, \<open>apps/viewer/functions\<close>. \<open>AccessTicket\<close> (\<open>session/ticket.ts\<close>,
    \<open>_lib/accessAuth.ts\<close>) and \<open>TicketService\<close> (its cache of key sets over many requests).
  \<^item> The scripts, \<open>scripts\<close>. \<open>Provisioning\<close> (\<open>mint-device-token.ts\<close>, \<open>mint-viewer-ticket.ts\<close>,
    \<open>dev-connect.ts\<close>) and \<open>OriginMatrix\<close> (\<open>origin-matrix.ts\<close>, run against the Worker's model);
    \<open>ScriptProperties\<close> holds what is proved of them.
  \<^item> The viewer, \<open>apps/viewer/src\<close>. \<open>ViewerRecovery\<close> (\<open>signalingRecovery.ts\<close>,
    \<open>controlChannelHealth.ts\<close>, \<open>connectionErrors.ts\<close>), \<open>ViewerConfig\<close>
    (\<open>developmentConfig.ts\<close>, \<open>productionSession.ts\<close>), \<open>ViewerMetrics\<close> (\<open>viewerMetrics.ts\<close>),
    \<open>FileUpload\<close> (\<open>fileUpload.ts\<close>), \<open>InputCapture\<close> (\<open>useInputCapture.ts\<close>), and the session
    hook \<open>useRemoteSession.ts\<close>: its state and the release of a cycle in \<open>RemoteState\<close>, its
    handlers in \<open>RemoteSession\<close>, transfers and clipboard images in \<open>RemoteTransfers\<close>, and what it
    asks of the browser's peer connection in \<open>ViewerPeer\<close>.
  \<^item> The interface. \<open>ViewerPanels\<close> (\<open>RemoteClipboard.tsx\<close>, \<open>ImageClipboardPanel.tsx\<close>) and
    \<open>ViewerApp\<close> (\<open>App.tsx\<close>: its states, one event per handler of the markup, guarded by what
    shows and enables the control, and the effects after a render); \<open>ViewerView\<close> is what the
    page shows of that state.

  How they interact. The Pages Function turns an Access session into a session ticket; the
  Worker admits a viewer with that ticket, or an agent with a device token, into the device's
  room and hands the room the identity it verified; the room relays validated signaling
  messages and reports errors; the viewer's hook runs the session over those messages and a
  peer connection, and the input capture drives its senders. The properties follow this order,
  and several cross it: an issued ticket opens the room (\<open>issued_ticket_opens_room\<close>), the
  room's own errors are valid messages (\<open>room_errors_are_messages\<close>) and the one that replaces
  a session keeps the displaced viewer away (\<open>displaced_viewer_stays_away\<close>), the offer of a
  session that is over ends the one that replaced it (\<open>stale_offer_ends_session\<close>), every step
  of the interface calls the session hook as \<open>asks\<close> of \<open>AppTrace\<close> lists it
  (\<open>interface_refines_session\<close>), the cards on the page are those of sound transfers
  (\<open>transfer_cards_sound\<close>), and what the user does reaches the host as messages of the
  protocol (\<open>interface_input_is_protocol\<close>).

  State and steps. The room is a record of its sockets with their attachments, sent frames and
  closes; its runs are the inductive \<open>reachable\<close>. The viewer is one record of all refs and
  React states; the sockets and peer connections it opened are lists, a reference is an index,
  so a superseded object keeps its listeners and its cycle. Asynchronous functions are split at
  their \<open>await\<close>s; what an answer's continuation captured is kept with the request
  (\<open>ticketRequests\<close>, \<open>verifyingDownloads\<close>, the phase of an upload with its data and channel;
  the turns of its stream are events that put one chunk each on that channel). \<open>RemoteRuns\<close> lists the
  49 events of the hook and its step; an event is allowed whenever the platform does not rule
  it out, so the runs include every interleaving a browser can show. The interface is a record
  over that state; \<open>app_step\<close> is a handler and then the effects, and is partial: a control
  that is absent or disabled gives no event.

  The groups of lemmas. \<open>RemoteTeardown\<close>: the moves a teardown makes are legal, and it leaves
  nothing of its cycle. \<open>RemoteInvariants\<close>: the invariant of every reachable state.
  \<open>RemotePhases\<close>: the refinement of an abstract machine of phases. \<open>RemoteControl\<close>: which
  step writes what on the control channel. \<open>RemoteSafety\<close>: what follows a disconnect, and the
  heartbeat. \<open>RemoteOutcomes\<close>: input messages, revoked grants, replaced sessions.
  \<open>RemoteObservers\<close>: what all steps but the answers of a transfer leave alone, and with it
  \<open>RemoteDownloads\<close> (what is saved) and \<open>RemoteImages\<close> (when an image counts as applied).
  \<open>RemoteCards\<close>: the invariant of the two transfers the hook shows, over every step.
  \<open>RemoteUser\<close>: the mark of a disconnect, and what a sequence of input messages writes.
  \<open>AppRuns\<close>: the interface over the session; \<open>AppInvariants\<close>: its invariant; \<open>AppTrace\<close>:
  which operations of the hook each event calls; \<open>AppInput\<close> and \<open>AppPastes\<close>: what its events
  send. \<open>Admission\<close>: what becomes of a connection the Worker admits to a room. \<open>Samples\<close>, \<open>ViewerSamples\<close>, \<open>AppSamples\<close> and
  \<open>AppImageSample\<close> hold the concrete room, tokens and runs on which the properties are
  instantiated; \<open>PeerProperties\<close> is about where a gathered offer goes; \<open>AppProperties\<close> and
  \<open>ViewerProperties\<close> hold the properties of the interface and of the viewer, this theory the
  others.

  Interfaces. \<open>json_schema_validator\<close> is the contract of Ajv as the code uses it, met by the
  executable reading of the schemas; \<open>session_runtime\<close> adds what the room needs of the Durable
  Object runtime; \<open>ticket_kind\<close> is what the three token kinds share, interpreted once for each;
  \<open>viewer_observer\<close> is a view of the viewer that most steps keep, interpreted for the saved
  files and for the images applied.

  Parameters, for code that is not here: \<open>mac\<close> (WebCrypto HMAC; only that its output is not
  empty is used), \<open>ajv\<close>, \<open>digest\<close> (SHA-256), the verifier of Access assertions (jose), the
  TURN service, the URL parser, the runtime's socket states, and \<open>platform\<close> (which sends throw,
  which sockets and peers can be constructed), the browser's image decoder, canvas and clipboard.
  Clock values and random bytes are arguments.

  Bounds and numbers. \<open>waitForBufferBelow\<close> and \<open>streamLoop\<close> take fuel, since a channel may
  never drain; one turn per byte plus one is enough over a drained channel
  (\<open>upload_returns\<close>). All other loops are structural. Metrics, pointers and JSON numbers are
  exact rationals where the code has binary64; sequence numbers and timestamps are integers,
  bytes and code units are words.

  Not modelled: texts and styles of the markup, preview URLs and \<open>main.tsx\<close>, which keep no state
  (a development build mounts twice; the model mounts once), what the browser does with a
  description or a candidate (it comes back as events of the session), log lines and other
  human-readable texts, the processes and browser windows the scripts start, the end-to-end
  script, build configuration, and the host agent, which is a Python program. A copy to the
  local clipboard settles in the step of its click, since it changes only a status line.
\<close>

section \<open>Signed tokens\<close>

text \<open>
  C38. A session ticket made with opaque identifiers verifies under its own secret, from
  thirty seconds before it is issued until it expires, to exactly the payload it was made of.
\<close>

theorem session_ticket_roundtrip:
  assumes "createSessionTicket mac dateNow options = Inr ticket"
    and "opaque_id (so_deviceId options)" "opaque_id (so_nonce options)"
      "opaque_id (so_sessionId options)"
    and "\<And>k m. mac k m \<noteq> []"
    and "issued = now_seconds (so_nowSeconds options) dateNow"
    and "lifetime = (case so_lifetimeSeconds options of Some l \<Rightarrow> l | None \<Rightarrow> 300)"
    and "issued \<le> clock + 30" "clock < issued + lifetime"
  shows "verifySessionTicket mac dateNow2 (Some clock) (so_secret options) ticket
    = Some (JObj (sessionPayload options issued lifetime))"
  using session_ticket_verifies [OF assms(1-7), of "Some clock" dateNow2] assms(8,9)
  by (simp add: now_seconds_def)

theorem session_ticket_roundtrip_witness:
  "\<exists>ticket. createSessionTicket sample_mac 0 sample_session_options = Inr ticket \<and>
     verifySessionTicket sample_mac 0 (Some 1200) sample_secret ticket
       = Some (JObj (sessionPayload sample_session_options 1000 300))"
proof -
  obtain t where t: "createSessionTicket sample_mac 0 sample_session_options = Inr t"
    using sample_tokens(2) by blast
  have "verifySessionTicket sample_mac 0 (Some 1200) (so_secret sample_session_options) t
      = Some (JObj (sessionPayload sample_session_options 1000 300))"
    by (rule session_ticket_roundtrip [OF t]) (simp_all add: sample_ids sample_mac_output)
  then show ?thesis using t by auto
qed

text \<open>
  C31. Whatever session ticket verifies was sealed under the secret: its signature segment is
  the MAC of its payload segment, the secret has at least 32 units, the payload is the
  parsed payload segment, names the production issuer and a viewer, carries opaque
  identifiers and a non-empty subject, and the clock lies inside its window of at most
  fifteen minutes.
\<close>

theorem session_ticket_sound:
  assumes "verifySessionTicket mac dateNow nowSeconds secret ticket = Some v"
  shows "32 \<le> length secret
    \<and> (\<exists>p s bytes. ticket = p @ 46 # s
         \<and> decodeBase64Url s = Some (mac (text_encode secret) (text_encode p))
         \<and> decodeBase64Url p = Some bytes \<and> json_parse (text_decode bytes) = Some v)
    \<and> jget v ''iss'' = Some (JStr (lit ''my-mirror-prod-v1''))
    \<and> jget v ''role'' = Some (JStr (lit ''viewer''))
    \<and> string_prop v ''deviceId'' opaque_id \<and> string_prop v ''sessionId'' opaque_id
    \<and> string_prop v ''sub'' (\<lambda>s. s \<noteq> [] \<and> length s \<le> 320)
    \<and> (\<exists>issued expiry. as_integer (jget v ''iat'') = Some issued
         \<and> as_integer (jget v ''exp'') = Some expiry
         \<and> issued \<le> now_seconds nowSeconds dateNow + 30
         \<and> now_seconds nowSeconds dateNow < expiry \<and> expiry \<le> issued + 900)"
proof -
  note v = assms [unfolded session_clock [of mac dateNow]]
  have "isSessionTicketPayload v"
    using v session_ticket.verify_iff by blast
  then show ?thesis
    using session_ticket.verified_secret [OF v] session_ticket.verified_signature [OF v]
      session_ticket.verified_window [OF v]
    by (auto simp: isSessionTicketPayload_def SESSION_TICKET_ISSUER_def string_prop_def subject_ok_def
        MAX_SESSION_TICKET_LIFETIME_SECONDS_def split: option.splits)
qed

theorem session_ticket_sound_witness:
  "\<exists>ticket v. verifySessionTicket sample_mac 0 (Some 1200) sample_secret ticket = Some v
     \<and> string_prop v ''deviceId'' opaque_id"
proof -
  obtain t where t: "createSessionTicket sample_mac 0 sample_session_options = Inr t"
    using sample_tokens(2) by blast
  have "verifySessionTicket sample_mac 0 (Some 1200) sample_secret t
      = Some (JObj (sessionPayload sample_session_options 1000 300))"
    by (rule sample_session_verifies [OF t])
  then show ?thesis using session_ticket_sound by blast
qed

text \<open>
  C32. The three kinds of token never pass for one another, whatever secrets and clocks are
  used: a token that verifies as one kind under some secret is rejected as either other
  kind under every secret.
\<close>

theorem token_kinds_separate:
  "\<not> (verifySessionTicket mac d1 n1 secret1 token \<noteq> None
       \<and> verifyDeviceToken mac d2 n2 secret2 token \<noteq> None)
   \<and> \<not> (verifySessionTicket mac d1 n1 secret1 token \<noteq> None
       \<and> verifyDevelopmentTicket mac d3 expectedRole n3 secret3 token \<noteq> None)
   \<and> \<not> (verifyDeviceToken mac d2 n2 secret2 token \<noteq> None
       \<and> verifyDevelopmentTicket mac d3 expectedRole n3 secret3 token \<noteq> None)"
proof -
  note opened = session_ticket.verified_issuer device_token.verified_issuer dev_ticket.verified_issuer
  note issuers = SESSION_TICKET_ISSUER_def DEVICE_TOKEN_ISSUER_def DEVELOPMENT_TICKET_ISSUER_def
  have "\<not> (verifySessionTicket mac d1 n1 secret1 token \<noteq> None
      \<and> verifyDeviceToken mac d2 n2 secret2 token \<noteq> None)"
    unfolding session_clock [of mac d1] device_clock [of mac d2]
    using issuers_exclude [OF opened(1,2)] by (fastforce simp: issuers)
  moreover have "\<not> (verifySessionTicket mac d1 n1 secret1 token \<noteq> None
      \<and> verifyDevelopmentTicket mac d3 expectedRole n3 secret3 token \<noteq> None)"
    unfolding session_clock [of mac d1] development_clock [of mac d3]
    using issuers_exclude [OF opened(1,3)] by (fastforce simp: issuers)
  moreover have "\<not> (verifyDeviceToken mac d2 n2 secret2 token \<noteq> None
      \<and> verifyDevelopmentTicket mac d3 expectedRole n3 secret3 token \<noteq> None)"
    unfolding device_clock [of mac d2] development_clock [of mac d3]
    using issuers_exclude [OF opened(2,3)] by (fastforce simp: issuers)
  ultimately show ?thesis by blast
qed

text \<open>
  A device token made with opaque identifiers verifies under its own secret, from
  thirty seconds before it is issued until it expires, to exactly the payload it was made of.
\<close>

theorem device_token_roundtrip:
  assumes "createDeviceToken mac dateNow options = Inr token"
    and "opaque_id (do_deviceId options)" "opaque_id (do_nonce options)"
      "opaque_id (do_sessionId options)"
    and "\<And>k m. mac k m \<noteq> []"
    and "issued = now_seconds (do_nowSeconds options) dateNow"
    and "lifetime = (case do_lifetimeSeconds options of Some l \<Rightarrow> l | None \<Rightarrow> 90 * 24 * 60 * 60)"
    and "issued \<le> clock + 30" "clock < issued + lifetime"
  shows "verifyDeviceToken mac dateNow2 (Some clock) (do_secret options) token
    = Some (JObj (devicePayload options issued lifetime))"
proof -
  obtain l where l: "1 \<le> l" "l \<le> MAX_DEVICE_TOKEN_LIFETIME_SECONDS" "subject_ok (do_sub options)"
    "l = lifetime"
    "seal_token mac (do_secret options) (JObj (devicePayload options issued l)) = Inr token"
    using created_device_token [OF assms(1)] assms(6,7)
    unfolding DEFAULT_DEVICE_TOKEN_LIFETIME_SECONDS_def by metis
  have "time_valid MAX_DEVICE_TOKEN_LIFETIME_SECONDS clock (JObj (devicePayload options issued l))"
    using assms(8,9) l by (simp add: devicePayload_times)
  then have "verifyDeviceToken mac 0 (Some clock) (do_secret options) token
      = Some (JObj (devicePayload options issued l))"
    by (rule device_token.verify_sealed [OF l(5) devicePayload_wf assms(5)
        devicePayload_admitted [OF assms(2-4) l(3)]])
  then show ?thesis
    by (subst device_clock) (simp add: l)
qed

theorem device_token_roundtrip_witness:
  "\<exists>token. createDeviceToken sample_mac 0 sample_device_options = Inr token \<and>
     verifyDeviceToken sample_mac 0 (Some 5000000) sample_secret token
       = Some (JObj (devicePayload sample_device_options 1000 7776000))"
proof -
  obtain t where t: "createDeviceToken sample_mac 0 sample_device_options = Inr t"
    using sample_tokens(3) by blast
  have "verifyDeviceToken sample_mac 0 (Some 5000000) (do_secret sample_device_options) t
      = Some (JObj (devicePayload sample_device_options 1000 7776000))"
    by (rule device_token_roundtrip [OF t]) (simp_all add: sample_ids sample_mac_output)
  then show ?thesis using t by auto
qed

text \<open>
  A development ticket made with opaque identifiers verifies under its own secret for
  the role it was made for, and for no role but that one.
\<close>

theorem development_ticket_roundtrip:
  assumes "createDevelopmentTicket mac dateNow options = Inr ticket"
    and "opaque_id (to_deviceId options)" "opaque_id (to_nonce options)"
      "opaque_id (to_sessionId options)"
    and "\<And>k m. mac k m \<noteq> []"
    and "issued = now_seconds (to_nowSeconds options) dateNow"
    and "lifetime = (case to_lifetimeSeconds options of Some l \<Rightarrow> l | None \<Rightarrow> 300)"
    and "issued \<le> clock + 30" "clock < issued + lifetime"
  shows "verifyDevelopmentTicket mac dateNow2 expectedRole (Some clock) (to_secret options) ticket
    = (if expectedRole = None \<or> expectedRole = Some (to_role options)
       then Some (JObj (developmentPayload options issued lifetime)) else None)"
proof -
  obtain l where l: "1 \<le> l" "l \<le> 600" "l = lifetime"
    "seal_token mac (to_secret options) (JObj (developmentPayload options issued l)) = Inr ticket"
    using created_development_ticket [OF assms(1)] assms(6,7) by metis
  let ?v = "JObj (developmentPayload options issued l)"
  have opened: "open_token mac (to_secret options) ticket = Some ?v"
    using open_seal [OF l(4) developmentPayload_wf assms(5)] .
  have time: "time_valid MAX_TICKET_LIFETIME_SECONDS clock ?v"
    using assms(8,9) l by (simp add: developmentPayload_times MAX_TICKET_LIFETIME_SECONDS_def)
  have role: "jget ?v ''role'' = Some (JStr (lit (role_text (to_role options))))"
    by (simp add: developmentPayload_def)
  show ?thesis
    using developmentPayload_admitted [OF assms(2-4), of issued l] time role
    by (cases expectedRole) (simp_all add: verifyDevelopmentTicket_def opened Let_def l(3))
qed

theorem development_ticket_roundtrip_witness:
  "\<exists>ticket. createDevelopmentTicket sample_mac 0 sample_ticket_options = Inr ticket \<and>
     verifyDevelopmentTicket sample_mac 0 (Some Viewer) (Some 1200) sample_secret ticket
       = Some (JObj (developmentPayload sample_ticket_options 1000 300))"
proof -
  obtain t where t: "createDevelopmentTicket sample_mac 0 sample_ticket_options = Inr t"
    using sample_tokens(1) by blast
  have "verifyDevelopmentTicket sample_mac 0 (Some Viewer) (Some 1200) (to_secret sample_ticket_options) t
      = (if Some Viewer = (None :: role option) \<or> Some Viewer = Some (to_role sample_ticket_options)
         then Some (JObj (developmentPayload sample_ticket_options 1000 300)) else None)"
    by (rule development_ticket_roundtrip [OF t]) (simp_all add: sample_ids sample_mac_output)
  then show ?thesis using t by auto
qed

text \<open>
  A captured token is useful for a bounded time only: two moments at which the same
  session ticket verifies are less than fifteen and a half minutes apart.
\<close>

theorem replay_is_bounded:
  "verifySessionTicket mac d (Some now1) secret token = Some v \<Longrightarrow>
   verifySessionTicket mac d (Some now2) secret token = Some w \<Longrightarrow> now2 - now1 < 930"
proof -
  assume "verifySessionTicket mac d (Some now1) secret token = Some v"
    "verifySessionTicket mac d (Some now2) secret token = Some w"
  then have "verifySessionTicket mac 0 (Some now1) secret token = Some v"
    "verifySessionTicket mac 0 (Some now2) secret token = Some w"
    by (metis session_clock now_seconds_Some)+
  then show "now2 - now1 < 930"
    using session_ticket.replay_window
    by (fastforce simp: MAX_SESSION_TICKET_LIFETIME_SECONDS_def)
qed

theorem replay_is_bounded_witness:
  "\<exists>token v. verifySessionTicket sample_mac 0 (Some 1200) sample_secret token = Some v
     \<and> (1200 :: int) - 1200 < 930"
proof -
  obtain t where t: "createSessionTicket sample_mac 0 sample_session_options = Inr t"
    using sample_tokens(2) by blast
  have v: "verifySessionTicket sample_mac 0 (Some 1200) sample_secret t
      = Some (JObj (sessionPayload sample_session_options 1000 300))"
    by (rule sample_session_verifies [OF t])
  then show ?thesis using replay_is_bounded [OF v v] by blast
qed

section \<open>The session room\<close>

text \<open>
  C1. In every state a run of the room can reach, at most one live socket holds each role,
  and the socket that holds a role carries an attachment of that role.
\<close>

theorem single_occupancy:
  assumes "session_runtime rt" "reachable rt t r"
  shows "(holds role r i \<and> holds role r j \<longrightarrow> i = j)
    \<and> (holds role r i \<longrightarrow> map_option at_role (attachment_of (sockets r ! i)) = Some role)"
proof -
  have "room_ok rt r"
    using session_runtime.reachable_ok [OF assms] .
  then show ?thesis
    using holds_role [of rt r role i] unfolding room_ok_def by blast
qed

theorem single_occupancy_witness:
  "holds Agent full_room 0
   \<and> map_option at_role (attachment_of (sockets full_room ! 0)) = Some Agent"
  using single_occupancy [OF standard.session_runtime_axioms full_room_reachable, of Agent 0 0]
    full_room_holds(1) by blast

text \<open>
  C2. Whatever a socket has been sent in a reachable room is either one of the room's own
  error messages, for the session of that very socket, or the exact text of a message that
  is valid, within the size limit, and of a type the opposite role may send (a heartbeat is
  never passed on).
\<close>

theorem received_frames_legitimate:
  assumes "session_runtime rt" "reachable rt t r" "s \<in> set (sockets r)" "f \<in> set (sentFrames s)"
  shows "(\<exists>a code retryable. map_option at_sessionId (attachment_of s) = Some (at_sessionId a)
            \<and> code \<in> set ROOM_CODES \<and> f = error_frame a code retryable)
    \<or> (\<exists>role v m. role \<in> set (tags s) \<and> json_parse f = Some v
            \<and> validateSignalingMessage (ajv_of rt) v = Some m
            \<and> isAllowedMessageType (other_role role) (message_type m)
            \<and> message_type m \<noteq> lit ''agent.heartbeat''
            \<and> length (text_encode f) \<le> MAX_SIGNALING_MESSAGE_BYTES)"
proof -
  have "room_ok rt r"
    using session_runtime.reachable_ok [OF assms(1,2)] .
  then have "frame_ok rt s f"
    using assms(3,4) by (auto simp: room_ok_def socket_ok_def)
  then show ?thesis
    unfolding frame_ok_def own_error_def peer_message_def by blast
qed

theorem received_frames_legitimate_witness:
  "(\<exists>a code retryable. map_option at_sessionId (attachment_of (sockets closing_room ! 0))
            = Some (at_sessionId a)
            \<and> code \<in> set ROOM_CODES \<and> sample_close_text = error_frame a code retryable)
    \<or> (\<exists>role v m. role \<in> set (tags (sockets closing_room ! 0)) \<and> json_parse sample_close_text = Some v
            \<and> validateSignalingMessage (ajv_of standard_runtime) v = Some m
            \<and> isAllowedMessageType (other_role role) (message_type m)
            \<and> message_type m \<noteq> lit ''agent.heartbeat''
            \<and> length (text_encode sample_close_text) \<le> MAX_SIGNALING_MESSAGE_BYTES)"
  by (rule received_frames_legitimate [OF standard.session_runtime_axioms closing_room_reachable])
    (simp_all add: closing_room_sockets)

text \<open>
  C3. A message changes no socket but its sender's and at most one more: the open socket of
  the opposite role, which is sent the text unchanged, and only when the text is within the
  size limit, is valid, carries the viewer's own session, is of a type the sender's role may
  send, is no heartbeat, and is within the request rate.
\<close>

theorem message_reaches_only_the_peer:
  assumes "sockets (snd (webSocketMessage rt now i data r)) ! j \<noteq> sockets r ! j" "j \<noteq> i"
  shows "\<exists>a text m. attachment_of (sockets r ! i) = Some a \<and> data = Text text
    \<and> relay_guards rt now r a text m
    \<and> holds (other_role (at_role a)) r j \<and> readyState (sockets r ! j) = WsOpen
    \<and> sockets (snd (webSocketMessage rt now i data r)) ! j
      = (sockets r ! j)\<lparr>sentFrames := sentFrames (sockets r ! j) @ [text]\<rparr>"
  using message_reaches [OF assms] findSocket_Some by blast

theorem message_reaches_only_the_peer_witness:
  "\<exists>a text m. attachment_of (sockets full_room ! 1) = Some a
    \<and> Text sample_close_text = Text text
    \<and> relay_guards standard_runtime 3 full_room a text m
    \<and> holds (other_role (at_role a)) full_room 0 \<and> readyState (sockets full_room ! 0) = WsOpen
    \<and> sockets (snd (webSocketMessage standard_runtime 3 1 (Text sample_close_text) full_room)) ! 0
      = (sockets full_room ! 0)\<lparr>sentFrames := sentFrames (sockets full_room ! 0) @ [text]\<rparr>"
proof (rule message_reaches_only_the_peer)
  show "sockets (snd (webSocketMessage standard_runtime 3 1 (Text sample_close_text) full_room)) ! 0
      \<noteq> sockets full_room ! 0"
    unfolding closing_room_def [symmetric]
    by (simp add: closing_room_sockets full_room_sockets sample_socket_def)
qed simp

text \<open>
  C24. On a production host a room changes only when the request is authorised for that
  very device: a session ticket of a viewer from the allowed origin, or a device token of an
  agent that sends no origin, verified under its own secret. The room is then entered with
  the identity of the token.
\<close>

theorem production_room_needs_token:
  assumes "hr_hostname request \<notin> lit ` set LOCAL_HOSTNAMES"
    and "snd (worker_fetch rt api mac now environment request rooms) d \<noteq> rooms d"
  shows "\<exists>payload role.
    (role = Viewer \<and> authorised_viewer mac now environment request d payload
     \<or> role = Agent \<and> authorised_agent mac now environment request d payload)
    \<and> worker_fetch rt api mac now environment request rooms
      = forwardToRoom rt (of_int now) request (payload_context role payload) rooms"
proof -
  have "snd (worker_fetch rt api mac now environment request rooms) \<noteq> rooms"
    using assms(2) by auto
  then have "worker_fetch rt api mac now environment request rooms
      = handleWebSocketUpgrade rt mac now environment request rooms"
    using worker_room_change by blast
  then show ?thesis
    using production_upgrade_authorised [OF assms(1)] assms(2) by simp
qed

theorem production_room_needs_token_witness:
  "\<exists>request payload role.
    (role = Viewer \<and> authorised_viewer sample_mac 1200000 sample_env request sample_device payload
     \<or> role = Agent \<and> authorised_agent sample_mac 1200000 sample_env request sample_device payload)
    \<and> worker_fetch standard_runtime (\<lambda>_ _. None) sample_mac 1200000 sample_env request (\<lambda>_. agent_room)
      = forwardToRoom standard_runtime (of_int 1200000) request (payload_context role payload)
          (\<lambda>_. agent_room)"
proof -
  obtain t where t: "createSessionTicket sample_mac 0 sample_session_options = Inr t"
    using sample_tokens(2) by blast
  let ?request = "sample_upgrade_request (Some (lit ''https://viewer.example.com'')) t"
  have "length (sockets (snd (join_room standard_runtime (sample_attachment Viewer 1200000) agent_room)))
      = Suc (length (sockets agent_room))"
    by (simp add: joined_sockets)
  then have "snd (worker_fetch standard_runtime (\<lambda>_ _. None) sample_mac 1200000 sample_env ?request
      (\<lambda>_. agent_room)) sample_device \<noteq> agent_room"
    unfolding sample_worker_join(2) [OF t] by (metis n_not_Suc_n)
  then show ?thesis
    by (intro exI [of _ ?request]
        production_room_needs_token [OF sample_request_facts(1), where rooms = "\<lambda>_. agent_room"])
qed

text \<open>
  C25. The identity a room attaches to a socket is the one the Worker put into the forwarded
  request, whatever \<open>x-mirror-*\<close> headers the client sent: role, device, session and subject
  are those of the verified context.
\<close>

theorem forwarded_identity:
  assumes "room_headers context client_headers = Some forwarded"
    and "readAttachmentHeaders now forwarded = Some a"
  shows "at_role a = rc_role context
    \<and> header_value (rc_deviceId context) = Some (at_deviceId a)
    \<and> header_value (rc_sessionId context) = Some (at_sessionId a)
    \<and> header_value (rc_subject context) = Some (at_subject a)"
  using assms by (rule room_headers_attachment)

theorem forwarded_identity_witness:
  "\<exists>forwarded a. room_headers sample_context (sample_headers Agent) = Some forwarded
    \<and> readAttachmentHeaders 7 forwarded = Some a \<and> at_role a = Viewer
    \<and> header_value sample_device = Some (at_deviceId a)"
proof -
  obtain hs' where hs: "room_headers sample_context (sample_headers Agent) = Some hs'"
    "readAttachmentHeaders 7 hs' = Some (sample_attachment Viewer 7)"
    using sample_room_headers by blast
  then show ?thesis
    using forwarded_identity [OF hs] by (auto simp: sample_context_def)
qed

text \<open>
  C33. The agent's watchdog. While an agent holds its room the alarm is armed, for no later
  than thirty seconds after the agent was last heard. When the alarm handler runs after that
  long a silence, no agent holds the room any more.
\<close>

theorem agent_watchdog:
  assumes "session_runtime rt" "accepted rt = WsOpen" "\<And>s. delivers rt s \<Longrightarrow> s = WsOpen"
    and "reachable rt t r" "holds Agent r i"
  shows "\<exists>a deadline. attachment_of (sockets r ! i) = Some a \<and> at_lastSeenAt a \<le> t
    \<and> alarmAt r = Some deadline \<and> deadline \<le> at_lastSeenAt a + 30000
    \<and> (at_lastSeenAt a + 30000 \<le> now \<longrightarrow> \<not> hasRole Agent (alarm rt now (r\<lparr>alarmAt := None\<rparr>)))"
proof -
  have w: "watch_ok t r"
    using session_runtime.reachable_watch [OF assms(1,4,2,3)] .
  have ok: "room_ok rt r" using session_runtime.reachable_ok [OF assms(1,4)] .
  obtain a d where a: "attachment_of (sockets r ! i) = Some a" "at_lastSeenAt a \<le> t"
    "alarmAt r = Some d" "d \<le> at_lastSeenAt a + AGENT_HEARTBEAT_TIMEOUT_MS"
    using w assms(5) unfolding watch_ok_def by blast
  show ?thesis
    using session_runtime.alarm_evicts [OF assms(1) ok w assms(5) a(1)] a
    unfolding AGENT_HEARTBEAT_TIMEOUT_MS_def by blast
qed

theorem agent_watchdog_witness:
  "\<exists>a deadline. attachment_of (sockets full_room ! 0) = Some a \<and> at_lastSeenAt a \<le> 2
    \<and> alarmAt full_room = Some deadline \<and> deadline \<le> at_lastSeenAt a + 30000
    \<and> (at_lastSeenAt a + 30000 \<le> 40000 \<longrightarrow>
         \<not> hasRole Agent (alarm standard_runtime 40000 (full_room\<lparr>alarmAt := None\<rparr>)))"
  by (rule agent_watchdog [OF standard.session_runtime_axioms _ _ full_room_reachable full_room_holds(1)])
    (simp_all add: standard_runtime_def)

text \<open>
  C34. A viewer that arrives while the agent is there takes over: it joins as a new socket,
  it is the only one holding the viewer's role, an old viewer is told \<open>SESSION_REPLACED\<close> and
  closed, and no other socket changes.
\<close>

theorem viewer_takeover:
  assumes "session_runtime rt" "reachable rt t r" "hasRole Agent r"
    and "map_option ascii_lower (hs ''upgrade'') = Some (lit ''websocket'')"
    and "readAttachmentHeaders now hs = Some a" "at_role a = Viewer"
  shows "fst (fetch rt now hs r) = Inr (Upgraded (length (sockets r)))
    \<and> (holds Viewer (snd (fetch rt now hs r)) i \<longleftrightarrow> i = length (sockets r))
    \<and> (j < length (sockets r) \<longrightarrow> sockets (snd (fetch rt now hs r)) ! j =
         (if Viewer \<in> set (tags (sockets r ! j)) then evict_socket rt (sockets r ! j)
          else sockets r ! j))"
  using session_runtime.takeover_joins [OF assms(1) session_runtime.reachable_ok [OF assms(1,2)] assms(3-6)]
  by blast

theorem viewer_takeover_witness:
  "fst (fetch standard_runtime 5 (sample_headers Viewer) full_room) = Inr (Upgraded 2)
    \<and> (holds Viewer (snd (fetch standard_runtime 5 (sample_headers Viewer) full_room)) 1 \<longleftrightarrow> (1::nat) = 2)"
  using viewer_takeover [OF standard.session_runtime_axioms full_room_reachable full_room_has(1)
      sample_upgrade sample_read, where i = 1 and j = 0]
  by (simp add: full_room_sockets)

text \<open>
  C35. A viewer that arrives while the agent is away is turned down with \<open>AGENT_OFFLINE\<close>,
  and afterwards no viewer holds the room: the one that was waiting there has been evicted by
  a request that was itself refused.
\<close>

theorem rejected_viewer_displaces:
  assumes "session_runtime rt" "reachable rt t r" "\<not> hasRole Agent r"
    and "map_option ascii_lower (hs ''upgrade'') = Some (lit ''websocket'')"
    and "readAttachmentHeaders now hs = Some a" "at_role a = Viewer"
  shows "\<not> hasRole Viewer (snd (fetch rt now hs r))
    \<and> \<not> hasRole Agent (snd (fetch rt now hs r))"
  using session_runtime.rejected_displaces [OF assms(1) session_runtime.reachable_ok [OF assms(1,2)] assms(3-6)]
    session_runtime.rejected_no_agent [OF assms(1) session_runtime.reachable_ok [OF assms(1,2)] assms(3-6)]
  by blast

theorem rejected_viewer_displaces_witness:
  "hasRole Viewer silent_room
    \<and> \<not> hasRole Viewer (snd (fetch standard_runtime 40001 (sample_headers Viewer) silent_room))"
  using rejected_viewer_displaces [OF standard.session_runtime_axioms silent_room_reachable
      silent_room_roles(1) sample_upgrade sample_read] silent_room_roles(2)
  by (auto simp: hasRole_iff)

text \<open>
  While an agent holds the room, a second agent is refused with status 409 and the room
  does not change, so a running session cannot be taken from the device by its own token.
\<close>

theorem second_agent_refused:
  assumes "hasRole Agent r" "map_option ascii_lower (hs ''upgrade'') = Some (lit ''websocket'')"
    and "readAttachmentHeaders now hs = Some a" "at_role a = Agent"
  shows "fetch rt now hs r = (Inr (Refused 409 ''AGENT_ALREADY_ONLINE''), r)"
  using assms by (simp add: fetch_def)

theorem second_agent_refused_witness:
  "fetch standard_runtime 5 (sample_headers Agent) full_room
     = (Inr (Refused 409 ''AGENT_ALREADY_ONLINE''), full_room)"
  by (rule second_agent_refused [OF full_room_has(1) sample_upgrade sample_read]) simp

text \<open>
  Every error message the room sends is itself a message of the protocol: its text
  parses back, and validates, for each of the room's codes.
\<close>

theorem room_errors_are_messages:
  assumes "json_schema_validator ajv" "code \<in> set ROOM_CODES" "opaque_id (at_sessionId a)"
  shows "\<exists>v. json_parse (error_frame a code retryable) = Some v
    \<and> validateSignalingMessage ajv v = Some v
    \<and> message_type v = lit ''error'' \<and> message_sessionId v = at_sessionId a"
proof -
  have "validateSignalingMessage (ajv_of standard_runtime) (createErrorMessage a code retryable)
      = Some (createErrorMessage a code retryable)"
    by (rule standard.error_message_valid [OF assms(2,3)])
  then have "validateSignalingMessage ajv (createErrorMessage a code retryable)
      = Some (createErrorMessage a code retryable)"
    using validator_unique [OF assms(1)] by (simp add: standard_runtime_def)
  then show ?thesis
    using error_frame_parses [of a code retryable]
    by (simp add: createErrorMessage_def message_type_def message_sessionId_def string_of_def)
qed

theorem room_errors_are_messages_witness:
  "\<exists>v. json_parse (error_frame (sample_attachment Viewer 0) ''RATE_LIMITED'' False) = Some v
    \<and> validateSignalingMessage schema_accepts v = Some v
    \<and> message_type v = lit ''error''"
  using room_errors_are_messages [OF reference.json_schema_validator_axioms,
      of "''RATE_LIMITED''" "sample_attachment Viewer 0" False]
  by (auto simp: ROOM_CODES_def sample_attachment_def sample_ids)

text \<open>
  A reachable room remembers at most five request times, whatever the clients send.
\<close>

theorem request_memory_bounded:
  assumes "reachable rt t r"
  shows "length (sessionRequestTimestamps r) \<le> 5"
  using assms by (rule requests_bounded)

theorem request_memory_bounded_witness: "length (sessionRequestTimestamps full_room) \<le> 5"
  by (rule request_memory_bounded [OF full_room_reachable])

section \<open>From the Access login to the room\<close>

text \<open>
  C26. The Pages Function answers a request for a ticket with status 200 only when the
  deployment is configured and Cloudflare Access vouches for the request: the assertion of
  the request verifies under the keys of the configured issuer for the configured audience,
  to a non-empty subject that, where an allow list is set, is on it by e-mail or by subject.
\<close>

theorem issued_ticket_needs_access:
  assumes "resp_status (onRequestGet j mac now sessionBytes nonceBytes request env) = 200"
  shows "\<exists>config token keySet payload. readConfig env = Some config
    \<and> readAccessToken request = Some token
    \<and> remote_keys j (au_issuer config) = Some keySet
    \<and> jwt_verify j keySet token (au_audience config) (au_issuer config) = Some payload
    \<and> string_of (jget payload ''sub'') \<noteq> []
    \<and> (au_allowedEmails config \<noteq> [] \<longrightarrow>
         string_of (jget payload ''sub'') \<in> set (au_allowedEmails config)
         \<or> string_of (jget payload ''email'') \<in> set (au_allowedEmails config))"
proof -
  obtain config token keySet identity where c: "readConfig env = Some config"
    "readAccessToken request = Some token" "remote_keys j (au_issuer config) = Some keySet"
    "verifyAccessJwt j token (access_of config) keySet = Some identity"
    using issued_cases [OF assms] by metis
  then show ?thesis
    using access_identity_facts [OF c(4)] by (auto simp: access_of_def)
qed

theorem issued_ticket_needs_access_witness:
  "\<exists>config token keySet payload. readConfig sample_ticket_env = Some config
    \<and> readAccessToken sample_ticket_request = Some token
    \<and> remote_keys sample_jose (au_issuer config) = Some keySet
    \<and> jwt_verify sample_jose keySet token (au_audience config) (au_issuer config) = Some payload
    \<and> string_of (jget payload ''sub'') \<noteq> []"
  using issued_ticket_needs_access [OF sample_ticket_reply] by blast

text \<open>
  C27. The two services agree. A ticket the Pages Function has issued opens the room: sent to
  the signaling Worker of a production host that shares its secret, from the allowed origin,
  at any moment from thirty seconds before to 299 seconds after the issue, it makes the room of
  the configured device, if the agent is there, accept the viewer as its only one, in the
  session the answer named and with the account's name attached; no other room changes. The
  account's name is the e-mail or else the subject Access vouched for; it must be one a header
  can carry and not white space only (outside Latin-1 the Worker throws instead).
\<close>

theorem issued_ticket_opens_room:
  assumes "session_runtime rt"
    and "resp_status (onRequestGet j mac now sessionBytes nonceBytes request env) = 200"
    and "readConfig env = Some config" "readAccessToken request = Some assertion"
      "remote_keys j (au_issuer config) = Some keySet"
      "verifyAccessJwt j assertion (access_of config) keySet = Some identity"
    and "header_value (if id_email identity \<noteq> [] then id_email identity else id_subject identity) = Some account"
      "account \<noteq> []"
    and "length sessionBytes = 18" "length nonceBytes = 18" "opaque_id (au_deviceId config)"
    and "map_option js_trim (SESSION_TICKET_SECRET environment)
       = map_option js_trim (ENV_TICKET_SECRET env)"
    and "\<And>k m. mac k m \<noteq> []"
    and "now \<le> now2 + 30000" "now2 \<le> now + 299000"
    and "hr_hostname ws \<notin> lit ` set LOCAL_HOSTNAMES" "hr_method ws = lit ''GET''"
      "hr_pathname ws = lit ''/ws''" "isWebSocketUpgrade ws"
    and "hr_headers ws ''origin'' = Some origin"
    and "truthy (map_option js_trim (VIEWER_ORIGIN environment)) \<Longrightarrow>
      map_option js_trim (VIEWER_ORIGIN environment) = Some origin"
    and "search_param ws ''ticket'' = as_string (jget (resp_body
       (onRequestGet j mac now sessionBytes nonceBytes request env)) ''ticket'')"
    and "rooms (au_deviceId config) = r" "reachable rt t r" "hasRole Agent r"
  shows "\<exists>rooms'. worker_fetch rt api mac now2 environment ws rooms = (RoomReply (Upgraded (length (sockets r))), rooms')
    \<and> (\<forall>i. holds Viewer (rooms' (au_deviceId config)) i \<longleftrightarrow> i = length (sockets r))
    \<and> attachment_of (sockets (rooms' (au_deviceId config)) ! length (sockets r)) = Some
        \<lparr>at_connectedAt = of_int now2, at_deviceId = au_deviceId config, at_lastSeenAt = of_int now2, at_role = Viewer,
         at_sessionId = session_of request sessionBytes, at_subject = account\<rparr>
    \<and> (\<forall>d. d \<noteq> au_deviceId config \<longrightarrow> rooms' d = rooms d)"
proof -
  obtain ticket where c: "readResumeSessionId request \<noteq> InvalidResume"
    "createSessionTicket mac now (ticket_options_of config identity nonceBytes
       (readPermission request) (session_of request sessionBytes)) = Inr ticket"
    "as_string (jget (resp_body (onRequestGet j mac now sessionBytes nonceBytes request env))
       ''ticket'') = Some ticket"
    using issued_cases [OF assms(2)] assms(3-6) by (metis issued_ticket_field option.inject)
  let ?o = "ticket_options_of config identity nonceBytes (readPermission request)
    (session_of request sessionBytes)"
  define subject where "subject = (if id_email identity \<noteq> [] then id_email identity else id_subject identity)"
  have o: "so_deviceId ?o = au_deviceId config" "so_sessionId ?o = session_of request sessionBytes"
    "so_nonce ?o = opaqueId ''nonce'' nonceBytes" "so_secret ?o = au_ticketSecret config"
    "so_nowSeconds ?o = None" "so_lifetimeSeconds ?o = None" "so_sub ?o = subject"
    by (simp_all add: ticket_options_of_def subject_def)
  have ids: "opaque_id (so_deviceId ?o)" "opaque_id (so_nonce ?o)" "opaque_id (so_sessionId ?o)"
    using assms(11) opaqueId_opaque [OF assms(10), of "''nonce''"] session_of_opaque [OF assms(9) c(1)]
    by (simp_all add: o)
  have v: "verifySessionTicket mac now2 None (au_ticketSecret config) ticket
      = Some (JObj (sessionPayload ?o (now_seconds None now) 300))"
    using session_ticket_verifies [OF c(2) ids assms(13), of "now_seconds None now" 300 None now2]
      assms(14,15) by (simp add: o now_seconds_def)
  let ?c = "\<lparr>rc_deviceId = au_deviceId config, rc_role = Viewer, rc_sessionId = session_of request sessionBytes,
    rc_subject = subject\<rparr>"
  have "worker_fetch rt api mac now2 environment ws rooms
      = handleWebSocketUpgrade rt mac now2 environment ws rooms"
    by (rule routed_upgrade [OF assms(17-19)])
  also have "\<dots> = forwardToRoom rt (of_int now2) ws
      (payload_context Viewer (JObj (sessionPayload ?o (now_seconds None now) 300))) rooms"
  proof (rule viewer_upgrade_accepts [OF assms(16,20) _ _ _ _ _ v])
    show "map_option js_trim (SESSION_TICKET_SECRET environment) = Some (au_ticketSecret config)"
      using assms(12) readConfig_values [OF assms(3)] by simp
    show "search_param ws ''ticket'' = Some ticket" using assms(22) c(3) by simp
    show "au_ticketSecret config \<noteq> []" "ticket \<noteq> []" using verified_not_empty [OF v] by simp_all
  qed (use assms(21) in simp)
  also have "\<dots> = forwardToRoom rt (of_int now2) ws ?c rooms" unfolding session_payload_context o by (rule refl)
  finally have forwarded: "worker_fetch rt api mac now2 environment ws rooms = forwardToRoom rt (of_int now2) ws ?c rooms" .
  have "room_ok rt r" using session_runtime.reachable_ok [OF assms(1,24)] .
  then show ?thesis
    using session_runtime.viewer_admitted [OF assms(1), where who = ?c and label = account and request = ws and now = "of_int now2"
        and rooms = rooms] assms(7,8,19,23,25) ids o
    by (cases "forwardToRoom rt (of_int now2) ws ?c rooms") (auto simp: forwarded attachment_for_def subject_def)
qed

theorem issued_ticket_opens_room_witness:
  "\<exists>ws rooms'. worker_fetch standard_runtime (\<lambda>_ _. None) sample_mac 1200000 sample_env ws (\<lambda>_. full_room)
      = (RoomReply (Upgraded 2), rooms') \<and> holds Viewer full_room 1
    \<and> holds Viewer (rooms' sample_device) 2 \<and> \<not> holds Viewer (rooms' sample_device) 1"
proof -
  let ?reply = "onRequestGet sample_jose sample_mac 1000000 sample_bytes sample_bytes
    sample_ticket_request sample_ticket_env"
  obtain ticket where ticket: "as_string (jget (resp_body ?reply) ''ticket'') = Some ticket"
    using issued_cases [OF sample_ticket_reply] by (metis issued_ticket_field)
  have device: "au_deviceId sample_auth_config = sample_device" by (simp add: sample_auth_config_def)
  have owner: "header_value (if id_email sample_identity \<noteq> [] then id_email sample_identity else id_subject sample_identity)
      = Some (lit ''owner@example.com'')" "lit ''owner@example.com'' \<noteq> []"
    using sample_account by (simp_all add: lit_Cons)
  have n: "length (sockets full_room) = 2" by (simp add: full_room_sockets)
  have bytes: "length sample_bytes = 18" by (simp add: sample_bytes_def)
  have "\<exists>rooms'. worker_fetch standard_runtime (\<lambda>_ _. None) sample_mac 1200000 sample_env
        (sample_upgrade_request (Some (lit ''https://viewer.example.com'')) ticket) (\<lambda>_. full_room)
      = (RoomReply (Upgraded (length (sockets full_room))), rooms')
    \<and> (\<forall>i. holds Viewer (rooms' (au_deviceId sample_auth_config)) i \<longleftrightarrow> i = length (sockets full_room))
    \<and> attachment_of (sockets (rooms' (au_deviceId sample_auth_config)) ! length (sockets full_room)) = Some
        \<lparr>at_connectedAt = of_int 1200000, at_deviceId = au_deviceId sample_auth_config, at_lastSeenAt = of_int 1200000,
         at_role = Viewer, at_sessionId = session_of sample_ticket_request sample_bytes,
         at_subject = lit ''owner@example.com''\<rparr>
    \<and> (\<forall>d. d \<noteq> au_deviceId sample_auth_config \<longrightarrow> rooms' d = full_room)"
    by (rule issued_ticket_opens_room [OF standard.session_runtime_axioms sample_ticket_reply sample_readConfig
          sample_access owner, where origin = "lit ''https://viewer.example.com''" and t = 2])
      (simp_all add: sample_request_facts sample_ids sample_mac_output ticket sample_env_secret
        sample_ticket_env_secret bytes device full_room_reachable full_room_has)
  then obtain rooms' where "worker_fetch standard_runtime (\<lambda>_ _. None) sample_mac 1200000 sample_env
        (sample_upgrade_request (Some (lit ''https://viewer.example.com'')) ticket) (\<lambda>_. full_room)
      = (RoomReply (Upgraded 2), rooms')" "\<forall>i. holds Viewer (rooms' sample_device) i \<longleftrightarrow> i = 2"
    by (auto simp: n device)
  then show ?thesis
    using full_room_holds(2) by (intro exI conjI) (assumption | simp)+
qed

section \<open>The protocol's messages\<close>

text \<open>
  What \<open>validateSignalingMessage\<close> accepts. A message is passed on unchanged; it is an
  object with exactly the five envelope members, version 1, an opaque session id, a sequence
  number in the safe range, one of the protocol's types, and a payload that meets the schema
  of that type and of no other.
\<close>

theorem validated_signaling_message:
  assumes "json_schema_validator ajv" "validateSignalingMessage ajv v = Some m"
  shows "m = v \<and> (\<exists>t p ps w n s. v = JObj ps
    \<and> fst ` set ps \<subseteq> lit ` {''payload'', ''sequence'', ''sessionId'', ''type'', ''version''}
    \<and> map_of signaling_payloads t = Some p
    \<and> map_of ps (lit ''type'') = Some (JStr (lit t))
    \<and> map_of ps (lit ''payload'') = Some w \<and> ajv p w
    \<and> map_of ps (lit ''sequence'') = Some (JNum (of_int n)) \<and> 0 \<le> n \<and> n \<le> 2 ^ 53 - 1
    \<and> map_of ps (lit ''sessionId'') = Some (JStr s) \<and> opaque_id s
    \<and> map_of ps (lit ''version'') = Some (JNum 1))"
proof -
  note laws = json_schema_validator.signaling_schema [OF assms(1)]
    json_schema_validator.signaling_envelope_fields [OF assms(1)]
  have m: "m = v" "ajv SignalingMessageSchema v"
    using assms(2) by (simp_all add: validate_defs split: if_splits)
  then obtain t p where t: "(t, p) \<in> set signaling_payloads" "ajv (signaling_envelope t p) v"
    unfolding laws(1) by blast
  have "map_of signaling_payloads t = Some p"
    using t(1) signaling_types_distinct by simp
  moreover have "MAX_SAFE_INTEGER = 2 ^ 53 - 1"
    by (simp add: MAX_SAFE_INTEGER_def)
  ultimately show ?thesis
    using laws(2) [OF t(2)] m(1) by (metis subsetI)
qed

theorem validated_signaling_message_witness:
  "\<exists>t p w. map_of signaling_payloads t = Some p \<and> schema_accepts p w
    \<and> jget sample_close ''payload'' = Some w \<and> jget sample_close ''type'' = Some (JStr (lit t))"
  using validated_signaling_message [OF reference.json_schema_validator_axioms close_valid]
  by (metis jget.simps(1))

text \<open>
  The control schema admits a key code when it is one of the 113 codes of the list, and
  nothing else: the pattern, anchored at both ends, accepts a finite set.
\<close>

theorem keyboard_schema_codes:
  assumes "json_schema_validator ajv"
  shows "ajv KeyboardCodeSchema v \<longleftrightarrow> v \<in> JStr ` lit ` set SCHEMA_CODES"
  using json_schema_validator.string_law [OF assms, of None "Some 16" "Some KEYBOARD_CODE_PATTERN" v]
  by (cases v) (auto simp: KeyboardCodeSchema_def code_string_bounds)

theorem keyboard_schema_codes_witness:
  "schema_accepts KeyboardCodeSchema (JStr (lit ''KeyA''))"
  unfolding keyboard_schema_codes [OF reference.json_schema_validator_axioms]
  by (simp add: SCHEMA_CODES_def CAPTURE_CODES_def prefixed_def letters_def)

text \<open>
  C36. Whatever code the viewer's capture lets through, the control schema admits; the
  converse fails exactly on the two Meta keys, so the two whitelists are not the same.
\<close>

theorem capture_within_schema:
  assumes "json_schema_validator ajv"
  shows "rmatch KEY_CODE_PATTERN code \<longleftrightarrow>
    ajv KeyboardCodeSchema (JStr code) \<and> code \<noteq> lit ''MetaLeft'' \<and> code \<noteq> lit ''MetaRight''"
proof -
  have "rmatch KEY_CODE_PATTERN code \<longleftrightarrow> code \<in> lit ` set CAPTURE_CODES"
    using capture_codes by (simp add: rmatch_iff accepts_codes_def)
  moreover have "ajv KeyboardCodeSchema (JStr code) \<longleftrightarrow> code \<in> lit ` set SCHEMA_CODES"
    using json_schema_validator.string_law [OF assms, of None "Some 16" "Some KEYBOARD_CODE_PATTERN"]
    by (simp add: KeyboardCodeSchema_def code_string_bounds)
  moreover have "lit ''MetaLeft'' \<notin> lit ` set CAPTURE_CODES" "lit ''MetaRight'' \<notin> lit ` set CAPTURE_CODES"
    using meta_not_captured by auto
  ultimately show ?thesis by (auto simp: SCHEMA_CODES_def)
qed

theorem capture_within_schema_witness:
  "\<not> rmatch KEY_CODE_PATTERN (lit ''MetaLeft'')
   \<and> (rmatch KEY_CODE_PATTERN (lit ''F12'') \<longleftrightarrow> schema_accepts KeyboardCodeSchema (JStr (lit ''F12'')))"
  using capture_within_schema [OF reference.json_schema_validator_axioms, of "lit ''MetaLeft''"]
    capture_within_schema [OF reference.json_schema_validator_axioms, of "lit ''F12''"]
  by simp

text \<open>
  The three readings of an identifier agree: what the message schemas admit, what the
  token payloads admit, and what a header carries unchanged.
\<close>

theorem identifiers_agree:
  assumes "json_schema_validator ajv"
  shows "(ajv OpaqueIdSchema (JStr s) \<longleftrightarrow> opaque_id s) \<and> (opaque_id s \<longrightarrow> header_value s = Some s)"
  using json_schema_validator.opaque_id_schema [OF assms] header_value_opaque by blast

theorem identifiers_agree_witness:
  "schema_accepts OpaqueIdSchema (JStr sample_session) \<and> header_value sample_session = Some sample_session"
  using identifiers_agree [OF reference.json_schema_validator_axioms, of sample_session] sample_ids
  by blast

text \<open>
  The contract of the schema validator determines it: any two validators under the
  contract accept the same values for every schema, and the executable reading is one.
\<close>

theorem validator_determined:
  assumes "json_schema_validator ajv"
  shows "ajv s v = schema_accepts s v"
  using validator_unique [OF assms] by simp

theorem validator_determined_witness:
  "schema_accepts SequenceSchema (JNum 5) = schema_accepts SequenceSchema (JNum 5)
   \<and> schema_accepts SequenceSchema (JNum 5)"
  using validator_determined [OF reference.json_schema_validator_axioms, of SequenceSchema "JNum 5"]
  by (simp add: SequenceSchema_def MAX_SAFE_INTEGER_def is_integer_def)

text \<open>
  C37. The sliding window keeps its promise over any run of events at nondecreasing times:
  no interval of the window's length holds more accepted events than the policy allows.
\<close>

theorem rate_window_bound:
  assumes "sorted nows"
  shows "in_window t policy (snd (rate_run policy nows)) \<le> maxEvents policy"
  using assms by (rule window_bound)

theorem rate_window_bound_witness:
  "in_window 3 SESSION_REQUEST_RATE_LIMIT (snd (rate_run SESSION_REQUEST_RATE_LIMIT [0, 1, 1, 2, 3, 3]))
    \<le> maxEvents SESSION_REQUEST_RATE_LIMIT"
  by (rule rate_window_bound) simp

section \<open>Texts and bytes\<close>

text \<open>
  \<open>JSON.parse\<close> inverts \<open>JSON.stringify\<close> on every value without repeated member names.
\<close>

theorem json_roundtrip:
  assumes "json_text v = Some t" "json_wf v"
  shows "json_parse t = Some v"
  using assms by (rule json_parse_text)

theorem json_roundtrip_witness: "json_parse sample_close_text = Some sample_close"
  by (rule json_roundtrip [OF close_text]) (simp add: sample_close_def)

text \<open>
  \<open>decodeBase64Url\<close> inverts \<open>encodeBase64Url\<close> on non-empty bytes, and the text has only
  the letters, digits, \<open>_\<close> and \<open>-\<close> an identifier may have.
\<close>

theorem base64url_roundtrip:
  assumes "bytes \<noteq> []"
  shows "decodeBase64Url (encodeBase64Url bytes) = Some bytes
    \<and> list_all is_id_unit (encodeBase64Url bytes)"
  using decode_encodeBase64Url [OF assms] encodeBase64Url_units by (auto simp: list_all_iff)

theorem base64url_roundtrip_witness:
  "decodeBase64Url (encodeBase64Url [0, 255]) = Some [0, 255 :: byte]"
  using base64url_roundtrip [of "[0, 255]"] by simp

section \<open>The viewer\<close>

text \<open>
  A session reaches control only through its phases: in any run of permitted transitions
  from \<open>Offline\<close>, \<open>ViewActive\<close> comes before the first \<open>ControlActive\<close> and \<open>Negotiating\<close>
  before the first \<open>ViewActive\<close>.
\<close>

theorem phases_in_order:
  assumes "leads_to Offline ts state"
  shows "(ControlActive \<in> set ts \<longrightarrow> ViewActive \<in> set (takeWhile (\<lambda>x. x \<noteq> ControlActive) ts))
    \<and> (ViewActive \<in> set ts \<longrightarrow> Negotiating \<in> set (takeWhile (\<lambda>x. x \<noteq> ViewActive) ts))"
  using control_needs_view [OF assms] view_needs_negotiation [OF assms]
  by (simp add: ACTIVE_STATE_ORDER_def)

theorem phases_in_order_witness:
  "leads_to Offline [Online, Reserved, Negotiating, ViewActive, ControlActive] ControlActive
   \<and> ViewActive \<in> set (takeWhile (\<lambda>x. x \<noteq> ControlActive)
        [Online, Reserved, Negotiating, ViewActive, ControlActive])"
proof -
  have "leads_to Offline [Online, Reserved, Negotiating, ViewActive, ControlActive] ControlActive"
    by (simp add: canTransitionConnectionState_def)
  then show ?thesis using phases_in_order by simp
qed

text \<open>
  The derived state only rises as the session becomes ready: more readiness never gives
  an earlier state, the states are the three active ones, and control needs both the video
  track and the control channel.
\<close>

theorem readiness_monotone:
  assumes "isVideoTrackReady a \<le> isVideoTrackReady b" "isControlChannelOpen a \<le> isControlChannelOpen b"
  shows "deriveActiveState a \<le> deriveActiveState b
    \<and> deriveActiveState a \<in> set ACTIVE_STATE_ORDER
    \<and> (deriveActiveState a = ControlActive \<longleftrightarrow> isVideoTrackReady a \<and> isControlChannelOpen a)"
  using assms by (auto simp: deriveActiveState_def state_order_defs ACTIVE_STATE_ORDER_def)

theorem readiness_monotone_witness:
  "deriveActiveState \<lparr>isControlChannelOpen = True, isVideoTrackReady = False\<rparr>
    \<le> deriveActiveState \<lparr>isControlChannelOpen = True, isVideoTrackReady = True\<rparr>"
  using readiness_monotone [of "\<lparr>isControlChannelOpen = True, isVideoTrackReady = False\<rparr>"
      "\<lparr>isControlChannelOpen = True, isVideoTrackReady = True\<rparr>"] by simp

text \<open>
  A pointer position that falls on the picture, put back through the contained
  rectangle, is the position it came from, and it is within the unit square; so the
  coordinates meet the schema of \<open>pointer.move\<close>.
\<close>

theorem pointer_roundtrip:
  assumes "normalizePointerToContent x y cw ch w h = Inr (Some p)"
    and "json_schema_validator ajv"
    and "map_of control_data ''pointer.move'' = Some move"
  shows "\<exists>rect. computeContainRect cw ch w h = Inr rect \<and> place_point rect p = (x, y)
    \<and> ajv move (JObj [(lit ''x'', JNum (px p)), (lit ''y'', JNum (py p))])"
proof -
  obtain rect where r: "computeContainRect cw ch w h = Inr rect"
    using assms(1) by (auto simp: normalizePointerToContent_def split: sum.splits)
  have move: "move = SObject [Required ''x'' (SNumber 0 1), Required ''y'' (SNumber 0 1)]"
    using assms(3) by (simp add: control_data_def)
  have "schema_accepts move (JObj [(lit ''x'', JNum (px p)), (lit ''y'', JNum (py p))])"
    using normalized_unit [OF assms(1)] by (simp add: move known_keys_def)
  then show ?thesis
    using r normalized_place [OF assms(1) r] validator_unique [OF assms(2)] by blast
qed

theorem pointer_roundtrip_witness:
  "\<exists>rect. computeContainRect 200 100 100 100 = Inr rect
    \<and> place_point rect \<lparr>px = 1 / 2, py = 1 / 4\<rparr> = (100, 25)"
proof -
  have "normalizePointerToContent 100 25 200 100 100 100 = Inr (Some \<lparr>px = 1 / 2, py = 1 / 4\<rparr>)"
    by (simp add: normalizePointerToContent_def computeContainRect_def Let_def)
  from pointer_roundtrip [OF this reference.json_schema_validator_axioms] show ?thesis
    by (simp add: control_data_def) blast
qed

text \<open>
  C39. An upload that reports success has sent the file: the chunks, in order, are the data,
  none is empty or longer than 64 KiB, and the progress reports are their running lengths.
  One that reports failure has sent a prefix.
\<close>

theorem upload_delivers:
  assumes "streamFileChunks fuel env data = Some (ok, u)"
  shows "(\<exists>n. concat (up_chunks u) = take n data \<and> (ok \<longrightarrow> n = length data))
    \<and> (\<forall>c. c \<in> set (up_chunks u) \<longrightarrow> c \<noteq> [] \<and> length c \<le> 65536)
    \<and> up_progress u = map (\<lambda>i. length (concat (take (Suc i) (up_chunks u)))) [0..<length (up_chunks u)]"
proof -
  have "upload_ok data 0 \<lparr>up_chunks = [], up_progress = []\<rparr>"
    by (simp add: upload_ok_def)
  then show ?thesis
    using stream_ok [OF assms [unfolded streamFileChunks_def]]
    by (auto simp: upload_ok_def FILE_CHUNK_BYTES_def)
qed

theorem upload_delivers_witness:
  "\<exists>u. streamFileChunks 3 (\<lambda>k. \<lparr>ob_cancelled = False, ob_ready = ChOpen, ob_buffered = 0\<rparr>) [1, 2]
      = Some (True, u) \<and> concat (up_chunks u) = [1, 2 :: byte]"
proof -
  obtain u where u: "streamFileChunks 3 (\<lambda>k. \<lparr>ob_cancelled = False, ob_ready = ChOpen, ob_buffered = 0\<rparr>) [1, 2]
      = Some (True, u)"
    using stream_returns [of "\<lambda>k. \<lparr>ob_cancelled = False, ob_ready = ChOpen, ob_buffered = 0\<rparr>" "[1, 2]" 0 3]
    by (fastforce simp: streamFileChunks_def stopped_def)
  then show ?thesis using upload_delivers [OF u] by auto
qed

text \<open>
  C40. An upload over a channel that stays open and keeps its buffer below the mark ends, with
  success: as many turns as the data has bytes, plus one, are enough.
\<close>

theorem upload_returns:
  assumes "\<And>k. \<not> ob_cancelled (env k) \<and> ob_ready (env k) = ChOpen
      \<and> ob_buffered (env k) \<le> BUFFERED_AMOUNT_HIGH"
    and "length data < fuel"
  shows "\<exists>u. streamFileChunks fuel env data = Some (True, u)"
proof -
  have "\<And>k. \<not> stopped (env k) \<and> ob_buffered (env k) \<le> BUFFERED_AMOUNT_HIGH"
    using assms(1) by (simp add: stopped_def)
  from stream_returns [OF this, of data 0 fuel] show ?thesis
    using assms(2) by (simp add: streamFileChunks_def)
qed

theorem upload_returns_witness:
  "\<exists>u. streamFileChunks 9 (\<lambda>k. \<lparr>ob_cancelled = False, ob_ready = ChOpen, ob_buffered = k mod 7\<rparr>)
      [1, 2, 3] = Some (True, u)"
proof (rule upload_returns)
  fix k :: nat
  have "k mod 7 < 7" by simp
  then show "\<not> ob_cancelled \<lparr>ob_cancelled = False, ob_ready = ChOpen, ob_buffered = k mod 7\<rparr>
      \<and> ob_ready \<lparr>ob_cancelled = False, ob_ready = ChOpen, ob_buffered = k mod 7\<rparr> = ChOpen
      \<and> ob_buffered \<lparr>ob_cancelled = False, ob_ready = ChOpen, ob_buffered = k mod 7\<rparr> \<le> BUFFERED_AMOUNT_HIGH"
    by (simp add: BUFFERED_AMOUNT_HIGH_def)
qed simp

text \<open>
  The text of a 32-byte digest meets the schema under which offers and completions carry
  it: 64 lower-case hexadecimal digits.
\<close>

theorem digest_meets_schema:
  assumes "json_schema_validator ajv" "length (digest data) = 32"
  shows "ajv Sha256Schema (JStr (sha256Hex digest data))"
proof -
  have "schema_accepts Sha256Schema (JStr (sha256Hex digest data))"
    using length_sha256Hex [of digest data] sha256Hex_class [of digest data] assms(2)
    by (simp add: Sha256Schema_def string_bounds_def)
  then show ?thesis using validator_unique [OF assms(1)] by simp
qed

theorem digest_meets_schema_witness:
  "schema_accepts Sha256Schema (JStr (sha256Hex (\<lambda>data. replicate 32 171) [1, 2]))"
  by (rule digest_meets_schema [OF reference.json_schema_validator_axioms]) simp

text \<open>
  The waits between signaling attempts double from two seconds and stop growing at
  thirty.
\<close>

theorem signaling_backoff:
  "(nextSignalingRecoveryDelay ^^ k) SIGNALING_RECOVERY_INITIAL_DELAY_MS = min (2000 * 2 ^ k) 30000"
  using delay_power [of k] by (simp add: SIGNALING_RECOVERY_INITIAL_DELAY_MS_def)

text \<open>
  The configuration the viewer moves from the address into the history state is the one
  it reads back, and its socket address is on the local machine.
\<close>

theorem history_config_roundtrip:
  assumes "readDevelopmentConfig parse_url param historyState = Some config"
  shows "readHistoryConfig parse_url (preserveDevelopmentConfig config state) = Some config
    \<and> (\<exists>url. parse_url (cc_webSocketUrl config) = Some url \<and> url_protocol url = lit ''ws:''
         \<and> url_hostname url \<in> lit ` set LOCAL_HOSTS)"
proof -
  obtain v where "isDevelopmentConnectionConfig parse_url v = Some config"
    using assms by (auto simp: readDevelopmentConfig_def readHistoryConfig_def
        split: if_splits option.splits)
  then show ?thesis using preserved_config config_local by blast
qed

definition sample_parse_url :: url_parser where
  "sample_parse_url text = Some
     \<lparr>url_protocol = lit ''ws:'', url_hostname = lit ''localhost'', url_pathname = lit ''/ws''\<rparr>"

theorem history_config_roundtrip_witness:
  "\<exists>config. readDevelopmentConfig sample_parse_url (\<lambda>k. Some (lit ''value'')) JNull = Some config
    \<and> readHistoryConfig sample_parse_url (preserveDevelopmentConfig config JNull) = Some config"
proof -
  have "\<exists>config. readDevelopmentConfig sample_parse_url (\<lambda>k. Some (lit ''value'')) JNull = Some config"
    by (simp add: readDevelopmentConfig_def isDevelopmentConnectionConfig_def config_json_def
        sample_parse_url_def LOCAL_HOSTS_def lit_Cons)
  then show ?thesis using history_config_roundtrip by blast
qed

definition sample_stats :: "rat \<Rightarrow> rat \<Rightarrow> stats_sample" where
  "sample_stats received lost =
     \<lparr>ss_bytesReceived = 0, ss_framesDecoded = 0, ss_framesPerSecond = None, ss_frameHeight = None,
      ss_frameWidth = None, ss_jitterSeconds = None, ss_packetsLost = lost,
      ss_packetsReceived = received, ss_qpSum = None, ss_timestampMs = 0\<rparr>"

text \<open>
  Between two samples whose received count does not fall, the packet loss the viewer
  reports is a percentage, so the report meets the bounds of \<open>video.receiver-report\<close>.
\<close>

theorem packet_loss_meets_schema:
  assumes "packetLossPercent (computeVideoTelemetry (Some p) c) = Some l"
    and "ss_packetsReceived p \<le> ss_packetsReceived c" "json_schema_validator ajv"
  shows "ajv (nullable_number 0 100) (JNum l)"
proof -
  have "schema_accepts (nullable_number 0 100) (JNum l)"
    using packet_loss_bounds [OF assms(1,2)] by (simp add: nullable_number_def)
  then show ?thesis using validator_unique [OF assms(3)] by simp
qed

theorem packet_loss_meets_schema_witness:
  "\<exists>l. packetLossPercent (computeVideoTelemetry (Some (sample_stats 90 0)) (sample_stats 180 10)) = Some l
    \<and> schema_accepts (nullable_number 0 100) (JNum l)"
proof -
  have "\<exists>l. packetLossPercent (computeVideoTelemetry (Some (sample_stats 90 0)) (sample_stats 180 10)) = Some l"
    by (simp add: computeVideoTelemetry_def Let_def sample_stats_def)
  then show ?thesis
    using packet_loss_meets_schema [OF _ _ reference.json_schema_validator_axioms]
    by (fastforce simp: sample_stats_def)
qed

text \<open>
  Every code the protocol's error message may carry is described, and the retry flag
  shown is the one the message carries.
\<close>

theorem error_codes_described:
  assumes "json_schema_validator ajv" "map_of signaling_payloads ''error'' = Some payload"
    and "ajv payload (JObj [(lit ''code'', JStr code), (lit ''retryable'', JBool retryable)])"
  shows "\<exists>issue. describeConnectionIssue code (Some retryable) = Some issue
    \<and> issue_retryable issue = retryable"
proof -
  have payload: "payload = SObject
      [Required ''code'' (SString (Some 1) (Some 64) (Some (rplus (RClass upper_code_class)))),
       Required ''retryable'' SBoolean]"
    using assms(2) by (simp add: signaling_payloads_def)
  have "schema_accepts payload (JObj [(lit ''code'', JStr code), (lit ''retryable'', JBool retryable)])"
    using assms(3) validator_unique [OF assms(1)] by simp
  then have "list_all (in_class upper_code_class) code"
    by (simp add: payload string_bounds_def)
  then have "list_all (\<lambda>u. \<not> is_lower_unit u) code"
    by (auto simp: list_all_iff upper_code_class_def is_lower_unit_def word_le_nat_alt)
  from describe_upper [OF this, of "Some retryable"] show ?thesis by blast
qed

theorem error_codes_described_witness:
  "\<exists>issue. describeConnectionIssue (lit ''AGENT_OFFLINE'') (Some False) = Some issue
    \<and> issue_retryable issue = False"
proof -
  have "error_code_ok ''AGENT_OFFLINE''"
    using room_codes_ok by (simp add: ROOM_CODES_def)
  then show ?thesis
    by (intro error_codes_described [OF reference.json_schema_validator_axioms])
      (simp add: signaling_payloads_def, simp add: known_keys_def error_code_ok_def)
qed

end
